(* ===== verification/Prelude.thy ===== *)
theory Prelude
  imports Complex_Main
begin

text \<open>
  The shared ground of the development: Python exceptions as values, the result type every
  fallible operation returns, sequencing of such operations, and a few list and map lemmas that
  several components use.  The collection \<open>py_res\<close> holds the rules that push a property
  through a sequence of fallible steps.
\<close>

named_theorems py_res "rules for results of Python code: values and raised exceptions"

section \<open>Exceptions and results\<close>

text \<open>
  One constructor per exception class the modelled code raises or catches; the string is the
  message, where the code gives one.  \<open>ActiveAttemptError\<close> and
  \<open>DuplicateCandidateError\<close> are subclasses of Python's \<open>RuntimeError\<close>,
  \<open>JSONDecodeError\<close> is one of \<open>ValueError\<close>, \<open>FileExistsError\<close> one of
  \<open>OSError\<close>.
\<close>

datatype exn =
    ValueError string
  | TypeError string
  | KeyError string
  | AttributeError string
  | IndexError string
  | NameError string
  | OverflowError string
  | ZeroDivisionError
  | RuntimeError string
  | ActiveAttemptError string
  | DuplicateCandidateError string
  | JSONDecodeError string
  | OSError string
  | FileExistsError string
  | RequestException string

text \<open>What \<open>except OSError\<close> catches; the exceptions of \<open>requests\<close> are among them.\<close>

fun is_os_error :: "exn \<Rightarrow> bool" where
  "is_os_error (OSError _) = True"
| "is_os_error (FileExistsError _) = True"
| "is_os_error (RequestException _) = True"
| "is_os_error _ = False"

type_synonym 'a res = "exn + 'a"

definition raise :: "exn \<Rightarrow> 'a res" where
  "raise e = Inl e"

definition ret :: "'a \<Rightarrow> 'a res" where
  "ret x = Inr x"

definition bindR :: "'a res \<Rightarrow> ('a \<Rightarrow> 'b res) \<Rightarrow> 'b res" where
  "bindR m f = (case m of Inl e \<Rightarrow> Inl e | Inr x \<Rightarrow> f x)"

definition guardR :: "bool \<Rightarrow> exn \<Rightarrow> unit res" where
  "guardR b e = (if b then Inr () else Inl e)"

lemma bindR_Inl [simp, py_res]: "bindR (Inl e) f = Inl e"
  by (simp add: bindR_def)

lemma bindR_Inr [simp, py_res]: "bindR (Inr x) f = f x"
  by (simp add: bindR_def)

lemma raise_simp [simp, py_res]: "raise e = Inl e"
  by (simp add: raise_def)

lemma ret_simp [simp, py_res]: "ret x = Inr x"
  by (simp add: ret_def)

lemma guardR_True [simp, py_res]: "guardR True e = Inr ()"
  by (simp add: guardR_def)

lemma guardR_False [simp, py_res]: "guardR False e = Inl e"
  by (simp add: guardR_def)

lemma guardR_eq_Inr [simp]: "guardR b e = Inr u \<longleftrightarrow> b"
  by (simp add: guardR_def)

lemma guardR_eq_Inl [simp]: "guardR b e = Inl e' \<longleftrightarrow> \<not> b \<and> e' = e"
  by (auto simp: guardR_def)

lemma bindR_eq_Inr [py_res]: "bindR m f = Inr y \<longleftrightarrow> (\<exists>x. m = Inr x \<and> f x = Inr y)"
  by (cases m) auto

lemma bindR_eq_Inl [py_res]:
  "bindR m f = Inl e \<longleftrightarrow> m = Inl e \<or> (\<exists>x. m = Inr x \<and> f x = Inl e)"
  by (cases m) auto

lemma bindR_assoc: "bindR (bindR m f) g = bindR m (\<lambda>x. bindR (f x) g)"
  by (cases m) auto

lemma bindR_cong [fundef_cong]:
  "m = m' \<Longrightarrow> (\<And>x. m' = Inr x \<Longrightarrow> f x = g x) \<Longrightarrow> bindR m f = bindR m' g"
  by (cases m') auto

lemma bindR_Inr_elim [elim!]:
  assumes "bindR m f = Inr y"
  obtains x where "m = Inr x" "f x = Inr y"
  using assms by (auto simp: bindR_eq_Inr)

text \<open>A comprehension over a list whose body may raise: stops at the first exception.\<close>

fun mapR :: "('a \<Rightarrow> 'b res) \<Rightarrow> 'a list \<Rightarrow> 'b list res" where
  "mapR f [] = Inr []"
| "mapR f (x # xs) = bindR (f x) (\<lambda>y. bindR (mapR f xs) (\<lambda>ys. Inr (y # ys)))"

lemma mapR_Inr_iff:
  "mapR f xs = Inr ys \<longleftrightarrow> list_all2 (\<lambda>x y. f x = Inr y) xs ys"
  by (induction xs arbitrary: ys) (auto simp: bindR_eq_Inr list_all2_Cons1)

lemma list_all2_in1: "list_all2 P xs ys \<Longrightarrow> x \<in> set xs \<Longrightarrow> \<exists>y \<in> set ys. P x y"
  by (induction rule: list_all2_induct) auto

lemma mapR_length [py_res]: "mapR f xs = Inr ys \<Longrightarrow> length ys = length xs"
  by (auto simp: mapR_Inr_iff dest: list_all2_lengthD)

lemma mapR_error: "mapR f xs = Inl e \<Longrightarrow> \<exists>x \<in> set xs. f x = Inl e"
  by (induction xs) (auto simp: bindR_eq_Inl)

lemma mapR_all: "(\<And>x. x \<in> set xs \<Longrightarrow> f x = Inr (g x)) \<Longrightarrow> mapR f xs = Inr (map g xs)"
  by (induction xs) auto

text \<open>Looking up all the keys of an association list gives its values.\<close>

lemma map_map_of_zip:
  "distinct ks \<Longrightarrow> length ks = length vs \<Longrightarrow> map (map_of (zip ks vs)) ks = map Some vs"
proof (induction ks arbitrary: vs)
  case (Cons k ks)
  then obtain v ws where vs: "vs = v # ws" by (cases vs) auto
  have "map (map_of (zip (k # ks) (v # ws))) ks = map (map_of (zip ks ws)) ks"
    using Cons.prems by (intro map_cong) auto
  moreover have "map (map_of (zip ks ws)) ks = map Some ws"
    using Cons.IH [of ws] Cons.prems by (simp add: vs)
  ultimately have "map (map_of (zip (k # ks) (v # ws))) ks = map Some ws" by (rule trans)
  then show ?case by (simp add: vs fun_upd_def)
qed simp

lemma mapR_total [simp]: "mapR (\<lambda>x. Inr (f x)) xs = Inr (map f xs)"
  by (induction xs) auto

lemma mapR_cong [fundef_cong]:
  "xs = ys \<Longrightarrow> (\<And>x. x \<in> set ys \<Longrightarrow> f x = g x) \<Longrightarrow> mapR f xs = mapR g ys"
proof (induction ys arbitrary: xs)
  case (Cons y ys)
  then show ?case by simp
qed simp

text \<open>Nested loops that append to one list, the inner ones given by the body.\<close>

definition concatR :: "('a \<Rightarrow> 'b list res) \<Rightarrow> 'a list \<Rightarrow> 'b list res" where
  "concatR f xs = bindR (mapR f xs) (\<lambda>yss. Inr (concat yss))"

lemma concatR_simps [simp]:
  "concatR f [] = Inr []"
  "concatR f (x # xs) = bindR (f x) (\<lambda>ys. bindR (concatR f xs) (\<lambda>zs. Inr (ys @ zs)))"
  by (simp_all add: concatR_def bindR_assoc)

lemma concatR_in:
  "concatR f xs = Inr ys \<Longrightarrow> y \<in> set ys \<Longrightarrow> \<exists>x zs. x \<in> set xs \<and> f x = Inr zs \<and> y \<in> set zs"
  by (induction xs arbitrary: ys) fastforce+

text \<open>A filter goes through the loops if it goes through the bodies.\<close>

lemma concatR_filter:
  assumes "\<And>x ys. x \<in> set xs \<Longrightarrow> f x = Inr ys \<Longrightarrow> g x = Inr (filter P ys)"
    and "concatR f xs = Inr ys"
  shows "concatR g xs = Inr (filter P ys)"
  using assms
proof (induction xs arbitrary: ys)
  case (Cons x xs)
  from Cons.prems(2) obtain us vs where "f x = Inr us" "concatR f xs = Inr vs" "ys = us @ vs"
    by auto
  moreover from this have "concatR g xs = Inr (filter P vs)"
    using Cons.prems(1) by (intro Cons.IH) auto
  ultimately show ?case using Cons.prems(1) by auto
qed simp

text \<open>Python's \<open>any\<close> over a generator: stops at the first true element.\<close>

fun anyR :: "('a \<Rightarrow> bool res) \<Rightarrow> 'a list \<Rightarrow> bool res" where
  "anyR f [] = Inr False"
| "anyR f (x # xs) = bindR (f x) (\<lambda>b. if b then Inr True else anyR f xs)"

text \<open>A loop over a list whose body updates a state and may raise.\<close>

fun foldR :: "('a \<Rightarrow> 's \<Rightarrow> 's res) \<Rightarrow> 'a list \<Rightarrow> 's \<Rightarrow> 's res" where
  "foldR f [] s = Inr s"
| "foldR f (x # xs) s = bindR (f x s) (foldR f xs)"

lemma foldR_inv:
  assumes "foldR f xs s = Inr t" and "P s"
    and "\<And>x s s'. x \<in> set xs \<Longrightarrow> P s \<Longrightarrow> f x s = Inr s' \<Longrightarrow> P s'"
  shows "P t"
  using assms
proof (induction xs arbitrary: s)
  case (Cons x xs)
  from Cons.prems(1) obtain s' where s': "f x s = Inr s'" "foldR f xs s' = Inr t"
    by auto
  from Cons.prems(2,3) s'(1) have "P s'" by auto
  with Cons.IH [OF s'(2)] Cons.prems(3) show ?case by auto
qed simp

lemma foldR_append: "foldR f (xs @ ys) s = bindR (foldR f xs s) (foldR f ys)"
proof (induction xs arbitrary: s)
  case (Cons x xs)
  then show ?case by (cases "f x s") auto
qed simp

section \<open>Effects\<close>

text \<open>
  Code that talks to the world (RPC nodes, HTTP services, child processes, the clock) is a
  function of a world state \<open>'w\<close>: it returns a result or an exception and the next world.
  The world's own behaviour is a parameter of the model; two calls in sequence may answer
  differently because the world between them differs.
\<close>

type_synonym ('w, 'a) io = "'w \<Rightarrow> 'a res \<times> 'w"

definition retIO :: "'a \<Rightarrow> ('w, 'a) io" where
  "retIO x w = (Inr x, w)"

definition raiseIO :: "exn \<Rightarrow> ('w, 'a) io" where
  "raiseIO e w = (Inl e, w)"

definition liftR :: "'a res \<Rightarrow> ('w, 'a) io" where
  "liftR r w = (r, w)"

definition bindIO :: "('w, 'a) io \<Rightarrow> ('a \<Rightarrow> ('w, 'b) io) \<Rightarrow> ('w, 'b) io" where
  "bindIO m f w = (case m w of (Inl e, w') \<Rightarrow> (Inl e, w') | (Inr x, w') \<Rightarrow> f x w')"

text \<open>\<open>try: m except: h\<close>; the handler raises again what it does not catch.\<close>

definition catchIO :: "('w, 'a) io \<Rightarrow> (exn \<Rightarrow> ('w, 'a) io) \<Rightarrow> ('w, 'a) io" where
  "catchIO m h w = (case m w of (Inl e, w') \<Rightarrow> h e w' | (Inr x, w') \<Rightarrow> (Inr x, w'))"

text \<open>\<open>try: m finally: f\<close>; an exception of the cleanup replaces the other one.\<close>

definition finallyIO :: "('w, 'a) io \<Rightarrow> ('w, unit) io \<Rightarrow> ('w, 'a) io" where
  "finallyIO m f w = (case m w of (r, w') \<Rightarrow>
     (case f w' of (Inl e, w'') \<Rightarrow> (Inl e, w'') | (Inr _, w'') \<Rightarrow> (r, w'')))"

text \<open>
  A handler with state of its own runs in a world paired with it: operations of the world, reads
  and updates of the state.  What was updated before an exception stays updated.
\<close>

definition in_world :: "('w, 'a) io \<Rightarrow> ('w \<times> 's, 'a) io" where
  "in_world m = (\<lambda>(w, s). case m w of (r, w') \<Rightarrow> (r, (w', s)))"

definition state :: "('s \<Rightarrow> 'a) \<Rightarrow> ('w \<times> 's, 'a) io" where
  "state f = (\<lambda>(w, s). (Inr (f s), (w, s)))"

definition update :: "('s \<Rightarrow> 's) \<Rightarrow> ('w \<times> 's, unit) io" where
  "update f = (\<lambda>(w, s). (Inr (), (w, f s)))"

text \<open>A loop over a list, and one that stops where its body returns true (a \<open>break\<close>).\<close>

fun for_each :: "('x \<Rightarrow> ('w, unit) io) \<Rightarrow> 'x list \<Rightarrow> ('w, unit) io" where
  "for_each f [] = retIO ()"
| "for_each f (x # xs) = bindIO (f x) (\<lambda>_. for_each f xs)"

fun until_true :: "('x \<Rightarrow> ('w, bool) io) \<Rightarrow> 'x list \<Rightarrow> ('w, bool) io" where
  "until_true f [] = retIO False"
| "until_true f (x # xs) = bindIO (f x) (\<lambda>b. if b then retIO True else until_true f xs)"

lemma retIO_apply [simp]: "retIO x w = (Inr x, w)"
  by (simp add: retIO_def)

lemma raiseIO_apply [simp]: "raiseIO e w = (Inl e, w)"
  by (simp add: raiseIO_def)

lemma liftR_apply [simp]: "liftR r w = (r, w)"
  by (simp add: liftR_def)

lemma bindIO_Inr: "m w = (Inr x, w') \<Longrightarrow> bindIO m f w = f x w'"
  by (simp add: bindIO_def)

lemma bindIO_Inl: "m w = (Inl e, w') \<Longrightarrow> bindIO m f w = (Inl e, w')"
  by (simp add: bindIO_def)

lemma bindIO_ret [simp]: "bindIO (retIO x) f = f x"
  by (simp add: bindIO_def fun_eq_iff)

lemma bindIO_raise [simp]: "bindIO (raiseIO e) f = raiseIO e"
  by (simp add: bindIO_def fun_eq_iff)

lemma bindIO_liftR [simp]:
  "bindIO (liftR r) f = (case r of Inl e \<Rightarrow> raiseIO e | Inr x \<Rightarrow> f x)"
  by (simp add: bindIO_def fun_eq_iff split: sum.split)

lemma bindIO_eq_Inr:
  "bindIO m f w = (Inr y, w'') \<longleftrightarrow> (\<exists>x w'. m w = (Inr x, w') \<and> f x w' = (Inr y, w''))"
  by (auto simp: bindIO_def split: prod.splits sum.splits)

lemma bindIO_InrE [elim!]:
  assumes "bindIO m f w = (Inr y, w'')"
  obtains x w' where "m w = (Inr x, w')" "f x w' = (Inr y, w'')"
  using assms by (auto simp: bindIO_eq_Inr)

lemma catchIO_Inr: "m w = (Inr x, w') \<Longrightarrow> catchIO m h w = (Inr x, w')"
  by (simp add: catchIO_def)

lemma catchIO_Inl: "m w = (Inl e, w') \<Longrightarrow> catchIO m h w = h e w'"
  by (simp add: catchIO_def)

section \<open>Lists and optional reasons\<close>

text \<open>
  \<open>flag b r\<close> is one \<open>if b: reasons.append(r)\<close> of the gates, as the list it appends.
\<close>

definition flag :: "bool \<Rightarrow> 'a \<Rightarrow> 'a list" where
  "flag b r = (if b then [r] else [])"

lemma flag_simps [simp]: "flag True r = [r]" "flag False r = []"
  by (simp_all add: flag_def)

lemma flag_Nil_iff [simp]: "flag b r = [] \<longleftrightarrow> \<not> b"
  by (simp add: flag_def)

lemma flag_Nil_iff' [simp]: "[] = flag b r \<longleftrightarrow> \<not> b"
  by (auto simp: flag_def)

lemma set_flag [simp]: "set (flag b r) = (if b then {r} else {})"
  by (simp add: flag_def)

lemma filter_flag: "filter P (flag b r) = flag (b \<and> P r) r"
  by (simp add: flag_def)

lemma length_filter_le_filter:
  "(\<And>x. x \<in> set xs \<Longrightarrow> P x \<Longrightarrow> Q x) \<Longrightarrow> length (filter P xs) \<le> length (filter Q xs)"
  by (induction xs) auto

lemma distinct_snoc_map:
  "distinct (map f xs) \<Longrightarrow> f x \<notin> f ` set xs \<Longrightarrow> distinct (map f (xs @ [x]))"
  by simp

lemma take_subset_set: "x \<in> set (take n xs) \<Longrightarrow> x \<in> set xs"
  by (meson in_set_takeD)

end
