(* ===== verification/PyFloat.thy ===== *)
theory PyFloat
  imports Prelude "HOL-Library.Log_Nat"
begin

text \<open>
  Python's \<open>float\<close>: IEEE-754 binary64 with round-to-nearest, ties to even.  A finite value is
  the rational number it denotes (the two zeros are identified: no comparison the code makes can
  tell them apart), beside the two infinities and \<open>NaN\<close>.  Every arithmetic operation
  computes the exact rational result and rounds it once, as the hardware does; comparisons with
  \<open>NaN\<close> are false.  The lemmas show that rounding is monotone, idempotent and exact on
  the integers up to \<open>2 ^ 53\<close>, which is what the components' bounds rest on.
\<close>

section \<open>Rounding a rational to a double\<close>

text \<open>Round half to even, to an integer.\<close>

definition rhe :: "rat \<Rightarrow> int" where
  "rhe x = (let n = \<lfloor>x + 1 / 2\<rfloor> in if of_int n = x + 1 / 2 \<and> odd n then n - 1 else n)"

text \<open>The position of the leading bit: \<open>2 ^ ilog2 x \<le> x < 2 ^ (ilog2 x + 1)\<close>.\<close>

definition ilog2 :: "rat \<Rightarrow> int" where
  "ilog2 x =
     (let (n, d) = quotient_of x; k = bitlen n - bitlen d
      in if 2 powi k \<le> x then k else k - 1)"

text \<open>
  The spacing of the doubles around a positive \<open>x\<close>: 53 significant bits, never finer than
  the smallest subnormal \<open>2 ^ -1074\<close>.
\<close>

definition ulp_exp :: "rat \<Rightarrow> int" where
  "ulp_exp x = max (-1074) (ilog2 x - 52)"

definition fl_pos :: "rat \<Rightarrow> rat" where
  "fl_pos x = of_int (rhe (x / 2 powi ulp_exp x)) * 2 powi ulp_exp x"

definition fl :: "rat \<Rightarrow> rat" where
  "fl x = (if x = 0 then 0 else if 0 < x then fl_pos x else - fl_pos (- x))"

subsection \<open>Round half to even\<close>

lemma rhe_of_int [simp]: "rhe (of_int n) = n"
proof -
  have "\<lfloor>of_int n + 1 / 2 :: rat\<rfloor> = n"
    by (rule floor_unique) auto
  moreover have "(of_int n :: rat) \<noteq> of_int n + 1 / 2" by simp
  ultimately show ?thesis unfolding rhe_def Let_def by simp
qed

lemma rhe_mono: "x \<le> y \<Longrightarrow> rhe x \<le> rhe y"
proof -
  assume le: "x \<le> y"
  define m where "m = \<lfloor>x + 1 / 2\<rfloor>"
  define n where "n = \<lfloor>y + 1 / 2\<rfloor>"
  have mn: "m \<le> n" unfolding m_def n_def using le by (intro floor_mono) simp
  show ?thesis
  proof (cases "m = n")
    case True
    have "of_int m \<le> x + 1 / 2" unfolding m_def by (rule of_int_floor_le)
    then have "of_int n = y + 1 / 2 \<Longrightarrow> of_int m = x + 1 / 2"
      using True le by simp
    then show ?thesis
      using True unfolding rhe_def Let_def m_def [symmetric] n_def [symmetric] by auto
  next
    case False
    then show ?thesis
      using mn unfolding rhe_def Let_def m_def [symmetric] n_def [symmetric] by auto
  qed
qed

lemma rhe_0 [simp]: "rhe 0 = 0"
  using rhe_of_int [of 0] by simp

lemma rhe_numeral [simp]: "rhe (numeral k) = numeral k"
  using rhe_of_int [of "numeral k"] by simp

lemma rhe_1 [simp]: "rhe 1 = 1"
  using rhe_of_int [of 1] by simp

lemma rhe_le_of_int: "x \<le> of_int n \<Longrightarrow> rhe x \<le> n"
  using rhe_mono [of x "of_int n"] by simp

lemma rhe_ge_of_int: "of_int n \<le> x \<Longrightarrow> n \<le> rhe x"
  using rhe_mono [of "of_int n" x] by simp

subsection \<open>The leading bit\<close>

lemma bitlen_bounds_pos:
  assumes "0 < n"
  shows "2 ^ nat (bitlen n - 1) \<le> n" "n < 2 ^ nat (bitlen n)" "1 \<le> bitlen n"
  using bitlen_bounds [of n] bitlen_ge_iff_power [of 1 n] assms by auto

lemma powi_add2: "(2 :: rat) powi (a + b) = 2 powi a * 2 powi b"
  by (simp add: power_int_add)

lemma powi_pos2 [simp]: "(0 :: rat) < 2 powi a"
  by simp

lemma powi_mono2: "a \<le> b \<Longrightarrow> (2 :: rat) powi a \<le> 2 powi b"
  by (intro power_int_increasing) auto

lemma powi_53: "(2 :: rat) powi (53 + e) = 2 ^ 53 * 2 powi e"
proof -
  have "(2 :: rat) powi 53 = 2 ^ 53" by (simp add: power_int_def)
  then show ?thesis unfolding powi_add2 by simp
qed

lemma powi_nat2: "(0 :: int) \<le> a \<Longrightarrow> (2 :: rat) powi a = of_int (2 ^ nat a)"
  by (simp add: power_int_def)

lemma ilog2_bounds:
  assumes "0 < x"
  shows "2 powi ilog2 x \<le> x" and "x < 2 powi (ilog2 x + 1)"
proof -
  obtain n d where q: "quotient_of x = (n, d)" by force
  have x: "x = of_int n / of_int d" using quotient_of_div [OF q] .
  have d: "0 < d" using quotient_of_denom_pos [OF q] .
  have n: "0 < n" using assms x d by (simp add: zero_less_divide_iff)
  note bn = bitlen_bounds_pos [OF n] and bd = bitlen_bounds_pos [OF d]
  define k where "k = bitlen n - bitlen d"
  have n_up: "(of_int n :: rat) < 2 powi (bitlen n)"
    using bn(2,3) by (simp add: powi_nat2 del: of_int_power)
  have n_lo: "2 powi (bitlen n - 1) \<le> (of_int n :: rat)"
    using bn(1,3) by (simp add: powi_nat2 del: of_int_power)
  have d_up: "(of_int d :: rat) < 2 powi (bitlen d)"
    using bd(2,3) by (simp add: powi_nat2 del: of_int_power)
  have d_lo: "2 powi (bitlen d - 1) \<le> (of_int d :: rat)"
    using bd(1,3) by (simp add: powi_nat2 del: of_int_power)
  have up: "x < 2 powi (k + 1)"
  proof -
    have "(2 :: rat) powi bitlen n = 2 powi (k + 1) * 2 powi (bitlen d - 1)"
      by (simp add: powi_add2 [symmetric] k_def)
    also have "\<dots> \<le> 2 powi (k + 1) * (of_int d :: rat)"
      using d_lo by (intro mult_left_mono) auto
    finally have "(of_int n :: rat) < 2 powi (k + 1) * of_int d" using n_up by simp
    then show ?thesis using d x by (simp add: divide_less_eq)
  qed
  have lo: "2 powi (k - 1) \<le> x"
  proof -
    have "2 powi (k - 1) * (of_int d :: rat) \<le> 2 powi (k - 1) * 2 powi bitlen d"
      using d_up by (intro mult_left_mono) auto
    also have "\<dots> = 2 powi (bitlen n - 1)"
      by (simp add: powi_add2 [symmetric] k_def)
    finally have "2 powi (k - 1) * (of_int d :: rat) \<le> of_int n" using n_lo by simp
    then show ?thesis using d x by (simp add: le_divide_eq)
  qed
  have il: "ilog2 x = (if 2 powi k \<le> x then k else k - 1)"
    by (simp add: ilog2_def q k_def Let_def)
  show "2 powi ilog2 x \<le> x" "x < 2 powi (ilog2 x + 1)"
    using up lo il by auto
qed

lemma ilog2_mono: "0 < x \<Longrightarrow> x \<le> y \<Longrightarrow> ilog2 x \<le> ilog2 y"
proof (rule ccontr)
  assume xy: "0 < x" "x \<le> y" "\<not> ilog2 x \<le> ilog2 y"
  then have "(2 :: rat) powi (ilog2 y + 1) \<le> 2 powi ilog2 x"
    by (intro powi_mono2) simp
  also have "\<dots> \<le> x" using ilog2_bounds(1) xy(1) by blast
  finally show False using ilog2_bounds(2) [of y] xy by simp
qed

lemma ilog2_unique:
  assumes "0 < x" "2 powi k \<le> x" "x < 2 powi (k + 1)"
  shows "ilog2 x = k"
proof -
  have "ilog2 x < k + 1"
  proof (rule ccontr)
    assume "\<not> ilog2 x < k + 1"
    then have "(2 :: rat) powi (k + 1) \<le> 2 powi ilog2 x" by (intro powi_mono2) simp
    with ilog2_bounds(1) [OF assms(1)] assms(3) show False by simp
  qed
  moreover have "k < ilog2 x + 1"
  proof (rule ccontr)
    assume "\<not> k < ilog2 x + 1"
    then have "(2 :: rat) powi (ilog2 x + 1) \<le> 2 powi k" by (intro powi_mono2) simp
    with ilog2_bounds(2) [OF assms(1)] assms(2) show False by simp
  qed
  ultimately show ?thesis by simp
qed

subsection \<open>Monotone, idempotent\<close>

lemma ulp_exp_mono: "0 < x \<Longrightarrow> x \<le> y \<Longrightarrow> ulp_exp x \<le> ulp_exp y"
  using ilog2_mono [of x y] by (simp add: ulp_exp_def)

lemma fl_pos_le_grid:
  assumes "0 < x" "x \<le> of_int m * 2 powi ulp_exp x"
  shows "fl_pos x \<le> of_int m * 2 powi ulp_exp x"
proof -
  have "x / 2 powi ulp_exp x \<le> of_int m"
    using assms(2) by (simp add: divide_le_eq)
  then have "rhe (x / 2 powi ulp_exp x) \<le> m" by (rule rhe_le_of_int)
  then show ?thesis unfolding fl_pos_def by (intro mult_right_mono) auto
qed

lemma fl_pos_ge_grid:
  assumes "0 < x" "of_int m * 2 powi ulp_exp x \<le> x"
  shows "of_int m * 2 powi ulp_exp x \<le> fl_pos x"
proof -
  have "of_int m \<le> x / 2 powi ulp_exp x"
    using assms(2) by (simp add: le_divide_eq)
  then have "m \<le> rhe (x / 2 powi ulp_exp x)" by (rule rhe_ge_of_int)
  then show ?thesis unfolding fl_pos_def by (intro mult_right_mono) auto
qed

lemma fl_pos_ge_pow:
  assumes "0 < x" "ulp_exp x \<le> k" "2 powi k \<le> x"
  shows "2 powi k \<le> fl_pos x"
proof -
  have eq: "(2 :: rat) powi k = of_int (2 ^ nat (k - ulp_exp x)) * 2 powi ulp_exp x"
    using assms(2) by (simp add: powi_nat2 [symmetric] powi_add2 [symmetric] del: of_int_power)
  show ?thesis
    unfolding eq by (rule fl_pos_ge_grid) (use assms eq in auto)
qed

lemma fl_pos_le_pow:
  assumes "0 < x" "ulp_exp x \<le> k" "x \<le> 2 powi k"
  shows "fl_pos x \<le> 2 powi k"
proof -
  have eq: "(2 :: rat) powi k = of_int (2 ^ nat (k - ulp_exp x)) * 2 powi ulp_exp x"
    using assms(2) by (simp add: powi_nat2 [symmetric] powi_add2 [symmetric] del: of_int_power)
  show ?thesis
    unfolding eq by (rule fl_pos_le_grid) (use assms eq in auto)
qed

lemma fl_pos_exact:
  assumes "x / 2 powi ulp_exp x = of_int k"
  shows "fl_pos x = x"
proof -
  have "x = of_int k * 2 powi ulp_exp x" using assms by (simp add: divide_eq_eq)
  moreover have "fl_pos x = of_int k * 2 powi ulp_exp x" unfolding fl_pos_def assms by simp
  ultimately show ?thesis by simp
qed

lemma fl_pos_nonneg: "0 < x \<Longrightarrow> 0 \<le> fl_pos x"
  using fl_pos_ge_grid [of x 0] by simp

lemma fl_pos_mono:
  assumes "0 < x" "x \<le> y"
  shows "fl_pos x \<le> fl_pos y"
proof (cases "ulp_exp x = ulp_exp y")
  case True
  have "x / 2 powi ulp_exp x \<le> y / 2 powi ulp_exp x"
    using assms(2) by (intro divide_right_mono) auto
  then have "rhe (x / 2 powi ulp_exp x) \<le> rhe (y / 2 powi ulp_exp x)" by (rule rhe_mono)
  then show ?thesis unfolding fl_pos_def True by (intro mult_right_mono) auto
next
  case False
  then have lt: "ulp_exp x < ulp_exp y" using ulp_exp_mono [OF assms] by simp
  then have y: "ulp_exp y = ilog2 y - 52" "ilog2 x < ilog2 y"
    by (auto simp: ulp_exp_def max_def split: if_splits)
  have "fl_pos x \<le> 2 powi ilog2 y"
  proof (rule fl_pos_le_pow)
    have "x < 2 powi (ilog2 x + 1)" using ilog2_bounds(2) assms(1) by blast
    also have "\<dots> \<le> 2 powi ilog2 y" using y(2) by (intro powi_mono2) simp
    finally show "x \<le> 2 powi ilog2 y" by simp
  qed (use assms lt y in auto)
  also have "\<dots> \<le> fl_pos y"
    using assms y(1) ilog2_bounds(1) [of y] by (intro fl_pos_ge_pow) auto
  finally show ?thesis .
qed

lemma fl_mono: "x \<le> y \<Longrightarrow> fl x \<le> fl y"
proof -
  assume le: "x \<le> y"
  consider "0 < x" | "y < 0" | "x \<le> 0" "0 \<le> y" using le by linarith
  then show ?thesis
  proof cases
    case 1
    then show ?thesis using le fl_pos_mono [of x y] by (simp add: fl_def)
  next
    case 2
    then show ?thesis using le fl_pos_mono [of "- y" "- x"] by (simp add: fl_def)
  next
    case 3
    then have "fl x \<le> 0" "0 \<le> fl y"
      using fl_pos_nonneg [of "- x"] fl_pos_nonneg [of y] by (auto simp: fl_def)
    then show ?thesis by simp
  qed
qed

lemma fl_0 [simp]: "fl 0 = 0"
  by (simp add: fl_def)

lemma fl_minus [simp]: "fl (- x) = - fl x"
  by (auto simp: fl_def)

lemma fl_nonneg: "0 \<le> x \<Longrightarrow> 0 \<le> fl x"
  using fl_mono [of 0 x] by simp

lemma fl_nonpos: "x \<le> 0 \<Longrightarrow> fl x \<le> 0"
  using fl_mono [of x 0] by simp

text \<open>Every number with at most 53 significant bits on the grid is a double.\<close>

lemma fl_grid_pos:
  assumes "0 < m" "m \<le> 2 ^ 53" "-1074 \<le> e"
  shows "fl (of_int m * 2 powi e) = of_int m * 2 powi e"
proof -
  define x :: rat where "x = of_int m * 2 powi e"
  have pos: "0 < x" using assms(1) by (simp add: x_def)
  show ?thesis
  proof (cases "m = 2 ^ 53")
    case True
    have x: "x = 2 powi (53 + e)"
      unfolding x_def True by (simp add: powi_53)
    have il: "ilog2 x = 53 + e"
      by (rule ilog2_unique [OF pos]) (simp_all add: x power_int_add)
    have u: "ulp_exp x = 1 + e" using assms(3) by (simp add: ulp_exp_def il)
    have xx: "x = of_int (2 ^ 52) * 2 powi (1 + e)"
      unfolding x_def True by (simp add: powi_add2 mult.assoc)
    have "x / 2 powi ulp_exp x = of_int (2 ^ 52)"
      unfolding u by (subst xx) simp
    then have "fl_pos x = x" by (rule fl_pos_exact)
    then show ?thesis using pos by (simp add: fl_def x_def)
  next
    case False
    then have m: "m < 2 ^ 53" using assms(2) by simp
    have "x < of_int (2 ^ 53) * 2 powi e"
      unfolding x_def using m by (intro mult_strict_right_mono) (simp_all del: of_int_power)
    also have "\<dots> = 2 powi (53 + e)" by (simp add: powi_53)
    finally have "x < 2 powi (53 + e)" .
    then have "\<not> 53 + e \<le> ilog2 x"
      using ilog2_bounds(1) [OF pos] powi_mono2 [of "53 + e" "ilog2 x"] by fastforce
    then have u: "ulp_exp x \<le> e" using assms(3) by (simp add: ulp_exp_def)
    have "x / 2 powi ulp_exp x = of_int (m * 2 ^ nat (e - ulp_exp x))"
      using u by (simp add: x_def powi_nat2 [symmetric] power_int_diff del: of_int_power)
    then have "fl_pos x = x" by (rule fl_pos_exact)
    then show ?thesis using pos by (simp add: fl_def x_def)
  qed
qed

lemma fl_grid:
  assumes "\<bar>m\<bar> \<le> 2 ^ 53" "-1074 \<le> e"
  shows "fl (of_int m * 2 powi e) = of_int m * 2 powi e"
proof -
  consider "m = 0" | "0 < m" | "0 < - m" by linarith
  then show ?thesis
  proof cases
    case 3
    then have "fl (of_int (- m) * 2 powi e) = of_int (- m) * 2 powi e"
      using assms by (intro fl_grid_pos) auto
    then show ?thesis by (simp add: fl_minus)
  qed (use assms fl_grid_pos in auto)
qed

lemma fl_of_int: "\<bar>m\<bar> \<le> 2 ^ 53 \<Longrightarrow> fl (of_int m) = of_int m"
  using fl_grid [of m 0] by simp

lemma fl_pos_on_grid:
  assumes "0 < x"
  shows "\<exists>m e. fl_pos x = of_int m * 2 powi e \<and> 0 \<le> m \<and> m \<le> 2 ^ 53 \<and> -1074 \<le> e"
proof -
  have "x / 2 powi ulp_exp x \<le> of_int (2 ^ 53)"
  proof -
    have "x < 2 powi (ilog2 x + 1)" using ilog2_bounds(2) [OF assms] .
    also have "\<dots> \<le> 2 powi (53 + ulp_exp x)" by (intro powi_mono2) (simp add: ulp_exp_def)
    also have "\<dots> = of_int (2 ^ 53) * 2 powi ulp_exp x" by (simp add: powi_53)
    finally show ?thesis by (simp add: divide_le_eq)
  qed
  then have "rhe (x / 2 powi ulp_exp x) \<le> 2 ^ 53" by (rule rhe_le_of_int)
  moreover have "0 \<le> rhe (x / 2 powi ulp_exp x)"
    using assms by (intro rhe_ge_of_int) simp
  ultimately show ?thesis
    unfolding fl_pos_def by (intro exI conjI) (auto simp: ulp_exp_def)
qed

lemma fl_idem [simp]: "fl (fl x) = fl x"
proof -
  have pos: "fl (fl_pos y) = fl_pos y" if "0 < y" for y
  proof -
    obtain m e where "fl_pos y = of_int m * 2 powi e" "0 \<le> m" "m \<le> 2 ^ 53" "-1074 \<le> e"
      using fl_pos_on_grid [OF \<open>0 < y\<close>] by blast
    then show ?thesis using fl_grid [of m e] by simp
  qed
  show ?thesis
    using pos [of x] pos [of "- x"] by (auto simp: fl_def [of x])
qed

section \<open>The type of Python floats\<close>

datatype pyfloat = Fin rat | PInf | NInf | NaN

definition rnd :: "rat \<Rightarrow> pyfloat" where
  "rnd r = (let y = fl r in
     if 2 ^ 1024 \<le> y then PInf else if y \<le> - (2 ^ 1024) then NInf else Fin y)"

fun sgnf :: "pyfloat \<Rightarrow> rat" where
  "sgnf (Fin r) = sgn r"
| "sgnf PInf = 1"
| "sgnf NInf = - 1"
| "sgnf NaN = 0"

definition inf_of_sign :: "rat \<Rightarrow> pyfloat" where
  "inf_of_sign s = (if 0 < s then PInf else if s < 0 then NInf else NaN)"

fun fneg :: "pyfloat \<Rightarrow> pyfloat" where
  "fneg (Fin r) = Fin (- r)"
| "fneg PInf = NInf"
| "fneg NInf = PInf"
| "fneg NaN = NaN"

fun fadd :: "pyfloat \<Rightarrow> pyfloat \<Rightarrow> pyfloat" where
  "fadd (Fin a) (Fin b) = rnd (a + b)"
| "fadd NaN _ = NaN"
| "fadd _ NaN = NaN"
| "fadd PInf NInf = NaN"
| "fadd NInf PInf = NaN"
| "fadd PInf _ = PInf"
| "fadd _ PInf = PInf"
| "fadd NInf _ = NInf"
| "fadd _ NInf = NInf"

fun fmul :: "pyfloat \<Rightarrow> pyfloat \<Rightarrow> pyfloat" where
  "fmul (Fin a) (Fin b) = rnd (a * b)"
| "fmul a b = inf_of_sign (sgnf a * sgnf b)"

text \<open>The quotient for a non-zero divisor; Python raises on a zero one (\<open>py_truediv\<close>).\<close>

fun fdiv :: "pyfloat \<Rightarrow> pyfloat \<Rightarrow> pyfloat" where
  "fdiv (Fin a) (Fin b) = rnd (a / b)"
| "fdiv NaN _ = NaN"
| "fdiv _ NaN = NaN"
| "fdiv (Fin a) _ = Fin 0"
| "fdiv PInf (Fin b) = inf_of_sign (if b < 0 then - 1 else 1)"
| "fdiv NInf (Fin b) = inf_of_sign (if b < 0 then 1 else - 1)"
| "fdiv _ _ = NaN"

text \<open>
  The comparisons of IEEE-754: every one with \<open>NaN\<close> is false.  An integer operand is
  compared exactly, which is \<open>Fin (of_int n)\<close> here.
\<close>

fun fle :: "pyfloat \<Rightarrow> pyfloat \<Rightarrow> bool" where
  "fle (Fin a) (Fin b) = (a \<le> b)"
| "fle NaN _ = False"
| "fle _ NaN = False"
| "fle NInf _ = True"
| "fle _ PInf = True"
| "fle _ _ = False"

fun flt :: "pyfloat \<Rightarrow> pyfloat \<Rightarrow> bool" where
  "flt (Fin a) (Fin b) = (a < b)"
| "flt NaN _ = False"
| "flt _ NaN = False"
| "flt NInf b = (b \<noteq> NInf)"
| "flt a PInf = (a \<noteq> PInf)"
| "flt _ _ = False"

text \<open>
  The operators the code writes, through the library's syntactic classes.  None of the
  algebraic classes holds: rounded addition is not associative and \<open>NaN\<close> is not comparable.
\<close>

instantiation pyfloat :: "{ord, plus, minus, times, uminus, zero, one}"
begin

definition less_eq_pyfloat :: "pyfloat \<Rightarrow> pyfloat \<Rightarrow> bool" where
  "less_eq_pyfloat = fle"

definition less_pyfloat :: "pyfloat \<Rightarrow> pyfloat \<Rightarrow> bool" where
  "less_pyfloat = flt"

definition plus_pyfloat :: "pyfloat \<Rightarrow> pyfloat \<Rightarrow> pyfloat" where
  "plus_pyfloat = fadd"

definition minus_pyfloat :: "pyfloat \<Rightarrow> pyfloat \<Rightarrow> pyfloat" where
  "minus_pyfloat a b = fadd a (fneg b)"

definition times_pyfloat :: "pyfloat \<Rightarrow> pyfloat \<Rightarrow> pyfloat" where
  "times_pyfloat = fmul"

definition uminus_pyfloat :: "pyfloat \<Rightarrow> pyfloat" where
  "uminus_pyfloat = fneg"

definition zero_pyfloat :: pyfloat where
  "zero_pyfloat = Fin 0"

definition one_pyfloat :: pyfloat where
  "one_pyfloat = Fin 1"

instance ..

end

definition isnan :: "pyfloat \<Rightarrow> bool" where
  "isnan x \<longleftrightarrow> x = NaN"

text \<open>A value a Python float can hold: its rational is a double.\<close>

definition is_double :: "pyfloat \<Rightarrow> bool" where
  "is_double x = (case x of Fin r \<Rightarrow> rnd r = Fin r | _ \<Rightarrow> True)"

section \<open>The built-in functions on floats\<close>

text \<open>
  \<open>max(a, b)\<close> and \<open>min(a, b)\<close> keep the first argument unless the second is strictly
  greater (smaller), so a \<open>NaN\<close> in the first place wins and one in the second place loses.
\<close>

definition py_max :: "pyfloat \<Rightarrow> pyfloat \<Rightarrow> pyfloat" where
  "py_max a b = (if a < b then b else a)"

definition py_min :: "pyfloat \<Rightarrow> pyfloat \<Rightarrow> pyfloat" where
  "py_min a b = (if b < a then b else a)"

text \<open>\<open>round(x, n)\<close> rounds the exact value to \<open>n\<close> decimals, ties to even.\<close>

fun py_round :: "pyfloat \<Rightarrow> nat \<Rightarrow> pyfloat" where
  "py_round (Fin r) n = rnd (of_int (rhe (r * 10 ^ n)) / 10 ^ n)"
| "py_round x n = x"

text \<open>\<open>int(x)\<close> truncates towards zero; \<open>int(nan)\<close> and \<open>int(inf)\<close> raise.\<close>

fun int_of_float :: "pyfloat \<Rightarrow> int res" where
  "int_of_float (Fin r) = Inr (if 0 \<le> r then \<lfloor>r\<rfloor> else \<lceil>r\<rceil>)"
| "int_of_float NaN = Inl (ValueError ''cannot convert float NaN to integer'')"
| "int_of_float _ = Inl (OverflowError ''cannot convert float infinity to integer'')"

text \<open>\<open>float(n)\<close> of an integer, and the conversion in mixed arithmetic.\<close>

definition float_of_int :: "int \<Rightarrow> pyfloat res" where
  "float_of_int n = (case rnd (of_int n) of
     Fin r \<Rightarrow> Inr (Fin r) | _ \<Rightarrow> Inl (OverflowError ''int too large to convert to float''))"

text \<open>\<open>a / b\<close> on floats, and on two integers (where the quotient is rounded once).\<close>

definition py_truediv :: "pyfloat \<Rightarrow> pyfloat \<Rightarrow> pyfloat res" where
  "py_truediv a b = (if b = Fin 0 then Inl ZeroDivisionError else Inr (fdiv a b))"

definition int_truediv :: "int \<Rightarrow> int \<Rightarrow> pyfloat res" where
  "int_truediv a b = (if b = 0 then Inl ZeroDivisionError
     else case rnd (of_int a / of_int b) of
       Fin r \<Rightarrow> Inr (Fin r)
     | _ \<Rightarrow> Inl (OverflowError ''integer division result too large for a float''))"

text \<open>A decimal literal of the source, and the sum of a list (\<open>sum\<close> starts from the int 0).\<close>

definition flit :: "rat \<Rightarrow> pyfloat" where
  "flit r = rnd r"

text \<open>
  The built-in \<open>sum\<close> of a list of floats, left to right from the integer 0 (Python 3.11, the
  version the project targets; 3.12 compensates the rounding).
\<close>

definition py_sum :: "pyfloat list \<Rightarrow> pyfloat" where
  "py_sum xs = fold (\<lambda>x acc. acc + x) xs 0"

section \<open>Laws of the float model\<close>

lemmas pyfloat_class_defs =
  less_eq_pyfloat_def less_pyfloat_def plus_pyfloat_def minus_pyfloat_def
  times_pyfloat_def uminus_pyfloat_def

lemmas pyfloat_arith_defs =
  plus_pyfloat_def minus_pyfloat_def times_pyfloat_def uminus_pyfloat_def

lemma Fin_ops [simp]:
  "Fin a \<le> Fin b \<longleftrightarrow> a \<le> b"
  "Fin a < Fin b \<longleftrightarrow> a < b"
  "Fin a + Fin b = rnd (a + b)"
  "Fin a - Fin b = rnd (a - b)"
  "Fin a * Fin b = rnd (a * b)"
  "- Fin a = Fin (- a)"
  "0 = Fin 0" "1 = Fin 1"
  by (simp_all add: pyfloat_class_defs zero_pyfloat_def one_pyfloat_def)

lemma NaN_compare [simp]:
  "\<not> NaN \<le> x" "\<not> x \<le> NaN" "\<not> NaN < x" "\<not> x < NaN"
  by (cases x; simp add: pyfloat_class_defs)+

lemma inf_compare [simp]:
  "NInf \<le> x \<longleftrightarrow> x \<noteq> NaN" "x \<le> PInf \<longleftrightarrow> x \<noteq> NaN"
  "PInf \<le> Fin r \<longleftrightarrow> False" "Fin r \<le> NInf \<longleftrightarrow> False" "PInf \<le> NInf \<longleftrightarrow> False"
  "NInf < Fin r" "Fin r < PInf" "NInf < PInf"
  "\<not> PInf < x" "\<not> x < NInf"
  by (cases x; simp add: pyfloat_class_defs)+

lemma uminus_inf [simp]: "- PInf = NInf" "- NInf = PInf" "- NaN = NaN"
  by (simp_all add: pyfloat_class_defs)

lemma NaN_arith [simp]:
  "NaN + x = NaN" "x + NaN = NaN" "NaN - x = NaN" "x - NaN = NaN"
  "NaN * x = NaN" "x * NaN = NaN" "fdiv NaN x = NaN" "fdiv x NaN = NaN"
  by (cases x; simp add: pyfloat_class_defs inf_of_sign_def)+

lemma fle_refl [simp]: "x \<le> x \<longleftrightarrow> x \<noteq> (NaN :: pyfloat)"
  by (cases x) (auto simp: pyfloat_class_defs)

lemma fle_trans: "x \<le> y \<Longrightarrow> y \<le> z \<Longrightarrow> x \<le> (z :: pyfloat)"
  by (cases x; cases y; cases z) auto

lemma fle_flt_trans: "x \<le> y \<Longrightarrow> y < z \<Longrightarrow> x < (z :: pyfloat)"
  by (cases x; cases y; cases z) auto

lemma flt_fle_trans: "x < y \<Longrightarrow> y \<le> z \<Longrightarrow> x < (z :: pyfloat)"
  by (cases x; cases y; cases z) auto

lemma flt_imp_fle: "x < y \<Longrightarrow> x \<le> (y :: pyfloat)"
  by (cases x; cases y) auto

lemma flt_irrefl [simp]: "\<not> x < (x :: pyfloat)"
  by (cases x) auto

lemma fle_antisym: "x \<le> y \<Longrightarrow> y \<le> x \<Longrightarrow> x = (y :: pyfloat)"
  by (cases x; cases y) auto

lemma not_flt: "x \<noteq> NaN \<Longrightarrow> y \<noteq> NaN \<Longrightarrow> \<not> x < y \<longleftrightarrow> y \<le> (x :: pyfloat)"
  by (cases x; cases y) auto

lemma not_fle: "x \<noteq> NaN \<Longrightarrow> y \<noteq> NaN \<Longrightarrow> \<not> x \<le> y \<longleftrightarrow> y < (x :: pyfloat)"
  by (cases x; cases y) auto

lemma fle_not_NaN: "x \<le> y \<Longrightarrow> x \<noteq> NaN" "x \<le> y \<Longrightarrow> y \<noteq> (NaN :: pyfloat)"
  by auto

lemma flt_not_NaN: "x < y \<Longrightarrow> x \<noteq> NaN" "x < y \<Longrightarrow> y \<noteq> (NaN :: pyfloat)"
  by auto

subsection \<open>Rounding\<close>

lemma rnd_not_NaN [simp]: "rnd r \<noteq> NaN" "NaN \<noteq> rnd r"
  by (auto simp: rnd_def Let_def)

lemma rnd_mono: "x \<le> y \<Longrightarrow> rnd x \<le> rnd y"
  using fl_mono [of x y] by (auto simp: rnd_def Let_def)

lemma rnd_of_int:
  assumes "\<bar>m\<bar> \<le> 2 ^ 53"
  shows "rnd (of_int m) = Fin (of_int m)"
proof -
  have "\<bar>of_int m :: rat\<bar> \<le> 2 ^ 53"
    using assms by (metis of_int_abs of_int_le_iff of_int_numeral of_int_power)
  then have "\<bar>of_int m :: rat\<bar> < 2 ^ 1024"
    by (rule order_le_less_trans) simp
  then show ?thesis using fl_of_int [OF assms] by (simp add: rnd_def Let_def abs_less_iff)
qed

lemma rnd_0 [simp]: "rnd 0 = Fin 0"
  using rnd_of_int [of 0] by simp

lemma rnd_1 [simp]: "rnd 1 = Fin 1"
  using rnd_of_int [of 1] by simp

lemma rnd_numeral [simp]:
  "(numeral k :: int) \<le> 2 ^ 53 \<Longrightarrow> rnd (numeral k) = Fin (numeral k)"
  "(numeral k :: int) \<le> 2 ^ 53 \<Longrightarrow> rnd (- numeral k) = Fin (- numeral k)"
  using rnd_of_int [of "numeral k"] rnd_of_int [of "- numeral k"] by auto

lemma rnd_grid:
  assumes "\<bar>m\<bar> \<le> 2 ^ 53" "- 1074 \<le> e" "e \<le> 970"
  shows "rnd (of_int m * 2 powi e) = Fin (of_int m * 2 powi e)"
proof -
  have m: "\<bar>of_int m :: rat\<bar> \<le> 2 ^ 53"
    using assms(1) by (metis of_int_abs of_int_le_iff of_int_numeral of_int_power)
  have "\<bar>of_int m * 2 powi e :: rat\<bar> \<le> 2 ^ 53 * 2 powi 970"
    unfolding abs_mult using m assms(3) powi_mono2 [of e 970]
    by (intro mult_mono) auto
  also have "(2 :: rat) ^ 53 * 2 powi 970 < 2 ^ 1024"
    by (simp add: power_int_def)
  finally show ?thesis
    using fl_grid [OF assms(1,2)] by (simp add: rnd_def Let_def abs_less_iff)
qed

lemma rnd_dyadic:
  assumes "\<bar>m\<bar> \<le> 2 ^ 53" "k \<le> 1074"
  shows "rnd (of_int m / 2 ^ k) = Fin (of_int m / 2 ^ k)"
proof -
  have "(2 :: rat) powi (- int k) = inverse (2 ^ k)" by (simp add: power_int_minus)
  then show ?thesis
    using rnd_grid [of m "- int k"] assms by (simp add: divide_inverse)
qed

lemma rnd_fl: "rnd (fl r) = rnd r"
  by (simp add: rnd_def)

lemma rnd_Fin: "rnd r = Fin q \<Longrightarrow> q = fl r \<and> rnd q = Fin q"
  by (auto simp: rnd_def Let_def split: if_splits)

lemma rnd_nonneg: "0 \<le> r \<Longrightarrow> Fin 0 \<le> rnd r"
  using rnd_mono [of 0 r] by simp

lemma rnd_nonpos: "r \<le> 0 \<Longrightarrow> rnd r \<le> Fin 0"
  using rnd_mono [of r 0] by simp

lemma rnd_minus: "rnd (- r) = - rnd r"
  by (auto simp: rnd_def Let_def)

lemma rnd_le_double: "x \<le> y \<Longrightarrow> rnd y = Fin y \<Longrightarrow> rnd x \<le> Fin y"
  using rnd_mono [of x y] by simp

lemma rnd_ge_double: "y \<le> x \<Longrightarrow> rnd y = Fin y \<Longrightarrow> Fin y \<le> rnd x"
  using rnd_mono [of y x] by simp

lemma is_double_rnd [simp]: "is_double (rnd r)"
  by (auto simp: is_double_def dest: rnd_Fin split: pyfloat.split)

lemma is_double_simps [simp]:
  "is_double PInf" "is_double NInf" "is_double NaN"
  "is_double (Fin r) \<longleftrightarrow> rnd r = Fin r"
  by (simp_all add: is_double_def)

lemma is_double_neg [simp]: "is_double (- x) \<longleftrightarrow> is_double x"
proof -
  have "rnd r = Fin r \<Longrightarrow> rnd (- r) = Fin (- r)" for r by (simp add: rnd_minus)
  from this this [of "- r" for r] show ?thesis by (cases x) auto
qed

lemma is_double_add [simp]: "is_double (x + y)"
  by (cases x; cases y) (auto simp: pyfloat_class_defs)

lemma is_double_minus [simp]: "is_double (x - y)"
  by (cases x; cases y) (auto simp: pyfloat_class_defs)

lemma is_double_mult [simp]: "is_double (x * y)"
  by (cases x; cases y) (auto simp: pyfloat_class_defs inf_of_sign_def)

lemma is_double_fdiv [simp]: "is_double (fdiv x y)"
  by (cases x; cases y) (auto simp: inf_of_sign_def)

subsection \<open>Minimum, maximum, rounding to decimals\<close>

lemma py_min_cases: "py_min a b = a \<or> py_min a b = b"
  by (simp add: py_min_def)

lemma py_max_cases: "py_max a b = a \<or> py_max a b = b"
  by (simp add: py_max_def)

lemma py_min_le1: "a \<noteq> NaN \<Longrightarrow> py_min a b \<le> a"
  by (auto simp: py_min_def intro: flt_imp_fle)

lemma py_min_le2: "a \<noteq> NaN \<Longrightarrow> b \<noteq> NaN \<Longrightarrow> py_min a b \<le> b"
  by (auto simp: py_min_def not_flt)

lemma py_max_ge1: "a \<noteq> NaN \<Longrightarrow> a \<le> py_max a b"
  by (auto simp: py_max_def intro: flt_imp_fle)

lemma py_max_ge2: "a \<noteq> NaN \<Longrightarrow> b \<noteq> NaN \<Longrightarrow> b \<le> py_max a b"
  by (auto simp: py_max_def not_flt)

lemma py_min_greatest: "c \<le> a \<Longrightarrow> c \<le> b \<Longrightarrow> c \<le> py_min a b"
  by (simp add: py_min_def)

lemma py_max_least: "a \<le> c \<Longrightarrow> b \<le> c \<Longrightarrow> py_max a b \<le> c"
  by (simp add: py_max_def)

lemma py_min_NaN2 [simp]: "py_min a NaN = a"
  by (simp add: py_min_def)

lemma py_max_NaN2 [simp]: "py_max a NaN = a"
  by (simp add: py_max_def)

lemma py_min_NaN1 [simp]: "py_min NaN b = NaN"
  by (simp add: py_min_def)

lemma py_max_NaN1 [simp]: "py_max NaN b = NaN"
  by (simp add: py_max_def)

lemma py_max_not_NaN: "a \<noteq> NaN \<Longrightarrow> py_max a b \<noteq> NaN"
  by (cases "b = NaN") (auto simp: py_max_def)

lemma py_min_not_NaN: "a \<noteq> NaN \<Longrightarrow> py_min a b \<noteq> NaN"
  by (cases "b = NaN") (auto simp: py_min_def)

lemma py_round_mono: "x \<le> y \<Longrightarrow> py_round x n \<le> py_round y n"
proof (cases x; cases y)
  fix a b assume xy: "x \<le> y" "x = Fin a" "y = Fin b"
  then have "a * 10 ^ n \<le> b * 10 ^ n" by (intro mult_right_mono) auto
  then have "rhe (a * 10 ^ n) \<le> rhe (b * 10 ^ n)" by (rule rhe_mono)
  then show ?thesis using xy(2,3) by (auto intro!: rnd_mono divide_right_mono)
qed auto

lemma py_round_Fin_of_int:
  assumes "\<bar>m\<bar> \<le> 2 ^ 53"
  shows "py_round (Fin (of_int m)) n = Fin (of_int m)"
proof -
  have "(of_int m * 10 ^ n :: rat) = of_int (m * 10 ^ n)" by simp
  then have "rhe (of_int m * 10 ^ n) = m * 10 ^ n" by (metis rhe_of_int)
  then show ?thesis using rnd_of_int [OF assms] by simp
qed

lemma py_round_0 [simp]: "py_round (Fin 0) n = Fin 0"
  using py_round_Fin_of_int [of 0 n] by simp

lemma py_round_nonneg: "Fin 0 \<le> x \<Longrightarrow> Fin 0 \<le> py_round x n"
  using py_round_mono [of "Fin 0" x n] by simp

subsection \<open>Monotone arithmetic\<close>

lemma fadd_mono: "a \<le> b \<Longrightarrow> a + Fin c \<le> b + Fin c"
  by (cases a; cases b) (auto simp: pyfloat_arith_defs intro: rnd_mono)

lemma fmul_mono_nonneg: "0 < c \<Longrightarrow> a \<le> b \<Longrightarrow> a * Fin c \<le> b * Fin c"
  by (cases a; cases b)
    (auto simp: pyfloat_arith_defs inf_of_sign_def intro!: rnd_mono mult_right_mono)

lemma fdiv_mono: "0 < c \<Longrightarrow> a \<le> b \<Longrightarrow> fdiv a (Fin c) \<le> fdiv b (Fin c)"
  by (cases a; cases b) (auto simp: inf_of_sign_def intro!: rnd_mono divide_right_mono)

lemma fmul_nonneg: "Fin 0 \<le> a \<Longrightarrow> Fin 0 \<le> b \<Longrightarrow> a * b \<noteq> NaN \<Longrightarrow> Fin 0 \<le> a * b"
  by (cases a; cases b)
    (auto simp: pyfloat_arith_defs inf_of_sign_def intro: rnd_nonneg split: if_splits)

lemma fdiv_nonneg: "0 < c \<Longrightarrow> Fin 0 \<le> a \<Longrightarrow> Fin 0 \<le> fdiv a (Fin c)"
  by (cases a) (auto simp: inf_of_sign_def intro: rnd_nonneg)

lemma fsub_nonneg: "Fin b \<le> a \<Longrightarrow> Fin 0 \<le> a - Fin b"
  by (cases a) (auto simp: pyfloat_arith_defs intro: rnd_nonneg)

lemma fadd_nonneg: "Fin 0 \<le> a \<Longrightarrow> Fin 0 \<le> b \<Longrightarrow> Fin 0 \<le> a + b"
  by (cases a; cases b) (auto simp: pyfloat_arith_defs intro: rnd_nonneg)

lemma fadd_increasing:
  "is_double a \<Longrightarrow> a \<noteq> NaN \<Longrightarrow> Fin 0 \<le> b \<Longrightarrow> a + b \<noteq> NaN \<Longrightarrow> a \<le> a + b"
  by (cases a; cases b) (auto simp: pyfloat_arith_defs intro: rnd_ge_double)

lemma fsub_decreasing:
  "is_double a \<Longrightarrow> a \<noteq> NaN \<Longrightarrow> Fin 0 \<le> b \<Longrightarrow> a - b \<noteq> NaN \<Longrightarrow> a - b \<le> a"
  by (cases a; cases b) (auto simp: pyfloat_arith_defs intro: rnd_le_double)

text \<open>A percentage of at most one hundred never exceeds the whole.\<close>

lemma fdiv_fmul_le:
  assumes "rnd a = Fin a" "0 \<le> a" "0 \<le> p" "p \<le> c" "0 < c" "a * c \<le> 2 ^ 1023"
    and "rnd (a * c) = Fin (a * c)"
  shows "fdiv (Fin a * Fin p) (Fin c) \<le> Fin a"
proof -
  have "rnd (a * p) \<le> Fin (a * c)"
    using assms by (intro rnd_le_double mult_left_mono) auto
  then have "fdiv (rnd (a * p)) (Fin c) \<le> fdiv (Fin (a * c)) (Fin c)"
    using assms(5) by (rule fdiv_mono [rotated])
  then show ?thesis using assms by simp
qed

lemma int_of_float_of_int [simp]: "int_of_float (Fin (of_int n)) = Inr n"
  by simp

lemma int_of_float_nonneg:
  "Fin 0 \<le> x \<Longrightarrow> int_of_float x = Inr n \<Longrightarrow> 0 \<le> n \<and> Fin (of_int n) \<le> x"
  by (cases x) (auto simp: le_floor_iff)

lemma int_of_float_mono:
  "x \<le> y \<Longrightarrow> int_of_float x = Inr m \<Longrightarrow> int_of_float y = Inr n \<Longrightarrow> m \<le> n"
proof (cases x; cases y)
  fix a b assume h: "x \<le> y" "int_of_float x = Inr m" "int_of_float y = Inr n"
    "x = Fin a" "y = Fin b"
  consider "0 \<le> a" "0 \<le> b" | "a < 0" "b < 0" | "a < 0" "0 \<le> b" using h by force
  then show ?thesis
  proof cases
    case 3
    then have "m \<le> 0" "0 \<le> n" using h by (auto simp: ceiling_le_iff)
    then show ?thesis by simp
  qed (use h floor_mono [of a b] ceiling_mono [of a b] in auto)
qed auto

end
