(* ===== verification/PyValue.thy ===== *)
theory PyValue
  imports PyFloat
begin

text \<open>
  The values \<open>json.loads\<close> and \<open>yaml.safe_load\<close> return, with the operations the code
  applies to them: truth value, \<open>d.get(k, x)\<close>, \<open>d[k]\<close>, iteration, \<open>int()\<close>,
  \<open>float()\<close> and \<open>str()\<close>, each with the exceptions Python raises.  A dict is the list of
  its entries in insertion order; its keys are distinct.  Strings are ASCII.
\<close>

datatype json =
    JNull
  | JBool bool
  | JInt int
  | JFloat pyfloat
  | JStr string
  | JList "json list"
  | JDict "(string \<times> json) list"

section \<open>Truth value and access\<close>

fun truthy :: "json \<Rightarrow> bool" where
  "truthy JNull = False"
| "truthy (JBool b) = b"
| "truthy (JInt n) = (n \<noteq> 0)"
| "truthy (JFloat x) = (x \<noteq> Fin 0)"
| "truthy (JStr s) = (s \<noteq> [])"
| "truthy (JList xs) = (xs \<noteq> [])"
| "truthy (JDict m) = (m \<noteq> [])"

text \<open>Python's \<open>v or w\<close>.\<close>

definition py_or :: "json \<Rightarrow> json \<Rightarrow> json" where
  "py_or v w = (if truthy v then v else w)"

fun is_dict :: "json \<Rightarrow> bool" where
  "is_dict (JDict m) = True"
| "is_dict _ = False"

fun is_list :: "json \<Rightarrow> bool" where
  "is_list (JList xs) = True"
| "is_list _ = False"

fun dict_get :: "json \<Rightarrow> string \<Rightarrow> json \<Rightarrow> json res" where
  "dict_get (JDict m) k d = Inr (case map_of m k of None \<Rightarrow> d | Some v \<Rightarrow> v)"
| "dict_get _ k d = Inl (AttributeError ''get'')"

fun dict_item :: "json \<Rightarrow> string \<Rightarrow> json res" where
  "dict_item (JDict m) k = (case map_of m k of None \<Rightarrow> Inl (KeyError k) | Some v \<Rightarrow> Inr v)"
| "dict_item _ k = Inl (TypeError ''not subscriptable by a string'')"

text \<open>Iterating a value: a list's elements, a dict's keys, a string's characters.\<close>

fun py_iter :: "json \<Rightarrow> json list res" where
  "py_iter (JList xs) = Inr xs"
| "py_iter (JDict m) = Inr (map (JStr \<circ> fst) m)"
| "py_iter (JStr s) = Inr (map (\<lambda>c. JStr [c]) s)"
| "py_iter _ = Inl (TypeError ''object is not iterable'')"

text \<open>\<open>v[i]\<close> for a nonnegative index.\<close>

fun py_index :: "json \<Rightarrow> nat \<Rightarrow> json res" where
  "py_index (JList xs) i = (if i < length xs then Inr (xs ! i) else Inl (IndexError ''list index''))"
| "py_index (JStr s) i = (if i < length s then Inr (JStr [s ! i]) else Inl (IndexError ''string index''))"
| "py_index (JDict m) i = Inl (KeyError ''int'')"
| "py_index _ i = Inl (TypeError ''object is not subscriptable'')"

text \<open>Substring test, and \<open>k in v\<close> for a string key.\<close>

fun substr :: "string \<Rightarrow> string \<Rightarrow> bool" where
  "substr u [] = (u = [])"
| "substr u (c # s) = (take (length u) (c # s) = u \<or> substr u s)"

fun py_in :: "string \<Rightarrow> json \<Rightarrow> bool res" where
  "py_in k (JDict m) = Inr (k \<in> fst ` set m)"
| "py_in k (JList xs) = Inr (JStr k \<in> set xs)"
| "py_in k (JStr s) = Inr (substr k s)"
| "py_in k _ = Inl (TypeError ''argument is not iterable'')"

section \<open>Numbers and strings\<close>

definition is_space :: "char \<Rightarrow> bool" where
  "is_space c \<longleftrightarrow> (let n = (of_char c :: nat) in (9 \<le> n \<and> n \<le> 13) \<or> (28 \<le> n \<and> n \<le> 32))"

definition strip :: "string \<Rightarrow> string" where
  "strip s = rev (dropWhile is_space (rev (dropWhile is_space s)))"

definition is_digit :: "char \<Rightarrow> bool" where
  "is_digit c \<longleftrightarrow> 48 \<le> (of_char c :: nat) \<and> (of_char c :: nat) \<le> 57"

definition digit_val :: "char \<Rightarrow> nat" where
  "digit_val c = of_char c - 48"

text \<open>
  A run of digits with single underscores between them: its value and the number of digits.
  The flag says whether the previous character was a digit.
\<close>

fun scan_digits :: "bool \<Rightarrow> nat \<Rightarrow> nat \<Rightarrow> string \<Rightarrow> (nat \<times> nat) option" where
  "scan_digits prev acc n [] = (if prev then Some (acc, n) else None)"
| "scan_digits prev acc n (c # cs) =
     (if is_digit c then scan_digits True (10 * acc + digit_val c) (Suc n) cs
      else if c = CHR ''_'' \<and> prev then scan_digits False acc n cs
      else None)"

text \<open>The optional sign of a number.\<close>

fun split_sign :: "string \<Rightarrow> bool \<times> string" where
  "split_sign (c # cs) = (if c = CHR ''-'' then (True, cs) else if c = CHR ''+'' then (False, cs)
     else (False, c # cs))"
| "split_sign [] = (False, [])"

text \<open>\<open>int(s)\<close>, with the limit of 4300 digits Python puts on the conversion.\<close>

definition digit_limit :: nat where
  "digit_limit = 4300"

definition int_of_str :: "string \<Rightarrow> int res" where
  "int_of_str s =
     (let (neg, ds) = split_sign (strip s) in
      case scan_digits False 0 0 ds of
        None \<Rightarrow> Inl (ValueError ''invalid literal for int()'')
      | Some (v, n) \<Rightarrow>
          if digit_limit < n then Inl (ValueError ''Exceeds the limit for integer string conversion'')
          else Inr (if neg then - int v else int v))"

definition to_lower :: "char \<Rightarrow> char" where
  "to_lower c = (let n = (of_char c :: nat) in if 65 \<le> n \<and> n \<le> 90 then char_of (n + 32) else c)"

text \<open>The text before and after the first character satisfying the test.\<close>

fun split_at :: "(char \<Rightarrow> bool) \<Rightarrow> string \<Rightarrow> string \<times> string option" where
  "split_at p [] = ([], None)"
| "split_at p (c # cs) =
     (if p c then ([], Some cs) else let (a, b) = split_at p cs in (c # a, b))"

text \<open>A digit run that may be absent (on one side of the decimal point).\<close>

definition scan_opt :: "string \<Rightarrow> (nat \<times> nat) option" where
  "scan_opt s = (if s = [] then Some (0, 0) else scan_digits False 0 0 s)"

definition unsigned_float_of_str :: "string \<Rightarrow> pyfloat option" where
  "unsigned_float_of_str s =
     (let low = map to_lower s in
      if low = ''inf'' \<or> low = ''infinity'' then Some PInf
      else if low = ''nan'' then Some NaN
      else
        let (mant, ex) = split_at (\<lambda>c. c = CHR ''e'' \<or> c = CHR ''E'') s;
            (ip, fp) = split_at (\<lambda>c. c = CHR ''.'') mant;
            fs = (case fp of None \<Rightarrow> [] | Some f \<Rightarrow> f)
        in if ip = [] \<and> fs = [] then None
           else case (scan_opt ip, scan_opt fs) of
             (Some (iv, inn), Some (fv, fn)) \<Rightarrow>
               (case ex of
                  None \<Rightarrow> Some (rnd (of_nat (iv * 10 ^ fn + fv) / 10 ^ fn))
                | Some xs \<Rightarrow>
                    (let (neg, ds) = split_sign xs in
                     case scan_digits False 0 0 ds of
                       None \<Rightarrow> None
                     | Some (e, en) \<Rightarrow>
                         Some (rnd (of_nat (iv * 10 ^ fn + fv) / 10 ^ fn
                                    * 10 powi (if neg then - int e else int e)))))
           | _ \<Rightarrow> None)"

definition float_of_str :: "string \<Rightarrow> pyfloat res" where
  "float_of_str s =
     (let (neg, t) = split_sign (strip s) in
      case unsigned_float_of_str t of
        None \<Rightarrow> Inl (ValueError ''could not convert string to float'')
      | Some x \<Rightarrow> Inr (if neg then - x else x))"

text \<open>\<open>int(v)\<close>, \<open>float(v)\<close>, \<open>bool(v)\<close> is \<open>truthy\<close>.\<close>

fun py_int :: "json \<Rightarrow> int res" where
  "py_int (JInt n) = Inr n"
| "py_int (JBool b) = Inr (if b then 1 else 0)"
| "py_int (JFloat x) = int_of_float x"
| "py_int (JStr s) = int_of_str s"
| "py_int _ = Inl (TypeError ''int() argument'')"

fun py_float :: "json \<Rightarrow> pyfloat res" where
  "py_float (JFloat x) = Inr x"
| "py_float (JInt n) = float_of_int n"
| "py_float (JBool b) = Inr (if b then 1 else 0)"
| "py_float (JStr s) = float_of_str s"
| "py_float _ = Inl (TypeError ''float() argument'')"

text \<open>Decimal text of an integer.\<close>

fun str_of_nat :: "nat \<Rightarrow> string" where
  "str_of_nat n = (if n < 10 then [char_of (48 + n)] else str_of_nat (n div 10) @ [char_of (48 + n mod 10)])"

declare str_of_nat.simps [simp del]

definition str_of_int :: "int \<Rightarrow> string" where
  "str_of_int n = (if n < 0 then CHR ''-'' # str_of_nat (nat (- n)) else str_of_nat (nat n))"

text \<open>
  \<open>str(v)\<close>.  Of floats and containers the code only ever takes \<open>str\<close> when a remote
  service answers with a value of the wrong type; the text Python prints for those is the
  parameter \<open>rep\<close>.
\<close>

fun py_str :: "(json \<Rightarrow> string) \<Rightarrow> json \<Rightarrow> string" where
  "py_str rep (JStr s) = s"
| "py_str rep (JInt n) = str_of_int n"
| "py_str rep (JBool b) = (if b then ''True'' else ''False'')"
| "py_str rep JNull = ''None''"
| "py_str rep v = rep v"

definition join :: "string \<Rightarrow> string list \<Rightarrow> string" where
  "join sep xs = (case xs of [] \<Rightarrow> [] | y # ys \<Rightarrow> foldl (\<lambda>acc z. acc @ sep @ z) y ys)"

section \<open>Lemmas\<close>

lemma dict_get_Inr_iff:
  "dict_get v k d = Inr x \<longleftrightarrow> (\<exists>m. v = JDict m \<and> x = (case map_of m k of None \<Rightarrow> d | Some y \<Rightarrow> y))"
  by (cases v) auto

lemma dict_item_Inr_iff:
  "dict_item v k = Inr x \<longleftrightarrow> (\<exists>m. v = JDict m \<and> map_of m k = Some x)"
  by (cases v) (auto split: option.splits)

lemma py_iter_list [simp]: "is_list v \<Longrightarrow> \<exists>xs. v = JList xs"
  by (cases v) auto

lemma substr_iff: "substr u s \<longleftrightarrow> (\<exists>a b. s = a @ u @ b)"
proof (induction s)
  case (Cons c s)
  note IH = Cons.IH
  show ?case
  proof
    assume "substr u (c # s)"
    then consider "take (length u) (c # s) = u" | "substr u s" by auto
    then show "\<exists>a b. c # s = a @ u @ b"
    proof cases
      case 1
      then have "c # s = [] @ u @ drop (length u) (c # s)"
        by (metis append_Nil append_take_drop_id)
      then show ?thesis by blast
    next
      case 2
      then obtain a b where "s = a @ u @ b" using Cons by blast
      then have "c # s = (c # a) @ u @ b" by simp
      then show ?thesis by blast
    qed
  next
    assume "\<exists>a b. c # s = a @ u @ b"
    then obtain a b where ab: "c # s = a @ u @ b" by blast
    show "substr u (c # s)"
    proof (cases a)
      case Nil
      then have "take (length u) (c # s) = take (length u) (u @ b)"
        using ab by (simp only: append_Nil)
      then have "take (length u) (c # s) = u" by simp
      then show ?thesis by (simp only: substr.simps simp_thms)
    next
      case (Cons x a')
      then have "s = a' @ u @ b" using ab by simp
      then show ?thesis using IH by auto
    qed
  qed
qed auto

subsection \<open>Printing and reading integers\<close>

lemma digit_char:
  assumes "n < 10"
  shows "is_digit (char_of (48 + n))" "digit_val (char_of (48 + n)) = n"
  using assms by (simp_all add: is_digit_def digit_val_def of_char_of take_bit_eq_mod)

lemma is_digit_not_special:
  assumes "is_digit c"
  shows "\<not> is_space c" "c \<noteq> CHR ''-''" "c \<noteq> CHR ''+''"
  using assms by (auto simp: is_digit_def is_space_def Let_def)

definition digits_val :: "string \<Rightarrow> nat \<Rightarrow> nat" where
  "digits_val ds acc = foldl (\<lambda>a c. 10 * a + digit_val c) acc ds"

lemma scan_digits_digits:
  "list_all is_digit ds \<Longrightarrow> p \<or> ds \<noteq> [] \<Longrightarrow>
   scan_digits p acc n ds = Some (digits_val ds acc, n + length ds)"
proof (induction ds arbitrary: p acc n)
  case (Cons d ds)
  then show ?case by (simp add: digits_val_def)
qed (simp add: digits_val_def)

lemma str_of_nat_digits: "list_all is_digit (str_of_nat n) \<and> str_of_nat n \<noteq> []"
proof (induction n rule: str_of_nat.induct)
  case (1 n)
  then show ?case
    by (subst (1 2) str_of_nat.simps) (auto simp: digit_char)
qed

lemma str_of_nat_val: "digits_val (str_of_nat n) 0 = n"
proof (induction n rule: str_of_nat.induct)
  case (1 n)
  show ?case
  proof (cases "n < 10")
    case True
    then show ?thesis by (subst str_of_nat.simps) (simp add: digits_val_def digit_char)
  next
    case False
    with 1 have "digits_val (str_of_nat (n div 10)) 0 = n div 10" by simp
    with False show ?thesis
      by (subst str_of_nat.simps) (simp add: digits_val_def digit_char)
  qed
qed

lemma length_str_of_nat: "0 < k \<Longrightarrow> n < 10 ^ k \<Longrightarrow> length (str_of_nat n) \<le> k"
proof (induction k arbitrary: n)
  case (Suc k)
  show ?case
  proof (cases "n < 10")
    case True
    then show ?thesis by (subst str_of_nat.simps) simp
  next
    case False
    then have k: "0 < k" using Suc.prems by (cases k) auto
    have "n div 10 < 10 ^ k" using Suc.prems by (simp add: less_mult_imp_div_less mult.commute)
    with Suc.IH k have "length (str_of_nat (n div 10)) \<le> k" by blast
    with False show ?thesis by (subst str_of_nat.simps) simp
  qed
qed simp

lemma strip_no_space:
  "list_all (\<lambda>c. \<not> is_space c) s \<Longrightarrow> strip s = s"
proof -
  assume h: "list_all (\<lambda>c. \<not> is_space c) s"
  have "dropWhile is_space t = t" if "\<forall>c \<in> set t. \<not> is_space c" for t
    using that by (cases t) auto
  from this [of s] this [of "rev s"] h show ?thesis by (simp add: strip_def list_all_iff)
qed

lemma split_sign_digits:
  "list_all is_digit ds \<Longrightarrow> split_sign ds = (False, ds)"
  by (cases ds) (auto dest: is_digit_not_special)

lemma digit_limit_pos [simp]: "0 < digit_limit"
  by (simp add: digit_limit_def)

lemma int_of_str_of_nat:
  assumes "n < 10 ^ digit_limit"
  shows "int_of_str (str_of_nat n) = Inr (int n)"
    and "int_of_str (CHR ''-'' # str_of_nat n) = Inr (- int n)"
proof -
  have d: "list_all is_digit (str_of_nat n)" "str_of_nat n \<noteq> []"
    using str_of_nat_digits by auto
  have sp: "list_all (\<lambda>c. \<not> is_space c) (str_of_nat n)"
    using d(1) by (auto simp: list_all_iff dest: is_digit_not_special)
  have sp': "list_all (\<lambda>c. \<not> is_space c) (CHR ''-'' # str_of_nat n)"
    using sp by (simp add: is_space_def)
  have sc: "scan_digits False 0 0 (str_of_nat n) = Some (n, length (str_of_nat n))"
    using scan_digits_digits [OF d(1)] d(2) str_of_nat_val by simp
  have len: "length (str_of_nat n) \<le> digit_limit"
    by (rule length_str_of_nat) (simp_all add: assms digit_limit_pos)
  show "int_of_str (str_of_nat n) = Inr (int n)"
    using len by (simp add: int_of_str_def strip_no_space [OF sp] split_sign_digits [OF d(1)] sc)
  show "int_of_str (CHR ''-'' # str_of_nat n) = Inr (- int n)"
    using len by (simp add: int_of_str_def strip_no_space [OF sp'] sc)
qed

lemma int_of_str_of_int:
  assumes "\<bar>n\<bar> < 10 ^ digit_limit"
  shows "int_of_str (str_of_int n) = Inr n"
proof -
  have "nat \<bar>n\<bar> < 10 ^ digit_limit" using assms by (simp add: nat_less_iff)
  then show ?thesis
    using int_of_str_of_nat [of "nat \<bar>n\<bar>"]
    by (cases "n < 0") (auto simp: str_of_int_def)
qed

end
