(* ===== verification/Files.thy ===== *)
theory Files
  imports PyValue
begin

text \<open>
  The part of the file system the program uses: which files exist and what \<open>json.loads\<close>
  makes of their text.  A file that was created or truncated and not yet written, or that holds
  no JSON, is \<open>Corrupt\<close>.  The order of a dict's entries in a file (\<open>sort_keys\<close>) is not
  modelled, nothing reads it.
\<close>

datatype file_content = JsonFile json | Corrupt

type_synonym files = "string \<Rightarrow> file_content option"

definition read_json :: "files \<Rightarrow> string \<Rightarrow> json res" where
  "read_json fs path = (case fs path of
     None \<Rightarrow> Inl (OSError ''No such file'')
   | Some Corrupt \<Rightarrow> Inl (JSONDecodeError ''Expecting value'')
   | Some (JsonFile j) \<Rightarrow> Inr j)"

text \<open>\<open>path.with_suffix(path.suffix + s)\<close>.\<close>

definition with_extra_suffix :: "string \<Rightarrow> string \<Rightarrow> string" where
  "with_extra_suffix path s = path @ s"

definition tmp_of :: "string \<Rightarrow> string" where
  "tmp_of path = with_extra_suffix path ''.tmp''"

text \<open>
  Replacing a JSON file: the text is written to a temporary file beside it, flushed and synced,
  and renamed over it.  Each element is one step after which the process may die.
\<close>

definition open_tmp :: "string \<Rightarrow> files \<Rightarrow> files" where
  "open_tmp path fs = fs(tmp_of path \<mapsto> Corrupt)"

definition write_tmp :: "string \<Rightarrow> json \<Rightarrow> files \<Rightarrow> files" where
  "write_tmp path j fs = fs(tmp_of path \<mapsto> JsonFile j)"

definition replace_tmp :: "string \<Rightarrow> files \<Rightarrow> files" where
  "replace_tmp path fs = (fs(path := fs (tmp_of path)))(tmp_of path := None)"

definition replace_steps :: "string \<Rightarrow> json \<Rightarrow> (files \<Rightarrow> files) list" where
  "replace_steps path j = [open_tmp path, write_tmp path j, replace_tmp path]"

definition run_steps :: "(files \<Rightarrow> files) list \<Rightarrow> files \<Rightarrow> files" where
  "run_steps steps fs = fold (\<lambda>f s. f s) steps fs"

lemma run_steps_simps [simp]:
  "run_steps [] fs = fs" "run_steps (f # steps) fs = run_steps steps (f fs)"
  by (simp_all add: run_steps_def)

lemma tmp_of_neq [simp]: "tmp_of path \<noteq> path" "path \<noteq> tmp_of path"
  by (simp_all add: tmp_of_def with_extra_suffix_def)

lemma replace_complete:
  "run_steps (replace_steps path j) fs = (fs(path \<mapsto> JsonFile j))(tmp_of path := None)"
  by (simp add: replace_steps_def open_tmp_def write_tmp_def replace_tmp_def fun_upd_twist)

lemma replace_partial:
  "k < length (replace_steps path j) \<Longrightarrow> q \<noteq> tmp_of path \<Longrightarrow>
   run_steps (take k (replace_steps path j)) fs q = fs q"
  by (auto simp: replace_steps_def less_Suc_eq open_tmp_def write_tmp_def replace_tmp_def)

section \<open>The contract of an atomically replaced file\<close>

text \<open>
  What the durable components rely on: a completed save is what the next load returns, and a
  save that was cut short anywhere has not changed what a load returns.
\<close>

locale atomic_store =
  fixes load_of :: "files \<Rightarrow> 'v res"
    and save_steps :: "'v \<Rightarrow> (files \<Rightarrow> files) list"
    and storable :: "'v \<Rightarrow> bool"
  assumes load_saved: "storable v \<Longrightarrow> load_of (run_steps (save_steps v) fs) = Inr v"
    and load_interrupted:
      "k < length (save_steps v) \<Longrightarrow> load_of (run_steps (take k (save_steps v)) fs) = load_of fs"
begin

text \<open>A crash at any point leaves the old value or the new one, never a mixture.\<close>

lemma crash_old_or_new:
  assumes "storable v"
  shows "load_of (run_steps (take k (save_steps v)) fs) \<in> {load_of fs, Inr v}"
  using assms load_saved [of v fs] load_interrupted [of k v fs]
  by (cases "k < length (save_steps v)") simp_all

text \<open>A series of completed saves followed by one that crashes.\<close>

fun save_all :: "'v list \<Rightarrow> files \<Rightarrow> files" where
  "save_all [] fs = fs"
| "save_all (v # vs) fs = save_all vs (run_steps (save_steps v) fs)"

lemma save_all_load:
  "\<forall>v \<in> set vs. storable v \<Longrightarrow> vs \<noteq> [] \<Longrightarrow> load_of (save_all vs fs) = Inr (last vs)"
proof (induction vs arbitrary: fs)
  case (Cons v vs)
  then show ?case by (cases vs) (auto simp: load_saved)
qed simp

lemma history_crash:
  assumes "\<forall>u \<in> set (vs @ [v]). storable u" "vs \<noteq> []"
  shows "load_of (run_steps (take k (save_steps v)) (save_all vs fs)) \<in> {Inr (last vs), Inr v}"
proof -
  have "load_of (save_all vs fs) = Inr (last vs)"
    using assms by (intro save_all_load) auto
  then show ?thesis using crash_old_or_new [of v k "save_all vs fs"] assms(1) by auto
qed

end

end
