(* ===== verification/Datetime.thy ===== *)
theory Datetime
  imports PyValue
begin

text \<open>
  The part of Python's \<open>datetime\<close> the evidence ledger uses: ISO-8601 text as
  \<open>isoformat\<close> writes it, its reading by \<open>fromisoformat\<close> (the extended format, with the
  parts Python lets one leave out; the basic format without separators, week dates and offsets
  with seconds, none of which the ledger writes, are rejected here), and the seconds between
  two instants.
\<close>

record datetime =
  year :: nat
  month :: nat
  day :: nat
  hour :: nat
  minute :: nat
  second :: nat
  microsecond :: nat
  utcoffset :: "int option"

definition is_leap :: "nat \<Rightarrow> bool" where
  "is_leap y \<longleftrightarrow> 4 dvd y \<and> (\<not> 100 dvd y \<or> 400 dvd y)"

definition days_in_month :: "nat \<Rightarrow> nat \<Rightarrow> nat" where
  "days_in_month y m =
     (if m = 2 then (if is_leap y then 29 else 28)
      else if m \<in> {4, 6, 9, 11} then 30 else 31)"

text \<open>The UTC offset is in minutes.\<close>

definition valid_datetime :: "datetime \<Rightarrow> bool" where
  "valid_datetime d \<longleftrightarrow>
     1 \<le> year d \<and> year d \<le> 9999 \<and> 1 \<le> month d \<and> month d \<le> 12 \<and>
     1 \<le> day d \<and> day d \<le> days_in_month (year d) (month d) \<and>
     hour d < 24 \<and> minute d < 60 \<and> second d < 60 \<and> microsecond d < 1000000 \<and>
     (case utcoffset d of None \<Rightarrow> True | Some z \<Rightarrow> \<bar>z\<bar> < 1440)"

section \<open>Instants\<close>

definition days_before_year :: "nat \<Rightarrow> int" where
  "days_before_year y = (let p = int y - 1 in p * 365 + p div 4 - p div 100 + p div 400)"

definition days_before_month :: "nat \<Rightarrow> nat \<Rightarrow> int" where
  "days_before_month y m = int (sum_list (map (days_in_month y) [1..<m]))"

definition ordinal :: "datetime \<Rightarrow> int" where
  "ordinal d = days_before_year (year d) + days_before_month (year d) (month d) + int (day d)"

text \<open>Microseconds on the UTC time line (a naive time is read as it stands).\<close>

definition instant :: "datetime \<Rightarrow> int" where
  "instant d =
     ((ordinal d * 86400 + int (hour d) * 3600 + int (minute d) * 60 + int (second d))
        - (case utcoffset d of None \<Rightarrow> 0 | Some z \<Rightarrow> z * 60)) * 1000000 + int (microsecond d)"

definition aware :: "datetime \<Rightarrow> bool" where
  "aware d \<longleftrightarrow> utcoffset d \<noteq> None"

text \<open>\<open>(a - b).total_seconds()\<close>.\<close>

definition seconds_between :: "datetime \<Rightarrow> datetime \<Rightarrow> pyfloat res" where
  "seconds_between a b =
     (if aware a \<noteq> aware b
      then raise (TypeError ''can't subtract offset-naive and offset-aware datetimes'')
      else int_truediv (instant a - instant b) 1000000)"

section \<open>ISO-8601 text\<close>

text \<open>\<open>n\<close> printed with exactly \<open>k\<close> digits.\<close>

fun pad :: "nat \<Rightarrow> nat \<Rightarrow> string" where
  "pad 0 n = []"
| "pad (Suc k) n = pad k (n div 10) @ [char_of (48 + n mod 10)]"

definition iso_offset :: "int option \<Rightarrow> string" where
  "iso_offset z = (case z of None \<Rightarrow> []
     | Some m \<Rightarrow> (if m < 0 then CHR ''-'' else CHR ''+'')
         # pad 2 (nat \<bar>m\<bar> div 60) @ [CHR '':''] @ pad 2 (nat \<bar>m\<bar> mod 60))"

definition iso_micro :: "nat \<Rightarrow> string" where
  "iso_micro us = (if us = 0 then [] else CHR ''.'' # pad 6 us)"

definition isoformat :: "datetime \<Rightarrow> string" where
  "isoformat d =
     pad 4 (year d) @ [CHR ''-''] @ pad 2 (month d) @ [CHR ''-''] @ pad 2 (day d) @ [CHR ''T'']
     @ pad 2 (hour d) @ [CHR '':''] @ pad 2 (minute d) @ [CHR '':''] @ pad 2 (second d)
     @ iso_micro (microsecond d) @ iso_offset (utcoffset d)"

definition take_num :: "nat \<Rightarrow> string \<Rightarrow> (nat \<times> string) option" where
  "take_num k s =
     (if k \<le> length s \<and> list_all is_digit (take k s)
      then Some (digits_val (take k s) 0, drop k s) else None)"

definition expect_char :: "char \<Rightarrow> string \<Rightarrow> string option" where
  "expect_char c s = (case s of [] \<Rightarrow> None | x # xs \<Rightarrow> if x = c then Some xs else None)"

text \<open>The fraction of a second: any number of digits, of which six count.\<close>

definition parse_micro :: "string \<Rightarrow> (nat \<times> string) option" where
  "parse_micro s = (case s of [] \<Rightarrow> Some (0, s)
     | c # r \<Rightarrow>
        if c = CHR ''.'' \<or> c = CHR '','' then
          (let ds = takeWhile is_digit r in
           if ds = [] then None
           else Some (digits_val (take 6 (ds @ ''000000'')) 0, dropWhile is_digit r))
        else Some (0, s))"

text \<open>A component that may be left out, after a colon.\<close>

definition parse_colon :: "string \<Rightarrow> (nat \<times> string) option" where
  "parse_colon s = (case expect_char (CHR '':'') s of None \<Rightarrow> Some (0, s) | Some r \<Rightarrow> take_num 2 r)"

definition parse_offset :: "string \<Rightarrow> int option option" where
  "parse_offset s = (case s of [] \<Rightarrow> Some None
     | c # r \<Rightarrow>
        if c = CHR ''Z'' \<and> r = [] then Some (Some 0)
        else if c = CHR ''+'' \<or> c = CHR ''-'' then
          Option.bind (take_num 2 r) (\<lambda>(h, r1).
          Option.bind (parse_colon r1) (\<lambda>(m, r2).
          if r2 = [] \<and> m < 60
          then Some (Some (if c = CHR ''-'' then - int (60 * h + m) else int (60 * h + m)))
          else None))
        else None)"

definition parse_clock :: "string \<Rightarrow> (nat \<times> nat \<times> nat \<times> nat \<times> int option) option" where
  "parse_clock s =
     Option.bind (take_num 2 s) (\<lambda>(h, s).
     Option.bind (parse_colon s) (\<lambda>(mi, s).
     Option.bind (parse_colon s) (\<lambda>(se, s).
     Option.bind (parse_micro s) (\<lambda>(us, s).
     Option.bind (parse_offset s) (\<lambda>z. Some (h, mi, se, us, z))))))"

definition parse_iso :: "string \<Rightarrow> datetime option" where
  "parse_iso s =
     Option.bind (take_num 4 s) (\<lambda>(y, s).
     Option.bind (expect_char (CHR ''-'') s) (\<lambda>s.
     Option.bind (take_num 2 s) (\<lambda>(mo, s).
     Option.bind (expect_char (CHR ''-'') s) (\<lambda>s.
     Option.bind (take_num 2 s) (\<lambda>(d, s).
     Option.bind (case s of [] \<Rightarrow> Some (0, 0, 0, 0, None) | separator # r \<Rightarrow> parse_clock r)
       (\<lambda>(h, mi, se, us, z).
     let dt = \<lparr> year = y, month = mo, day = d, hour = h, minute = mi, second = se,
                microsecond = us, utcoffset = z \<rparr>
     in if valid_datetime dt then Some dt else None))))))"

definition fromisoformat :: "string \<Rightarrow> datetime res" where
  "fromisoformat s = (case parse_iso s of
     None \<Rightarrow> raise (ValueError ''Invalid isoformat string'') | Some d \<Rightarrow> ret d)"

section \<open>Lemmas\<close>

lemma length_pad [simp]: "length (pad k n) = k"
  by (induction k arbitrary: n) auto

lemma pad_digits: "list_all is_digit (pad k n)"
  by (induction k arbitrary: n) (auto simp: digit_char)

lemma pad_val: "n < 10 ^ k \<Longrightarrow> digits_val (pad k n) 0 = n"
proof (induction k arbitrary: n)
  case (Suc k)
  then have "n div 10 < 10 ^ k" by (simp add: less_mult_imp_div_less mult.commute)
  with Suc.IH have "digits_val (pad k (n div 10)) 0 = n div 10" .
  then show ?case by (simp add: digits_val_def digit_char)
qed (simp add: digits_val_def)

lemma take_num_pad: "n < 10 ^ k \<Longrightarrow> take_num k (pad k n @ r) = Some (n, r)"
  by (simp add: take_num_def pad_digits pad_val)

lemma expect_char_hit [simp]: "expect_char c (c # r) = Some r"
  by (simp add: expect_char_def)

lemma pad_head_digit: "0 < k \<Longrightarrow> \<exists>c r. pad k n = c # r \<and> is_digit c"
  using pad_digits [of k n] length_pad [of k n] by (cases "pad k n") auto

lemma parse_colon_pad: "n < 10 ^ 2 \<Longrightarrow> parse_colon (CHR '':'' # pad 2 n @ r) = Some (n, r)"
  by (simp add: parse_colon_def take_num_pad)

lemma parse_offset_iso:
  assumes "case z of None \<Rightarrow> True | Some m \<Rightarrow> \<bar>m\<bar> < 1440"
  shows "parse_offset (iso_offset z) = Some z"
proof (cases z)
  case (Some m)
  define n where "n = nat \<bar>m\<bar>"
  have n: "n div 60 < 10 ^ 2" "n mod 60 < 10 ^ 2" "n mod 60 < 60"
    using assms Some by (auto simp: n_def)
  have recompose: "60 * (n div 60) + n mod 60 = n" by simp
  have h: "take_num 2 (pad 2 (n div 60) @ CHR '':'' # pad 2 (n mod 60))
      = Some (n div 60, CHR '':'' # pad 2 (n mod 60))"
    by (rule take_num_pad [OF n(1)])
  have e: "parse_colon (CHR '':'' # pad 2 (n mod 60)) = Some (n mod 60, [])"
    using parse_colon_pad [OF n(2), of "[]"] by simp
  have "parse_offset (c # pad 2 (n div 60) @ CHR '':'' # pad 2 (n mod 60))
      = Some (Some (if c = CHR ''-'' then - int n else int n))"
    if "c = CHR ''+'' \<or> c = CHR ''-''" for c
    using that recompose by (auto simp add: parse_offset_def h e n(3) simp del: pad.simps)
  moreover have "iso_offset z = (if m < 0 then CHR ''-'' else CHR ''+'')
      # pad 2 (n div 60) @ CHR '':'' # pad 2 (n mod 60)"
    unfolding n_def Some iso_offset_def by (simp only: option.case append_Cons append_Nil)
  ultimately have "parse_offset (iso_offset z) = Some (Some (if m < 0 then - int n else int n))"
    by simp
  then show ?thesis using Some by (auto simp: n_def)
qed (simp add: iso_offset_def parse_offset_def)

lemma iso_offset_head: "iso_offset z = [] \<or> (\<exists>c r. iso_offset z = c # r \<and> c \<in> {CHR ''+'', CHR ''-''})"
  by (cases z) (auto simp: iso_offset_def)

lemma no_digit_iso_offset:
  "takeWhile is_digit (iso_offset z) = [] \<and> dropWhile is_digit (iso_offset z) = iso_offset z"
  using iso_offset_head [of z] by (auto simp: is_digit_def)

lemma parse_micro_iso:
  assumes "us < 1000000"
  shows "parse_micro (iso_micro us @ iso_offset z) = Some (us, iso_offset z)"
proof (cases "us = 0")
  case True
  then show ?thesis
    using iso_offset_head [of z] by (auto simp: iso_micro_def parse_micro_def)
next
  case False
  have all: "\<And>x. x \<in> set (pad 6 us) \<Longrightarrow> is_digit x"
    using pad_digits [of 6 us] by (simp add: list_all_iff)
  have tw: "takeWhile is_digit (pad 6 us @ iso_offset z) = pad 6 us"
    "dropWhile is_digit (pad 6 us @ iso_offset z) = iso_offset z"
    using no_digit_iso_offset [of z] by (simp_all add: takeWhile_append2 dropWhile_append2 all)
  have "pad 6 us \<noteq> []" using length_pad [of 6 us] by fastforce
  moreover have "digits_val (pad 6 us) 0 = us" using assms by (intro pad_val) simp
  moreover have "iso_micro us @ iso_offset z = CHR ''.'' # pad 6 us @ iso_offset z"
    using False by (simp add: iso_micro_def)
  ultimately show ?thesis unfolding parse_micro_def by (simp add: tw)
qed

lemma days_in_month_le: "days_in_month y m \<le> 31"
  by (simp add: days_in_month_def)

lemma parse_clock_iso:
  assumes "h < 10 ^ 2" "mi < 10 ^ 2" "se < 10 ^ 2" "us < 1000000"
    and "case z of None \<Rightarrow> True | Some m \<Rightarrow> \<bar>m\<bar> < 1440"
  shows "parse_clock (pad 2 h @ CHR '':'' # pad 2 mi @ CHR '':'' # pad 2 se @ iso_micro us @ iso_offset z)
    = Some (h, mi, se, us, z)"
  unfolding parse_clock_def
  by (simp add: take_num_pad [OF assms(1)] parse_colon_pad [OF assms(2)] parse_colon_pad [OF assms(3)]
      parse_micro_iso [OF assms(4)] parse_offset_iso [OF assms(5)] del: pad.simps)

text \<open>Printing a date and time and reading it back gives it again.\<close>

lemma fromisoformat_isoformat:
  assumes "valid_datetime d"
  shows "fromisoformat (isoformat d) = Inr d"
proof -
  note v = assms [unfolded valid_datetime_def]
  have b: "year d < 10 ^ 4" "month d < 10 ^ 2" "day d < 10 ^ 2" "hour d < 10 ^ 2"
    "minute d < 10 ^ 2" "second d < 10 ^ 2"
    using v days_in_month_le [of "year d" "month d"] by auto
  have us: "microsecond d < 1000000" and z: "case utcoffset d of None \<Rightarrow> True | Some m \<Rightarrow> \<bar>m\<bar> < 1440"
    using v by auto
  have eq: "\<lparr> year = year d, month = month d, day = day d, hour = hour d, minute = minute d,
      second = second d, microsecond = microsecond d, utcoffset = utcoffset d \<rparr> = d" by simp
  have "parse_iso (isoformat d) = Some d"
    unfolding parse_iso_def isoformat_def
    using assms by (simp add: take_num_pad [OF b(1)] take_num_pad [OF b(2)] take_num_pad [OF b(3)]
        parse_clock_iso [OF b(4-6) us z] Let_def eq del: pad.simps)
  then show ?thesis by (simp add: fromisoformat_def)
qed

end
