(* ===== verification/Coordination.thy ===== *)
theory Coordination
  imports Files Datetime "HOL-Library.AList"
begin

text \<open>
  \<open>backrunner/coordination.py\<close>: the filesystem lock that serialises attempts, and the durable,
  signature-deduplicated evidence ledger of the shadow campaign.  Operations are functions of the
  files; what the operating system and the clock contribute to one attempt (the random token, the
  process id, the time, a failing write or removal) is an \<open>attempt\<close> record.
\<close>

record attempt =
  token :: string
  pid :: int
  acquired_at :: string
  write_fault :: "exn option"
  unlink_fault :: "exn option"
  save_fault :: "(nat \<times> exn) option"

section \<open>The attempt lock\<close>

definition lock_payload :: "string \<Rightarrow> attempt \<Rightarrow> json" where
  "lock_payload candidate_id A = JDict
     [(''candidate_id'', JStr candidate_id), (''pid'', JInt (pid A)),
      (''acquired_at'', JStr (acquired_at A)), (''owner_token'', JStr (token A))]"

text \<open>
  \<open>__enter__\<close>: creating with \<open>O_EXCL\<close> fails on an existing file; when writing the payload
  fails, the file is removed and the exception passed on, unless removing it raises in turn.
\<close>

definition AttemptLock_enter :: "string \<Rightarrow> string \<Rightarrow> attempt \<Rightarrow> (files, string option) io" where
  "AttemptLock_enter path candidate_id A fs =
     (if fs path \<noteq> None then (raise (ActiveAttemptError ''active attempt lock exists''), fs)
      else let created = fs(path \<mapsto> Corrupt) in
        (case write_fault A of
           Some e \<Rightarrow> (case unlink_fault A of
              None \<Rightarrow> (raise e, created(path := None))
            | Some e' \<Rightarrow> (raise e', created))
         | None \<Rightarrow> (ret (Some (token A)), created(path \<mapsto> JsonFile (lock_payload candidate_id A)))))"

text \<open>
  \<open>__exit__\<close>: only a readable lock that still carries this owner's token is removed.  The second
  argument is the exception of a removal that fails, which is passed on.
\<close>

definition AttemptLock_exit :: "string \<Rightarrow> exn option \<Rightarrow> string option \<Rightarrow> (files, unit) io" where
  "AttemptLock_exit path fault self_token fs = (case self_token of
     None \<Rightarrow> (ret (), fs)
   | Some tok \<Rightarrow> (case read_json fs path of
       Inl (OSError _) \<Rightarrow>
         (raise (RuntimeError ''attempt lock became unreadable; refusing unsafe release''), fs)
     | Inl (JSONDecodeError _) \<Rightarrow>
         (raise (RuntimeError ''attempt lock became unreadable; refusing unsafe release''), fs)
     | Inl e \<Rightarrow> (raise e, fs)
     | Inr payload \<Rightarrow> (case dict_get payload ''owner_token'' JNull of
           Inl e \<Rightarrow> (raise e, fs)
         | Inr owner \<Rightarrow>
             if owner \<noteq> JStr tok
             then (raise (RuntimeError ''attempt lock ownership changed; refusing unsafe release''), fs)
             else (case fault of
                 None \<Rightarrow> (ret (), fs(path := None))
               | Some e \<Rightarrow> (raise e, fs)))))"

text \<open>\<open>with AttemptLock(path, candidate_id=...): body\<close>.\<close>

definition with_lock :: "string \<Rightarrow> string \<Rightarrow> attempt \<Rightarrow> (files, 'a) io \<Rightarrow> (files, 'a) io" where
  "with_lock path candidate_id A body fs = (case AttemptLock_enter path candidate_id A fs of
     (Inl e, fs1) \<Rightarrow> (Inl e, fs1)
   | (Inr tok, fs1) \<Rightarrow>
       (let (r, fs2) = body fs1 in
        case AttemptLock_exit path (unlink_fault A) tok fs2 of
          (Inl e, fs3) \<Rightarrow> (Inl e, fs3)
        | (Inr _, fs3) \<Rightarrow> (r, fs3)))"

section \<open>Evidence records\<close>

record ShadowEvidenceRecord =
  ev_signature :: string
  ev_observed_at :: string
  ev_simulation_slot :: int
  ev_simulation_succeeded :: bool
  ev_wallet_net_lamports :: int
  ev_rejection_reasons :: "string list"

definition Record_from_dict :: "(json \<Rightarrow> string) \<Rightarrow> json \<Rightarrow> ShadowEvidenceRecord res" where
  "Record_from_dict rep payload =
     bindR (dict_item payload ''signature'') (\<lambda>sig.
     bindR (dict_item payload ''observed_at'') (\<lambda>observed.
     bindR (bindR (dict_item payload ''simulation_slot'') py_int) (\<lambda>slot.
     bindR (dict_item payload ''simulation_succeeded'') (\<lambda>ok.
     bindR (bindR (dict_item payload ''wallet_net_lamports'') py_int) (\<lambda>net.
     bindR (bindR (dict_item payload ''rejection_reasons'') py_iter) (\<lambda>reasons.
     ret \<lparr> ev_signature = py_str rep sig, ev_observed_at = py_str rep observed,
           ev_simulation_slot = slot, ev_simulation_succeeded = truthy ok,
           ev_wallet_net_lamports = net, ev_rejection_reasons = map (py_str rep) reasons \<rparr>))))))"

definition Record_asdict :: "ShadowEvidenceRecord \<Rightarrow> json" where
  "Record_asdict r = JDict
     [(''signature'', JStr (ev_signature r)),
      (''observed_at'', JStr (ev_observed_at r)),
      (''simulation_slot'', JInt (ev_simulation_slot r)),
      (''simulation_succeeded'', JBool (ev_simulation_succeeded r)),
      (''wallet_net_lamports'', JInt (ev_wallet_net_lamports r)),
      (''rejection_reasons'', JList (map JStr (ev_rejection_reasons r)))]"

record ShadowEvidenceSummary =
  sum_started_at :: "string option"
  sum_runtime_hours :: pyfloat
  sum_candidate_count :: int
  sum_succeeded_count :: int
  sum_wallet_net_lamports :: int

definition ready :: "ShadowEvidenceSummary \<Rightarrow> pyfloat \<Rightarrow> int \<Rightarrow> bool" where
  "ready s minimum_hours minimum_candidates \<longleftrightarrow>
     minimum_hours \<le> sum_runtime_hours s \<and> minimum_candidates \<le> sum_candidate_count s \<and>
     0 < sum_wallet_net_lamports s"

section \<open>The ledger file\<close>

definition empty_payload :: json where
  "empty_payload = JDict [(''version'', JInt 1), (''runtime_seconds'', JFloat 0),
     (''last_heartbeat_at'', JNull), (''records'', JList [])]"

definition write_lock_of :: "string \<Rightarrow> string" where
  "write_lock_of path = with_extra_suffix path ''.lock''"

text \<open>The schema checks of \<open>_load_payload\<close>.\<close>

definition check_payload :: "(json \<Rightarrow> string) \<Rightarrow> json \<Rightarrow> unit res" where
  "check_payload rep payload =
     bindR (dict_item payload ''records'') (\<lambda>rs.
     bindR (guardR (is_list rs) (TypeError ''records must be a list'')) (\<lambda>_.
     bindR (bindR (dict_item payload ''runtime_seconds'') py_float) (\<lambda>_.
     bindR (dict_item payload ''last_heartbeat_at'') (\<lambda>last.
     if last = JNull then ret ()
     else bindR (fromisoformat (py_str rep last)) (\<lambda>_. ret ())))))"

text \<open>The classes the \<open>except\<close> clause of \<open>_load_payload\<close> names, with their subclasses.\<close>

fun unreadable :: "exn \<Rightarrow> bool" where
  "unreadable (OSError _) = True"
| "unreadable (FileExistsError _) = True"
| "unreadable (KeyError _) = True"
| "unreadable (TypeError _) = True"
| "unreadable (ValueError _) = True"
| "unreadable (JSONDecodeError _) = True"
| "unreadable _ = False"

definition load_payload :: "(json \<Rightarrow> string) \<Rightarrow> string \<Rightarrow> files \<Rightarrow> json res" where
  "load_payload rep path fs =
     (if fs path = None then ret empty_payload
      else case bindR (read_json fs path) (\<lambda>p. bindR (check_payload rep p) (\<lambda>_. ret p)) of
        Inl e \<Rightarrow> raise (if unreadable e then RuntimeError ''shadow evidence is unreadable'' else e)
      | Inr p \<Rightarrow> ret p)"

definition evidence_records :: "(json \<Rightarrow> string) \<Rightarrow> json \<Rightarrow> ShadowEvidenceRecord list res" where
  "evidence_records rep payload =
     bindR (bindR (dict_item payload ''records'') py_iter) (mapR (Record_from_dict rep))"

fun set_item :: "json \<Rightarrow> string \<Rightarrow> json \<Rightarrow> json res" where
  "set_item (JDict m) k v = Inr (JDict (AList.update k v m))"
| "set_item _ k v = Inl (TypeError ''object does not support item assignment'')"

text \<open>
  \<open>_save_payload\<close>: an operating-system error may cut it short after any of its steps.
\<close>

definition save_payload :: "attempt \<Rightarrow> string \<Rightarrow> json \<Rightarrow> (files, unit) io" where
  "save_payload A path payload fs =
     (let steps = replace_steps path payload in
      case save_fault A of
        None \<Rightarrow> (ret (), run_steps steps fs)
      | Some (k, e) \<Rightarrow>
          if k < length steps then (raise e, run_steps (take k steps) fs)
          else (ret (), run_steps steps fs))"

section \<open>Operations of the ledger\<close>

definition evidence_contains :: "(json \<Rightarrow> string) \<Rightarrow> string \<Rightarrow> string \<Rightarrow> files \<Rightarrow> bool res" where
  "evidence_contains rep path sig fs =
     bindR (load_payload rep path fs) (\<lambda>p.
     bindR (evidence_records rep p) (\<lambda>rs.
     ret (list_ex (\<lambda>r. ev_signature r = sig) rs)))"

definition append_record :: "(json \<Rightarrow> string) \<Rightarrow> ShadowEvidenceRecord \<Rightarrow> json \<Rightarrow> json res" where
  "append_record rep r payload =
     bindR (evidence_records rep payload) (\<lambda>rs.
     if list_ex (\<lambda>x. ev_signature x = ev_signature r) rs
     then raise (DuplicateCandidateError (''candidate signature already recorded: '' @ ev_signature r))
     else set_item payload ''records'' (JList (map Record_asdict (rs @ [r]))))"

text \<open>Read, change and save the payload, inside the write lock.\<close>

definition update_payload ::
  "(json \<Rightarrow> string) \<Rightarrow> attempt \<Rightarrow> string \<Rightarrow> (json \<Rightarrow> json res) \<Rightarrow> (files, unit) io" where
  "update_payload rep A path change fs =
     bindIO (liftR (bindR (load_payload rep path fs) change)) (save_payload A path) fs"

definition evidence_record ::
  "(json \<Rightarrow> string) \<Rightarrow> string \<Rightarrow> attempt \<Rightarrow> ShadowEvidenceRecord \<Rightarrow> (files, unit) io" where
  "evidence_record rep path A r fs =
     (if ev_signature r = [] then (raise (ValueError ''shadow evidence signature cannot be empty''), fs)
      else with_lock (write_lock_of path) ''shadow-evidence-write'' A
             (update_payload rep A path (append_record rep r)) fs)"

definition beat_payload ::
  "(json \<Rightarrow> string) \<Rightarrow> datetime \<Rightarrow> pyfloat \<Rightarrow> json \<Rightarrow> json res" where
  "beat_payload rep current maximum_gap_seconds payload =
     bindR (dict_item payload ''last_heartbeat_at'') (\<lambda>previous_raw.
     bindR (if previous_raw = JNull then ret payload
            else bindR (fromisoformat (py_str rep previous_raw)) (\<lambda>previous.
              bindR (seconds_between current previous) (\<lambda>elapsed.
              if elapsed < 0 then raise (ValueError ''heartbeat timestamp moved backwards'')
              else if elapsed \<le> maximum_gap_seconds
              then bindR (bindR (dict_item payload ''runtime_seconds'') py_float) (\<lambda>t.
                     set_item payload ''runtime_seconds'' (JFloat (t + elapsed)))
              else ret payload))) (\<lambda>payload.
     set_item payload ''last_heartbeat_at'' (JStr (isoformat current))))"

definition evidence_heartbeat ::
  "(json \<Rightarrow> string) \<Rightarrow> string \<Rightarrow> attempt \<Rightarrow> datetime \<Rightarrow> datetime option \<Rightarrow> pyfloat \<Rightarrow> (files, unit) io" where
  "evidence_heartbeat rep path A now_utc given maximum_gap_seconds fs =
     (let current = (case given of None \<Rightarrow> now_utc | Some d \<Rightarrow> d) in
      if \<not> aware current then (raise (ValueError ''heartbeat timestamp must include a timezone''), fs)
      else if maximum_gap_seconds \<le> 0
      then (raise (ValueError ''maximum heartbeat gap must be positive''), fs)
      else with_lock (write_lock_of path) ''shadow-evidence-heartbeat'' A
             (update_payload rep A path (beat_payload rep current maximum_gap_seconds)) fs)"

text \<open>Python's \<open>min\<close> of datetimes: the first of the earliest ones.\<close>

fun earliest :: "datetime \<Rightarrow> datetime list \<Rightarrow> datetime" where
  "earliest d [] = d"
| "earliest d (x # xs) = earliest (if instant x < instant d then x else d) xs"

definition started_at :: "ShadowEvidenceRecord list \<Rightarrow> string option res" where
  "started_at rs =
     bindR (mapR (fromisoformat \<circ> ev_observed_at) rs) (\<lambda>ts.
     if list_ex (\<lambda>d. \<not> aware d) ts
     then raise (RuntimeError ''shadow evidence timestamps must include a timezone'')
     else ret (case ts of [] \<Rightarrow> None | d # ds \<Rightarrow> Some (isoformat (earliest d ds))))"

definition evidence_summary :: "(json \<Rightarrow> string) \<Rightarrow> string \<Rightarrow> files \<Rightarrow> ShadowEvidenceSummary res" where
  "evidence_summary rep path fs =
     bindR (load_payload rep path fs) (\<lambda>p.
     bindR (evidence_records rep p) (\<lambda>rs.
     bindR (started_at rs) (\<lambda>start.
     bindR (bindR (dict_item p ''runtime_seconds'') py_float) (\<lambda>t.
     ret \<lparr> sum_started_at = start,
           sum_runtime_hours = py_round (fdiv t (Fin 3600)) 6,
           sum_candidate_count = int (length rs),
           sum_succeeded_count = sum_list (map (\<lambda>r. if ev_simulation_succeeded r then 1 else 0) rs),
           sum_wallet_net_lamports = sum_list (map ev_wallet_net_lamports rs) \<rparr>))))"

section \<open>The lock as a guarded section\<close>

text \<open>
  What the ledger relies on: on a free lock either nothing happens (the lock could not be written)
  or the body runs with the lock held and the lock is free again afterwards, whether the body
  raised or not; on a held lock the section raises and touches nothing.  If the lock can leak, its
  removal may fail: then the section raises, and what it leaves is the body's result with the lock
  still held, or, if the lock was never written, the abandoned file.
\<close>

locale guarded_section =
  fixes section_of :: "('s, 'a) io \<Rightarrow> ('s, 'a) io"
    and is_free :: "'s \<Rightarrow> bool"
    and acquired :: "'s \<Rightarrow> 's"
    and released :: "'s \<Rightarrow> 's"
    and abandoned :: "'s \<Rightarrow> 's"
    and leaks :: bool
    and leaves_alone :: "('s, 'a) io \<Rightarrow> bool"
  assumes free_section: "is_free s \<Longrightarrow> leaves_alone body \<Longrightarrow>
      (\<exists>e. section_of body s = (Inl e, s)) \<or>
      section_of body s = (fst (body (acquired s)), released (snd (body (acquired s)))) \<or>
      (leaks \<and> (\<exists>e. section_of body s = (Inl e, abandoned s) \<or>
         section_of body s = (Inl e, snd (body (acquired s)))))"
    and released_free: "is_free (released s)"
    and busy_section: "\<not> is_free s \<Longrightarrow> \<exists>e. section_of body s = (Inl e, s)"
begin

text \<open>The lock is free after a section that found it free, unless it leaks.\<close>

lemma section_keeps_free:
  "\<not> leaks \<Longrightarrow> is_free s \<Longrightarrow> leaves_alone body \<Longrightarrow> is_free (snd (section_of body s))"
  using free_section [of s body] released_free by auto

text \<open>An invariant that does not look at the lock and that the body keeps, the section keeps.\<close>

lemma section_invariant:
  assumes "I s" "leaves_alone body"
    and "\<And>s. I s \<Longrightarrow> I (acquired s)" "\<And>s. I s \<Longrightarrow> I (released s)" "\<And>s. I s \<Longrightarrow> I (abandoned s)"
    and "\<And>s. I s \<Longrightarrow> I (snd (body s))"
  shows "I (snd (section_of body s))"
proof (cases "is_free s")
  case True
  then show ?thesis using free_section [OF True assms(2)] assms by auto
next
  case False
  then show ?thesis using busy_section [OF False, of body] assms(1) by auto
qed

text \<open>A section that returns a value has run its body with the lock held and released it.\<close>

lemma section_Inr:
  assumes "section_of body s = (Inr x, s')" "leaves_alone body"
  shows "is_free s \<and> fst (body (acquired s)) = Inr x \<and> s' = released (snd (body (acquired s)))"
  using assms free_section [of s body] busy_section [of s body]
  by (cases "is_free s") auto

end

text \<open>A body that leaves the lock file alone.\<close>

definition spares :: "string \<Rightarrow> (files, 'a) io \<Rightarrow> bool" where
  "spares path body \<longleftrightarrow> (\<forall>fs. snd (body fs) path = fs path)"

definition lock_file :: "string \<Rightarrow> string \<Rightarrow> attempt \<Rightarrow> files \<Rightarrow> files" where
  "lock_file path candidate_id A fs = fs(path \<mapsto> JsonFile (lock_payload candidate_id A))"

lemma owner_of_lock_payload [simp]:
  "dict_get (lock_payload candidate_id A) ''owner_token'' JNull = Inr (JStr (token A))"
  by (simp add: lock_payload_def)

lemma with_lock_busy:
  "fs path \<noteq> None \<Longrightarrow>
   with_lock path cid A body fs = (Inl (ActiveAttemptError ''active attempt lock exists''), fs)"
  by (simp add: with_lock_def AttemptLock_enter_def)

lemma with_lock_fault:
  "fs path = None \<Longrightarrow> write_fault A = Some e \<Longrightarrow> with_lock path cid A body fs =
     (case unlink_fault A of None \<Rightarrow> (Inl e, fs) | Some e' \<Rightarrow> (Inl e', fs(path \<mapsto> Corrupt)))"
  by (auto simp add: with_lock_def AttemptLock_enter_def Let_def fun_upd_idem_iff split: option.split)

lemma with_lock_owned:
  assumes "fs path = None" "write_fault A = None" "spares path body"
  shows "with_lock path cid A body fs = (case unlink_fault A of
      None \<Rightarrow> (fst (body (lock_file path cid A fs)), (snd (body (lock_file path cid A fs)))(path := None))
    | Some e \<Rightarrow> (Inl e, snd (body (lock_file path cid A fs))))"
proof -
  let ?fs1 = "lock_file path cid A fs"
  have "snd (body ?fs1) path = Some (JsonFile (lock_payload cid A))"
    using assms(3) by (simp add: spares_def lock_file_def)
  then have "AttemptLock_exit path (unlink_fault A) (Some (token A)) (snd (body ?fs1)) =
      (case unlink_fault A of None \<Rightarrow> (ret (), (snd (body ?fs1))(path := None))
       | Some e \<Rightarrow> (raise e, snd (body ?fs1)))"
    by (simp add: AttemptLock_exit_def read_json_def)
  moreover have "AttemptLock_enter path cid A fs = (ret (Some (token A)), ?fs1)"
    using assms(1,2) by (simp add: AttemptLock_enter_def lock_file_def Let_def)
  ultimately show ?thesis by (cases "unlink_fault A") (simp_all add: with_lock_def case_prod_beta)
qed

lemma with_lock_free:
  assumes "fs path = None" "write_fault A = None" "unlink_fault A = None" "spares path body"
  shows "with_lock path cid A body fs =
    (fst (body (lock_file path cid A fs)), (snd (body (lock_file path cid A fs)))(path := None))"
  using assms by (simp add: with_lock_owned)

interpretation attempt_section: guarded_section "with_lock path cid A" "\<lambda>fs. fs path = None"
  "lock_file path cid A" "\<lambda>fs. fs(path := None)" "\<lambda>fs. fs(path \<mapsto> Corrupt)"
  "unlink_fault A \<noteq> None" "spares path"
  for path cid A
proof unfold_locales
  fix fs :: files and body :: "(files, 'a) io"
  assume "fs path = None" "spares path body"
  then show "(\<exists>e. with_lock path cid A body fs = (Inl e, fs)) \<or>
      with_lock path cid A body fs =
        (fst (body (lock_file path cid A fs)), (snd (body (lock_file path cid A fs)))(path := None)) \<or>
      (unlink_fault A \<noteq> None \<and> (\<exists>e. with_lock path cid A body fs = (Inl e, fs(path \<mapsto> Corrupt)) \<or>
         with_lock path cid A body fs = (Inl e, snd (body (lock_file path cid A fs)))))"
    using with_lock_fault [of fs path A _ cid body] with_lock_owned [of fs path A body cid]
    by (cases "write_fault A"; cases "unlink_fault A") auto
next
  fix fs :: files and body :: "(files, 'a) io"
  assume "\<not> fs path = None"
  then show "\<exists>e. with_lock path cid A body fs = (Inl e, fs)"
    using with_lock_busy [of fs path cid A body] by auto
qed simp

section \<open>The ledger as an abstract value\<close>

text \<open>
  What the ledger file says: the records in order, the runtime so far and the last heartbeat.
  The specification of the two updates works on this value alone.
\<close>

type_synonym ledger = "ShadowEvidenceRecord list \<times> pyfloat \<times> json"

definition payload_view :: "(json \<Rightarrow> string) \<Rightarrow> json \<Rightarrow> ledger res" where
  "payload_view rep p =
     bindR (evidence_records rep p) (\<lambda>rs.
     bindR (bindR (dict_item p ''runtime_seconds'') py_float) (\<lambda>t.
     bindR (dict_item p ''last_heartbeat_at'') (\<lambda>l. ret (rs, t, l))))"

definition ledger_view :: "(json \<Rightarrow> string) \<Rightarrow> string \<Rightarrow> files \<Rightarrow> ledger res" where
  "ledger_view rep path fs = bindR (load_payload rep path fs) (payload_view rep)"

definition spec_record :: "ShadowEvidenceRecord \<Rightarrow> ledger \<Rightarrow> ledger res" where
  "spec_record r = (\<lambda>(rs, t, l).
     if ev_signature r \<in> ev_signature ` set rs
     then raise (DuplicateCandidateError (''candidate signature already recorded: '' @ ev_signature r))
     else ret (rs @ [r], t, l))"

definition spec_heartbeat :: "(json \<Rightarrow> string) \<Rightarrow> datetime \<Rightarrow> pyfloat \<Rightarrow> ledger \<Rightarrow> ledger res" where
  "spec_heartbeat rep current gap = (\<lambda>(rs, t, l).
     bindR (if l = JNull then ret t
            else bindR (fromisoformat (py_str rep l)) (\<lambda>previous.
              bindR (seconds_between current previous) (\<lambda>elapsed.
              if elapsed < 0 then raise (ValueError ''heartbeat timestamp moved backwards'')
              else ret (if elapsed \<le> gap then t + elapsed else t)))) (\<lambda>t'.
     ret (rs, t', JStr (isoformat current))))"

subsection \<open>Payloads\<close>

lemma mapR_map: "mapR f (map g xs) = mapR (\<lambda>x. f (g x)) xs"
  by (induction xs) auto

lemma Record_roundtrip [simp]: "Record_from_dict rep (Record_asdict r) = Inr r"
  by (simp add: Record_from_dict_def Record_asdict_def comp_def)

lemma set_item_lookup:
  "set_item p k v = Inr p' \<Longrightarrow> dict_item p' k' = (if k' = k then Inr v else dict_item p k')"
  by (cases p) (auto simp: update_conv' split: option.splits)

lemma set_item_total: "dict_item p k' = Inr x \<Longrightarrow> \<exists>p'. set_item p k v = Inr p'"
  by (cases p) auto

lemma is_list_iff: "is_list v \<longleftrightarrow> (\<exists>xs. v = JList xs)"
  by (cases v) auto

lemma check_payload_iff:
  "check_payload rep p = Inr () \<longleftrightarrow>
     (\<exists>xs. dict_item p ''records'' = Inr (JList xs)) \<and>
     (\<exists>t. bindR (dict_item p ''runtime_seconds'') py_float = Inr t) \<and>
     (\<exists>l. dict_item p ''last_heartbeat_at'' = Inr l \<and>
        (l = JNull \<or> (\<exists>d. fromisoformat (py_str rep l) = Inr d)))"
proof -
  have tail: "(if l = JNull then ret () else bindR (fromisoformat (py_str rep l)) (\<lambda>_. ret ())) = Inr ()
      \<longleftrightarrow> l = JNull \<or> (\<exists>d. fromisoformat (py_str rep l) = Inr d)" for l
    by (simp add: bindR_eq_Inr)
  show ?thesis
    unfolding check_payload_def bindR_eq_Inr guardR_eq_Inr tail is_list_iff by blast
qed

lemma append_record_view:
  assumes "payload_view rep p = Inr v" "check_payload rep p = Inr ()"
  shows "(case append_record rep r p of Inl e \<Rightarrow> spec_record r v = Inl e
    | Inr p' \<Rightarrow> check_payload rep p' = Inr () \<and> payload_view rep p' = spec_record r v
        \<and> (\<exists>v'. spec_record r v = Inr v'))"
proof -
  obtain rs t l where v: "v = (rs, t, l)" by (cases v)
  have view: "evidence_records rep p = Inr rs" "dict_item p ''last_heartbeat_at'' = Inr l"
    "bindR (dict_item p ''runtime_seconds'') py_float = Inr t"
    using assms(1) by (auto simp: payload_view_def v bindR_eq_Inr)
  have dup: "list_ex (\<lambda>x. ev_signature x = ev_signature r) rs \<longleftrightarrow> ev_signature r \<in> ev_signature ` set rs"
    by (induction rs) auto
  show ?thesis
  proof (cases "ev_signature r \<in> ev_signature ` set rs")
    case True
    then show ?thesis by (simp add: append_record_def view dup spec_record_def v)
  next
    case False
    obtain p' where p': "set_item p ''records'' (JList (map Record_asdict (rs @ [r]))) = Inr p'"
      using set_item_total [OF view(2)] by blast
    note look = set_item_lookup [OF p']
    have back_again: "mapR (Record_from_dict rep) (map Record_asdict xs) = Inr xs" for xs
      by (simp add: mapR_map)
    have "dict_item p' ''records'' = Inr (JList (map Record_asdict (rs @ [r])))"
      by (simp only: look simp_thms if_True)
    then have "evidence_records rep p' = Inr (rs @ [r])"
      by (simp only: evidence_records_def bindR_Inr py_iter.simps back_again)
    moreover have "check_payload rep p' = Inr ()"
      using assms(2) unfolding check_payload_iff by (simp add: look)
    ultimately show ?thesis
      using False p' view
      by (simp add: append_record_def dup spec_record_def v payload_view_def look del: map_append)
  qed
qed

lemma beat_payload_view:
  assumes "payload_view rep p = Inr v" "check_payload rep p = Inr ()" "valid_datetime current"
  shows "(case beat_payload rep current gap p of Inl e \<Rightarrow> spec_heartbeat rep current gap v = Inl e
    | Inr p' \<Rightarrow> check_payload rep p' = Inr () \<and> payload_view rep p' = spec_heartbeat rep current gap v
        \<and> (\<exists>v'. spec_heartbeat rep current gap v = Inr v'))"
proof -
  obtain rs t l where v: "v = (rs, t, l)" by (cases v)
  have view: "evidence_records rep p = Inr rs" "dict_item p ''last_heartbeat_at'' = Inr l"
    "bindR (dict_item p ''runtime_seconds'') py_float = Inr t"
    using assms(1) by (auto simp: payload_view_def v bindR_eq_Inr)
  have stamped: "case set_item q ''last_heartbeat_at'' (JStr (isoformat current)) of Inl e \<Rightarrow> False
      | Inr p' \<Rightarrow> check_payload rep p' = Inr () \<and> payload_view rep p' = Inr (rs, t', JStr (isoformat current))"
    if q: "dict_item q ''records'' = dict_item p ''records''"
      "bindR (dict_item q ''runtime_seconds'') py_float = Inr t'" "\<exists>x. dict_item q ''last_heartbeat_at'' = Inr x"
    for q t'
  proof -
    obtain p' where p': "set_item q ''last_heartbeat_at'' (JStr (isoformat current)) = Inr p'"
      using q(3) set_item_total by blast
    note look = set_item_lookup [OF p']
    have "check_payload rep p' = Inr ()"
      using assms(2) q(1,2) unfolding check_payload_iff
      by (simp add: look fromisoformat_isoformat [OF assms(3)])
    moreover have "payload_view rep p' = Inr (rs, t', JStr (isoformat current))"
      using view(1) q(1,2) by (simp add: payload_view_def evidence_records_def look)
    ultimately show ?thesis using p' by simp
  qed
  show ?thesis
  proof (cases "l = JNull")
    case True
    then show ?thesis
      using stamped [of p t] view by (auto simp: beat_payload_def spec_heartbeat_def v split: sum.splits)
  next
    case False
    show ?thesis
    proof (cases "bindR (fromisoformat (py_str rep l)) (seconds_between current)")
      case (Inl e)
      then show ?thesis
        using False view by (auto simp: beat_payload_def spec_heartbeat_def v bindR_eq_Inl)
    next
      case (Inr elapsed)
      then obtain previous where prev: "fromisoformat (py_str rep l) = Inr previous"
        "seconds_between current previous = Inr elapsed" by auto
      obtain q where q: "set_item p ''runtime_seconds'' (JFloat (t + elapsed)) = Inr q"
        using set_item_total [OF view(2)] by blast
      note look = set_item_lookup [OF q]
      consider "elapsed < 0" | "\<not> elapsed < 0" "elapsed \<le> gap" | "\<not> elapsed < 0" "\<not> elapsed \<le> gap"
        by blast
      then show ?thesis
      proof cases
        case 1
        then show ?thesis using False view prev by (simp add: beat_payload_def spec_heartbeat_def v)
      next
        case 2
        then show ?thesis using False view prev q stamped [of q "t + elapsed"]
          by (auto simp: beat_payload_def spec_heartbeat_def v look split: sum.splits)
      next
        case 3
        then show ?thesis using False view prev stamped [of p t]
          by (auto simp: beat_payload_def spec_heartbeat_def v split: sum.splits)
      qed
    qed
  qed
qed

subsection \<open>Files\<close>

lemma lock_neq [simp]: "write_lock_of path \<noteq> path" "path \<noteq> write_lock_of path"
  "write_lock_of path \<noteq> tmp_of path" "tmp_of path \<noteq> write_lock_of path"
  by (simp_all add: write_lock_of_def tmp_of_def with_extra_suffix_def)

lemma load_payload_cong: "fs path = fs' path \<Longrightarrow> load_payload rep path fs = load_payload rep path fs'"
  by (simp add: load_payload_def read_json_def)

lemma ledger_view_cong: "fs path = fs' path \<Longrightarrow> ledger_view rep path fs = ledger_view rep path fs'"
  unfolding ledger_view_def by (simp cong: load_payload_cong)

lemma load_payload_stored:
  "fs path = Some (JsonFile p) \<Longrightarrow> check_payload rep p = Inr () \<Longrightarrow> load_payload rep path fs = Inr p"
  by (simp add: load_payload_def read_json_def)

lemma load_payload_checked: "load_payload rep path fs = Inr p \<Longrightarrow> check_payload rep p = Inr ()"
  by (auto simp: load_payload_def check_payload_def empty_payload_def zero_pyfloat_def
      split: if_splits sum.splits)

lemma load_payload_error:
  "load_payload rep path fs = Inl e \<Longrightarrow> unreadable e = False"
  by (auto simp: load_payload_def split: if_splits sum.splits)

lemma ledger_view_load:
  assumes "ledger_view rep path fs = Inr v"
  obtains p where "load_payload rep path fs = Inr p" "payload_view rep p = Inr v"
    "check_payload rep p = Inr ()"
  using assms load_payload_checked [of rep path fs] by (auto simp: ledger_view_def)

interpretation evidence_file: atomic_store "load_payload rep path" "replace_steps path"
  "\<lambda>p. check_payload rep p = Inr ()" for rep path
proof unfold_locales
  show "load_payload rep path (run_steps (replace_steps path p) fs) = Inr p"
    if "check_payload rep p = Inr ()" for p fs
    using that by (intro load_payload_stored) (simp_all add: replace_complete)
  show "load_payload rep path (run_steps (take k (replace_steps path p)) fs) = load_payload rep path fs"
    if "k < length (replace_steps path p)" for k p fs
    using that by (intro load_payload_cong) (simp add: replace_partial)
qed

lemma spares_save: "snd (save_payload A path p fs) (write_lock_of path) = fs (write_lock_of path)"
  by (auto simp: save_payload_def Let_def replace_partial replace_complete split: option.splits)

lemma spares_update: "spares (write_lock_of path) (update_payload rep A path change)"
  by (auto simp: spares_def update_payload_def spares_save bindR_def split: sum.splits)

lemma save_payload_result:
  "snd (save_payload A path p fs) = run_steps (replace_steps path p) fs \<or>
   (\<exists>e. fst (save_payload A path p fs) = Inl e \<and>
      load_payload rep path (snd (save_payload A path p fs)) = load_payload rep path fs)"
  by (auto simp: save_payload_def Let_def evidence_file.load_interrupted split: option.splits)

text \<open>
  An update whose change refines \<open>spec\<close> refines it on the file: it either leaves the ledger's
  value as it was, or makes it the specified one.
\<close>

definition refines_spec :: "(json \<Rightarrow> string) \<Rightarrow> (json \<Rightarrow> json res) \<Rightarrow> (ledger \<Rightarrow> ledger res) \<Rightarrow> bool" where
  "refines_spec rep change spec \<longleftrightarrow>
     (\<forall>p v. payload_view rep p = Inr v \<longrightarrow> check_payload rep p = Inr () \<longrightarrow>
       (case change p of Inl e \<Rightarrow> spec v = Inl e
        | Inr p' \<Rightarrow> check_payload rep p' = Inr () \<and> payload_view rep p' = spec v
          \<and> (\<exists>v'. spec v = Inr v')))"

lemma refines_record: "refines_spec rep (append_record rep r) (spec_record r)"
  using append_record_view [of rep _ _ r] by (simp add: refines_spec_def)

lemma refines_heartbeat:
  "valid_datetime current \<Longrightarrow> refines_spec rep (beat_payload rep current gap) (spec_heartbeat rep current gap)"
  using beat_payload_view [of rep _ _ current gap] by (simp add: refines_spec_def)

lemma update_refines:
  assumes "refines_spec rep change spec" "ledger_view rep path fs = Inr v" "save_fault A = None"
  shows "(case spec v of
      Inl e \<Rightarrow> update_payload rep A path change fs = (Inl e, fs)
    | Inr v' \<Rightarrow> fst (update_payload rep A path change fs) = Inr () \<and>
        ledger_view rep path (snd (update_payload rep A path change fs)) = Inr v')"
proof -
  obtain p where p: "load_payload rep path fs = Inr p" "payload_view rep p = Inr v"
    "check_payload rep p = Inr ()"
    using assms(2) by (rule ledger_view_load)
  show ?thesis
  proof (cases "change p")
    case (Inl e)
    with assms(1) p(2,3) have "spec v = Inl e" unfolding refines_spec_def by fastforce
    with Inl p show ?thesis by (simp add: update_payload_def)
  next
    case (Inr p')
    have step: "case change p of Inl e \<Rightarrow> spec v = Inl e
        | Inr p' \<Rightarrow> check_payload rep p' = Inr () \<and> payload_view rep p' = spec v \<and> (\<exists>v'. spec v = Inr v')"
      using assms(1) p(2,3) unfolding refines_spec_def by blast
    then have p': "check_payload rep p' = Inr ()" "payload_view rep p' = spec v" "\<exists>v'. spec v = Inr v'"
      using Inr by auto
    have run: "update_payload rep A path change fs = (Inr (), run_steps (replace_steps path p') fs)"
      using Inr p assms(3) by (simp add: update_payload_def save_payload_def)
    have "ledger_view rep path (run_steps (replace_steps path p') fs) = spec v"
      using p' by (simp add: ledger_view_def evidence_file.load_saved)
    with p'(3) show ?thesis by (auto simp: run)
  qed
qed

lemma update_keeps:
  assumes "refines_spec rep change spec" "ledger_view rep path fs = Inr v"
  shows "\<exists>v'. ledger_view rep path (snd (update_payload rep A path change fs)) = Inr v' \<and>
    (v' = v \<or> spec v = Inr v')"
proof (cases "bindR (load_payload rep path fs) change")
  case (Inl e)
  then have "update_payload rep A path change fs = (Inl e, fs)" by (simp add: update_payload_def)
  then show ?thesis using assms(2) by simp
next
  case (Inr p')
  then have run: "update_payload rep A path change fs = save_payload A path p' fs"
    by (simp add: update_payload_def)
  show ?thesis using save_payload_result [of A path p' fs rep]
  proof
    assume full: "snd (save_payload A path p' fs) = run_steps (replace_steps path p') fs"
    let ?A = "A\<lparr>save_fault := None\<rparr>"
    have "update_payload rep ?A path change fs = (Inr (), run_steps (replace_steps path p') fs)"
      using Inr by (simp add: update_payload_def save_payload_def)
    with update_refines [OF assms, of ?A] show ?thesis
      by (auto simp: run full split: sum.splits)
  next
    assume "\<exists>e. fst (save_payload A path p' fs) = Inl e \<and>
      load_payload rep path (snd (save_payload A path p' fs)) = load_payload rep path fs"
    with assms(2) show ?thesis by (auto simp: run ledger_view_def)
  qed
qed

text \<open>The two mutators are the update, run in the lock, behind their argument checks.\<close>

lemma evidence_record_unlocked:
  assumes "fs (write_lock_of path) = None" "write_fault A = None" "unlink_fault A = None" "ev_signature r \<noteq> []"
  shows "evidence_record rep path A r fs =
    (let res = update_payload rep A path (append_record rep r)
          (lock_file (write_lock_of path) ''shadow-evidence-write'' A fs)
     in (fst res, (snd res)(write_lock_of path := None)))"
  using assms by (simp add: evidence_record_def with_lock_free spares_update Let_def)

lemma evidence_heartbeat_unlocked:
  assumes "fs (write_lock_of path) = None" "write_fault A = None" "unlink_fault A = None"
    and "aware current" "\<not> gap \<le> 0"
  shows "evidence_heartbeat rep path A now_utc (Some current) gap fs =
    (let res = update_payload rep A path (beat_payload rep current gap)
          (lock_file (write_lock_of path) ''shadow-evidence-heartbeat'' A fs)
     in (fst res, (snd res)(write_lock_of path := None)))"
  using assms by (simp add: evidence_heartbeat_def with_lock_free spares_update Let_def)

lemma ledger_view_lock [simp]:
  "ledger_view rep path (lock_file (write_lock_of path) cid A fs) = ledger_view rep path fs"
  "ledger_view rep path (fs(write_lock_of path := c)) = ledger_view rep path fs"
  by (rule ledger_view_cong, simp add: lock_file_def)+

text \<open>An update that returns has done what is specified.\<close>

lemma update_returned:
  assumes "refines_spec rep change spec" "ledger_view rep path fs = Inr v"
    and run: "update_payload rep A path change fs = (Inr x, fs')"
  shows "\<exists>v'. spec v = Inr v' \<and> ledger_view rep path fs' = Inr v'"
proof -
  obtain p' where p': "bindR (load_payload rep path fs) change = Inr p'"
      "save_payload A path p' fs = (Inr x, fs')"
    using run by (cases "bindR (load_payload rep path fs) change") (simp_all add: update_payload_def)
  then have full: "fs' = run_steps (replace_steps path p') fs"
    by (auto simp: save_payload_def Let_def split: option.splits prod.splits if_splits)
  let ?A = "A\<lparr>save_fault := None\<rparr>"
  have "update_payload rep ?A path change fs = (Inr (), fs')"
    using p'(1) by (simp add: update_payload_def save_payload_def full)
  with update_refines [OF assms(1,2), of ?A] show ?thesis by (auto split: sum.splits)
qed

lemma section_returned:
  assumes "refines_spec rep change spec" "ledger_view rep path fs = Inr v"
    and run: "with_lock (write_lock_of path) cid A (update_payload rep A path change) fs = (Inr x, fs')"
  shows "\<exists>v'. spec v = Inr v' \<and> ledger_view rep path fs' = Inr v'"
proof -
  let ?held = "lock_file (write_lock_of path) cid A fs"
  obtain fs2 where "update_payload rep A path change ?held = (Inr x, fs2)"
      "fs' = fs2(write_lock_of path := None)"
    using attempt_section.section_Inr [OF run spares_update] by (metis prod.collapse)
  with update_returned [OF assms(1), of path ?held v A x fs2] assms(2) show ?thesis
    by (simp add: ledger_view_lock)
qed

lemma ledger_op_returned:
  assumes "ledger_view rep path fs = Inr v"
  shows "evidence_record rep path A r fs = (Inr x, fs') \<Longrightarrow>
      \<exists>v'. spec_record r v = Inr v' \<and> ledger_view rep path fs' = Inr v'"
    and "evidence_heartbeat rep path A time None gap fs = (Inr x, fs') \<Longrightarrow> valid_datetime time \<Longrightarrow>
      \<exists>v'. spec_heartbeat rep time gap v = Inr v' \<and> ledger_view rep path fs' = Inr v'"
  using section_returned [OF refines_record assms] section_returned [OF refines_heartbeat assms]
  by (auto simp: evidence_record_def evidence_heartbeat_def split: if_splits)

section \<open>Properties\<close>

text \<open>
  C3. Recording evidence implements its specification.  On a readable ledger with the write lock
  free and no fault of the disk, a signature already present is refused with \<open>DuplicateCandidateError\<close> and leaves
  the ledger as it was; any other record is appended at the end, nothing else changes; and the
  write lock is free again in both cases.
\<close>

theorem evidence_record_refines:
  assumes "ledger_view rep path fs = Inr (rs, t, l)" "fs (write_lock_of path) = None"
    and "write_fault A = None" "unlink_fault A = None" "save_fault A = None" "ev_signature r \<noteq> []"
  shows "snd (evidence_record rep path A r fs) (write_lock_of path) = None \<and>
    (if ev_signature r \<in> ev_signature ` set rs
     then (\<exists>msg. fst (evidence_record rep path A r fs) = Inl (DuplicateCandidateError msg)) \<and>
       ledger_view rep path (snd (evidence_record rep path A r fs)) = Inr (rs, t, l)
     else fst (evidence_record rep path A r fs) = Inr () \<and>
       ledger_view rep path (snd (evidence_record rep path A r fs)) = Inr (rs @ [r], t, l))"
proof -
  let ?held = "lock_file (write_lock_of path) ''shadow-evidence-write'' A fs"
  have "ledger_view rep path ?held = Inr (rs, t, l)" using assms(1) by simp
  from update_refines [OF refines_record [of rep r] this assms(5)] assms(1) show ?thesis
    unfolding evidence_record_unlocked [of fs path A r, OF assms(2,3,4,6)]
    by (auto simp: spec_record_def Let_def split: if_splits)
qed

definition demo_record :: "string \<Rightarrow> int \<Rightarrow> ShadowEvidenceRecord" where
  "demo_record sig net = \<lparr> ev_signature = sig, ev_observed_at = ''2026-07-30T00:00:00+00:00'',
     ev_simulation_slot = 123, ev_simulation_succeeded = (0 < net), ev_wallet_net_lamports = net,
     ev_rejection_reasons = [] \<rparr>"

definition demo_attempt :: "string \<Rightarrow> attempt" where
  "demo_attempt tok = \<lparr> token = tok, pid = 7, acquired_at = ''2026-07-30T00:00:00+00:00'',
     write_fault = None, unlink_fault = None, save_fault = None \<rparr>"

lemma ledger_view_absent: "fs path = None \<Longrightarrow> ledger_view rep path fs = Inr ([], Fin 0, JNull)"
  by (simp add: ledger_view_def load_payload_def payload_view_def empty_payload_def
      evidence_records_def zero_pyfloat_def)

theorem evidence_record_refines_witness:
  "ledger_view (\<lambda>_. []) ''e''
      (snd (evidence_record (\<lambda>_. []) ''e'' (demo_attempt ''k'') (demo_record ''sig-a'' 5) (\<lambda>_. None)))
    = Inr ([demo_record ''sig-a'' 5], Fin 0, JNull)"
  using evidence_record_refines [of "\<lambda>_. []" "''e''" "\<lambda>_. None" "[]" "Fin 0" JNull
      "demo_attempt ''k''" "demo_record ''sig-a'' 5"]
  by (simp add: ledger_view_absent demo_attempt_def demo_record_def)

text \<open>
  C19. A heartbeat implements its specification.  With the lock free, no fault of the disk, an aware timestamp and a
  positive maximum gap: a timestamp before the last one is a \<open>ValueError\<close> that changes
  nothing; otherwise the last heartbeat becomes the timestamp, the records stay, and the runtime
  grows by the seconds elapsed exactly when these are within the gap: time without heartbeats is
  never counted.
\<close>

theorem evidence_heartbeat_refines:
  assumes "ledger_view rep path fs = Inr (rs, t, JStr (isoformat previous))"
    and "fs (write_lock_of path) = None" "write_fault A = None" "unlink_fault A = None"
    and "save_fault A = None"
    and "valid_datetime current" "aware current" "\<not> gap \<le> 0"
    and "valid_datetime previous" "seconds_between current previous = Inr elapsed"
  shows "(let (r, fs') = evidence_heartbeat rep path A now_utc (Some current) gap fs in
    fs' (write_lock_of path) = None \<and>
    (if elapsed < 0
     then (\<exists>msg. r = Inl (ValueError msg)) \<and> ledger_view rep path fs' = ledger_view rep path fs
     else r = Inr () \<and> ledger_view rep path fs' =
       Inr (rs, if elapsed \<le> gap then t + elapsed else t, JStr (isoformat current))))"
proof -
  let ?held = "lock_file (write_lock_of path) ''shadow-evidence-heartbeat'' A fs"
  have "ledger_view rep path ?held = Inr (rs, t, JStr (isoformat previous))" using assms(1) by simp
  from update_refines [OF refines_heartbeat [OF assms(6), of rep gap] this assms(5)] show ?thesis
    unfolding evidence_heartbeat_unlocked [of fs path A current gap, OF assms(2,3,4,7,8)]
    using assms(1,10) fromisoformat_isoformat [OF assms(9)]
    by (auto simp: spec_heartbeat_def Let_def split: if_splits)
qed

theorem evidence_heartbeat_refines_witness:
  "(let d = \<lparr> year = 2026, month = 7, day = 30, hour = 0, minute = 0, second = 0, microsecond = 0,
       utcoffset = Some 0 \<rparr>;
      fs = [''e'' \<mapsto> JsonFile (JDict [(''runtime_seconds'', JFloat (Fin 5)),
        (''last_heartbeat_at'', JStr (isoformat d)), (''records'', JList [])])];
      res = evidence_heartbeat (\<lambda>_. []) ''e'' (demo_attempt ''k'') d (Some (d\<lparr>second := 30\<rparr>)) (Fin 120) fs
    in ledger_view (\<lambda>_. []) ''e'' (snd res) = Inr ([], Fin 35, JStr (isoformat (d\<lparr>second := 30\<rparr>))))"
proof -
  define d where "d = \<lparr> year = 2026, month = 7, day = 30, hour = 0, minute = 0, second = 0,
    microsecond = 0, utcoffset = Some (0 :: int) \<rparr>"
  define fs where "fs = [''e'' \<mapsto> JsonFile (JDict [(''runtime_seconds'', JFloat (Fin 5)),
    (''last_heartbeat_at'', JStr (isoformat d)), (''records'', JList [])])]"
  have v: "valid_datetime d" "valid_datetime (d\<lparr>second := 30\<rparr>)"
    by (simp_all add: d_def valid_datetime_def days_in_month_def)
  have view: "ledger_view (\<lambda>_. []) ''e'' fs = Inr ([], Fin 5, JStr (isoformat d))"
    by (simp add: ledger_view_def load_payload_def fs_def read_json_def check_payload_def
        payload_view_def evidence_records_def fromisoformat_isoformat [OF v(1)])
  have e: "seconds_between (d\<lparr>second := 30\<rparr>) d = Inr (Fin 30)"
    by (simp add: seconds_between_def aware_def instant_def d_def ordinal_def int_truediv_def)
  have "fs (write_lock_of ''e'') = None"
    by (simp add: fs_def write_lock_of_def with_extra_suffix_def)
  with evidence_heartbeat_refines [OF view _ _ _ _ v(2) _ _ v(1) e, of "demo_attempt ''k''" "Fin 120" d]
  show ?thesis
    unfolding d_def [symmetric] Let_def fs_def [symmetric]
    by (simp add: demo_attempt_def d_def aware_def zero_pyfloat_def case_prod_beta)
qed

subsection \<open>Any series of operations, with faults\<close>

datatype evidence_op =
    RecordOp attempt ShadowEvidenceRecord
  | HeartbeatOp attempt datetime "datetime option" pyfloat

fun run_op :: "(json \<Rightarrow> string) \<Rightarrow> string \<Rightarrow> evidence_op \<Rightarrow> files \<Rightarrow> files" where
  "run_op rep path (RecordOp A r) fs = snd (evidence_record rep path A r fs)"
| "run_op rep path (HeartbeatOp A now_utc given gap) fs =
     snd (evidence_heartbeat rep path A now_utc given gap fs)"

text \<open>Whether removing the lock file fails in the call.\<close>

fun leaky_op :: "evidence_op \<Rightarrow> bool" where
  "leaky_op (RecordOp A r) = (unlink_fault A \<noteq> None)"
| "leaky_op (HeartbeatOp A now_utc given gap) = (unlink_fault A \<noteq> None)"

fun valid_op :: "evidence_op \<Rightarrow> bool" where
  "valid_op (RecordOp A r) = True"
| "valid_op (HeartbeatOp A now_utc given gap) =
     (valid_datetime now_utc \<and> (case given of None \<Rightarrow> True | Some d \<Rightarrow> valid_datetime d))"

definition sound_ledger :: "ledger \<Rightarrow> bool" where
  "sound_ledger = (\<lambda>(rs, t, l). distinct (map ev_signature rs) \<and> [] \<notin> ev_signature ` set rs \<and> 0 \<le> t)"

definition ledger_inv :: "(json \<Rightarrow> string) \<Rightarrow> string \<Rightarrow> files \<Rightarrow> bool" where
  "ledger_inv rep path fs \<longleftrightarrow> (\<exists>v. ledger_view rep path fs = Inr v \<and> sound_ledger v)"

lemma seconds_between_Fin: "seconds_between a b = Inr e \<Longrightarrow> \<exists>r. e = Fin r"
  by (cases e) (auto simp: seconds_between_def int_truediv_def split: if_splits pyfloat.splits)

lemma spec_record_sound:
  "sound_ledger v \<Longrightarrow> ev_signature r \<noteq> [] \<Longrightarrow> spec_record r v = Inr v' \<Longrightarrow> sound_ledger v'"
  by (auto simp: sound_ledger_def spec_record_def split: if_splits prod.splits)

lemma spec_heartbeat_sound:
  assumes "sound_ledger v" "spec_heartbeat rep current gap v = Inr v'"
  shows "sound_ledger v'"
proof -
  obtain rs t l where v: "v = (rs, t, l)" by (cases v)
  have t: "Fin 0 \<le> t" using assms(1) by (simp add: sound_ledger_def v zero_pyfloat_def)
  have "Fin 0 \<le> t + e" if "seconds_between current d = Inr e" "\<not> e < Fin 0" for d e
    using seconds_between_Fin [OF that(1)] that(2) t by (auto intro: fadd_nonneg)
  with assms t show ?thesis
    by (auto simp: sound_ledger_def spec_heartbeat_def v zero_pyfloat_def split: if_splits)
qed

lemma update_inv:
  assumes "refines_spec rep change spec"
    and "\<And>v v'. sound_ledger v \<Longrightarrow> spec v = Inr v' \<Longrightarrow> sound_ledger v'"
    and "ledger_inv rep path fs"
  shows "ledger_inv rep path (snd (update_payload rep A path change fs))"
  using assms update_keeps [OF assms(1), of path fs _ A] unfolding ledger_inv_def by blast

lemma section_inv:
  assumes "refines_spec rep change spec"
    and "\<And>v v'. sound_ledger v \<Longrightarrow> spec v = Inr v' \<Longrightarrow> sound_ledger v'"
    and "ledger_inv rep path fs"
  shows "ledger_inv rep path
    (snd (with_lock (write_lock_of path) cid A (update_payload rep A path change) fs))"
  using assms(3) spares_update
proof (rule attempt_section.section_invariant)
  fix fs assume "ledger_inv rep path fs"
  then show "ledger_inv rep path (snd (update_payload rep A path change fs))"
    using update_inv [of rep change spec path fs A] assms(1,2) by blast
qed (simp_all only: ledger_inv_def ledger_view_lock)

lemma run_op_inv:
  assumes "valid_op op" "ledger_inv rep path fs"
  shows "ledger_inv rep path (run_op rep path op fs)"
proof (cases op)
  case (RecordOp A r)
  then show ?thesis
    using assms(2) section_inv [OF refines_record [of rep r] spec_record_sound]
    by (auto simp: evidence_record_def)
next
  case (HeartbeatOp A now_utc given gap)
  let ?cur = "case given of None \<Rightarrow> now_utc | Some d \<Rightarrow> d"
  have "valid_datetime ?cur" using assms(1) HeartbeatOp by (auto split: option.splits)
  then show ?thesis
    using assms(2) section_inv [OF refines_heartbeat spec_heartbeat_sound, of ?cur]
    by (simp add: HeartbeatOp evidence_heartbeat_def Let_def)
qed

lemma run_op_free:
  assumes "\<not> leaky_op op" "fs (write_lock_of path) = None"
  shows "run_op rep path op fs (write_lock_of path) = None"
proof (cases op)
  case (RecordOp A r)
  then show ?thesis
    using assms attempt_section.section_keeps_free [OF _ _ spares_update, of A fs path]
    by (simp add: evidence_record_def)
next
  case (HeartbeatOp A now_utc given gap)
  then show ?thesis
    using assms attempt_section.section_keeps_free [OF _ _ spares_update, of A fs path]
    by (simp add: evidence_heartbeat_def Let_def)
qed

text \<open>
  C2. Invariant of the evidence ledger.  Starting from no ledger file, after any series of
  \<open>record\<close> and \<open>heartbeat\<close> calls, where any call may fail to write its lock file, to remove it,
  or be cut short by an operating-system error in the middle of a save: the ledger is readable, no
  signature occurs twice in it, none is empty, the runtime is not negative, and the write lock
  is free unless some call failed to remove it.
\<close>

theorem ledger_invariant:
  assumes "list_all valid_op ops" "fs path = None" "fs (write_lock_of path) = None"
  shows "(fold (run_op rep path) ops fs (write_lock_of path) = None \<or> list_ex leaky_op ops) \<and>
    (\<exists>rs t l. ledger_view rep path (fold (run_op rep path) ops fs) = Inr (rs, t, l) \<and>
      distinct (map ev_signature rs) \<and> [] \<notin> ev_signature ` set rs \<and> 0 \<le> t)"
proof
  have "\<not> list_ex leaky_op ops \<Longrightarrow> fold (run_op rep path) ops fs (write_lock_of path) = None"
    using assms(3) by (induction ops arbitrary: fs) (simp_all add: run_op_free)
  then show "fold (run_op rep path) ops fs (write_lock_of path) = None \<or> list_ex leaky_op ops" by blast
  have "ledger_inv rep path fs"
    by (simp add: ledger_inv_def ledger_view_absent [of fs path] assms(2) sound_ledger_def zero_pyfloat_def)
  with assms(1) have "ledger_inv rep path (fold (run_op rep path) ops fs)"
    by (induction ops arbitrary: fs) (simp_all add: run_op_inv)
  then show "\<exists>rs t l. ledger_view rep path (fold (run_op rep path) ops fs) = Inr (rs, t, l) \<and>
      distinct (map ev_signature rs) \<and> [] \<notin> ev_signature ` set rs \<and> 0 \<le> t"
    by (auto simp: ledger_inv_def sound_ledger_def)
qed

theorem ledger_invariant_witness:
  "\<exists>rs t l. ledger_view (\<lambda>_. []) ''e'' (fold (run_op (\<lambda>_. []) ''e'')
      [RecordOp (demo_attempt ''a'') (demo_record ''s'' 5),
       RecordOp ((demo_attempt ''b'')\<lparr>save_fault := Some (1, OSError [])\<rparr>) (demo_record ''t'' 5),
       RecordOp (demo_attempt ''c'') (demo_record ''s'' 6)] (\<lambda>_. None)) = Inr (rs, t, l) \<and>
     distinct (map ev_signature rs)"
  using ledger_invariant [of "[RecordOp (demo_attempt ''a'') (demo_record ''s'' 5),
       RecordOp ((demo_attempt ''b'')\<lparr>save_fault := Some (1, OSError [])\<rparr>) (demo_record ''t'' 5),
       RecordOp (demo_attempt ''c'') (demo_record ''s'' 6)]" "\<lambda>_. None" "''e''" "\<lambda>_. []"]
  by auto

subsection \<open>Crashes\<close>

text \<open>
  C20. A crash in the middle of recording.  If the process dies after any number of steps of the
  save inside \<open>record\<close>, the ledger still reads as it was before or with the whole new record,
  never torn; and because the dead process still holds the write lock, every later
  \<open>record\<close> is refused with \<open>ActiveAttemptError\<close> until the lock file is removed by hand.
\<close>

theorem evidence_record_crash:
  assumes "load_payload rep path fs = Inr p" "payload_view rep p = Inr (rs, t, l)"
    and "append_record rep r p = Inr p'"
  shows "let crashed = run_steps (take k (replace_steps path p'))
        (lock_file (write_lock_of path) ''shadow-evidence-write'' A fs) in
    ledger_view rep path crashed \<in> {Inr (rs, t, l), Inr (rs @ [r], t, l)} \<and>
    (ev_signature r' \<noteq> [] \<longrightarrow> evidence_record rep path A' r' crashed
      = (Inl (ActiveAttemptError ''active attempt lock exists''), crashed))"
proof -
  let ?held = "lock_file (write_lock_of path) ''shadow-evidence-write'' A fs"
  let ?crashed = "run_steps (take k (replace_steps path p')) ?held"
  have held: "load_payload rep path ?held = Inr p"
    using assms(1) load_payload_cong [of ?held path fs] by (simp add: lock_file_def)
  from append_record_view [OF assms(2) load_payload_checked [OF assms(1)], of r] assms(3)
  have p': "check_payload rep p' = Inr ()" "payload_view rep p' = Inr (rs @ [r], t, l)"
    by (auto simp: spec_record_def split: if_splits)
  have "ledger_view rep path ?crashed \<in> {Inr (rs, t, l), Inr (rs @ [r], t, l)}"
    using evidence_file.crash_old_or_new [of rep p' path k ?held] p' held assms(2)
    by (auto simp: ledger_view_def)
  moreover have "?crashed (write_lock_of path) \<noteq> None"
    by (cases "k < length (replace_steps path p')")
      (simp_all add: replace_partial replace_complete lock_file_def)
  ultimately show ?thesis
    by (simp add: Let_def evidence_record_def with_lock_busy)
qed

theorem evidence_record_crash_witness:
  "\<exists>p'. append_record (\<lambda>_. []) (demo_record ''s'' 5) empty_payload = Inr p' \<and>
     ledger_view (\<lambda>_. []) ''e'' (run_steps (take 2 (replace_steps ''e'' p'))
        (lock_file (write_lock_of ''e'') ''shadow-evidence-write'' (demo_attempt ''k'') (\<lambda>_. None)))
      \<in> {Inr ([], Fin 0, JNull), Inr ([demo_record ''s'' 5], Fin 0, JNull)}"
proof -
  have load: "load_payload (\<lambda>_. []) ''e'' (\<lambda>_. None) = Inr empty_payload"
    by (simp add: load_payload_def)
  have view: "payload_view (\<lambda>_. []) empty_payload = Inr ([], Fin 0, JNull)"
    by (simp add: payload_view_def empty_payload_def evidence_records_def zero_pyfloat_def)
  obtain p' where p': "append_record (\<lambda>_. []) (demo_record ''s'' 5) empty_payload = Inr p'"
    by (simp add: append_record_def empty_payload_def evidence_records_def)
  from evidence_record_crash [OF load view p', of 2 "demo_attempt ''k''" "demo_record ''s'' 5"] p'
  show ?thesis by (auto simp: Let_def)
qed

subsection \<open>The summary and the promotion gate\<close>

lemma earliest_le: "\<forall>x \<in> set (d # ds). instant (earliest d ds) \<le> instant x"
proof (induction ds arbitrary: d)
  case (Cons y ys)
  show ?case using Cons.IH [of "if instant y < instant d then y else d"] by auto
qed simp

lemma started_at_Inr:
  assumes "started_at rs = Inr s"
  shows "(s = None \<longleftrightarrow> rs = []) \<and>
    (\<forall>r \<in> set rs. \<exists>d first. fromisoformat (ev_observed_at r) = Inr d \<and> aware d \<and>
       s = Some (isoformat first) \<and> instant first \<le> instant d)"
proof -
  obtain ts where ts: "list_all2 (\<lambda>r d. fromisoformat (ev_observed_at r) = Inr d) rs ts"
    "\<not> list_ex (\<lambda>d. \<not> aware d) ts"
    "s = (case ts of [] \<Rightarrow> None | d # ds \<Rightarrow> Some (isoformat (earliest d ds)))"
    using assms by (auto simp: started_at_def mapR_Inr_iff split: if_splits)
  show ?thesis
  proof (cases ts)
    case Nil
    then show ?thesis using ts by auto
  next
    case (Cons d ds)
    have "\<exists>x. fromisoformat (ev_observed_at r) = Inr x \<and> aware x \<and> instant (earliest d ds) \<le> instant x"
      if r: "r \<in> set rs" for r
    proof -
      obtain x where "x \<in> set ts" "fromisoformat (ev_observed_at r) = Inr x"
        using list_all2_in1 [OF ts(1) r] by blast
      then show ?thesis using ts(2) earliest_le [of d ds] Cons by (auto simp: list_ex_iff)
    qed
    moreover have "rs \<noteq> []" using ts(1) Cons by auto
    ultimately show ?thesis using ts(3) Cons by auto
  qed
qed

lemma sum_list_succeeded:
  "sum_list (map (\<lambda>r. if P r then 1 else (0 :: int)) rs) = int (length (filter P rs))"
  by (induction rs) auto

text \<open>
  C22. The summary tells what the ledger holds.  The counts and the wallet net are those of its
  records, the start is the earliest of their times, and the campaign is ready for promotion
  exactly when the runtime in hours, rounded to six digits, and the number of records reach their
  minima and the net over all records is positive; losing records count against it.
\<close>

theorem evidence_summary_correct:
  assumes "ledger_view rep path fs = Inr (rs, t, l)" "evidence_summary rep path fs = Inr s"
  shows "sum_candidate_count s = int (length rs) \<and>
    sum_succeeded_count s = int (length (filter ev_simulation_succeeded rs)) \<and>
    (sum_started_at s = None \<longleftrightarrow> rs = []) \<and>
    (\<forall>r \<in> set rs. \<exists>d first. fromisoformat (ev_observed_at r) = Inr d \<and> aware d \<and>
       sum_started_at s = Some (isoformat first) \<and> instant first \<le> instant d) \<and>
    (ready s hours n \<longleftrightarrow> hours \<le> py_round (fdiv t (Fin 3600)) 6 \<and> n \<le> int (length rs) \<and>
       0 < (\<Sum>r\<leftarrow>rs. ev_wallet_net_lamports r))"
proof -
  obtain p where p: "load_payload rep path fs = Inr p" "payload_view rep p = Inr (rs, t, l)"
    using assms(1) by (rule ledger_view_load)
  have rs: "evidence_records rep p = Inr rs" "bindR (dict_item p ''runtime_seconds'') py_float = Inr t"
    using p(2) by (auto simp: payload_view_def)
  obtain start where start: "started_at rs = Inr start"
    "s = \<lparr> sum_started_at = start, sum_runtime_hours = py_round (fdiv t (Fin 3600)) 6,
       sum_candidate_count = int (length rs),
       sum_succeeded_count = sum_list (map (\<lambda>r. if ev_simulation_succeeded r then 1 else 0) rs),
       sum_wallet_net_lamports = sum_list (map ev_wallet_net_lamports rs) \<rparr>"
    using assms(2) by (auto simp: evidence_summary_def p(1) rs)
  show ?thesis
    using started_at_Inr [OF start(1)] by (simp add: start(2) ready_def sum_list_succeeded)
qed

theorem evidence_summary_correct_witness:
  "\<exists>s. evidence_summary (\<lambda>_. []) ''e'' (\<lambda>_. None) = Inr s \<and> \<not> ready s (Fin 72) 100"
proof -
  obtain s where s: "evidence_summary (\<lambda>_. []) ''e'' (\<lambda>_. None) = Inr s"
    by (simp add: evidence_summary_def load_payload_def empty_payload_def evidence_records_def
        started_at_def)
  have "\<not> ready s (Fin 72) 100"
    using evidence_summary_correct [OF ledger_view_absent s, of "Fin 72" 100] by simp
  with s show ?thesis by blast
qed

end
