(* ===== verification/Environment.thy ===== *)
theory Environment
  imports PyValue
begin

text \<open>
  What the program's Python code reaches outside itself, as the fields of one record: the RPC
  node behind \<open>SolanaRpc\<close>, the HTTP services, the Node scripts it starts, the clock,
  the text Python prints for values that are not strings, and the order in which Python iterates a
  set (\<open>set_order\<close>).  Their behaviour is a parameter of the
  model: every definition that uses them takes an \<open>env\<close>.
\<close>

text \<open>
  A finished child process (\<open>subprocess.CompletedProcess\<close>); \<open>stdout_json\<close> is what
  \<open>json.loads\<close> makes of its standard output.
\<close>

record CompletedProcess =
  returncode :: int
  stdout :: string
  stderr :: string
  stdout_json :: "json res"

record 'w env =
  rep :: "json \<Rightarrow> string"
  rpc_post :: "json \<Rightarrow> ('w, json) io"
  http_get :: "string \<Rightarrow> (string \<times> json) list \<Rightarrow> ('w, json) io"
  run_script :: "string \<Rightarrow> json \<Rightarrow> ('w, CompletedProcess) io"
  clock :: "'w \<Rightarrow> pyfloat \<times> 'w"
  fresh_uuid :: "'w \<Rightarrow> string \<times> 'w"
  sleep_for :: "pyfloat \<Rightarrow> 'w \<Rightarrow> 'w"
  set_order :: "string set \<Rightarrow> string list"

text \<open>
  What the program asks of its disk; each request may raise.  An append is opening the file, writing
  the line and syncing it.
\<close>

datatype disk_op = Make_dir | Exists | Stat | Touch | Unlink | Append | Open_write | Write_text | Read_text

type_synonym 'w disk = "disk_op \<Rightarrow> ('w, unit) io"

definition disk_fails :: "'w disk \<Rightarrow> disk_op \<Rightarrow> bool" where
  "disk_fails D op \<longleftrightarrow> (\<exists>w e w'. D op w = (Inl e, w'))"

definition now :: "'w env \<Rightarrow> ('w, pyfloat) io" where
  "now E w = (let (t, w') = clock E w in (Inr t, w'))"

definition uuid4 :: "'w env \<Rightarrow> ('w, string) io" where
  "uuid4 E w = (let (u, w') = fresh_uuid E w in (Inr u, w'))"

definition sleep :: "'w env \<Rightarrow> pyfloat \<Rightarrow> ('w, unit) io" where
  "sleep E t w = (Inr (), sleep_for E t w)"

text \<open>
  An environment whose services all fail: the neutral choice for the fields a witness does not
  use.
\<close>

definition dead_env :: "'w env" where
  "dead_env = \<lparr>
     rep = (\<lambda>_. []),
     rpc_post = (\<lambda>_. raiseIO (RequestException ''unreachable'')),
     http_get = (\<lambda>_ _. raiseIO (RequestException ''unreachable'')),
     run_script = (\<lambda>_ _. raiseIO (OSError ''no such program'')),
     clock = (\<lambda>w. (Fin 0, w)),
     fresh_uuid = (\<lambda>w. (''id'', w)),
     sleep_for = (\<lambda>_ w. w),
     set_order = (\<lambda>_. []) \<rparr>"

lemma now_Inr [simp]: "fst (now E w) = Inr (fst (clock E w))"
  by (simp add: now_def split: prod.split)

end
