(* ===== verification/Providers.thy ===== *)
theory Providers
  imports Environment
begin

text \<open>
  \<open>backrunner/providers.py\<close>: the GMGN ranking client and the read-only Solana RPC client.
  Requests are the JSON the code builds; responses are whatever the environment answers, taken
  apart with the accesses and conversions of the code, so a malformed answer is an exception here
  too.
\<close>

definition WSOL :: string where
  "WSOL = ''So11111111111111111111111111111111111111112''"

section \<open>Simulation results\<close>

record SimulationResult =
  context_slot :: int
  error :: json
  logs :: "string list"
  units_consumed :: int
  fee_lamports :: int
  account_lamports :: "int option list"

definition succeeded :: "SimulationResult \<Rightarrow> bool" where
  "succeeded r \<longleftrightarrow> error r = JNull"

section \<open>GMGN\<close>

text \<open>The error text of a GMGN response: its message, or else its reason.\<close>

definition gmgn_detail :: "(json \<Rightarrow> string) \<Rightarrow> json \<Rightarrow> string res" where
  "gmgn_detail rp payload =
     bindR (dict_get payload ''message'' JNull) (\<lambda>m.
     bindR (dict_get payload ''reason'' JNull) (\<lambda>r.
     ret (py_str rp (py_or m r))))"

definition raise_gmgn :: "(json \<Rightarrow> string) \<Rightarrow> string \<Rightarrow> json \<Rightarrow> 'a res" where
  "raise_gmgn rp prefix payload =
     bindR (gmgn_detail rp payload) (\<lambda>d. raise (ValueError (prefix @ d)))"

text \<open>
  The set comprehension over the rows, as the list of addresses in row order (the caller only
  tests membership and takes the union).
\<close>

definition parse_trending_mints :: "(json \<Rightarrow> string) \<Rightarrow> json \<Rightarrow> string set res" where
  "parse_trending_mints rp payload =
     bindR (bindR (dict_get payload ''code'' (JInt (-1))) py_int) (\<lambda>code.
     if code \<noteq> 0 then raise_gmgn rp ''GMGN rank error: '' payload
     else
       bindR (dict_get payload ''data'' (JDict [])) (\<lambda>inner0.
       bindR (if is_dict inner0 then
                bindR (py_in ''code'' inner0) (\<lambda>c.
                bindR (py_in ''data'' inner0) (\<lambda>d.
                  if c \<and> d then dict_item inner0 ''data'' else ret inner0))
              else ret inner0) (\<lambda>inner.
       bindR (bindR (dict_get inner ''rank'' (JList [])) py_iter) (\<lambda>rows.
       bindR (mapR (\<lambda>row. bindR (dict_get row ''address'' JNull) (\<lambda>a.
                if truthy a then bindR (dict_item row ''address'') (\<lambda>v. ret [py_str rp v])
                else ret [])) rows) (\<lambda>addrs.
       ret (set (concat addrs)))))))"

definition parse_sol_price :: "(json \<Rightarrow> string) \<Rightarrow> json \<Rightarrow> pyfloat res" where
  "parse_sol_price rp payload =
     bindR (dict_get payload ''data'' payload) (\<lambda>token.
     bindR (py_in ''price'' token) (\<lambda>has.
     if \<not> has then raise_gmgn rp ''GMGN token error: '' payload
     else
       bindR (dict_item token ''price'') (\<lambda>p.
       bindR (bindR (dict_item p ''price'') py_float) (\<lambda>value.
       if value \<le> Fin 0 then raise (ValueError ''SOL price must be positive'')
       else ret value))))"

record GmgnProvider =
  api_key :: "string option"
  fallback_sol_price_usd :: pyfloat

definition new_GmgnProvider :: "string option \<Rightarrow> pyfloat \<Rightarrow> GmgnProvider res" where
  "new_GmgnProvider key price =
     (if price \<le> Fin 0 then raise (ValueError ''fallback SOL price must be positive'')
      else ret \<lparr>api_key = key, fallback_sol_price_usd = price\<rparr>)"

definition gmgn_get ::
  "'w env \<Rightarrow> string \<Rightarrow> (string \<times> json) list \<Rightarrow> ('w, json) io" where
  "gmgn_get E url params =
     bindIO (http_get E url params) (\<lambda>payload.
     liftR (if \<not> is_dict payload then raise (TypeError ''GMGN returned a non-object response'')
       else bindR (bindR (dict_get payload ''code'' (JInt (-1))) py_int) (\<lambda>code.
         if code \<noteq> 0 then raise_gmgn (rep E) ''GMGN API error: '' payload
         else ret payload)))"

definition intervals :: "string list" where
  "intervals = [''5m'', ''1h'', ''6h'', ''24h'']"

definition public_rank_url :: "string \<Rightarrow> string" where
  "public_rank_url interval = ''https://gmgn.ai/defi/quotation/v1/rank/sol/swaps/'' @ interval"

text \<open>
  One interval of \<open>trending_mints\<close>: without an API key a failed request is skipped
  (\<open>except requests.RequestException: continue\<close>), with one it propagates.
\<close>

definition trending_interval ::
  "'w env \<Rightarrow> GmgnProvider \<Rightarrow> string \<Rightarrow> string set \<Rightarrow> ('w, string set) io" where
  "trending_interval E g interval mints =
     bindIO
       (case api_key g of
          None \<Rightarrow>
            catchIO (bindIO (gmgn_get E (public_rank_url interval)
                [(''orderby'', JStr ''volume''), (''direction'', JStr ''desc''),
                 (''limit'', JInt 100)]) (\<lambda>p. retIO (Some p)))
              (\<lambda>e. case e of RequestException m \<Rightarrow> retIO None | _ \<Rightarrow> raiseIO e)
        | Some key \<Rightarrow>
            bindIO (now E) (\<lambda>t. bindIO (liftR (int_of_float t)) (\<lambda>ts.
            bindIO (uuid4 E) (\<lambda>client.
            bindIO (gmgn_get E ''https://openapi.gmgn.ai/v1/market/rank''
                [(''chain'', JStr ''sol''), (''interval'', JStr interval),
                 (''order_by'', JStr ''volume''), (''direction'', JStr ''desc''),
                 (''limit'', JInt 100), (''timestamp'', JInt ts), (''client_id'', JStr client)])
              (\<lambda>p. retIO (Some p))))))
       (\<lambda>payload. case payload of
          None \<Rightarrow> retIO mints
        | Some p \<Rightarrow> bindIO (liftR (parse_trending_mints (rep E) p)) (\<lambda>new. retIO (mints \<union> new)))"

fun trending_intervals ::
  "'w env \<Rightarrow> GmgnProvider \<Rightarrow> string list \<Rightarrow> string set \<Rightarrow> ('w, string set) io" where
  "trending_intervals E g [] mints = retIO mints"
| "trending_intervals E g (i # is) mints =
     bindIO (trending_interval E g i mints) (trending_intervals E g is)"

definition trending_mints :: "'w env \<Rightarrow> GmgnProvider \<Rightarrow> ('w, string set) io" where
  "trending_mints E g = trending_intervals E g intervals {}"

definition sol_price_usd :: "'w env \<Rightarrow> GmgnProvider \<Rightarrow> ('w, pyfloat) io" where
  "sol_price_usd E g =
     (case api_key g of
        None \<Rightarrow> retIO (fallback_sol_price_usd g)
      | Some key \<Rightarrow>
          bindIO (now E) (\<lambda>t. bindIO (liftR (int_of_float t)) (\<lambda>ts.
          bindIO (uuid4 E) (\<lambda>client.
          bindIO (gmgn_get E ''https://openapi.gmgn.ai/v1/token/info''
            [(''chain'', JStr ''sol''), (''address'', JStr WSOL), (''timestamp'', JInt ts),
             (''client_id'', JStr client)]) (\<lambda>p.
          liftR (parse_sol_price (rep E) p))))))"

section \<open>Solana RPC\<close>

definition rpc_request :: "string \<Rightarrow> json list \<Rightarrow> json" where
  "rpc_request method params =
     JDict [(''jsonrpc'', JStr ''2.0''), (''id'', JInt 1), (''method'', JStr method),
            (''params'', JList params)]"

text \<open>\<open>SolanaRpc.call\<close>; the transport's own failures are exceptions of \<open>rpc_post\<close>.\<close>

definition rpc_call :: "'w env \<Rightarrow> string \<Rightarrow> json list \<Rightarrow> ('w, json) io" where
  "rpc_call E method params =
     bindIO (rpc_post E (rpc_request method params)) (\<lambda>payload.
     liftR (bindR (dict_get payload ''error'' JNull) (\<lambda>err.
       if truthy err
       then raise (RuntimeError (''RPC '' @ method @ '' failed: '' @ py_str (rep E) err))
       else dict_get payload ''result'' JNull)))"

definition latest_slot :: "'w env \<Rightarrow> string \<Rightarrow> ('w, int) io" where
  "latest_slot E commitment =
     bindIO (rpc_call E ''getSlot'' [JDict [(''commitment'', JStr commitment)]]) (\<lambda>v.
     liftR (py_int v))"

definition balance :: "'w env \<Rightarrow> string \<Rightarrow> int option \<Rightarrow> ('w, int) io" where
  "balance E address min_context_slot =
     bindIO (rpc_call E ''getBalance''
       [JStr address,
        JDict ((''commitment'', JStr ''confirmed'') #
          (case min_context_slot of None \<Rightarrow> [] | Some n \<Rightarrow> [(''minContextSlot'', JInt n)]))]) (\<lambda>result.
     liftR (bindR (dict_item result ''value'') py_int))"

definition account_info :: "'w env \<Rightarrow> string \<Rightarrow> ('w, json option) io" where
  "account_info E address =
     bindIO (rpc_call E ''getAccountInfo''
       [JStr address,
        JDict [(''commitment'', JStr ''confirmed''), (''encoding'', JStr ''base64'')]]) (\<lambda>result.
     liftR (bindR (if is_dict result then dict_get result ''value'' JNull else ret JNull) (\<lambda>value.
       ret (if is_dict value then Some value else None))))"

text \<open>\<open>SolanaRpc.transaction\<close>; one caller passes a signature as a block holds it.\<close>

definition transaction_json :: "'w env \<Rightarrow> json \<Rightarrow> string \<Rightarrow> ('w, json option) io" where
  "transaction_json E signature commitment =
     bindIO (rpc_call E ''getTransaction''
       [signature,
        JDict [(''encoding'', JStr ''json''), (''commitment'', JStr commitment),
               (''maxSupportedTransactionVersion'', JInt 0)]]) (\<lambda>result.
     retIO (if is_dict result then Some result else None))"

definition transaction :: "'w env \<Rightarrow> string \<Rightarrow> string \<Rightarrow> ('w, json option) io" where
  "transaction E signature commitment = transaction_json E (JStr signature) commitment"

definition block_accounts :: "'w env \<Rightarrow> string \<Rightarrow> int \<Rightarrow> ('w, json) io" where
  "block_accounts E commitment slot =
     bindIO (rpc_call E ''getBlock''
       [JInt slot,
        JDict [(''commitment'', JStr commitment), (''transactionDetails'', JStr ''accounts''),
               (''rewards'', JBool False), (''maxSupportedTransactionVersion'', JInt 0)]]) (\<lambda>result.
     if result = JNull then raiseIO (RuntimeError (''block '' @ str_of_int slot @ '' is unavailable''))
     else retIO result)"

definition simulate_config :: "int option \<Rightarrow> bool \<Rightarrow> string list \<Rightarrow> json" where
  "simulate_config min_context_slot replace_recent_blockhash return_accounts =
     JDict ([(''encoding'', JStr ''base64''), (''commitment'', JStr ''confirmed''),
             (''replaceRecentBlockhash'', JBool replace_recent_blockhash),
             (''sigVerify'', JBool False), (''innerInstructions'', JBool True)]
       @ (case min_context_slot of None \<Rightarrow> [] | Some n \<Rightarrow> [(''minContextSlot'', JInt n)])
       @ (if return_accounts = [] then []
          else [(''accounts'', JDict [(''addresses'', JList (map JStr return_accounts)),
                                      (''encoding'', JStr ''base64'')])]))"

text \<open>The lamports of the accounts the simulation was asked to return.\<close>

definition simulated_lamports :: "json \<Rightarrow> string list \<Rightarrow> int option list res" where
  "simulated_lamports val return_accounts =
     (if return_accounts = [] then ret []
      else bindR (dict_get val ''accounts'' JNull) (\<lambda>raw.
        case raw of
          JList accounts \<Rightarrow>
            if length accounts \<noteq> length return_accounts
            then raise (RuntimeError ''simulation did not return every requested account'')
            else mapR (\<lambda>account.
                   if account = JNull then ret None
                   else bindR (bindR (dict_item account ''lamports'') py_int) (\<lambda>n. ret (Some n)))
                 accounts
        | _ \<Rightarrow> raise (RuntimeError ''simulation did not return every requested account'')))"

definition parse_simulation ::
  "(json \<Rightarrow> string) \<Rightarrow> json \<Rightarrow> string list \<Rightarrow> SimulationResult res" where
  "parse_simulation rp result return_accounts =
     bindR (dict_item result ''value'') (\<lambda>val.
     bindR (simulated_lamports val return_accounts) (\<lambda>lamports.
     bindR (bindR (bindR (dict_item result ''context'') (\<lambda>c. dict_item c ''slot'')) py_int) (\<lambda>slot.
     bindR (dict_get val ''err'' JNull) (\<lambda>err.
     bindR (bindR (dict_get val ''logs'' JNull) (\<lambda>l. py_iter (py_or l (JList [])))) (\<lambda>lines.
     bindR (bindR (dict_get val ''unitsConsumed'' JNull) (\<lambda>u. py_int (py_or u (JInt 0)))) (\<lambda>units.
     bindR (bindR (dict_get val ''fee'' JNull) (\<lambda>f. py_int (py_or f (JInt 0)))) (\<lambda>fee.
     ret \<lparr> context_slot = slot, error = err, logs = map (py_str rp) lines,
           units_consumed = units, fee_lamports = fee, account_lamports = lamports \<rparr>)))))))"

definition simulate_transaction ::
  "'w env \<Rightarrow> string \<Rightarrow> int option \<Rightarrow> bool \<Rightarrow> string list \<Rightarrow> ('w, SimulationResult) io" where
  "simulate_transaction E transaction_base64 min_context_slot replace_recent_blockhash
     return_accounts =
     bindIO (rpc_call E ''simulateTransaction''
       [JStr transaction_base64,
        simulate_config min_context_slot replace_recent_blockhash return_accounts]) (\<lambda>result.
     liftR (parse_simulation (rep E) result return_accounts))"

section \<open>Lemmas\<close>

lemma rpc_call_Inr:
  "rpc_call E m ps w = (Inr v, w') \<Longrightarrow>
   \<exists>d. rpc_post E (rpc_request m ps) w = (Inr (JDict d), w') \<and>
       v = (case map_of d ''result'' of None \<Rightarrow> JNull | Some y \<Rightarrow> y)"
  unfolding rpc_call_def
  by (auto simp: dict_get_Inr_iff bindR_eq_Inr split: if_splits)

lemma simulated_lamports_length:
  "simulated_lamports v accs = Inr ls \<Longrightarrow> length ls = length accs"
proof (cases "accs = []")
  case False
  assume ls: "simulated_lamports v accs = Inr ls"
  with False obtain raw where raw: "dict_get v ''accounts'' JNull = Inr raw"
    unfolding simulated_lamports_def by auto
  show ?thesis
    using ls False raw
    by (cases raw) (auto simp: simulated_lamports_def split: if_splits dest!: mapR_length)
qed (simp add: simulated_lamports_def)

lemma parse_simulation_accounts:
  "parse_simulation rp v accs = Inr r \<Longrightarrow> length (account_lamports r) = length accs"
  unfolding parse_simulation_def by (auto dest!: simulated_lamports_length)

lemma simulate_transaction_accounts:
  "simulate_transaction E tx ms rb accs w = (Inr r, w') \<Longrightarrow>
   length (account_lamports r) = length accs"
  unfolding simulate_transaction_def
  by (auto dest!: parse_simulation_accounts)

end
