(* ===== verification/Pools.thy ===== *)
theory Pools
  imports Providers "HOL-Library.Word"
begin

text \<open>
  \<open>backrunner/pools.py\<close>: which direct Pump/Meteora routes exist for a mint.  Addresses are
  derived by the library \<open>solders\<close>, which is a parameter: \<open>pk_parse\<close> is
  \<open>Pubkey.from_string\<close>, \<open>find_pda\<close> the address part of \<open>find_program_address\<close>,
  \<open>pk_show\<close> is \<open>str\<close>.
\<close>

type_synonym bytes = "8 word list"

record solders =
  pk_parse :: "string \<Rightarrow> bytes res"
  find_pda :: "bytes list \<Rightarrow> bytes \<Rightarrow> bytes"
  pk_show :: "bytes \<Rightarrow> string"

definition bytes_of :: "string \<Rightarrow> bytes" where
  "bytes_of s = map (\<lambda>c. of_char c) s"

definition LEGACY_TOKEN_PROGRAM :: string where
  "LEGACY_TOKEN_PROGRAM = ''TokenkegQfeZyiNwAJbNbGKPFXCWuBvf9Ss623VQ5DA''"

definition TOKEN_2022_PROGRAM :: string where
  "TOKEN_2022_PROGRAM = ''TokenzQdBNbLqP5VEhdkAS6EPFLC1PHnBqCXEpPxuEb''"

definition PUMP_PROGRAM :: string where
  "PUMP_PROGRAM = ''6EF8rrecthR5Dkzon8Nwu78hRvfCKubJ14M5uBEwF6P''"

definition PUMP_AMM_PROGRAM :: string where
  "PUMP_AMM_PROGRAM = ''pAMMBay6oceH9fJKBRHGP5D4bD4sWpmSwMn52FMfXEA''"

record MeteoraPool =
  mp_address :: string
  mp_token_x :: string
  mp_token_y :: string
  mp_tvl_usd :: pyfloat
  mp_volume_24h_usd :: pyfloat
  mp_blacklisted :: bool

record DirectPoolRoute =
  route_mint :: string
  route_pump_pool :: string
  route_meteora_pool :: string
  route_meteora_tvl_usd :: pyfloat
  route_meteora_volume_24h_usd :: pyfloat

definition canonical_pump_pool :: "solders \<Rightarrow> string \<Rightarrow> string res" where
  "canonical_pump_pool S mint =
     bindR (pk_parse S PUMP_PROGRAM) (\<lambda>pump_program.
     bindR (pk_parse S PUMP_AMM_PROGRAM) (\<lambda>pump_amm.
     bindR (pk_parse S mint) (\<lambda>mint_key.
     bindR (pk_parse S WSOL) (\<lambda>quote_key.
     let authority = find_pda S [bytes_of ''pool-authority'', mint_key] pump_program;
         pool = find_pda S [bytes_of ''pool'', [0, 0], authority, mint_key, quote_key] pump_amm
     in ret (pk_show S pool)))))"

section \<open>Meteora pools\<close>

definition METEORA_URL :: string where
  "METEORA_URL = ''https://dlmm.datapi.meteora.ag/pools''"

text \<open>\<open>str((row.get(k) or {}).get("address") or "")\<close>.\<close>

definition token_address :: "(json \<Rightarrow> string) \<Rightarrow> json \<Rightarrow> string \<Rightarrow> string res" where
  "token_address rp row k =
     bindR (dict_get row k JNull) (\<lambda>t.
     bindR (dict_get (py_or t (JDict [])) ''address'' JNull) (\<lambda>a.
     ret (py_str rp (py_or a (JStr [])))))"

definition parse_pool_row :: "(json \<Rightarrow> string) \<Rightarrow> string \<Rightarrow> json \<Rightarrow> MeteoraPool list res" where
  "parse_pool_row rp mint row =
     bindR (token_address rp row ''token_x'') (\<lambda>token_x.
     bindR (token_address rp row ''token_y'') (\<lambda>token_y.
     if {token_x, token_y} \<noteq> {mint, WSOL} then ret []
     else
       bindR (dict_item row ''address'') (\<lambda>address.
       bindR (bindR (dict_get row ''tvl'' JNull) (\<lambda>v. py_float (py_or v (JInt 0)))) (\<lambda>tvl.
       bindR (bindR (dict_get row ''volume'' JNull) (\<lambda>v. dict_get (py_or v (JDict [])) ''24h'' JNull)) (\<lambda>day.
       bindR (py_float (py_or day (JInt 0))) (\<lambda>volume.
       bindR (dict_get row ''is_blacklisted'' (JBool False)) (\<lambda>blacklisted.
       ret [\<lparr> mp_address = py_str rp address, mp_token_x = token_x, mp_token_y = token_y,
              mp_tvl_usd = tvl, mp_volume_24h_usd = volume,
              mp_blacklisted = truthy blacklisted \<rparr>])))))))"

definition parse_pools :: "(json \<Rightarrow> string) \<Rightarrow> string \<Rightarrow> json \<Rightarrow> MeteoraPool list res" where
  "parse_pools rp mint payload =
     bindR (if is_dict payload then dict_get payload ''data'' JNull else ret JNull) (\<lambda>rows.
     case rows of
       JList rs \<Rightarrow> concatR (parse_pool_row rp mint) rs
     | _ \<Rightarrow> raise (TypeError ''Meteora pools response does not contain a data list''))"

definition pools_for_mint :: "'w env \<Rightarrow> string \<Rightarrow> ('w, MeteoraPool list) io" where
  "pools_for_mint E mint =
     bindIO (http_get E METEORA_URL
       [(''page'', JInt 1), (''page_size'', JInt 100), (''query'', JStr mint),
        (''sort_by'', JStr ''tvl:desc''), (''filter_by'', JStr ''is_blacklisted=false'')]) (\<lambda>payload.
     liftR (parse_pools (rep E) mint payload))"

section \<open>Direct routes\<close>

definition direct_route :: "string \<Rightarrow> string \<Rightarrow> MeteoraPool \<Rightarrow> DirectPoolRoute" where
  "direct_route mint pump_pool pool =
     \<lparr> route_mint = mint, route_pump_pool = pump_pool, route_meteora_pool = mp_address pool,
       route_meteora_tvl_usd = mp_tvl_usd pool, route_meteora_volume_24h_usd = mp_volume_24h_usd pool \<rparr>"

definition usable_pool :: "pyfloat \<Rightarrow> MeteoraPool \<Rightarrow> bool" where
  "usable_pool minimum_meteora_tvl_usd pool \<longleftrightarrow>
     \<not> mp_blacklisted pool \<and> minimum_meteora_tvl_usd \<le> mp_tvl_usd pool"

text \<open>The second half: the derived Pump pool is looked up on chain, then the Meteora pools.\<close>

definition onchain_routes ::
  "'w env \<Rightarrow> string \<Rightarrow> pyfloat \<Rightarrow> string \<Rightarrow> ('w, DirectPoolRoute list) io" where
  "onchain_routes E mint minimum_meteora_tvl_usd pump_pool =
     bindIO (account_info E pump_pool) (\<lambda>pump_info. case pump_info of
       None \<Rightarrow> retIO []
     | Some pinfo \<Rightarrow>
         bindIO (liftR (dict_get pinfo ''owner'' JNull)) (\<lambda>pump_owner.
         if pump_owner \<noteq> JStr PUMP_AMM_PROGRAM then retIO []
         else
           bindIO (pools_for_mint E mint) (\<lambda>pools.
           retIO (map (direct_route mint pump_pool)
                    (filter (usable_pool minimum_meteora_tvl_usd) pools)))))"

definition discover_direct_routes ::
  "'w env \<Rightarrow> solders \<Rightarrow> string \<Rightarrow> pyfloat \<Rightarrow> ('w, DirectPoolRoute list) io" where
  "discover_direct_routes E S mint minimum_meteora_tvl_usd =
     bindIO (account_info E mint) (\<lambda>mint_info. case mint_info of
       None \<Rightarrow> retIO []
     | Some info \<Rightarrow>
         bindIO (liftR (dict_get info ''owner'' JNull)) (\<lambda>owner.
         if owner \<notin> {JStr LEGACY_TOKEN_PROGRAM, JStr TOKEN_2022_PROGRAM} then retIO []
         else
           bindIO (liftR (canonical_pump_pool S mint)) (\<lambda>pump_pool.
           onchain_routes E mint minimum_meteora_tvl_usd pump_pool)))"

definition routes_as_dicts :: "DirectPoolRoute list \<Rightarrow> json list" where
  "routes_as_dicts routes = map (\<lambda>r. JDict
     [(''mint'', JStr (route_mint r)), (''pump_pool'', JStr (route_pump_pool r)),
      (''meteora_pool'', JStr (route_meteora_pool r)),
      (''meteora_tvl_usd'', JFloat (route_meteora_tvl_usd r)),
      (''meteora_volume_24h_usd'', JFloat (route_meteora_volume_24h_usd r))]) routes"

section \<open>Properties\<close>

lemma parse_pool_row_in:
  "parse_pool_row rp mint row = Inr ps \<Longrightarrow> p \<in> set ps \<Longrightarrow> {mp_token_x p, mp_token_y p} = {mint, WSOL}"
  by (clarsimp simp: parse_pool_row_def split: if_splits)

lemma parse_pools_in:
  assumes "parse_pools rp mint payload = Inr ps" "p \<in> set ps"
  shows "{mp_token_x p, mp_token_y p} = {mint, WSOL}"
proof -
  obtain rs where "concatR (parse_pool_row rp mint) rs = Inr ps"
    using assms(1) by (auto simp: parse_pools_def split: json.splits if_splits)
  from concatR_in [OF this assms(2)] parse_pool_row_in show ?thesis by blast
qed

lemma onchain_nonempty:
  assumes "onchain_routes E mint minimum pump w = (Inr routes, w')" "r \<in> set routes"
  shows "\<exists>pinfo w2 pools. account_info E pump w = (Inr (Some pinfo), w2) \<and>
    dict_get pinfo ''owner'' JNull = Inr (JStr PUMP_AMM_PROGRAM) \<and>
    pools_for_mint E mint w2 = (Inr pools, w') \<and>
    (\<exists>p \<in> set pools. r = direct_route mint pump p \<and> usable_pool minimum p)"
proof -
  obtain pi w2 where pi: "account_info E pump w = (Inr pi, w2)"
    using assms(1) unfolding onchain_routes_def by blast
  with assms obtain pinfo where pinfo: "pi = Some pinfo"
    by (cases pi) (auto simp: onchain_routes_def bindIO_Inr)
  with assms pi obtain owner where owner: "dict_get pinfo ''owner'' JNull = Inr owner"
    by (cases "dict_get pinfo ''owner'' JNull") (auto simp: onchain_routes_def bindIO_Inr)
  with assms pi pinfo have amm: "owner = JStr PUMP_AMM_PROGRAM"
    by (auto simp: onchain_routes_def bindIO_Inr split: if_splits)
  with assms pi pinfo owner obtain pools where "pools_for_mint E mint w2 = (Inr pools, w')"
    "routes = map (direct_route mint pump) (filter (usable_pool minimum) pools)"
    by (auto simp: onchain_routes_def bindIO_Inr)
  then show ?thesis using pi pinfo owner amm assms(2) by auto
qed

lemma discover_nonempty:
  assumes "discover_direct_routes E S mint minimum w = (Inr routes, w')" "r \<in> set routes"
  obtains info w1 pump where "account_info E mint w = (Inr (Some info), w1)"
    "dict_get info ''owner'' JNull \<in> {Inr (JStr LEGACY_TOKEN_PROGRAM), Inr (JStr TOKEN_2022_PROGRAM)}"
    "canonical_pump_pool S mint = Inr pump" "onchain_routes E mint minimum pump w1 = (Inr routes, w')"
proof -
  obtain mi w1 where mi: "account_info E mint w = (Inr mi, w1)"
    using assms(1) unfolding discover_direct_routes_def by blast
  with assms obtain info where info: "mi = Some info"
    by (cases mi) (auto simp: discover_direct_routes_def bindIO_Inr)
  with assms mi obtain owner where owner: "dict_get info ''owner'' JNull = Inr owner"
    by (cases "dict_get info ''owner'' JNull") (auto simp: discover_direct_routes_def bindIO_Inr)
  with assms mi info have known: "owner \<in> {JStr LEGACY_TOKEN_PROGRAM, JStr TOKEN_2022_PROGRAM}"
    by (auto simp: discover_direct_routes_def bindIO_Inr split: if_splits)
  with assms mi info owner obtain pump where pump: "canonical_pump_pool S mint = Inr pump"
    by (cases "canonical_pump_pool S mint") (auto simp: discover_direct_routes_def bindIO_Inr)
  have "onchain_routes E mint minimum pump w1 = (Inr routes, w')"
    using assms(1) mi info owner known pump
    by (auto simp add: discover_direct_routes_def bindIO_Inr)
  with that mi info owner known pump show ?thesis by blast
qed

text \<open>
  C32. Every discovered route is real at the time of the scan.  Its mint is owned by one of the two
  token programs, its Pump pool is the canonical address of the mint and was found on chain with
  the Pump AMM program as its owner, and its Meteora pool is listed for exactly the pair of the
  mint and wrapped SOL, is not blacklisted, and has at least the asked value locked, so its value
  is not NaN either.
\<close>

theorem discover_direct_routes_sound:
  assumes "discover_direct_routes E S mint minimum w = (Inr routes, w')" "r \<in> set routes"
  shows "route_mint r = mint \<and> canonical_pump_pool S mint = Inr (route_pump_pool r) \<and>
    minimum \<le> route_meteora_tvl_usd r \<and> route_meteora_tvl_usd r \<noteq> NaN \<and>
    (\<exists>info w1 pinfo w2 pools.
       account_info E mint w = (Inr (Some info), w1) \<and>
       dict_get info ''owner'' JNull \<in> {Inr (JStr LEGACY_TOKEN_PROGRAM), Inr (JStr TOKEN_2022_PROGRAM)} \<and>
       account_info E (route_pump_pool r) w1 = (Inr (Some pinfo), w2) \<and>
       dict_get pinfo ''owner'' JNull = Inr (JStr PUMP_AMM_PROGRAM) \<and>
       pools_for_mint E mint w2 = (Inr pools, w') \<and>
       (\<exists>p \<in> set pools. mp_address p = route_meteora_pool r \<and> \<not> mp_blacklisted p \<and>
          {mp_token_x p, mp_token_y p} = {mint, WSOL}))"
proof -
  obtain info w1 pump where first: "account_info E mint w = (Inr (Some info), w1)"
    "dict_get info ''owner'' JNull \<in> {Inr (JStr LEGACY_TOKEN_PROGRAM), Inr (JStr TOKEN_2022_PROGRAM)}"
    "canonical_pump_pool S mint = Inr pump" "onchain_routes E mint minimum pump w1 = (Inr routes, w')"
    using assms by (rule discover_nonempty)
  obtain pinfo w2 pools p where d: "account_info E pump w1 = (Inr (Some pinfo), w2)"
    "dict_get pinfo ''owner'' JNull = Inr (JStr PUMP_AMM_PROGRAM)"
    "pools_for_mint E mint w2 = (Inr pools, w')"
    "p \<in> set pools" "r = direct_route mint pump p" "usable_pool minimum p"
    using onchain_nonempty [OF first(4) assms(2)] by blast
  obtain payload where "parse_pools (rep E) mint payload = Inr pools"
    using d(3) by (auto simp: pools_for_mint_def)
  from parse_pools_in [OF this d(4)] have pair: "{mp_token_x p, mp_token_y p} = {mint, WSOL}" .
  have fields: "route_mint r = mint" "route_pump_pool r = pump"
    "route_meteora_pool r = mp_address p" "route_meteora_tvl_usd r = mp_tvl_usd p"
    by (simp_all add: d(5) direct_route_def)
  have usable: "\<not> mp_blacklisted p" "minimum \<le> mp_tvl_usd p" "mp_tvl_usd p \<noteq> NaN"
    using d(6) fle_not_NaN(2) by (auto simp: usable_pool_def)
  show ?thesis
    unfolding fields
    by (intro conjI exI bexI [of _ p] refl) (rule first usable d(1,2,3,4) pair)+
qed

definition demo_solders :: solders where
  "demo_solders = \<lparr> pk_parse = (\<lambda>s. Inr (bytes_of s)), find_pda = (\<lambda>_ _. bytes_of ''P''),
     pk_show = (\<lambda>_. ''P'') \<rparr>"

definition demo_pool_row :: json where
  "demo_pool_row = JDict [(''address'', JStr ''Q''),
     (''token_x'', JDict [(''address'', JStr ''M'')]),
     (''token_y'', JDict [(''address'', JStr WSOL)]), (''tvl'', JInt 2000)]"

definition demo_pool_env :: "nat env" where
  "demo_pool_env = dead_env
     \<lparr> rpc_post := (\<lambda>q w. (Inr (JDict [(''result'', JDict [(''value'', JDict [(''owner'',
         JStr (if w = 0 then LEGACY_TOKEN_PROGRAM else PUMP_AMM_PROGRAM))])])]), Suc w)),
       http_get := (\<lambda>_ _ w. (Inr (JDict [(''data'', JList [demo_pool_row])]), w)) \<rparr>"

definition demo_route :: DirectPoolRoute where
  "demo_route = \<lparr> route_mint = ''M'', route_pump_pool = ''P'', route_meteora_pool = ''Q'',
     route_meteora_tvl_usd = Fin 2000, route_meteora_volume_24h_usd = Fin 0 \<rparr>"

lemma demo_discover:
  "discover_direct_routes demo_pool_env demo_solders ''M'' (Fin 1000) 0 = (Inr [demo_route], 2)"
proof -
  have info: "bindIO (account_info demo_pool_env a) f 0 = f (Some (JDict [(''owner'', JStr LEGACY_TOKEN_PROGRAM)])) (Suc 0)"
    "bindIO (account_info demo_pool_env a) f (Suc 0) = f (Some (JDict [(''owner'', JStr PUMP_AMM_PROGRAM)])) 2"
    for a and f :: "json option \<Rightarrow> (nat, DirectPoolRoute list) io"
    by (simp_all add: account_info_def rpc_call_def bindIO_def demo_pool_env_def numeral_2_eq_2)
  have pools: "pools_for_mint demo_pool_env ''M'' 2 = (Inr [\<lparr> mp_address = ''Q'', mp_token_x = ''M'',
      mp_token_y = WSOL, mp_tvl_usd = Fin 2000, mp_volume_24h_usd = Fin 0, mp_blacklisted = False \<rparr>], 2)"
    by (simp add: pools_for_mint_def bindIO_def demo_pool_env_def parse_pools_def parse_pool_row_def
        token_address_def demo_pool_row_def py_or_def float_of_int_def WSOL_def)
  show ?thesis
    by (simp add: discover_direct_routes_def onchain_routes_def info bindIO_Inr [where m = "pools_for_mint demo_pool_env ''M''", OF pools]
        canonical_pump_pool_def demo_solders_def Let_def usable_pool_def
        direct_route_def demo_route_def)
qed

theorem discover_direct_routes_sound_witness:
  "discover_direct_routes demo_pool_env demo_solders ''M'' (Fin 1000) 0 = (Inr [demo_route], 2) \<and>
   Fin 1000 \<le> route_meteora_tvl_usd demo_route"
  using discover_direct_routes_sound [OF demo_discover, of demo_route] demo_discover by auto

end
