(* ===== verification/Growing.thy ===== *)
theory Growing
  imports Prelude
begin

text \<open>
  One predicate for what an operation may do to the state: \<open>grows I get J m\<close> says that from
  a state with \<open>I\<close> the operation \<open>m\<close> leads, whether it returns or raises, to a state with
  \<open>I\<close>, and that the list \<open>get\<close> reads off the state only gets entries satisfying \<open>J\<close>
  appended.  The collection \<open>grows\<close> holds one rule per way of putting operations together, so
  that a component proves its invariant by introduction rules.
\<close>

named_theorems grows "rules for operations that keep an invariant and append to a list"

definition grows :: "('s \<Rightarrow> bool) \<Rightarrow> ('s \<Rightarrow> 'e list) \<Rightarrow> ('e \<Rightarrow> bool) \<Rightarrow> ('s, 'a) io \<Rightarrow> bool" where
  "grows I get J m \<longleftrightarrow> (\<forall>s. I s \<longrightarrow>
     I (snd (m s)) \<and> (\<exists>new. get (snd (m s)) = get s @ new \<and> list_all J new))"

lemma growsI:
  assumes "\<And>s r s'. I s \<Longrightarrow> m s = (r, s') \<Longrightarrow> I s' \<and> (\<exists>new. get s' = get s @ new \<and> list_all J new)"
  shows "grows I get J m"
  using assms unfolding grows_def by (metis prod.collapse)

lemma growsE:
  assumes "grows I get J m" "I s" "m s = (r, s')"
  obtains new where "I s'" "get s' = get s @ new" "list_all J new"
  using assms unfolding grows_def by fastforce

lemma bindIO_run:
  assumes "bindIO m f \<sigma> = (r, \<sigma>'')"
  obtains (raised) e where "m \<sigma> = (Inl e, \<sigma>'')" "r = Inl e"
  | (returned) x \<sigma>' where "m \<sigma> = (Inr x, \<sigma>')" "f x \<sigma>' = (r, \<sigma>'')"
  using assms by (auto simp: bindIO_def split: prod.splits sum.splits)

lemma catchIO_run:
  assumes "catchIO m h \<sigma> = (r, \<sigma>'')"
  obtains (returned) x where "m \<sigma> = (Inr x, \<sigma>'')" "r = Inr x"
  | (raised) e \<sigma>' where "m \<sigma> = (Inl e, \<sigma>')" "h e \<sigma>' = (r, \<sigma>'')"
  using assms by (auto simp: catchIO_def split: prod.splits sum.splits)

lemma finallyIO_run:
  assumes "finallyIO m f \<sigma> = (r, \<sigma>'')"
  obtains q \<sigma>' q' where "m \<sigma> = (q, \<sigma>')" "f \<sigma>' = (q', \<sigma>'')"
  using assms by (auto simp: finallyIO_def split: prod.splits sum.splits)

lemma grows_result [grows]:
  "grows I get J (retIO x)" "grows I get J (raiseIO e)" "grows I get J (liftR r)" "grows I get J (Pair r)"
  by (simp_all add: grows_def)

text \<open>The continuation need only be considered on the values the first operation returns.\<close>

lemma grows_bind_from:
  assumes "grows I get J m" "\<And>x s s'. I s \<Longrightarrow> m s = (Inr x, s') \<Longrightarrow> grows I get J (f x)"
  shows "grows I get J (bindIO m f)"
proof (rule growsI)
  fix s r s''
  assume s: "I s" and run: "bindIO m f s = (r, s'')"
  from run show "I s'' \<and> (\<exists>new. get s'' = get s @ new \<and> list_all J new)"
  proof (cases rule: bindIO_run)
    case (raised e)
    with assms(1) s show ?thesis by (elim growsE) auto
  next
    case (returned x s')
    obtain new where new: "I s'" "get s' = get s @ new" "list_all J new"
      using growsE [OF assms(1) s returned(1)] .
    obtain new' where "I s''" "get s'' = get s' @ new'" "list_all J new'"
      using growsE [OF assms(2) [OF s returned(1)] new(1) returned(2)] .
    with new show ?thesis by auto
  qed
qed

lemma grows_bind [grows]:
  "grows I get J m \<Longrightarrow> (\<And>x. grows I get J (f x)) \<Longrightarrow> grows I get J (bindIO m f)"
  by (rule grows_bind_from)

lemma grows_catch [grows]:
  assumes "grows I get J m" "\<And>e. grows I get J (h e)"
  shows "grows I get J (catchIO m h)"
proof (rule growsI)
  fix s r s''
  assume s: "I s" and run: "catchIO m h s = (r, s'')"
  from run show "I s'' \<and> (\<exists>new. get s'' = get s @ new \<and> list_all J new)"
  proof (cases rule: catchIO_run)
    case (returned x)
    with assms(1) s show ?thesis by (elim growsE) auto
  next
    case (raised e s')
    obtain new where new: "I s'" "get s' = get s @ new" "list_all J new"
      using growsE [OF assms(1) s raised(1)] .
    obtain new' where "I s''" "get s'' = get s' @ new'" "list_all J new'"
      using growsE [OF assms(2) new(1) raised(2)] .
    with new show ?thesis by auto
  qed
qed

lemma grows_finally [grows]:
  assumes "grows I get J m" "grows I get J f"
  shows "grows I get J (finallyIO m f)"
proof (rule growsI)
  fix s r s''
  assume s: "I s" and "finallyIO m f s = (r, s'')"
  from this(2) obtain q s' q' where run: "m s = (q, s')" "f s' = (q', s'')" by (rule finallyIO_run)
  obtain new where new: "I s'" "get s' = get s @ new" "list_all J new"
    using growsE [OF assms(1) s run(1)] .
  obtain new' where "I s''" "get s'' = get s' @ new'" "list_all J new'"
    using growsE [OF assms(2) new(1) run(2)] .
  with new show "I s'' \<and> (\<exists>new. get s'' = get s @ new \<and> list_all J new)" by auto
qed

lemma grows_if [grows]:
  "(b \<Longrightarrow> grows I get J m) \<Longrightarrow> (\<not> b \<Longrightarrow> grows I get J n) \<Longrightarrow> grows I get J (if b then m else n)"
  by simp

lemma grows_option [grows]:
  "grows I get J m \<Longrightarrow> (\<And>x. grows I get J (f x)) \<Longrightarrow>
    grows I get J (case v of None \<Rightarrow> m | Some x \<Rightarrow> f x)"
  by (cases v) simp_all

lemma grows_prod [grows]:
  "(\<And>x y. grows I get J (f x y)) \<Longrightarrow> grows I get J (case p of (x, y) \<Rightarrow> f x y)"
  by (cases p) simp

lemma grows_Let [grows]: "(\<And>x. grows I get J (f x)) \<Longrightarrow> grows I get J (Let v f)"
  by simp

lemma grows_for_each [grows]:
  "(\<And>x. grows I get J (f x)) \<Longrightarrow> grows I get J (for_each f xs)"
  by (induction xs) (auto intro!: grows)

text \<open>The body need only be considered on the elements of the list.\<close>

lemma grows_for_each_in:
  "(\<And>x. x \<in> set xs \<Longrightarrow> grows I get J (f x)) \<Longrightarrow> grows I get J (for_each f xs)"
  by (induction xs) (auto intro!: grows)

lemma grows_until_true [grows]:
  "(\<And>x. grows I get J (f x)) \<Longrightarrow> grows I get J (until_true f xs)"
  by (induction xs) (auto intro!: grows)

text \<open>Operations of the world and of the state beside it, when the state is what counts.\<close>

lemma grows_world [grows]:
  "grows (\<lambda>\<sigma>. I (snd \<sigma>)) (\<lambda>\<sigma>. get (snd \<sigma>)) J (in_world m)"
  "grows (\<lambda>\<sigma>. I (snd \<sigma>)) (\<lambda>\<sigma>. get (snd \<sigma>)) J (state f)"
  by (auto simp: grows_def in_world_def state_def split: prod.split)

lemma grows_update:
  assumes "\<And>s. I s \<Longrightarrow> I (g s) \<and> (\<exists>new. get (g s) = get s @ new \<and> list_all J new)"
  shows "grows (\<lambda>\<sigma>. I (snd \<sigma>)) (\<lambda>\<sigma>. get (snd \<sigma>)) J (update g)"
  using assms by (auto simp: grows_def update_def)

end
