(* ===== verification/Detector.thy ===== *)
theory Detector
  imports Providers "HOL-Library.AList"
begin

text \<open>
  \<open>backrunner/detector.py\<close>: the buys in one block whose value reaches a threshold.  Token
  balances before and after each transaction give the change per owner and mint; what a buyer paid
  is the larger of the wrapped and stable tokens and of the native lamports that left it.  Amounts
  are Python floats; a dictionary is the list of its entries in insertion order.
\<close>

definition STABLE_MINTS :: "string list" where
  "STABLE_MINTS = [''EPjFWdd5AufqSSqeM2qN1xzybapC8G4wEGGkZwyTDt1v'',
     ''Es9vMFrzaCERmJfrF4H2FYD4KCoNkY11McCe8BenwNYB'']"

record LargeBuyEvent =
  lb_slot :: int
  lb_transaction_index :: nat
  lb_block_time :: int
  lb_signature :: string
  lb_buyer :: string
  lb_mint :: string
  lb_buy_sol :: pyfloat
  lb_buy_usd :: pyfloat
  lb_token_received :: pyfloat

definition pubkey :: "(json \<Rightarrow> string) \<Rightarrow> json \<Rightarrow> string res" where
  "pubkey rp v = (if is_dict v then bindR (dict_item v ''pubkey'') (\<lambda>k. ret (py_str rp k))
                  else ret (py_str rp v))"

section \<open>Balance changes\<close>

text \<open>\<open>n / (10 ** d)\<close>; for a negative \<open>d\<close> the power is a float.\<close>

definition ui_amount :: "int \<Rightarrow> int \<Rightarrow> pyfloat res" where
  "ui_amount n d = (if 0 \<le> d then int_truediv n (10 ^ nat d)
     else bindR (float_of_int n) (\<lambda>x. py_truediv x (flit (10 powi d))))"

type_synonym deltas = "(string \<times> (string \<times> pyfloat) list) list"

text \<open>\<open>deltas[owner][mint] += x\<close> on the nested default dictionaries.\<close>

definition add_delta ::
  "'o \<Rightarrow> 'm \<Rightarrow> pyfloat \<Rightarrow> ('o \<times> ('m \<times> pyfloat) list) list \<Rightarrow> ('o \<times> ('m \<times> pyfloat) list) list" where
  "add_delta owner mint x ds =
     AList.map_default owner [(mint, Fin 0 + x)] (AList.map_default mint (Fin 0 + x) (\<lambda>y. y + x)) ds"

definition balance_step :: "(json \<Rightarrow> string) \<Rightarrow> pyfloat \<Rightarrow> json \<Rightarrow> deltas \<Rightarrow> deltas res" where
  "balance_step rp sgn_factor bal ds =
     bindR (dict_get bal ''owner'' JNull) (\<lambda>owner.
     if \<not> truthy owner then ret ds
     else
       bindR (dict_item bal ''uiTokenAmount'') (\<lambda>amount.
       bindR (bindR (dict_item amount ''amount'') py_int) (\<lambda>n.
       bindR (bindR (dict_item amount ''decimals'') py_int) (\<lambda>d.
       bindR (ui_amount n d) (\<lambda>v.
       bindR (dict_item bal ''mint'') (\<lambda>mint.
       ret (add_delta (py_str rp owner) (py_str rp mint) (sgn_factor * v) ds)))))))"

definition balance_pass ::
  "(json \<Rightarrow> string) \<Rightarrow> json \<Rightarrow> string \<Rightarrow> pyfloat \<Rightarrow> deltas \<Rightarrow> deltas res" where
  "balance_pass rp meta field sgn_factor ds =
     bindR (bindR (dict_get meta field (JList [])) py_iter) (\<lambda>bals.
     foldR (balance_step rp sgn_factor) bals ds)"

definition token_deltas :: "(json \<Rightarrow> string) \<Rightarrow> json \<Rightarrow> deltas res" where
  "token_deltas rp meta =
     bindR (balance_pass rp meta ''preTokenBalances'' (Fin (- 1)) []) (\<lambda>ds.
     balance_pass rp meta ''postTokenBalances'' (Fin 1) ds)"

text \<open>The change of the native balance of the account at an index, in SOL.\<close>

definition native_change :: "json \<Rightarrow> nat \<Rightarrow> pyfloat res" where
  "native_change meta i =
     bindR (bindR (bindR (dict_item meta ''postBalances'') (\<lambda>b. py_index b i)) py_int) (\<lambda>post.
     bindR (bindR (bindR (dict_item meta ''preBalances'') (\<lambda>b. py_index b i)) py_int) (\<lambda>pre.
     bindR (float_of_int (post - pre)) (\<lambda>d. py_truediv d (Fin 1000000000))))"

definition native_delta :: "json \<Rightarrow> string list \<Rightarrow> (string \<times> pyfloat) list res" where
  "native_delta meta account_keys =
     bindR (mapR (\<lambda>(i, key). bindR (native_change meta i) (\<lambda>v. ret (key, v)))
              (enumerate 0 account_keys)) (\<lambda>kvs.
     ret (fold (\<lambda>(k, v). AList.update k v) kvs []))"

definition lookup0 :: "(string \<times> pyfloat) list \<Rightarrow> string \<Rightarrow> pyfloat" where
  "lookup0 kvs k = (case map_of kvs k of None \<Rightarrow> Fin 0 | Some x \<Rightarrow> x)"

section \<open>Events\<close>

definition stable_quote_sol :: "pyfloat \<Rightarrow> (string \<times> pyfloat) list \<Rightarrow> pyfloat res" where
  "stable_quote_sol sol_price mint_deltas =
     bindR (mapR (\<lambda>stable. py_truediv (py_max (Fin 0) (- lookup0 mint_deltas stable)) sol_price)
              STABLE_MINTS) (\<lambda>qs. ret (py_sum qs))"

definition quote_sol ::
  "pyfloat \<Rightarrow> (string \<times> pyfloat) list \<Rightarrow> (string \<times> pyfloat) list \<Rightarrow> string \<Rightarrow> pyfloat res" where
  "quote_sol sol_price natives mint_deltas buyer =
     bindR (stable_quote_sol sol_price mint_deltas) (\<lambda>stable.
     ret (py_max (py_max (Fin 0) (- lookup0 mint_deltas WSOL) + stable)
                 (py_max (Fin 0) (- lookup0 natives buyer))))"

text \<open>One buyer and one mint: no event, or one.\<close>

definition buy_event ::
  "json \<Rightarrow> int \<Rightarrow> nat \<Rightarrow> string \<Rightarrow> pyfloat \<Rightarrow> pyfloat \<Rightarrow> (string \<times> pyfloat) list
   \<Rightarrow> string \<Rightarrow> (string \<times> pyfloat) list \<Rightarrow> string \<Rightarrow> LargeBuyEvent list res" where
  "buy_event block slot index sig sol_price minimum_buy_usd natives buyer mint_deltas mint =
     (let received = lookup0 mint_deltas mint in
      if received \<le> Fin 0 then ret []
      else
        bindR (quote_sol sol_price natives mint_deltas buyer) (\<lambda>buy_sol.
        let buy_usd = buy_sol * sol_price in
        if buy_usd < minimum_buy_usd then ret []
        else
          bindR (bindR (dict_get block ''blockTime'' JNull) (\<lambda>t. py_int (py_or t (JInt 0)))) (\<lambda>time.
          ret [\<lparr> lb_slot = slot, lb_transaction_index = index, lb_block_time = time,
                 lb_signature = sig, lb_buyer = buyer, lb_mint = mint, lb_buy_sol = buy_sol,
                 lb_buy_usd = buy_usd, lb_token_received = received \<rparr>])))"

definition tx_events ::
  "(json \<Rightarrow> string) \<Rightarrow> json \<Rightarrow> int \<Rightarrow> string list \<Rightarrow> pyfloat \<Rightarrow> pyfloat \<Rightarrow> nat \<Rightarrow> json
   \<Rightarrow> LargeBuyEvent list res" where
  "tx_events rp block slot mints sol_price minimum_buy_usd index rcd =
     bindR (dict_get rcd ''meta'' JNull) (\<lambda>meta0.
     let meta = py_or meta0 (JDict []) in
     bindR (dict_get meta ''err'' JNull) (\<lambda>err.
     if err \<noteq> JNull then ret []
     else
       bindR (dict_get rcd ''transaction'' JNull) (\<lambda>tx0.
       let tx = py_or tx0 (JDict []) in
       bindR (bindR (dict_get tx ''accountKeys'' (JList [])) py_iter) (\<lambda>keys.
       bindR (mapR (pubkey rp) keys) (\<lambda>account_keys.
       bindR (token_deltas rp meta) (\<lambda>ds.
       bindR (native_delta meta account_keys) (\<lambda>natives.
       bindR (bindR (dict_get tx ''signatures'' JNull)
                (\<lambda>s. py_index (py_or s (JList [JStr []])) 0)) (\<lambda>sig.
       concatR (\<lambda>(buyer, mint_deltas).
         concatR (buy_event block slot index (py_str rp sig) sol_price minimum_buy_usd natives buyer
                    mint_deltas) mints) ds))))))))"

definition detect_large_buys ::
  "(json \<Rightarrow> string) \<Rightarrow> json \<Rightarrow> int \<Rightarrow> string list \<Rightarrow> pyfloat \<Rightarrow> pyfloat \<Rightarrow> LargeBuyEvent list res" where
  "detect_large_buys rp block slot mints sol_price minimum_buy_usd =
     bindR (bindR (dict_get block ''transactions'' (JList [])) py_iter) (\<lambda>txs.
     concatR (\<lambda>(i, r). tx_events rp block slot mints sol_price minimum_buy_usd i r)
       (enumerate 0 txs))"

section \<open>Lemmas\<close>

lemma buy_event_Inr:
  assumes "buy_event block slot i sig price minimum natives buyer ds mint = Inr es" "e \<in> set es"
  shows "lb_slot e = slot \<and> lb_transaction_index e = i \<and> lb_signature e = sig \<and>
    lb_buyer e = buyer \<and> lb_mint e = mint \<and> \<not> lb_token_received e \<le> Fin 0 \<and>
    lb_buy_usd e = lb_buy_sol e * price \<and> \<not> lb_buy_usd e < minimum"
  using assms by (auto simp: buy_event_def Let_def split: if_splits)

lemma buy_event_threshold:
  assumes "m \<le> m'" "buy_event block slot i sig price m natives buyer ds mint = Inr es"
  shows "buy_event block slot i sig price m' natives buyer ds mint
    = Inr (filter (\<lambda>e. \<not> lb_buy_usd e < m') es)"
proof (cases "lookup0 ds mint \<le> Fin 0")
  case True
  then show ?thesis using assms(2) by (simp add: buy_event_def)
next
  case False
  then obtain b where b: "quote_sol price natives ds buyer = Inr b"
    using assms(2) by (auto simp: buy_event_def)
  have "b * price < m'" if "b * price < m" using that assms(1) by (rule flt_fle_trans)
  then show ?thesis using assms(2) False b
    by (auto simp: buy_event_def Let_def split: if_splits)
qed

lemma tx_events_in:
  assumes "tx_events rp block slot mints price minimum i rcd = Inr es" "e \<in> set es"
  shows "lb_slot e = slot \<and> lb_transaction_index e = i \<and> lb_mint e \<in> set mints \<and>
    \<not> lb_token_received e \<le> Fin 0 \<and> lb_buy_usd e = lb_buy_sol e * price \<and>
    \<not> lb_buy_usd e < minimum \<and>
    (\<exists>meta. dict_get rcd ''meta'' JNull = Inr meta \<and>
       dict_get (py_or meta (JDict [])) ''err'' JNull = Inr JNull)"
proof -
  from assms obtain meta where meta: "dict_get rcd ''meta'' JNull = Inr meta"
    "dict_get (py_or meta (JDict [])) ''err'' JNull = Inr JNull"
    by (auto simp: tx_events_def Let_def split: if_splits)
  with assms obtain ds natives sig where
    "concatR (\<lambda>(buyer, mint_deltas). concatR (buy_event block slot i sig price minimum natives
        buyer mint_deltas) mints) ds = Inr es"
    unfolding tx_events_def Let_def by (elim bindR_Inr_elim) auto
  from concatR_in [OF this assms(2)] obtain buyer mds es1 where
    "concatR (buy_event block slot i sig price minimum natives buyer mds) mints = Inr es1" "e \<in> set es1"
    by fast
  from concatR_in [OF this] obtain mint es2 where
    "mint \<in> set mints" "buy_event block slot i sig price minimum natives buyer mds mint = Inr es2"
    "e \<in> set es2" by blast
  with buy_event_Inr [OF this(2,3)] meta show ?thesis by auto
qed

lemma tx_events_threshold:
  assumes "m \<le> m'" "tx_events rp block slot mints price m i rcd = Inr es"
  shows "tx_events rp block slot mints price m' i rcd = Inr (filter (\<lambda>e. \<not> lb_buy_usd e < m') es)"
proof -
  have inner: "concatR (buy_event block slot i sig price m' natives buyer mds) mints
      = Inr (filter (\<lambda>e. \<not> lb_buy_usd e < m') es)"
    if "concatR (buy_event block slot i sig price m natives buyer mds) mints = Inr es"
    for sig natives buyer mds es
    by (rule concatR_filter [OF _ that]) (rule buy_event_threshold [OF assms(1)])
  have outer: "concatR (\<lambda>(buyer, mds). concatR (buy_event block slot i sig price m' natives buyer mds) mints) ds
      = Inr (filter (\<lambda>e. \<not> lb_buy_usd e < m') es)"
    if "concatR (\<lambda>(buyer, mds). concatR (buy_event block slot i sig price m natives buyer mds) mints) ds
      = Inr es" for sig natives ds es
    by (rule concatR_filter [OF _ that]) (auto dest: inner)
  obtain meta where meta: "dict_get rcd ''meta'' JNull = Inr meta"
    using assms(2) by (auto simp: tx_events_def)
  obtain err where err: "dict_get (py_or meta (JDict [])) ''err'' JNull = Inr err"
    using assms(2) meta by (auto simp: tx_events_def Let_def)
  show ?thesis
  proof (cases "err = JNull")
    case False
    then show ?thesis using assms(2) meta err by (simp add: tx_events_def Let_def)
  next
    case True
    show ?thesis
      using assms(2) unfolding tx_events_def Let_def
      by (simp only: meta err True bindR_Inr simp_thms if_False if_True, elim bindR_Inr_elim,
          simp only: bindR_Inr outer)
  qed
qed

lemma detect_events_in:
  assumes "detect_large_buys rp block slot mints price minimum = Inr es" "e \<in> set es"
  shows "lb_slot e = slot \<and> lb_mint e \<in> set mints \<and> \<not> lb_token_received e \<le> Fin 0 \<and>
    lb_buy_usd e = lb_buy_sol e * price \<and> \<not> lb_buy_usd e < minimum \<and>
    (\<exists>m txs meta. block = JDict m \<and>
       py_iter (case map_of m ''transactions'' of None \<Rightarrow> JList [] | Some v \<Rightarrow> v) = Inr txs \<and>
       lb_transaction_index e < length txs \<and>
       dict_get (txs ! lb_transaction_index e) ''meta'' JNull = Inr meta \<and>
       dict_get (py_or meta (JDict [])) ''err'' JNull = Inr JNull)"
proof -
  obtain m txs where txs: "block = JDict m"
    "py_iter (case map_of m ''transactions'' of None \<Rightarrow> JList [] | Some v \<Rightarrow> v) = Inr txs"
    "concatR (\<lambda>(i, r). tx_events rp block slot mints price minimum i r) (enumerate 0 txs) = Inr es"
    using assms(1) unfolding detect_large_buys_def
    by (auto simp: bindR_eq_Inr dict_get_Inr_iff)
  from concatR_in [OF txs(3) assms(2)] obtain i r es' where
    ir: "(i, r) \<in> set (enumerate 0 txs)" "tx_events rp block slot mints price minimum i r = Inr es'"
    "e \<in> set es'" by auto
  from ir(1) have "i < length txs" "r = txs ! i"
    by (auto simp: in_set_enumerate_eq)
  with tx_events_in [OF ir(2,3)] txs(1,2) show ?thesis by auto
qed

lemma detect_events_basic:
  assumes "detect_large_buys rp block slot mints price minimum = Inr es" "e \<in> set es"
  shows "lb_slot e = slot \<and> \<not> lb_buy_usd e < minimum"
  using detect_events_in [OF assms] by (elim conjE) (intro conjI)

section \<open>Properties\<close>

text \<open>
  C33. What a detected buy certifies.  Every event reported for a block comes from a transaction of
  the block that did not fail, names a mint the caller tracks, records a positive amount of it
  received, values it at the SOL paid times the SOL price, and is not below the threshold.
\<close>

theorem detect_large_buys_sound:
  assumes "detect_large_buys rp block slot mints price minimum = Inr es" "e \<in> set es"
  shows "lb_slot e = slot \<and> lb_mint e \<in> set mints \<and> \<not> lb_token_received e \<le> Fin 0 \<and>
    lb_buy_usd e = lb_buy_sol e * price \<and> \<not> lb_buy_usd e < minimum \<and>
    (\<exists>m txs meta. block = JDict m \<and>
       py_iter (case map_of m ''transactions'' of None \<Rightarrow> JList [] | Some v \<Rightarrow> v) = Inr txs \<and>
       lb_transaction_index e < length txs \<and>
       dict_get (txs ! lb_transaction_index e) ''meta'' JNull = Inr meta \<and>
       dict_get (py_or meta (JDict [])) ''err'' JNull = Inr JNull)"
  using assms by (rule detect_events_in)

text \<open>
  The threshold only filters.  If a block can be scanned with one threshold, it can be scanned
  with any higher one, and the events are those of the first scan whose value is not below the
  higher threshold, in the same order.
\<close>

theorem detect_large_buys_threshold:
  assumes "m \<le> m'" "detect_large_buys rp block slot mints price m = Inr es"
  shows "detect_large_buys rp block slot mints price m'
    = Inr (filter (\<lambda>e. \<not> lb_buy_usd e < m') es)"
proof -
  obtain txs where txs: "bindR (dict_get block ''transactions'' (JList [])) py_iter = Inr txs"
    "concatR (\<lambda>(i, r). tx_events rp block slot mints price m i r) (enumerate 0 txs) = Inr es"
    using assms(2) unfolding detect_large_buys_def by (elim bindR_Inr_elim) auto
  have "concatR (\<lambda>(i, r). tx_events rp block slot mints price m' i r) (enumerate 0 txs) = Inr (filter (\<lambda>e. \<not> lb_buy_usd e < m') es)"
    by (rule concatR_filter [OF _ txs(2)]) (auto dest: tx_events_threshold [OF assms(1)])
  then show ?thesis by (simp add: detect_large_buys_def txs(1))
qed

text \<open>A block with one buy: the buyer pays 5 SOL of native balance and receives 2 tokens.\<close>

definition demo_block :: json where
  "demo_block = JDict [(''blockTime'', JInt 1700000000), (''transactions'', JList [JDict
     [(''meta'', JDict
        [(''err'', JNull), (''preTokenBalances'', JList []),
         (''postTokenBalances'', JList [JDict [(''owner'', JStr ''B''), (''mint'', JStr ''M''),
            (''uiTokenAmount'', JDict [(''amount'', JStr ''2''), (''decimals'', JInt 0)])]]),
         (''preBalances'', JList [JInt 6000000000]), (''postBalances'', JList [JInt 1000000000])]),
      (''transaction'', JDict
        [(''accountKeys'', JList [JStr ''B'']), (''signatures'', JList [JStr ''S''])])]])]"

definition demo_event :: LargeBuyEvent where
  "demo_event = \<lparr> lb_slot = 9, lb_transaction_index = 0, lb_block_time = 1700000000,
     lb_signature = ''S'', lb_buyer = ''B'', lb_mint = ''M'', lb_buy_sol = Fin 5,
     lb_buy_usd = Fin 500, lb_token_received = Fin 2 \<rparr>"

lemma demo_detect:
  "detect_large_buys (\<lambda>_. []) demo_block 9 [''M''] (Fin 100) (Fin 300) = Inr [demo_event]"
  by (simp add: detect_large_buys_def demo_block_def demo_event_def tx_events_def py_or_def
      pubkey_def token_deltas_def balance_pass_def balance_step_def ui_amount_def int_truediv_def
      add_delta_def native_delta_def native_change_def float_of_int_def py_truediv_def rnd_minus
      int_of_str_def strip_def is_space_def is_digit_def digit_val_def digit_limit_def
      buy_event_def lookup0_def quote_sol_def stable_quote_sol_def STABLE_MINTS_def WSOL_def
      py_max_def py_sum_def zero_pyfloat_def Let_def)

theorem detect_large_buys_sound_witness:
  "detect_large_buys (\<lambda>_. []) demo_block 9 [''M''] (Fin 100) (Fin 300) = Inr [demo_event] \<and>
   lb_mint demo_event \<in> {''M''} \<and> \<not> lb_buy_usd demo_event < Fin 300"
  using detect_large_buys_sound [OF demo_detect, of demo_event] demo_detect by auto

theorem detect_large_buys_threshold_witness:
  "detect_large_buys (\<lambda>_. []) demo_block 9 [''M''] (Fin 100) (Fin 501) = Inr []"
  using detect_large_buys_threshold [OF _ demo_detect, of "Fin 501"] by (simp add: demo_event_def)

end
