(* ===== verification/Stream_Events.thy ===== *)
theory Stream_Events
  imports Detector
begin

text \<open>
  \<open>backrunner/stream.py\<close>: the websocket stream of processed logs, its filter and its
  deduplication, and the reconciliation of one event with its confirmed transaction.  The socket
  is a parameter: \<open>ws_open\<close> connects, subscribes and returns the node's confirmation,
  \<open>ws_recv\<close> returns the next message as JSON, or nothing on a timeout; \<open>url_parse\<close> and
  \<open>url_unparse\<close> are \<open>urlparse\<close> and \<open>urlunparse\<close>.
\<close>

definition PUMP_AMM_PROGRAM_ID :: string where
  "PUMP_AMM_PROGRAM_ID = ''pAMMBay6oceH9fJKBRHGP5D4bD4sWpmSwMn52FMfXEA''"

definition METEORA_DLMM_PROGRAM_ID :: string where
  "METEORA_DLMM_PROGRAM_ID = ''LBUZKhRxPF3XUpBCjp4YzTKgLccjZhTSDM9YuVaPwxo''"

record ProcessedLogEvent =
  pl_signature :: string
  pl_slot :: int
  pl_error :: json
  pl_logs :: "string list"

definition pl_succeeded :: "ProcessedLogEvent \<Rightarrow> bool" where
  "pl_succeeded e \<longleftrightarrow> pl_error e = JNull"

definition parse_log_notification :: "(json \<Rightarrow> string) \<Rightarrow> json \<Rightarrow> ProcessedLogEvent option res" where
  "parse_log_notification rp payload =
     bindR (dict_get payload ''method'' JNull) (\<lambda>method.
     if method \<noteq> JStr ''logsNotification'' then ret None
     else
       bindR (bindR (dict_get payload ''params'' (JDict []))
                (\<lambda>p. dict_get p ''result'' (JDict []))) (\<lambda>result.
       bindR (dict_get result ''value'' JNull) (\<lambda>value0.
       let val = py_or value0 (JDict []) in
       bindR (dict_get val ''signature'' JNull) (\<lambda>signature.
       bindR (bindR (dict_get result ''context'' (JDict [])) (\<lambda>c. dict_get c ''slot'' JNull)) (\<lambda>slot.
       if \<not> truthy signature \<or> slot = JNull then ret None
       else
         bindR (py_int slot) (\<lambda>n.
         bindR (dict_get val ''err'' JNull) (\<lambda>err.
         bindR (bindR (dict_get val ''logs'' JNull) (\<lambda>l. py_iter (py_or l (JList [])))) (\<lambda>lines.
         ret (Some \<lparr> pl_signature = py_str rp signature, pl_slot = n, pl_error = err,
                     pl_logs = map (py_str rp) lines \<rparr>)))))))))"

text \<open>The shape \<open>detect_large_buys\<close> expects, made of a \<open>getTransaction\<close> answer.\<close>

definition get_or :: "json \<Rightarrow> string \<Rightarrow> json \<Rightarrow> json res" where
  "get_or d k alternative = bindR (dict_get d k JNull) (\<lambda>v. ret (py_or v alternative))"

definition normalize_transaction :: "json \<Rightarrow> json res" where
  "normalize_transaction payload =
     bindR (get_or payload ''transaction'' (JDict [])) (\<lambda>tx.
     bindR (get_or tx ''message'' (JDict [])) (\<lambda>message.
     bindR (get_or payload ''meta'' (JDict [])) (\<lambda>meta.
     bindR (get_or message ''accountKeys'' (JList [])) (\<lambda>keys.
     bindR (get_or tx ''signatures'' (JList [])) (\<lambda>sigs.
     bindR (get_or payload ''blockTime'' (JInt 0)) (\<lambda>time.
     ret (JDict [(''blockTime'', time), (''transactions'', JList [JDict
            [(''meta'', meta),
             (''transaction'', JDict [(''accountKeys'', keys), (''signatures'', sigs)])]])])))))))"

text \<open>A URL in the parts \<open>urlparse\<close> gives, and the websocket URL made from them.\<close>

record ParseResult =
  url_scheme :: string
  url_netloc :: string
  url_path :: string
  url_params :: string
  url_query :: string
  url_fragment :: string

definition websocket_url :: "ParseResult \<Rightarrow> ParseResult" where
  "websocket_url parsed = parsed
     \<lparr> url_scheme := (if url_scheme parsed = ''https'' then ''wss'' else ''ws''), url_fragment := [] \<rparr>"

section \<open>The stream\<close>

record 'w socket_env =
  url_parse :: "string \<Rightarrow> ParseResult"
  url_unparse :: "ParseResult \<Rightarrow> string"
  ws_open :: "string \<Rightarrow> ('w, json) io"
  ws_recv :: "('w, json option) io"

record log_stream =
  connected :: bool
  seen_signatures :: "string set"

definition new_stream :: log_stream where
  "new_stream = \<lparr> connected = False, seen_signatures = {} \<rparr>"

definition subscribe_request :: json where
  "subscribe_request = JDict [(''jsonrpc'', JStr ''2.0''), (''id'', JInt 1),
     (''method'', JStr ''logsSubscribe''),
     (''params'', JList [JStr ''all'', JDict [(''commitment'', JStr ''processed'')]])]"

text \<open>\<open>__enter__\<close>; a refused subscription closes the socket and raises.\<close>

definition stream_enter :: "'w socket_env \<Rightarrow> string \<Rightarrow> log_stream \<Rightarrow> ('w, log_stream) io" where
  "stream_enter W rpc_url st =
     bindIO (ws_open W (url_unparse W (websocket_url (url_parse W rpc_url)))) (\<lambda>confirmation.
     liftR (bindR (dict_get confirmation ''error'' JNull) (\<lambda>err.
       bindR (if truthy err then ret True
              else bindR (py_in ''result'' confirmation) (\<lambda>b. ret (\<not> b))) (\<lambda>failed.
       if failed then raise (RuntimeError ''processed log subscription failed'')
       else ret (st\<lparr>connected := True\<rparr>)))))"

definition stream_exit :: "log_stream \<Rightarrow> log_stream" where
  "stream_exit st = st\<lparr>connected := False\<rparr>"

definition touches_venue :: "ProcessedLogEvent \<Rightarrow> bool" where
  "touches_venue e \<longleftrightarrow>
     list_ex (\<lambda>line. substr PUMP_AMM_PROGRAM_ID line \<or> substr METEORA_DLMM_PROGRAM_ID line) (pl_logs e)"

text \<open>What a poll makes of one received message.\<close>

definition accept_message ::
  "(json \<Rightarrow> string) \<Rightarrow> json \<Rightarrow> log_stream \<Rightarrow> (ProcessedLogEvent option \<times> log_stream) res" where
  "accept_message rp payload st =
     bindR (parse_log_notification rp payload) (\<lambda>event. case event of
       None \<Rightarrow> ret (None, st)
     | Some e \<Rightarrow>
         if pl_signature e \<in> seen_signatures st then ret (None, st)
         else if \<not> touches_venue e then ret (None, st)
         else ret (Some e, st\<lparr>seen_signatures := insert (pl_signature e) (seen_signatures st)\<rparr>))"

definition poll_event ::
  "'w env \<Rightarrow> 'w socket_env \<Rightarrow> log_stream \<Rightarrow> ('w, ProcessedLogEvent option \<times> log_stream) io" where
  "poll_event E W st =
     (if \<not> connected st then raiseIO (RuntimeError ''processed stream is not connected'')
      else bindIO (ws_recv W) (\<lambda>msg. case msg of
        None \<Rightarrow> retIO (None, st)
      | Some payload \<Rightarrow> liftR (accept_message (rep E) payload st)))"

text \<open>
  \<open>next_event\<close> polls until there is an event; the fuel bounds the number of polls, and
  \<open>None\<close> says that it was not enough.
\<close>

fun next_event ::
  "nat \<Rightarrow> 'w env \<Rightarrow> 'w socket_env \<Rightarrow> log_stream \<Rightarrow> ('w, (ProcessedLogEvent \<times> log_stream) option) io" where
  "next_event 0 E W st = retIO None"
| "next_event (Suc fuel) E W st =
     bindIO (poll_event E W st) (\<lambda>(event, st'). case event of
       Some e \<Rightarrow> retIO (Some (e, st'))
     | None \<Rightarrow> next_event fuel E W st')"

section \<open>Reconciliation with the confirmed transaction\<close>

fun fetch_confirmed :: "nat \<Rightarrow> 'w env \<Rightarrow> pyfloat \<Rightarrow> string \<Rightarrow> ('w, json option) io" where
  "fetch_confirmed 0 E pause sig = retIO None"
| "fetch_confirmed (Suc n) E pause sig =
     bindIO (transaction E sig ''confirmed'') (\<lambda>tx. case tx of
       Some t \<Rightarrow> retIO (Some t)
     | None \<Rightarrow> bindIO (sleep E pause) (\<lambda>_. fetch_confirmed n E pause sig))"

record ProcessedReport =
  po_mode :: string
  po_observation_slot :: int
  po_signature :: string
  po_fork_status :: string
  po_trending_mints :: "nat option"
  po_events :: "LargeBuyEvent list"
  po_transactions_submitted :: int
  po_live_execution_enabled :: bool

text \<open>
  The report lists five fields of each event; the model keeps the event.  The count of trending
  mints is absent from the report of a failed transaction.
\<close>

definition processed_report ::
  "ProcessedLogEvent \<Rightarrow> string \<Rightarrow> nat option \<Rightarrow> LargeBuyEvent list \<Rightarrow> ProcessedReport" where
  "processed_report event fork_status mint_count events =
     \<lparr> po_mode = ''DRY_RUN_PROCESSED_OBSERVE'', po_observation_slot = pl_slot event,
       po_signature = pl_signature event, po_fork_status = fork_status,
       po_trending_mints = mint_count, po_events = events,
       po_transactions_submitted = 0, po_live_execution_enabled = False \<rparr>"

text \<open>The fork status and the events of a fetched transaction.\<close>

definition fork_events ::
  "(json \<Rightarrow> string) \<Rightarrow> int \<Rightarrow> string list \<Rightarrow> pyfloat \<Rightarrow> pyfloat \<Rightarrow> json option
   \<Rightarrow> (string \<times> LargeBuyEvent list) res" where
  "fork_events rp slot mints sol_price minimum_buy_usd tx = (case tx of
     None \<Rightarrow> ret (''unavailable_or_reorged'', [])
   | Some t \<Rightarrow>
       bindR (normalize_transaction t) (\<lambda>block.
       bindR (detect_large_buys rp block slot mints sol_price minimum_buy_usd) (\<lambda>events.
       ret (''confirmed'', events))))"

definition reconcile ::
  "'w env \<Rightarrow> string set \<Rightarrow> pyfloat \<Rightarrow> pyfloat \<Rightarrow> nat \<Rightarrow> pyfloat \<Rightarrow> ProcessedLogEvent
   \<Rightarrow> ('w, ProcessedReport) io" where
  "reconcile E mints sol_price minimum_buy_usd transaction_retries retry_delay_seconds event =
     (if \<not> pl_succeeded event
      then retIO (processed_report event ''failed_processed_transaction'' None [])
      else
        bindIO (fetch_confirmed transaction_retries E retry_delay_seconds (pl_signature event)) (\<lambda>tx.
        bindIO (liftR (fork_events (rep E) (pl_slot event) (set_order E mints) sol_price
                         minimum_buy_usd tx)) (\<lambda>(fork_status, events).
        retIO (processed_report event fork_status (Some (card mints)) events))))"

definition report_found ::
  "'w env \<Rightarrow> string set \<Rightarrow> pyfloat \<Rightarrow> pyfloat \<Rightarrow> nat \<Rightarrow> pyfloat
   \<Rightarrow> (ProcessedLogEvent \<times> log_stream) option \<Rightarrow> ('w, ProcessedReport option) io" where
  "report_found E mints sol_price minimum_buy_usd transaction_retries retry_delay_seconds found =
     (case found of
       None \<Rightarrow> retIO None
     | Some (event, _) \<Rightarrow>
         bindIO (reconcile E mints sol_price minimum_buy_usd transaction_retries
                   retry_delay_seconds event) (\<lambda>r. retIO (Some r)))"

definition observe_processed_once ::
  "nat \<Rightarrow> 'w env \<Rightarrow> 'w socket_env \<Rightarrow> string \<Rightarrow> GmgnProvider \<Rightarrow> pyfloat \<Rightarrow> nat \<Rightarrow> pyfloat
   \<Rightarrow> ('w, ProcessedReport option) io" where
  "observe_processed_once fuel E W url gmgn minimum_buy_usd transaction_retries retry_delay_seconds =
     bindIO (trending_mints E gmgn) (\<lambda>mints.
     bindIO (sol_price_usd E gmgn) (\<lambda>sol_price.
     bindIO (stream_enter W url new_stream) (\<lambda>st.
     bindIO (next_event fuel E W st)
       (report_found E mints sol_price minimum_buy_usd transaction_retries retry_delay_seconds))))"

section \<open>Properties\<close>

text \<open>A run of polls: the events it yields, in order, with the last state of the stream.\<close>

fun poll_many ::
  "nat \<Rightarrow> 'w env \<Rightarrow> 'w socket_env \<Rightarrow> log_stream \<Rightarrow> ('w, ProcessedLogEvent list \<times> log_stream) io" where
  "poll_many 0 E W st = retIO ([], st)"
| "poll_many (Suc n) E W st =
     bindIO (poll_event E W st) (\<lambda>(event, st').
     bindIO (poll_many n E W st') (\<lambda>(events, st'').
     retIO ((case event of None \<Rightarrow> [] | Some e \<Rightarrow> [e]) @ events, st'')))"

lemma accept_message_Inr:
  assumes "accept_message rp m st = Inr (event, st')"
  shows "case event of None \<Rightarrow> st' = st
    | Some e \<Rightarrow> pl_signature e \<notin> seen_signatures st \<and> touches_venue e \<and>
        seen_signatures st' = insert (pl_signature e) (seen_signatures st)"
  using assms by (auto simp: accept_message_def split: option.splits if_splits)

lemma poll_event_Inr:
  assumes "poll_event E W st w = (Inr (event, st'), w')"
  shows "case event of None \<Rightarrow> st' = st
    | Some e \<Rightarrow> pl_signature e \<notin> seen_signatures st \<and> touches_venue e \<and>
        seen_signatures st' = insert (pl_signature e) (seen_signatures st)"
proof -
  obtain msg w1 where msg: "(case msg of None \<Rightarrow> retIO (None, st)
      | Some payload \<Rightarrow> liftR (accept_message (rep E) payload st)) w1 = (Inr (event, st'), w')"
    using assms by (auto simp: poll_event_def split: if_splits)
  show ?thesis
    using msg accept_message_Inr [of "rep E" _ st event st'] by (cases msg) auto
qed

text \<open>
  C30. The stream never reports a transaction twice.  Over any number of polls the signatures of the
  events are pairwise different and none was seen before, and every event's logs mention the Pump
  AMM or the Meteora DLMM program.
\<close>

theorem poll_many_deduplicates:
  assumes "poll_many n E W st w = (Inr (events, st'), w')"
  shows "distinct (map pl_signature events) \<and>
    pl_signature ` set events \<inter> seen_signatures st = {} \<and>
    seen_signatures st' = seen_signatures st \<union> pl_signature ` set events \<and>
    (\<forall>e \<in> set events. \<exists>line \<in> set (pl_logs e).
       substr PUMP_AMM_PROGRAM_ID line \<or> substr METEORA_DLMM_PROGRAM_ID line)"
  using assms
proof (induction n arbitrary: st w events)
  case (Suc n)
  from Suc.prems obtain event st1 w1 rest where run:
    "poll_event E W st w = (Inr (event, st1), w1)"
    "poll_many n E W st1 w1 = (Inr (rest, st'), w')"
    "events = (case event of None \<Rightarrow> [] | Some e \<Rightarrow> [e]) @ rest"
    by auto
  show ?case
    using Suc.IH [OF run(2)] poll_event_Inr [OF run(1)] run(3)
    by (cases event) (auto simp: touches_venue_def list_ex_iff)
qed simp

lemma next_event_polls:
  assumes "poll_many k E W st w = (Inr ([], st1), w1)"
    and "poll_event E W st1 w1 = (Inr (Some e, st'), w')" and "k < fuel"
  shows "next_event fuel E W st w = (Inr (Some (e, st')), w')"
  using assms
proof (induction k arbitrary: fuel st w)
  case 0
  then show ?case by (cases fuel) (auto simp: bindIO_def)
next
  case (Suc k)
  from Suc.prems(1) obtain event st2 w2 rest where run:
    "poll_event E W st w = (Inr (event, st2), w2)"
    "poll_many k E W st2 w2 = (Inr (rest, st1), w1)"
    "(case event of None \<Rightarrow> [] | Some e \<Rightarrow> [e]) @ rest = []"
    by auto
  from run(3) have "event = None" "rest = []" by (auto split: option.splits)
  moreover obtain fuel' where "fuel = Suc fuel'" "k < fuel'" using Suc.prems(3) by (cases fuel) auto
  ultimately show ?case
    using run Suc.IH [of st2 w2 fuel'] Suc.prems(2) by (simp add: bindIO_Inr)
qed

text \<open>
  C31. Waiting for an event ends as soon as there is one.  If \<open>k\<close> polls yield nothing and the
  next one yields an event, then \<open>next_event\<close> with any fuel above \<open>k\<close> returns that very
  event, with the socket at that point.
\<close>

theorem next_event_returns_first:
  assumes "poll_many k E W st w = (Inr ([], st1), w1)"
    and "poll_event E W st1 w1 = (Inr (Some e, st'), w')" and "k < fuel"
  shows "next_event fuel E W st w = (Inr (Some (e, st')), w') \<and> touches_venue e \<and>
    pl_signature e \<notin> seen_signatures st1"
  using next_event_polls [OF assms] poll_event_Inr [OF assms(2)] by simp

lemma fork_events_Inr:
  assumes "fork_events rp slot mints price minimum tx = Inr (status, events)"
  shows "status \<in> {''unavailable_or_reorged'', ''confirmed''} \<and> (status = ''confirmed'' \<or> events = []) \<and>
    (\<forall>e \<in> set events. lb_slot e = slot \<and> \<not> lb_buy_usd e < minimum)"
proof (cases tx)
  case None
  then show ?thesis using assms by (simp add: fork_events_def)
next
  case (Some t)
  then obtain block where "detect_large_buys rp block slot mints price minimum = Inr events"
    "status = ''confirmed''"
    using assms by (auto simp: fork_events_def)
  then show ?thesis using detect_events_basic by simp
qed

lemma reconcile_Inr:
  assumes "reconcile E mints price minimum retries pause event w = (Inr r, w')"
  shows "po_transactions_submitted r = 0 \<and> \<not> po_live_execution_enabled r \<and>
    po_fork_status r \<in> {''failed_processed_transaction'', ''unavailable_or_reorged'', ''confirmed''} \<and>
    (po_fork_status r = ''confirmed'' \<or> po_events r = []) \<and>
    (\<forall>e \<in> set (po_events r). lb_slot e = po_observation_slot r \<and> \<not> lb_buy_usd e < minimum)"
proof (cases "pl_succeeded event")
  case False
  then have "r = processed_report event ''failed_processed_transaction'' None []"
    using assms by (simp add: reconcile_def)
  then show ?thesis by (simp add: processed_report_def)
next
  case True
  then obtain tx status events where
    fe: "fork_events (rep E) (pl_slot event) (set_order E mints) price minimum tx = Inr (status, events)"
    and r: "r = processed_report event status (Some (card mints)) events"
    using assms by (auto simp: reconcile_def split: sum.splits)
  show ?thesis using fork_events_Inr [OF fe] by (auto simp: r processed_report_def)
qed

text \<open>
  Events are reported only for a confirmed transaction.  A completed observation of the stream
  submits nothing; if its status is not ''confirmed'' it lists no event, and every event it lists
  is of the observed slot and reaches the threshold.
\<close>

theorem observe_processed_only_confirmed:
  assumes "observe_processed_once fuel E W url gmgn minimum retries pause w = (Inr (Some r), w')"
  shows "po_transactions_submitted r = 0 \<and> \<not> po_live_execution_enabled r \<and>
    po_fork_status r \<in> {''failed_processed_transaction'', ''unavailable_or_reorged'', ''confirmed''} \<and>
    (po_fork_status r = ''confirmed'' \<or> po_events r = []) \<and>
    (\<forall>e \<in> set (po_events r). lb_slot e = po_observation_slot r \<and> \<not> lb_buy_usd e < minimum)"
proof -
  obtain mints price found w4 where body:
    "report_found E mints price minimum retries pause found w4 = (Inr (Some r), w')"
    using assms unfolding observe_processed_once_def by blast
  then obtain event st where "found = Some (event, st)" by (cases found) (auto simp: report_found_def)
  with body have "reconcile E mints price minimum retries pause event w4 = (Inr r, w')"
    by (auto simp: report_found_def)
  then show ?thesis by (rule reconcile_Inr)
qed

text \<open>A node that answers every call of the socket with the same notification.\<close>

definition demo_notification :: json where
  "demo_notification = JDict [(''method'', JStr ''logsNotification''), (''params'', JDict
     [(''result'', JDict [(''context'', JDict [(''slot'', JInt 9)]), (''value'', JDict
        [(''signature'', JStr ''S''), (''err'', JNull),
         (''logs'', JList [JStr PUMP_AMM_PROGRAM_ID])])])])]"

definition demo_socket :: "nat socket_env" where
  "demo_socket = \<lparr> url_parse = (\<lambda>u. \<lparr> url_scheme = ''https'', url_netloc = u, url_path = [],
       url_params = [], url_query = [], url_fragment = [] \<rparr>),
     url_unparse = (\<lambda>p. url_scheme p @ ''://'' @ url_netloc p),
     ws_open = (\<lambda>_ w. (Inr (JDict [(''result'', JInt 1)]), w)),
     ws_recv = (\<lambda>w. (Inr (Some demo_notification), w)) \<rparr>"

definition demo_log_event :: ProcessedLogEvent where
  "demo_log_event = \<lparr> pl_signature = ''S'', pl_slot = 9, pl_error = JNull,
     pl_logs = [PUMP_AMM_PROGRAM_ID] \<rparr>"

definition open_stream :: "string set \<Rightarrow> log_stream" where
  "open_stream S = \<lparr> connected = True, seen_signatures = S \<rparr>"

lemma demo_poll:
  "poll_event dead_env demo_socket (open_stream {}) w = (Inr (Some demo_log_event, open_stream {''S''}), w)"
  "poll_event dead_env demo_socket (open_stream {''S''}) w = (Inr (None, open_stream {''S''}), w)"
proof -
  have "parse_log_notification (rep (dead_env :: nat env)) demo_notification = Inr (Some demo_log_event)"
    by (simp add: parse_log_notification_def demo_notification_def demo_log_event_def py_or_def)
  moreover have "touches_venue demo_log_event"
    by (simp add: touches_venue_def demo_log_event_def PUMP_AMM_PROGRAM_ID_def)
  moreover have "pl_signature demo_log_event = ''S''" by (simp add: demo_log_event_def)
  ultimately show
    "poll_event dead_env demo_socket (open_stream {}) w = (Inr (Some demo_log_event, open_stream {''S''}), w)"
    "poll_event dead_env demo_socket (open_stream {''S''}) w = (Inr (None, open_stream {''S''}), w)"
    by (simp_all add: poll_event_def bindIO_def demo_socket_def accept_message_def open_stream_def)
qed

theorem poll_many_deduplicates_witness:
  "\<exists>events st. poll_many 3 dead_env demo_socket (open_stream {}) 0 = (Inr (events, st), 0) \<and>
     events = [demo_log_event] \<and> distinct (map pl_signature events)"
proof -
  have "poll_many 3 dead_env demo_socket (open_stream {}) 0 = (Inr ([demo_log_event], open_stream {''S''}), 0)"
    by (simp add: numeral_3_eq_3 bindIO_def demo_poll)
  with poll_many_deduplicates [OF this] show ?thesis by simp
qed

theorem next_event_returns_first_witness:
  "next_event 5 dead_env demo_socket (open_stream {}) 0
     = (Inr (Some (demo_log_event, open_stream {''S''})), 0) \<and> touches_venue demo_log_event"
proof -
  have "poll_many 0 dead_env demo_socket (open_stream {}) 0 = (Inr ([], open_stream {}), 0)" by simp
  from next_event_returns_first [OF this demo_poll(1), of 5] show ?thesis by simp
qed

theorem observe_processed_only_confirmed_witness:
  "\<exists>r. observe_processed_once 1 (dead_env \<lparr> rpc_post := (\<lambda>_ w. (Inr (JDict []), w)) \<rparr>) demo_socket ''u''
       \<lparr>api_key = None, fallback_sol_price_usd = Fin 100\<rparr> (Fin 300) 2 (Fin 0) 0 = (Inr (Some r), 0) \<and>
     po_fork_status r \<noteq> ''confirmed'' \<and> po_events r = []"
proof -
  let ?E = "dead_env \<lparr> rpc_post := (\<lambda>_ w. (Inr (JDict []), w)) \<rparr> :: nat env"
  have mints: "trending_mints ?E \<lparr>api_key = None, fallback_sol_price_usd = Fin 100\<rparr> w = (Inr {}, w)" for w
    by (simp add: trending_mints_def intervals_def trending_interval_def gmgn_get_def bindIO_def
        catchIO_def dead_env_def)
  have enter: "stream_enter demo_socket ''u'' new_stream w = (Inr (open_stream {}), w)" for w
    by (simp add: stream_enter_def bindIO_def demo_socket_def new_stream_def open_stream_def)
  have r: "rep ?E = rep (dead_env :: nat env)" by simp
  have poll: "poll_event ?E demo_socket (open_stream {}) w = (Inr (Some demo_log_event, open_stream {''S''}), w)" for w
    using demo_poll(1) [of w] unfolding poll_event_def r .
  have fetch: "fetch_confirmed 2 ?E (Fin 0) sig w = (Inr None, w)" for sig w
    by (simp add: numeral_2_eq_2 bindIO_def transaction_def transaction_json_def rpc_call_def sleep_def dead_env_def)
  have "\<exists>r. observe_processed_once 1 ?E demo_socket ''u''
       \<lparr>api_key = None, fallback_sol_price_usd = Fin 100\<rparr> (Fin 300) 2 (Fin 0) 0 = (Inr (Some r), 0) \<and>
     po_fork_status r = ''unavailable_or_reorged''"
    by (simp add: observe_processed_once_def bindIO_def mints sol_price_usd_def enter poll fetch
        report_found_def reconcile_def pl_succeeded_def demo_log_event_def fork_events_def processed_report_def)
  then obtain r where r: "observe_processed_once 1 ?E demo_socket ''u''
       \<lparr>api_key = None, fallback_sol_price_usd = Fin 100\<rparr> (Fin 300) 2 (Fin 0) 0 = (Inr (Some r), 0)"
     "po_fork_status r = ''unavailable_or_reorged''" by blast
  from observe_processed_only_confirmed [OF r(1)] r show ?thesis by auto
qed

end
