(* ===== verification/Tracing.thy ===== *)
theory Tracing
  imports Growing Stream_Events
begin

text \<open>
  Which programs the code starts.  \<open>traced E\<close> is the environment \<open>E\<close> with a log of every
  script started and its input; the log is part of the world, so exceptions and handlers keep it.
  \<open>emits get J m\<close> says that running \<open>m\<close> only adds entries to the log that satisfy
  \<open>J\<close>; the collection \<open>emits\<close> holds its rules, one per way of putting operations
  together, so a component's rule is one line.
\<close>

named_theorems emits "rules for the scripts an operation starts"

type_synonym script_log = "(string \<times> json) list"

definition with_log :: "('w, 'a) io \<Rightarrow> ('w \<times> script_log, 'a) io" where
  "with_log m = in_world m"

definition traced :: "'w env \<Rightarrow> ('w \<times> script_log) env" where
  "traced E = \<lparr>
     rep = rep E,
     rpc_post = (\<lambda>q. with_log (rpc_post E q)),
     http_get = (\<lambda>u ps. with_log (http_get E u ps)),
     run_script = (\<lambda>name input (w, l). case run_script E name input w of
        (r, w') \<Rightarrow> (r, (w', l @ [(name, input)]))),
     clock = (\<lambda>(w, l). case clock E w of (t, w') \<Rightarrow> (t, (w', l))),
     fresh_uuid = (\<lambda>(w, l). case fresh_uuid E w of (u, w') \<Rightarrow> (u, (w', l))),
     sleep_for = (\<lambda>t (w, l). (sleep_for E t w, l)),
     set_order = set_order E \<rparr>"

definition traced_socket :: "'w socket_env \<Rightarrow> ('w \<times> script_log) socket_env" where
  "traced_socket W = \<lparr> url_parse = url_parse W, url_unparse = url_unparse W,
     ws_open = (\<lambda>u. with_log (ws_open W u)), ws_recv = with_log (ws_recv W) \<rparr>"

abbreviation emits :: "('w \<Rightarrow> script_log) \<Rightarrow> (string \<times> json \<Rightarrow> bool) \<Rightarrow> ('w, 'a) io \<Rightarrow> bool" where
  "emits get J m \<equiv> grows (\<lambda>_. True) get J m"

lemma emits_iff:
  "emits get J m \<longleftrightarrow> (\<forall>w. \<exists>new. get (snd (m w)) = get w @ new \<and> list_all J new)"
  by (simp add: grows_def)

section \<open>Ways of putting operations together\<close>

text \<open>The rules of \<open>grows\<close>, without an invariant.\<close>

lemmas emits_rules [emits] =
  grows_result grows_bind grows_catch grows_finally grows_if grows_option grows_prod grows_Let
  grows_for_each grows_until_true

lemma emits_bind_from:
  assumes "emits get J m" "\<And>x w w'. m w = (Inr x, w') \<Longrightarrow> emits get J (f x)"
  shows "emits get J (bindIO m f)"
  using assms by (intro grows_bind_from)

lemma emits_in_world [emits]:
  assumes "emits get J m"
  shows "emits (get \<circ> fst) J (in_world m)"
proof -
  have "\<exists>new. get (snd (m w)) = get w @ new \<and> list_all J new" for w
    using assms by (simp add: emits_iff)
  then show ?thesis by (auto simp: emits_iff in_world_def split: prod.split)
    (metis snd_conv)
qed

lemma emits_state [emits]: "emits (get \<circ> fst) J (state f)" "emits (get \<circ> fst) J (update g)"
  by (auto simp: emits_iff state_def update_def)

section \<open>The environment's operations\<close>

lemma emits_with_log [emits]: "emits snd J (with_log m)"
  by (auto simp: emits_iff with_log_def in_world_def split: prod.split)

lemma emits_rpc_post [emits]: "emits snd J (rpc_post (traced E) q)"
  by (simp add: traced_def emits)

lemma emits_http_get [emits]: "emits snd J (http_get (traced E) u ps)"
  by (simp add: traced_def emits)

lemma emits_run_script: "J (name, input) \<Longrightarrow> emits snd J (run_script (traced E) name input)"
  by (auto simp: emits_iff traced_def split: prod.split)

lemma emits_now [emits]: "emits snd J (now (traced E))"
  by (auto simp: emits_iff traced_def now_def split: prod.split)

lemma emits_uuid4 [emits]: "emits snd J (uuid4 (traced E))"
  by (auto simp: emits_iff traced_def uuid4_def split: prod.split)

lemma emits_sleep [emits]: "emits snd J (sleep (traced E) t)"
  by (auto simp: emits_iff traced_def sleep_def split: prod.split)

lemma emits_ws_open [emits]: "emits snd J (ws_open (traced_socket W) u)"
  by (simp add: traced_socket_def emits)

lemma emits_ws_recv [emits]: "emits snd J (ws_recv (traced_socket W))"
  by (simp add: traced_socket_def emits)

section \<open>The read-only clients\<close>

lemma emits_rpc_call [emits]: "emits snd J (rpc_call (traced E) m ps)"
  unfolding rpc_call_def by (intro emits)

lemma emits_rpc [emits]:
  "emits snd J (latest_slot (traced E) c)" "emits snd J (balance (traced E) a ms)"
  "emits snd J (account_info (traced E) a)" "emits snd J (transaction (traced E) sig c)"
  "emits snd J (simulate_transaction (traced E) tx ms rb accs)"
  unfolding latest_slot_def balance_def account_info_def transaction_def transaction_json_def simulate_transaction_def
  by (intro emits)+

lemma emits_gmgn_get [emits]: "emits snd J (gmgn_get (traced E) u ps)"
  unfolding gmgn_get_def by (intro emits)

lemma emits_trending_interval [emits]: "emits snd J (trending_interval (traced E) g i ms)"
  unfolding trending_interval_def
  by (intro emits) (auto split: exn.split intro: emits)

lemma emits_trending_intervals [emits]: "emits snd J (trending_intervals (traced E) g is ms)"
  by (induction "is" arbitrary: ms) (auto intro!: emits)

lemma emits_gmgn [emits]:
  "emits snd J (trending_mints (traced E) g)" "emits snd J (sol_price_usd (traced E) g)"
  unfolding trending_mints_def sol_price_usd_def by (intro emits)+

lemma emits_stream [emits]:
  "emits snd J (stream_enter (traced_socket W) url st)"
  "emits snd J (poll_event (traced E) (traced_socket W) st)"
  unfolding stream_enter_def poll_event_def by (intro emits)+

lemma emits_fetch_confirmed [emits]: "emits snd J (fetch_confirmed n (traced E) pause sig)"
  by (induction n) (auto intro!: emits)

end
