(* ===== verification/PyText.thy ===== *)
theory PyText
  imports Datetime
begin

text \<open>
  What Python makes of values in passing: the text of an exception, a float printed with a fixed
  number of decimals, and the operands of arithmetic.
\<close>

text \<open>The text \<open>str(e)\<close> of an exception.\<close>

fun exn_text :: "exn \<Rightarrow> string" where
  "exn_text (ValueError s) = s"
| "exn_text (TypeError s) = s"
| "exn_text (KeyError s) = CHR 0x27 # s @ [CHR 0x27]"
| "exn_text (AttributeError s) = s"
| "exn_text (IndexError s) = s"
| "exn_text (NameError s) = s"
| "exn_text (OverflowError s) = s"
| "exn_text ZeroDivisionError = ''division by zero''"
| "exn_text (RuntimeError s) = s"
| "exn_text (ActiveAttemptError s) = s"
| "exn_text (DuplicateCandidateError s) = s"
| "exn_text (JSONDecodeError s) = s"
| "exn_text (OSError s) = s"
| "exn_text (FileExistsError s) = s"
| "exn_text (RequestException s) = s"

text \<open>\<open>format(x, ".9f")\<close>, for any number of decimals.\<close>

fun fixed :: "nat \<Rightarrow> pyfloat \<Rightarrow> string" where
  "fixed k (Fin r) =
     (let n = nat (rhe (\<bar>r\<bar> * 10 ^ k))
      in (if r < 0 then ''-'' else []) @ str_of_nat (n div 10 ^ k) @ ''.'' @ pad k (n mod 10 ^ k))"
| "fixed k PInf = ''inf''"
| "fixed k NInf = ''-inf''"
| "fixed k NaN = ''nan''"

text \<open>A value as an operand of float arithmetic.\<close>

fun num :: "json \<Rightarrow> pyfloat res" where
  "num (JFloat x) = Inr x"
| "num (JInt n) = float_of_int n"
| "num (JBool b) = Inr (if b then Fin 1 else Fin 0)"
| "num _ = Inl (TypeError ''unsupported operand'')"

end
