(* ===== verification/Positions.thy ===== *)
theory Positions
  imports Coordination Pools Tracing PyText
begin

text \<open>
  The position book of \<open>ops/strategy_loop.py\<close>: the Node scripts behind a price, a buy and a
  sell, the positions with their exit rules, and \<open>PositionManager\<close>.  A Python reference to a
  position in the manager's list is its index there.  The configuration is the dictionary the code
  passes around; what is on the disk below \<open>scripts/\<close> is the parameter \<open>present\<close>.
\<close>

section \<open>Scripts\<close>

definition node_error :: "string \<Rightarrow> json" where
  "node_error text = JDict [(''submitted'', JBool False), (''error'', JStr text)]"

text \<open>\<open>_run_node\<close>: every failure of the script becomes a result.\<close>

definition run_node :: "'w env \<Rightarrow> (string \<Rightarrow> bool) \<Rightarrow> string \<Rightarrow> json \<Rightarrow> ('w, json) io" where
  "run_node E present script payload =
     (if \<not> present script then retIO (node_error (''script not found: '' @ script))
      else catchIO
        (bindIO (run_script E script payload) (\<lambda>p.
         if returncode p \<noteq> 0
         then retIO (node_error (if strip (stderr p) \<noteq> [] then strip (stderr p)
                                 else ''exit code '' @ str_of_int (returncode p)))
         else liftR (stdout_json p)))
        (\<lambda>e. retIO (node_error (exn_text e))))"

definition price_script :: string where
  "price_script = ''scripts/get-pool-state.mjs''"

definition trade_script :: string where
  "trade_script = ''scripts/buy-token.mjs''"

definition get_pool_price ::
  "'w env \<Rightarrow> (string \<Rightarrow> bool) \<Rightarrow> json \<Rightarrow> string \<Rightarrow> ('w, pyfloat option) io" where
  "get_pool_price E present config pump_pool =
     bindIO (liftR (dict_item config ''rpc_url'')) (\<lambda>url.
     bindIO (run_node E present price_script
         (JDict [(''rpcUrl'', url), (''pumpPool'', JStr pump_pool)])) (\<lambda>result.
     bindIO (liftR (dict_get result ''error'' JNull)) (\<lambda>err.
     if truthy err then retIO None
     else
       bindIO (liftR (dict_get result ''price'' JNull)) (\<lambda>price.
       if \<not> truthy price then retIO None
       else bindIO (liftR (py_float price)) (\<lambda>p. retIO (Some (fdiv p (Fin 1000000000))))))))"

definition trade_limits :: "json \<Rightarrow> (string \<times> json) list res" where
  "trade_limits config =
     bindR (dict_get config ''direct_compute_unit_price_micro_lamports'' (JInt 50000)) (\<lambda>cu.
     bindR (dict_get config ''maximum_transaction_fee_lamports'' (JInt 100000)) (\<lambda>fee.
     ret [(''computeUnitPriceMicroLamports'', cu), (''maxFeeLamports'', fee)]))"

text \<open>The hot wallet's key file; the scripts read it, the Python code passes its path on.\<close>

definition buy_token ::
  "'w env \<Rightarrow> solders \<Rightarrow> (string \<Rightarrow> bool) \<Rightarrow> json \<Rightarrow> json \<Rightarrow> string \<Rightarrow> pyfloat \<Rightarrow> json \<Rightarrow> ('w, json) io" where
  "buy_token E S present keypair config mint buy_sol slippage =
     bindIO (liftR (canonical_pump_pool S mint)) (\<lambda>pool.
     bindIO (liftR (dict_item config ''rpc_url'')) (\<lambda>url.
     bindIO (liftR (trade_limits config)) (\<lambda>limits.
     bindIO (run_node E present trade_script
         (JDict ([(''action'', JStr ''buy''), (''rpcUrl'', url), (''keypairPath'', keypair),
           (''mint'', JStr mint), (''pumpPool'', JStr pool), (''buySol'', JStr (fixed 9 buy_sol)),
           (''slippageBps'', slippage)] @ limits))) (\<lambda>result.
     liftR (bindR (set_item result ''mint'' (JStr mint)) (\<lambda>r.
            bindR (set_item r ''pump_pool'' (JStr pool)) (\<lambda>r.
            set_item r ''buy_sol'' (JFloat buy_sol))))))))"

definition sell_token ::
  "'w env \<Rightarrow> (string \<Rightarrow> bool) \<Rightarrow> json \<Rightarrow> json \<Rightarrow> string \<Rightarrow> string \<Rightarrow> ('w, json) io" where
  "sell_token E present keypair config mint pump_pool =
     bindIO (liftR (dict_item config ''rpc_url'')) (\<lambda>url.
     bindIO (liftR (trade_limits config)) (\<lambda>limits.
     run_node E present trade_script
       (JDict ([(''action'', JStr ''sell''), (''rpcUrl'', url), (''keypairPath'', keypair),
         (''mint'', JStr mint), (''pumpPool'', JStr pump_pool)] @ limits))))"

section \<open>Positions\<close>

record Position =
  pos_id :: string
  pos_strategy :: string
  pos_mint :: string
  pos_pump_pool :: string
  pos_buy_sig :: json
  pos_entry_slot :: int
  pos_entry_time :: pyfloat
  pos_buy_sol :: pyfloat
  pos_entry_price_sol :: pyfloat
  pos_take_profit_pct :: pyfloat
  pos_stop_loss_pct :: pyfloat
  pos_hold_seconds :: pyfloat
  pos_trailing_stop_pct :: pyfloat
  pos_closed :: bool
  pos_exit_sig :: json
  pos_exit_time :: "pyfloat option"
  pos_exit_reason :: "string option"
  pos_pnl_sol :: "pyfloat option"
  pos_peak_price_sol :: pyfloat
  pos_last_price_check :: pyfloat

record PositionManager =
  pm_positions :: "Position list"
  pm_max_positions :: nat

definition new_manager :: "nat \<Rightarrow> PositionManager" where
  "new_manager n = \<lparr> pm_positions = [], pm_max_positions = n \<rparr>"

definition active :: "PositionManager \<Rightarrow> Position list" where
  "active m = filter (\<lambda>p. \<not> pos_closed p) (pm_positions m)"

definition can_open :: "PositionManager \<Rightarrow> bool" where
  "can_open m \<longleftrightarrow> length (active m) < pm_max_positions m"

definition open_position :: "Position \<Rightarrow> PositionManager \<Rightarrow> PositionManager" where
  "open_position p m = m\<lparr>pm_positions := pm_positions m @ [p]\<rparr>"

definition close_position :: "string \<Rightarrow> pyfloat \<Rightarrow> pyfloat \<Rightarrow> Position \<Rightarrow> Position" where
  "close_position reason time pnl p =
     p\<lparr>pos_exit_reason := Some reason, pos_exit_time := Some time, pos_pnl_sol := Some pnl,
       pos_closed := True\<rparr>"

section \<open>Exits\<close>

text \<open>Per cent of change from one price to another.\<close>

definition change_pct :: "pyfloat \<Rightarrow> pyfloat \<Rightarrow> pyfloat" where
  "change_pct price base = fdiv (price - base) base * Fin 100"

definition raise_peak :: "pyfloat \<Rightarrow> Position \<Rightarrow> Position" where
  "raise_peak price p = (if pos_peak_price_sol p < price then p\<lparr>pos_peak_price_sol := price\<rparr> else p)"

text \<open>The three exits that look at the price, in the code's order.\<close>

definition price_exit :: "pyfloat \<Rightarrow> Position \<Rightarrow> string option" where
  "price_exit price p =
     (let change = change_pct price (pos_entry_price_sol p) in
      if Fin 0 < pos_peak_price_sol p \<and> Fin 0 < pos_trailing_stop_pct p \<and>
         change_pct price (pos_peak_price_sol p) \<le> - pos_trailing_stop_pct p
      then Some ''trailing_stop''
      else if Fin 0 < pos_take_profit_pct p \<and> pos_take_profit_pct p \<le> change
      then Some ''take_profit''
      else if change \<le> - pos_stop_loss_pct p then Some ''stop_loss''
      else None)"

definition on_price :: "pyfloat \<Rightarrow> pyfloat option \<Rightarrow> Position \<Rightarrow> bool \<times> Position" where
  "on_price time quote p = (case quote of
     None \<Rightarrow> (False, p)
   | Some price \<Rightarrow>
       if price \<le> Fin 0 \<or> pos_entry_price_sol p \<le> Fin 0 then (False, p)
       else
         (let p' = raise_peak price p in
          case price_exit price p' of
            None \<Rightarrow> (False, p')
          | Some reason \<Rightarrow>
              (True, close_position reason time
                 (fdiv (pos_buy_sol p' * change_pct price (pos_entry_price_sol p')) (Fin 100)) p')))"

text \<open>One turn of the loop of \<open>check_exits\<close>; the result says whether the position exits.\<close>

definition check_position ::
  "'w env \<Rightarrow> (string \<Rightarrow> bool) \<Rightarrow> json \<Rightarrow> pyfloat \<Rightarrow> ('w \<times> Position, bool) io" where
  "check_position E present config time =
     bindIO (state id) (\<lambda>p.
     let elapsed = time - pos_entry_time p in
     if pos_hold_seconds p \<le> elapsed
     then bindIO (update (close_position ''timeout'' time (Fin 0))) (\<lambda>_. retIO True)
     else if elapsed < Fin 3 then retIO False
     else if time - pos_last_price_check p < Fin 3 then retIO False
     else
       bindIO (update (\<lambda>p. p\<lparr>pos_last_price_check := time\<rparr>)) (\<lambda>_.
       bindIO (in_world (get_pool_price E present config (pos_pump_pool p))) (\<lambda>quote.
       bindIO (state (\<lambda>p. fst (on_price time quote p))) (\<lambda>exits.
       bindIO (update (\<lambda>p. snd (on_price time quote p))) (\<lambda>_. retIO exits)))))"

text \<open>An operation on the position with a given index.\<close>

definition at_position :: "nat \<Rightarrow> ('w \<times> Position, 'a) io \<Rightarrow> ('w \<times> PositionManager, 'a) io" where
  "at_position i m = (\<lambda>(w, pm). case m (w, pm_positions pm ! i) of
     (r, (w', p)) \<Rightarrow> (r, (w', pm\<lparr>pm_positions := (pm_positions pm)[i := p]\<rparr>)))"

definition active_indices :: "PositionManager \<Rightarrow> nat list" where
  "active_indices m =
     filter (\<lambda>i. \<not> pos_closed (pm_positions m ! i)) [0 ..< length (pm_positions m)]"

fun collect_exits ::
  "'w env \<Rightarrow> (string \<Rightarrow> bool) \<Rightarrow> json \<Rightarrow> pyfloat \<Rightarrow> nat list \<Rightarrow> ('w \<times> PositionManager, nat list) io" where
  "collect_exits E present config time [] = retIO []"
| "collect_exits E present config time (i # is) =
     bindIO (at_position i (check_position E present config time)) (\<lambda>exits.
     bindIO (collect_exits E present config time is) (\<lambda>out. retIO (if exits then i # out else out)))"

definition check_exits ::
  "'w env \<Rightarrow> (string \<Rightarrow> bool) \<Rightarrow> json \<Rightarrow> ('w \<times> PositionManager, nat list) io" where
  "check_exits E present config =
     bindIO (in_world (now E)) (\<lambda>time.
     bindIO (state active_indices) (\<lambda>is. collect_exits E present config time is))"

section \<open>What a check of the exits leaves\<close>

text \<open>The fields no exit check ever changes.\<close>

definition frozen :: "Position \<Rightarrow> string \<times> string \<times> string \<times> string \<times> json \<times> pyfloat \<times> pyfloat \<times> pyfloat" where
  "frozen p = (pos_id p, pos_strategy p, pos_mint p, pos_pump_pool p, pos_buy_sig p,
     pos_entry_time p, pos_buy_sol p, pos_hold_seconds p)"

definition exit_reasons :: "string set" where
  "exit_reasons = {''timeout'', ''trailing_stop'', ''take_profit'', ''stop_loss''}"

text \<open>An open position \<open>p\<close> checked at a time: either it exits, or it is still within its time.\<close>

definition settles :: "pyfloat \<Rightarrow> Position \<Rightarrow> Position \<Rightarrow> bool \<Rightarrow> bool" where
  "settles time p p' exits \<longleftrightarrow> frozen p' = frozen p \<and> pos_closed p' = exits \<and>
     (if exits then pos_exit_time p' = Some time \<and> pos_exit_reason p' \<in> Some ` exit_reasons \<and>
        pos_pnl_sol p' \<noteq> None \<and>
        (pos_exit_reason p' = Some ''timeout'' \<longleftrightarrow> pos_hold_seconds p \<le> time - pos_entry_time p)
      else \<not> pos_hold_seconds p \<le> time - pos_entry_time p)"

lemma frozen_update [simp]:
  "frozen (close_position reason time pnl p) = frozen p"
  "frozen (raise_peak price p) = frozen p"
  "frozen (p\<lparr>pos_last_price_check := time\<rparr>) = frozen p"
  by (simp_all add: frozen_def close_position_def raise_peak_def)

lemma closed_update [simp]:
  "pos_closed (close_position reason time pnl p)" "pos_closed (raise_peak price p) = pos_closed p"
  "pos_exit_time (close_position reason time pnl p) = Some time"
  "pos_exit_reason (close_position reason time pnl p) = Some reason"
  "pos_pnl_sol (close_position reason time pnl p) = Some pnl"
  by (simp_all add: close_position_def raise_peak_def)

lemma price_exit_reason:
  "price_exit price p = Some reason \<Longrightarrow> reason \<in> {''trailing_stop'', ''take_profit'', ''stop_loss''}"
  by (auto simp: price_exit_def Let_def split: if_splits)

lemma on_price_settles:
  assumes "\<not> pos_closed p" "\<not> pos_hold_seconds p \<le> time - pos_entry_time p"
  shows "settles time p (snd (on_price time quote p)) (fst (on_price time quote p))"
  using assms
  by (auto simp: on_price_def settles_def exit_reasons_def Let_def dest: price_exit_reason
      split: option.splits)

lemma settles_after_touch:
  "settles time (p\<lparr>pos_last_price_check := t\<rparr>) p' b \<Longrightarrow> settles time p p' b"
  by (cases b) (simp_all add: settles_def)

lemma check_position_settles:
  assumes "check_position E present config time (w, p) = (Inr b, (w', p'))" "\<not> pos_closed p"
  shows "settles time p p' b"
proof -
  let ?q = "p\<lparr>pos_last_price_check := time\<rparr>"
  consider (timeout) "pos_hold_seconds p \<le> time - pos_entry_time p"
    | (early) "\<not> pos_hold_seconds p \<le> time - pos_entry_time p" "p' = p" "\<not> b"
    | (asked) quote where "\<not> pos_hold_seconds p \<le> time - pos_entry_time p"
        "p' = snd (on_price time quote ?q)" "b = fst (on_price time quote ?q)"
    using assms(1)
    by (auto simp: check_position_def bindIO_def state_def update_def in_world_def Let_def retIO_def
        split: if_splits prod.splits sum.splits)
  then show ?thesis
  proof cases
    case timeout
    with assms show ?thesis
      by (auto simp: check_position_def bindIO_def state_def update_def retIO_def settles_def exit_reasons_def)
  next
    case early
    with assms(2) show ?thesis by (simp add: settles_def)
  next
    case asked
    with assms(2) have "settles time ?q p' b" using on_price_settles [of ?q time quote] by simp
    then show ?thesis by (rule settles_after_touch)
  qed
qed

lemma at_position_run:
  assumes "at_position i m (w, pm) = (r, (w', pm'))"
  obtains p where "m (w, pm_positions pm ! i) = (r, (w', p))"
    "pm' = pm\<lparr>pm_positions := (pm_positions pm)[i := p]\<rparr>"
  using assms by (auto simp: at_position_def split: prod.splits)

lemma collect_exits_settles:
  assumes "collect_exits E present config time is (w, m) = (Inr out, (w', m'))" "distinct is"
    and "\<forall>i \<in> set is. i < length (pm_positions m) \<and> \<not> pos_closed (pm_positions m ! i)"
  shows "length (pm_positions m') = length (pm_positions m) \<and>
    pm_max_positions m' = pm_max_positions m \<and> set out \<subseteq> set is \<and> distinct out \<and>
    (\<forall>i < length (pm_positions m).
       if i \<in> set is then settles time (pm_positions m ! i) (pm_positions m' ! i) (i \<in> set out)
       else pm_positions m' ! i = pm_positions m ! i)"
  using assms
proof (induction "is" arbitrary: w m out)
  case Nil
  then show ?case by (simp add: retIO_def)
next
  case (Cons i js)
  let ?ps = "pm_positions m"
  obtain b w1 m1 rest where steps:
      "at_position i (check_position E present config time) (w, m) = (Inr b, (w1, m1))"
      "collect_exits E present config time js (w1, m1) = (Inr rest, (w', m'))"
      "out = (if b then i # rest else rest)"
    using Cons.prems(1) by (auto simp: retIO_def elim!: bindIO_run)
  from at_position_run [OF steps(1)] obtain p where p:
      "check_position E present config time (w, ?ps ! i) = (Inr b, (w1, p))"
      "m1 = m\<lparr>pm_positions := ?ps[i := p]\<rparr>" .
  have i: "i < length ?ps" "\<not> pos_closed (?ps ! i)" "i \<notin> set js" using Cons.prems by auto
  have sett: "settles time (?ps ! i) p b" using check_position_settles [OF p(1) i(2)] .
  have IH: "length (pm_positions m') = length (pm_positions m1) \<and>
    pm_max_positions m' = pm_max_positions m1 \<and> set rest \<subseteq> set js \<and> distinct rest \<and>
    (\<forall>j < length (pm_positions m1).
       if j \<in> set js then settles time (pm_positions m1 ! j) (pm_positions m' ! j) (j \<in> set rest)
       else pm_positions m' ! j = pm_positions m1 ! j)"
  proof (rule Cons.IH [OF steps(2)])
    have "j \<noteq> i" if "j \<in> set js" for j using i(3) that by blast
    then show "\<forall>j \<in> set js. j < length (pm_positions m1) \<and> \<not> pos_closed (pm_positions m1 ! j)"
      using Cons.prems(3) by (auto simp: p(2) nth_list_update)
  qed (use Cons.prems(2) in simp)
  have len: "length (pm_positions m1) = length ?ps" by (simp add: p(2))
  have "i \<notin> set rest" using IH i(3) by blast
  have "if j \<in> set (i # js) then settles time (?ps ! j) (pm_positions m' ! j) (j \<in> set out)
       else pm_positions m' ! j = ?ps ! j" if j: "j < length ?ps" for j
  proof -
    from IH j have m': "if j \<in> set js then settles time (pm_positions m1 ! j) (pm_positions m' ! j) (j \<in> set rest)
       else pm_positions m' ! j = pm_positions m1 ! j" by (simp add: len)
    show ?thesis
    proof (cases "j = i")
      case True
      with m' i j have "pm_positions m' ! j = p" by (simp add: p(2))
      with sett True steps(3) \<open>i \<notin> set rest\<close> show ?thesis by (cases b) simp_all
    next
      case False
      then have "pm_positions m1 ! j = ?ps ! j" by (simp add: p(2))
      with m' have "if j \<in> set js then settles time (?ps ! j) (pm_positions m' ! j) (j \<in> set rest)
        else pm_positions m' ! j = ?ps ! j" by (simp only:)
      with False steps(3) show ?thesis by (cases b) simp_all
    qed
  qed
  moreover have "set out \<subseteq> set (i # js)" "distinct out"
    using IH steps(3) \<open>i \<notin> set rest\<close> by auto
  ultimately show ?case using IH by (simp add: p(2))
qed

text \<open>
  C13. What a check of the exits does to the book.  At one reading of the clock: the positions keep
  their places and what they were opened with; those already closed are untouched; an open one
  either exits, with a reason, the time and a profit, for the reason \<open>timeout\<close> exactly when its
  holding time is over, and is reported exactly once; or it stays open and is still within its
  holding time.  No position outlives it.
\<close>

theorem check_exits_settles:
  assumes "check_exits E present config (w, m) = (Inr out, (w', m'))"
  shows "length (pm_positions m') = length (pm_positions m) \<and> distinct out \<and>
    (\<forall>i \<in> set out. i < length (pm_positions m) \<and> \<not> pos_closed (pm_positions m ! i)) \<and>
    (\<forall>i < length (pm_positions m).
       if pos_closed (pm_positions m ! i) then pm_positions m' ! i = pm_positions m ! i
       else settles (fst (clock E w)) (pm_positions m ! i) (pm_positions m' ! i) (i \<in> set out))"
proof -
  obtain w1 where run: "collect_exits E present config (fst (clock E w)) (active_indices m) (w1, m)
      = (Inr out, (w', m'))"
    using assms
    by (auto simp: check_exits_def bindIO_def in_world_def now_def state_def split: prod.splits)
  have idx: "i \<in> set (active_indices m) \<longleftrightarrow> i < length (pm_positions m) \<and> \<not> pos_closed (pm_positions m ! i)"
    for i by (auto simp: active_indices_def)
  have "distinct (active_indices m)" by (simp add: active_indices_def)
  from collect_exits_settles [OF run this] show ?thesis by (auto simp: idx split: if_splits)
qed

definition demo_position :: "pyfloat \<Rightarrow> Position" where
  "demo_position hold = \<lparr> pos_id = ''p'', pos_strategy = ''momentum'', pos_mint = ''M'',
     pos_pump_pool = ''P'', pos_buy_sig = JStr ''s'', pos_entry_slot = 1, pos_entry_time = Fin 0,
     pos_buy_sol = Fin 1, pos_entry_price_sol = Fin 1, pos_take_profit_pct = Fin 5,
     pos_stop_loss_pct = Fin 5, pos_hold_seconds = hold, pos_trailing_stop_pct = Fin 5,
     pos_closed = False, pos_exit_sig = JNull, pos_exit_time = None, pos_exit_reason = None,
     pos_pnl_sol = None, pos_peak_price_sol = Fin 0, pos_last_price_check = Fin 0 \<rparr>"

theorem check_exits_settles_witness:
  "\<exists>m'. check_exits (dead_env\<lparr>clock := Pair (Fin 2)\<rparr>) (\<lambda>_. False) (JDict [])
      (0 :: nat, \<lparr>pm_positions = [demo_position (Fin 9), demo_position (Fin 1)], pm_max_positions = 3\<rparr>)
      = (Inr [1], (0, m')) \<and>
    settles (Fin 2) (demo_position (Fin 1)) (pm_positions m' ! 1) True"
proof -
  let ?m = "\<lparr>pm_positions = [demo_position (Fin 9), demo_position (Fin 1)], pm_max_positions = 3\<rparr>"
  let ?E = "dead_env\<lparr>clock := Pair (Fin 2)\<rparr> :: nat env"
  have idx: "active_indices ?m = [0, 1]"
    by (simp add: active_indices_def demo_position_def)
  have "check_position ?E (\<lambda>_. False) (JDict []) (Fin 2) (0, demo_position (Fin 9))
      = (Inr False, (0, demo_position (Fin 9)))"
    by (simp add: check_position_def bindIO_def state_def demo_position_def)
  moreover have "check_position ?E (\<lambda>_. False) (JDict []) (Fin 2) (0, demo_position (Fin 1))
      = (Inr True, (0, close_position ''timeout'' (Fin 2) (Fin 0) (demo_position (Fin 1))))"
    by (simp add: check_position_def bindIO_def state_def update_def demo_position_def)
  ultimately have "\<exists>m'. check_exits ?E (\<lambda>_. False) (JDict []) (0, ?m) = (Inr [1], (0, m'))"
    by (simp add: check_exits_def bindIO_def in_world_def now_def state_def idx at_position_def)
  then obtain m' where m': "check_exits ?E (\<lambda>_. False) (JDict []) (0, ?m) = (Inr [1], (0, m'))" ..
  with check_exits_settles [OF m'] show ?thesis by (auto simp: demo_position_def)
qed

end
