(* ===== verification/Reconnecting.thy ===== *)
theory Reconnecting
  imports Growing Environment
begin

text \<open>
  The run of a watcher that connects again after every exception, the shape of \<open>_run\<close> in
  \<open>backrunner/momentum.py\<close> and \<open>backrunner/copytrader.py\<close>.  The locale
  \<open>reconnecting\<close> names what the shape relies on: a connection, a step on an open connection
  and a pause that always returns.  From it follow, for every number of turns, that the run keeps
  what its parts keep and that it never ends with an exception.
\<close>

lemma returns_retry:
  "\<exists>b. fst (catchIO m (\<lambda>_. bindIO (in_world (sleep E t)) (\<lambda>_. retIO c)) \<sigma>) = Inr b"
proof -
  obtain r w s where "m \<sigma> = (r, (w, s))" by (metis surj_pair)
  then show ?thesis by (cases r) (simp_all add: catchIO_def bindIO_def in_world_def sleep_def)
qed

lemma returns_bind:
  "\<exists>b. fst (m \<sigma>) = Inr b \<Longrightarrow> (\<And>b \<sigma>'. fst (f b \<sigma>') = q) \<Longrightarrow> fst (bindIO m f \<sigma>) = q"
  by (cases "m \<sigma>") (auto simp: bindIO_def)

lemma returns_sleep: "fst (in_world (sleep E t) \<sigma>) = Inr ()"
  by (cases \<sigma>) (simp add: in_world_def sleep_def)

locale reconnecting =
  fixes connect :: "('s, unit) io"
    and step :: "('s, unit) io"
    and pause :: "('s, unit) io"
    and run :: "nat \<Rightarrow> bool \<Rightarrow> ('s, unit) io"
  assumes run_0: "run 0 is_open = retIO ()"
    and run_Suc: "run (Suc n) is_open =
      bindIO (catchIO
          (bindIO (if is_open then retIO () else connect) (\<lambda>_. bindIO step (\<lambda>_. retIO True)))
          (\<lambda>_. bindIO pause (\<lambda>_. retIO False)))
        (run n)"
    and pause_returns: "fst (pause s) = Inr ()"
begin

lemma run_grows:
  assumes "grows I get J connect" "grows I get J step" "grows I get J pause"
  shows "grows I get J (run n is_open)"
proof (induction n arbitrary: is_open)
  case 0
  show ?case unfolding run_0 by (intro grows)
next
  case (Suc n)
  show ?case unfolding run_Suc by (intro grows assms Suc.IH)
qed

lemma turn_returns:
  "\<exists>b. fst (catchIO m (\<lambda>_. bindIO pause (\<lambda>_. retIO c)) s) = Inr b"
  using pause_returns by (auto simp: catchIO_def bindIO_def retIO_def split: sum.split prod.split)
    (metis fst_conv sum.distinct(1))

lemma run_returns: "fst (run n is_open s) = Inr ()"
proof (induction n arbitrary: is_open s)
  case (Suc n)
  show ?case unfolding run_Suc by (rule returns_bind [OF turn_returns Suc.IH])
qed (simp add: run_0 retIO_def)

end

end
