(* ===== verification/Momentum.thy ===== *)
theory Momentum
  imports Reconnecting Detector Pools Stream_Events
begin

text \<open>
  \<open>backrunner/momentum.py\<close>: the watcher that turns Pump AMM transactions into momentum
  signals.  \<open>HotFlowAggregator\<close> collects the buys of a mint over a short window; the
  watcher decodes each notified transaction, feeds the aggregator and queues what it triggers
  when the pool of the mint still exists.  The websocket, the RPC endpoint it posts to and the
  clock are parameters.
\<close>

section \<open>The aggregator\<close>

record MomentumSignal =
  ms_buyer :: string
  ms_mint :: string
  ms_buy_sol :: pyfloat
  ms_buy_usd :: pyfloat
  ms_received :: pyfloat
  ms_signature :: json
  ms_slot :: int

text \<open>A row of a flow: the time, the buyer, the SOL spent and the SOL price.\<close>

type_synonym flow_row = "pyfloat \<times> string \<times> pyfloat \<times> pyfloat"

record HotFlowAggregator =
  hf_min_successful_buys :: nat
  hf_min_combined_sol :: pyfloat
  hf_window_seconds :: pyfloat
  hf_trending :: "string set"
  hf_seen_signatures :: "json set"
  hf_flows :: "string \<Rightarrow> flow_row list"
  hf_triggered :: "string \<Rightarrow> pyfloat option"

definition new_aggregator :: "nat \<Rightarrow> pyfloat \<Rightarrow> pyfloat \<Rightarrow> HotFlowAggregator" where
  "new_aggregator min_successful_buys min_combined_sol window_seconds =
     \<lparr> hf_min_successful_buys = min_successful_buys, hf_min_combined_sol = min_combined_sol,
       hf_window_seconds = window_seconds, hf_trending = {}, hf_seen_signatures = {},
       hf_flows = (\<lambda>_. []), hf_triggered = (\<lambda>_. None) \<rparr>"

definition flow_set_trending :: "string set \<Rightarrow> HotFlowAggregator \<Rightarrow> HotFlowAggregator" where
  "flow_set_trending mints a = a\<lparr>hf_trending := mints, hf_triggered := hf_triggered a |` mints\<rparr>"

definition recent :: "pyfloat \<Rightarrow> pyfloat \<Rightarrow> flow_row list \<Rightarrow> flow_row list" where
  "recent window timestamp rows = filter (\<lambda>row. timestamp - fst row \<le> window) rows"

definition row_sol :: "flow_row \<Rightarrow> pyfloat" where
  "row_sol row = fst (snd (snd row))"

definition total_sol :: "flow_row list \<Rightarrow> pyfloat" where
  "total_sol rows = py_sum (map row_sol rows)"

text \<open>What \<open>add\<close> refuses without a trace: a mint outside the universe, a signature seen before.\<close>

definition accepts :: "HotFlowAggregator \<Rightarrow> string \<Rightarrow> json \<Rightarrow> bool" where
  "accepts a mint sig \<longleftrightarrow>
     \<not> (hf_trending a \<noteq> {} \<and> mint \<notin> hf_trending a) \<and>
     \<not> (truthy sig \<and> sig \<in> hf_seen_signatures a)"

definition flow_add ::
  "string \<Rightarrow> string \<Rightarrow> pyfloat \<Rightarrow> pyfloat \<Rightarrow> json \<Rightarrow> pyfloat \<Rightarrow> HotFlowAggregator
   \<Rightarrow> MomentumSignal option \<times> HotFlowAggregator" where
  "flow_add mint buyer buy_sol sol_price sig timestamp a =
     (if \<not> accepts a mint sig then (None, a)
      else
        let rows = recent (hf_window_seconds a) timestamp (hf_flows a mint)
              @ [(timestamp, buyer, buy_sol, sol_price)];
            a' = a\<lparr> hf_seen_signatures := (if truthy sig then insert sig (hf_seen_signatures a)
                                          else hf_seen_signatures a),
                    hf_flows := (hf_flows a)(mint := rows) \<rparr>;
            total = total_sol rows
        in if length rows < hf_min_successful_buys a \<or> total < hf_min_combined_sol a then (None, a')
           else if hf_triggered a mint \<noteq> None then (None, a')
           else (Some \<lparr> ms_buyer = buyer, ms_mint = mint, ms_buy_sol = total,
                        ms_buy_usd = total * sol_price, ms_received = Fin 0, ms_signature = sig,
                        ms_slot = 0 \<rparr>,
                 a'\<lparr>hf_triggered := (hf_triggered a)(mint \<mapsto> timestamp)\<rparr>))"

section \<open>The watcher\<close>

text \<open>
  The transport: posting a request to the RPC URL, opening the socket with the subscription and
  its confirmation, and receiving (\<open>None\<close> when the second passes, or the message is no JSON
  object).
\<close>

record 'w feed_env =
  feed_post :: "json \<Rightarrow> ('w, json) io"
  feed_open :: "string \<Rightarrow> json \<Rightarrow> ('w, json) io"
  feed_recv :: "('w, json option) io"

record MomentumState =
  mo_seen_signatures :: "json set"
  mo_trending_mints :: "string set"
  mo_flow :: HotFlowAggregator
  mo_pool_cache :: "(string \<times> (bool \<times> pyfloat)) list"
  mo_queue :: "MomentumSignal list"

record momentum_args =
  ma_minimum_buy_usd :: pyfloat
  ma_sol_price_usd :: pyfloat

definition new_watcher :: MomentumState where
  "new_watcher = \<lparr> mo_seen_signatures = {}, mo_trending_mints = {},
     mo_flow = new_aggregator 2 (flit (1 / 100)) (Fin 5), mo_pool_cache = [], mo_queue = [] \<rparr>"

definition watcher_set_trending :: "string set \<Rightarrow> MomentumState \<Rightarrow> MomentumState" where
  "watcher_set_trending mints s =
     s\<lparr>mo_trending_mints := mints, mo_flow := flow_set_trending mints (mo_flow s)\<rparr>"

definition pump_pool_or_none :: "solders \<Rightarrow> string \<Rightarrow> string option" where
  "pump_pool_or_none S mint = (case canonical_pump_pool S mint of Inr p \<Rightarrow> Some p | Inl _ \<Rightarrow> None)"

text \<open>A set or dictionary key of an unhashable type raises.\<close>

fun hashable :: "json \<Rightarrow> bool" where
  "hashable (JList xs) = False"
| "hashable (JDict m) = False"
| "hashable _ = True"

definition cache_pool :: "string \<Rightarrow> bool \<times> pyfloat \<Rightarrow> MomentumState \<Rightarrow> MomentumState" where
  "cache_pool pool entry s =
     (let cache = AList.update pool entry (mo_pool_cache s)
      in s\<lparr>mo_pool_cache := (if 5000 < length cache then [] else cache)\<rparr>)"

definition pool_lookup :: "'w feed_env \<Rightarrow> string \<Rightarrow> pyfloat \<Rightarrow> ('w \<times> MomentumState, bool) io" where
  "pool_lookup F pool time =
     bindIO (in_world (feed_post F (rpc_request ''getAccountInfo''
         [JStr pool, JDict [(''encoding'', JStr ''base64'')]]))) (\<lambda>resp.
     bindIO (liftR (bindR (dict_get resp ''result'' (JDict [])) (\<lambda>result.
         dict_get result ''value'' JNull))) (\<lambda>value.
     bindIO (update (cache_pool pool (value \<noteq> JNull, time))) (\<lambda>_. retIO (value \<noteq> JNull))))"

definition pool_exists :: "'w env \<Rightarrow> 'w feed_env \<Rightarrow> string \<Rightarrow> ('w \<times> MomentumState, bool) io" where
  "pool_exists E F pool =
     bindIO (in_world (now E)) (\<lambda>time.
     bindIO (state mo_pool_cache) (\<lambda>cache.
     case map_of cache pool of
       Some (known, cached_at) \<Rightarrow>
         if time - cached_at < Fin 300 then retIO known
         else catchIO (pool_lookup F pool time) (\<lambda>_. retIO False)
     | None \<Rightarrow> catchIO (pool_lookup F pool time) (\<lambda>_. retIO False)))"

text \<open>The token deltas; unlike in \<open>detector.py\<close>, the owner is turned into text first.\<close>

definition watch_balance_step :: "(json \<Rightarrow> string) \<Rightarrow> pyfloat \<Rightarrow> json \<Rightarrow> deltas \<Rightarrow> deltas res" where
  "watch_balance_step rp sgn_factor bal ds =
     bindR (dict_get bal ''owner'' (JStr [])) (\<lambda>owner.
     if py_str rp owner = [] then ret ds
     else
       bindR (dict_item bal ''uiTokenAmount'') (\<lambda>amount.
       bindR (bindR (dict_item amount ''amount'') py_int) (\<lambda>n.
       bindR (bindR (dict_item amount ''decimals'') py_int) (\<lambda>d.
       bindR (ui_amount n d) (\<lambda>v.
       bindR (dict_item bal ''mint'') (\<lambda>mint.
       ret (add_delta (py_str rp owner) (py_str rp mint) (sgn_factor * v) ds)))))))"

definition watch_balance_pass ::
  "(json \<Rightarrow> string) \<Rightarrow> json \<Rightarrow> string \<Rightarrow> pyfloat \<Rightarrow> deltas \<Rightarrow> deltas res" where
  "watch_balance_pass rp meta field sgn_factor ds =
     bindR (bindR (dict_get meta field (JList [])) py_iter) (\<lambda>bals.
     foldR (watch_balance_step rp sgn_factor) bals ds)"

definition watch_deltas :: "(json \<Rightarrow> string) \<Rightarrow> json \<Rightarrow> deltas res" where
  "watch_deltas rp meta =
     bindR (watch_balance_pass rp meta ''preTokenBalances'' (Fin (- 1)) []) (\<lambda>ds.
     watch_balance_pass rp meta ''postTokenBalances'' (Fin 1) ds)"

definition paid_sol :: "(string \<times> pyfloat) list \<Rightarrow> (string \<times> pyfloat) list \<Rightarrow> string \<Rightarrow> pyfloat" where
  "paid_sol mint_deltas natives buyer =
     py_max (py_max (Fin 0) (- lookup0 mint_deltas WSOL)) (py_max (Fin 0) (- lookup0 natives buyer))"

text \<open>\<open>self._flow.add(...)\<close>, and what becomes of its signal.\<close>

definition aggregate ::
  "string \<Rightarrow> string \<Rightarrow> pyfloat \<Rightarrow> pyfloat \<Rightarrow> json \<Rightarrow> pyfloat \<Rightarrow> ('w \<times> MomentumState, MomentumSignal option) io" where
  "aggregate mint buyer buy_sol sol_price sig time = (\<lambda>(w, s).
     case flow_add mint buyer buy_sol sol_price sig time (mo_flow s) of
       (out, flow) \<Rightarrow> (Inr out, (w, s\<lparr>mo_flow := flow\<rparr>)))"

definition queue_aggregated ::
  "'w env \<Rightarrow> 'w feed_env \<Rightarrow> solders \<Rightarrow> string \<Rightarrow> MomentumSignal option \<Rightarrow> ('w \<times> MomentumState, unit) io" where
  "queue_aggregated E F S mint aggregated = (case aggregated of
     None \<Rightarrow> retIO ()
   | Some ms \<Rightarrow>
       (case pump_pool_or_none S mint of
          None \<Rightarrow> retIO ()
        | Some pool \<Rightarrow>
            bindIO (pool_exists E F pool) (\<lambda>found.
            if \<not> found then retIO ()
            else update (\<lambda>s. s\<lparr>mo_queue := mo_queue s @ [ms]\<rparr>))))"

text \<open>One buyer and one mint of a transaction.\<close>

definition consider_buy ::
  "'w env \<Rightarrow> 'w feed_env \<Rightarrow> solders \<Rightarrow> momentum_args \<Rightarrow> json \<Rightarrow> (string \<times> pyfloat) list \<Rightarrow> string
   \<Rightarrow> (string \<times> pyfloat) list \<Rightarrow> string \<times> pyfloat \<Rightarrow> ('w \<times> MomentumState, unit) io" where
  "consider_buy E F S a sig natives buyer mint_deltas mint_received =
     (let mint = fst mint_received;
          buy_sol = paid_sol mint_deltas natives buyer
      in if snd mint_received \<le> Fin 0 then retIO ()
         else if mint \<in> set STABLE_MINTS \<or> mint = WSOL then retIO ()
         else if buy_sol * ma_sol_price_usd a < ma_minimum_buy_usd a then retIO ()
         else
           bindIO (state mo_trending_mints) (\<lambda>trending.
           if trending = {} \<or> mint \<notin> trending then retIO ()
           else
             bindIO (in_world (now E)) (\<lambda>time.
             bindIO (aggregate mint buyer buy_sol (ma_sol_price_usd a) sig time)
               (queue_aggregated E F S mint))))"

definition watch_transaction ::
  "'w env \<Rightarrow> 'w feed_env \<Rightarrow> solders \<Rightarrow> momentum_args \<Rightarrow> json \<Rightarrow> json \<Rightarrow> ('w \<times> MomentumState, unit) io" where
  "watch_transaction E F S a sig tx =
     bindIO (liftR (dict_get tx ''meta'' (JDict []))) (\<lambda>meta.
     bindIO (liftR (dict_get meta ''err'' JNull)) (\<lambda>err.
     if truthy err then retIO ()
     else
       bindIO (liftR (bindR (bindR (dict_get tx ''transaction'' (JDict [])) (\<lambda>t.
           dict_get t ''message'' (JDict []))) (\<lambda>msg.
           bindR (bindR (dict_get msg ''accountKeys'' (JList [])) py_iter)
             (mapR (pubkey (rep E)))))) (\<lambda>account_keys.
       bindIO (liftR (watch_deltas (rep E) meta)) (\<lambda>ds.
       bindIO (liftR (native_delta meta account_keys)) (\<lambda>natives.
       for_each (\<lambda>(buyer, mint_deltas).
         for_each (consider_buy E F S a sig natives buyer mint_deltas) mint_deltas) ds)))))"

text \<open>Fetching the notified transaction; any failure skips the message.\<close>

definition fetch_transaction :: "'w feed_env \<Rightarrow> json \<Rightarrow> ('w, json) io" where
  "fetch_transaction F sig =
     catchIO (bindIO (feed_post F (rpc_request ''getTransaction'' [sig, JDict
          [(''encoding'', JStr ''jsonParsed''), (''maxSupportedTransactionVersion'', JInt 0)]]))
        (\<lambda>resp. liftR (dict_get resp ''result'' JNull)))
       (\<lambda>_. retIO JNull)"

definition remember_signature :: "json \<Rightarrow> MomentumState \<Rightarrow> MomentumState" where
  "remember_signature sig s =
     (let seen = insert sig (mo_seen_signatures s)
      in s\<lparr>mo_seen_signatures := (if 5000 < card seen then {} else seen)\<rparr>)"

definition watch_message ::
  "'w env \<Rightarrow> 'w feed_env \<Rightarrow> solders \<Rightarrow> momentum_args \<Rightarrow> json \<Rightarrow> ('w \<times> MomentumState, unit) io" where
  "watch_message E F S a payload =
     bindIO (liftR (dict_get payload ''method'' JNull)) (\<lambda>method.
     if method \<noteq> JStr ''logsNotification'' then retIO ()
     else
       bindIO (liftR (bindR (dict_get payload ''params'' (JDict [])) (\<lambda>p.
           dict_get p ''result'' (JDict [])))) (\<lambda>result.
       bindIO (liftR (dict_get result ''value'' (JDict []))) (\<lambda>value.
       bindIO (liftR (dict_get value ''signature'' JNull)) (\<lambda>sig.
       bindIO (liftR (dict_get value ''err'' JNull)) (\<lambda>err.
       if \<not> truthy sig \<or> truthy err then retIO ()
       else
         bindIO (liftR (bindR (dict_get result ''context'' (JDict [])) (\<lambda>ctx.
             dict_get ctx ''slot'' (JInt 0)))) (\<lambda>slot.
         bindIO (liftR (guardR (hashable sig) (TypeError ''unhashable type''))) (\<lambda>_.
         bindIO (state mo_seen_signatures) (\<lambda>seen.
         if sig \<in> seen then retIO ()
         else
           bindIO (update (remember_signature sig)) (\<lambda>_.
           bindIO (in_world (fetch_transaction F sig)) (\<lambda>tx.
           if \<not> truthy tx then retIO ()
           else watch_transaction E F S a sig tx))))))))))"

definition momentum_subscription :: json where
  "momentum_subscription = JDict [(''jsonrpc'', JStr ''2.0''), (''id'', JInt 1),
     (''method'', JStr ''logsSubscribe''),
     (''params'', JList [JDict [(''mentions'', JList [JStr PUMP_AMM_PROGRAM])],
                         JDict [(''commitment'', JStr ''processed'')]])]"

definition watch_connect :: "'w feed_env \<Rightarrow> string \<Rightarrow> ('w \<times> MomentumState, unit) io" where
  "watch_connect F url =
     bindIO (in_world (feed_open F url momentum_subscription)) (\<lambda>confirmation.
     liftR (bindR (dict_get confirmation ''error'' JNull) (\<lambda>err.
       bindR (if truthy err then ret True
              else bindR (py_in ''result'' confirmation) (\<lambda>b. ret (\<not> b))) (\<lambda>failed.
       if failed then raise (RuntimeError ''subscription failed'') else ret ()))))"

definition watch_step ::
  "'w env \<Rightarrow> 'w feed_env \<Rightarrow> solders \<Rightarrow> momentum_args \<Rightarrow> ('w \<times> MomentumState, unit) io" where
  "watch_step E F S a =
     bindIO (in_world (feed_recv F)) (\<lambda>msg. case msg of
       None \<Rightarrow> retIO ()
     | Some payload \<Rightarrow> watch_message E F S a payload)"

text \<open>
  \<open>_run\<close> around \<open>_connect_and_listen\<close>: every exception closes the socket and, three
  seconds later, connects again.  The fuel bounds the turns, which the code does not.
\<close>

fun watch_run ::
  "nat \<Rightarrow> 'w env \<Rightarrow> 'w feed_env \<Rightarrow> solders \<Rightarrow> momentum_args \<Rightarrow> string \<Rightarrow> bool
   \<Rightarrow> ('w \<times> MomentumState, unit) io" where
  "watch_run 0 E F S a url is_open = retIO ()"
| "watch_run (Suc fuel) E F S a url is_open =
     bindIO (catchIO
         (bindIO (if is_open then retIO () else watch_connect F url) (\<lambda>_.
          bindIO (watch_step E F S a) (\<lambda>_. retIO True)))
         (\<lambda>_. bindIO (in_world (sleep E (Fin 3))) (\<lambda>_. retIO False)))
       (watch_run fuel E F S a url)"

interpretation watcher: reconnecting "watch_connect F url" "watch_step E F S a" "in_world (sleep E (Fin 3))"
  "\<lambda>n. watch_run n E F S a url" for E F S a url
  by unfold_locales (simp_all only: watch_run.simps returns_sleep)

section \<open>The window and the first trigger\<close>

text \<open>
  A call of \<open>add\<close>: mint, buyer, SOL, price, signature, time.  A run of calls gives the signals
  in order; the history is the list of the accepted rows with their mints.
\<close>

type_synonym flow_op = "string \<times> string \<times> pyfloat \<times> pyfloat \<times> json \<times> pyfloat"

fun flow_op :: "flow_op \<Rightarrow> HotFlowAggregator \<Rightarrow> MomentumSignal option \<times> HotFlowAggregator" where
  "flow_op (mint, buyer, sol, price, sig, t) a = flow_add mint buyer sol price sig t a"

fun op_time :: "flow_op \<Rightarrow> pyfloat" where
  "op_time (mint, buyer, sol, price, sig, t) = t"

fun flow_run :: "flow_op list \<Rightarrow> HotFlowAggregator \<Rightarrow> MomentumSignal list \<times> HotFlowAggregator" where
  "flow_run [] a = ([], a)"
| "flow_run (c # cs) a = (case flow_op c a of (out, a1) \<Rightarrow> (case flow_run cs a1 of (ss, a2) \<Rightarrow>
     ((case out of None \<Rightarrow> [] | Some s \<Rightarrow> [s]) @ ss, a2)))"

fun flow_history :: "flow_op list \<Rightarrow> HotFlowAggregator \<Rightarrow> (string \<times> flow_row) list" where
  "flow_history [] a = []"
| "flow_history ((mint, buyer, sol, price, sig, t) # cs) a =
     (if accepts a mint sig then [(mint, (t, buyer, sol, price))] else [])
     @ flow_history cs (snd (flow_add mint buyer sol price sig t a))"

definition rows_of :: "string \<Rightarrow> (string \<times> flow_row) list \<Rightarrow> flow_row list" where
  "rows_of mint h = map snd (filter (\<lambda>e. fst e = mint) h)"

lemma rows_of_append [simp]: "rows_of mint (h @ k) = rows_of mint h @ rows_of mint k"
  by (simp add: rows_of_def)

lemma rows_of_single [simp]: "rows_of mint [(m, r)] = (if m = mint then [r] else [])"
  by (simp add: rows_of_def)

lemma rows_of_Nil [simp]: "rows_of mint [] = []"
  by (simp add: rows_of_def)

lemma flow_run_append:
  "flow_run (cs @ ds) a = (case flow_run cs a of (ss, a1) \<Rightarrow> (case flow_run ds a1 of (tt, a2) \<Rightarrow> (ss @ tt, a2)))"
  by (induction cs arbitrary: a) (auto split: prod.splits)

lemma flow_history_append:
  "flow_history (cs @ ds) a = flow_history cs a @ flow_history ds (snd (flow_run cs a))"
  by (induction cs arbitrary: a) (auto split: prod.splits)

text \<open>Rows that fell out of the window stay out of it as time goes on.\<close>

lemma window_mono:
  assumes "t \<le> u" "u - x \<le> (w :: pyfloat)" "t = Fin t'" "x = Fin x'"
  shows "t - x \<le> w"
proof -
  have "t + Fin (- x') \<le> u + Fin (- x')" by (rule fadd_mono [OF assms(1)])
  then have "t - x \<le> u - x"
    using assms(4) by (simp add: minus_pyfloat_def plus_pyfloat_def uminus_pyfloat_def)
  then show ?thesis using assms(2) by (rule fle_trans)
qed

definition finite_times :: "flow_row list \<Rightarrow> bool" where
  "finite_times rows \<longleftrightarrow> (\<forall>row \<in> set rows. \<exists>x. fst row = Fin x)"

lemma recent_recent:
  assumes "t \<le> u" "t = Fin t'" "finite_times rows"
  shows "recent w u (recent w t rows) = recent w u rows"
  unfolding recent_def filter_filter
  using assms window_mono by (intro filter_cong) (auto simp: finite_times_def)

lemma finite_times_simps [simp]:
  "finite_times (xs @ ys) \<longleftrightarrow> finite_times xs \<and> finite_times ys"
  "finite_times [row] \<longleftrightarrow> (\<exists>x. fst row = Fin x)" "finite_times []"
  by (auto simp: finite_times_def)

lemma finite_times_recent: "finite_times rows \<Longrightarrow> finite_times (recent w t rows)"
  by (auto simp: finite_times_def recent_def)

lemma recent_Nil [simp]: "recent w t [] = []"
  by (simp add: recent_def)

lemma recent_append [simp]: "recent w t (xs @ ys) = recent w t xs @ recent w t ys"
  by (simp add: recent_def)

lemma flow_add_fields:
  "flow_add mint buyer sol price sig t a = (out, a') \<Longrightarrow>
     hf_min_successful_buys a' = hf_min_successful_buys a \<and>
     hf_min_combined_sol a' = hf_min_combined_sol a \<and>
     hf_window_seconds a' = hf_window_seconds a \<and> hf_trending a' = hf_trending a"
  by (auto simp: flow_add_def Let_def split: if_splits)

lemma flow_add_rows:
  "flow_add mint buyer sol price sig t a = (out, a') \<Longrightarrow>
     hf_flows a' m = (if accepts a mint sig \<and> m = mint
       then recent (hf_window_seconds a) t (hf_flows a mint) @ [(t, buyer, sol, price)]
       else hf_flows a m)"
  by (auto simp: flow_add_def Let_def split: if_splits)

lemma flow_add_triggered:
  "flow_add mint buyer sol price sig t a = (out, a') \<Longrightarrow>
     (\<forall>m. (hf_triggered a' m \<noteq> None) \<longleftrightarrow> (hf_triggered a m \<noteq> None \<or> (out \<noteq> None \<and> m = mint))) \<and>
     (\<forall>s. out = Some s \<longrightarrow> ms_mint s = mint \<and> hf_triggered a mint = None)"
  by (auto simp: flow_add_def Let_def split: if_splits)

lemma flow_add_emits:
  assumes "accepts a mint sig" "flow_add mint buyer sol price sig t a = (out, a')"
    and "rows = recent (hf_window_seconds a) t (hf_flows a mint) @ [(t, buyer, sol, price)]"
  shows "(\<exists>s. out = Some s) \<longleftrightarrow> hf_triggered a mint = None \<and>
      hf_min_successful_buys a \<le> length rows \<and> \<not> total_sol rows < hf_min_combined_sol a"
    and "out = Some s \<Longrightarrow> ms_buy_sol s = total_sol rows"
  using assms by (auto simp: flow_add_def Let_def not_less split: if_splits)

text \<open>
  The invariant of a run: for any later time, the rows kept of a mint show the same window as the
  whole history; a mint is marked exactly when it has had its signal.
\<close>

lemma flow_run_invariant:
  assumes "flow_run cs a = (ss, a')" "sorted_wrt (\<lambda>c d. op_time c \<le> op_time d) cs"
    and "\<forall>c \<in> set cs. \<exists>x. op_time c = Fin x" "\<forall>m. hf_flows a m = []" "\<forall>m. hf_triggered a m = None"
  shows "(\<forall>m. finite_times (hf_flows a' m)) \<and>
    (\<forall>m u. (\<forall>c \<in> set cs. op_time c \<le> u) \<longrightarrow> recent (hf_window_seconds a) u (hf_flows a' m)
        = recent (hf_window_seconds a) u (rows_of m (flow_history cs a))) \<and>
    (\<forall>m. hf_triggered a' m \<noteq> None \<longleftrightarrow> m \<in> ms_mint ` set ss) \<and> distinct (map ms_mint ss) \<and>
    hf_min_successful_buys a' = hf_min_successful_buys a \<and>
    hf_min_combined_sol a' = hf_min_combined_sol a \<and> hf_window_seconds a' = hf_window_seconds a"
  using assms(1-3)
proof (induction cs arbitrary: ss a' rule: rev_induct)
  case Nil
  then show ?case using assms(4,5) by (simp add: finite_times_def)
next
  case (snoc c cs)
  obtain mint buyer sol price sig t where c: "c = (mint, buyer, sol, price, sig, t)" by (cases c)
  obtain s1 a1 where run: "flow_run cs a = (s1, a1)" by fastforce
  obtain out where add: "flow_add mint buyer sol price sig t a1 = (out, a')"
    and ss: "ss = s1 @ (case out of None \<Rightarrow> [] | Some s \<Rightarrow> [s])"
    using snoc.prems(1) run c by (auto simp: flow_run_append split: prod.splits option.splits)
  have sorted: "sorted_wrt (\<lambda>c d. op_time c \<le> op_time d) cs" "\<forall>d \<in> set cs. op_time d \<le> t"
    and fin: "\<forall>c \<in> set cs. \<exists>x. op_time c = Fin x" "\<exists>x. t = Fin x"
    using snoc.prems(2,3) c by (auto simp: sorted_wrt_append)
  note IH = snoc.IH [OF run sorted(1) fin(1)]
  let ?w = "hf_window_seconds a"
  have w: "hf_window_seconds a1 = ?w" using IH by blast
  have hist: "flow_history (cs @ [c]) a = flow_history cs a
      @ (if accepts a1 mint sig then [(mint, (t, buyer, sol, price))] else [])"
    by (simp add: flow_history_append run c)
  have fin_t: "finite_times (hf_flows a' m)" for m
    using IH fin(2) by (simp add: flow_add_rows [OF add] finite_times_recent)
  have rows: "recent ?w u (hf_flows a' m) = recent ?w u (rows_of m (flow_history (cs @ [c]) a))"
    if u: "\<forall>d \<in> set (cs @ [c]). op_time d \<le> u" for m u
  proof -
    from u c have tu: "t \<le> u" and cu: "\<forall>d \<in> set cs. op_time d \<le> u" by auto
    have old: "recent ?w u (hf_flows a1 m) = recent ?w u (rows_of m (flow_history cs a))"
      using IH cu by blast
    obtain x where x: "t = Fin x" using fin(2) by blast
    have "finite_times (hf_flows a1 mint)" using IH by blast
    from recent_recent [OF tu x this, of ?w]
    have "recent ?w u (recent ?w t (hf_flows a1 mint)) = recent ?w u (hf_flows a1 mint)" .
    with old show ?thesis
      unfolding hist by (auto simp: flow_add_rows [OF add] w)
  qed
  have trig: "(hf_triggered a' m \<noteq> None) \<longleftrightarrow> m \<in> ms_mint ` set ss" for m
    using flow_add_triggered [OF add] IH ss by (auto split: option.splits)
  have "out = Some s \<Longrightarrow> ms_mint s \<notin> ms_mint ` set s1" for s
    using flow_add_triggered [OF add] IH by metis
  then have dist: "distinct (map ms_mint ss)"
    using IH ss by (cases out) auto
  show ?case
    using fin_t rows trig dist flow_add_fields [OF add] IH by simp
qed

text \<open>
  C18. The flow aggregator triggers a mint at the first accepted buy whose window is full.  After any
  run of buys with a clock that never runs backwards, the next accepted buy of a mint gives a
  signal exactly when the mint has had none before, and the accepted buys of this mint in the
  last \<open>window_seconds\<close> with this one are at least \<open>min_successful_buys\<close> and their SOL is not
  below \<open>min_combined_sol\<close>; the signal carries that sum.  Over the run no mint has two signals.
\<close>

theorem flow_first_full_window:
  assumes "flow_run cs (flow_set_trending universe (new_aggregator n m w)) = (ss, a)"
    and "sorted_wrt (\<lambda>c d. op_time c \<le> op_time d) (cs @ [(mint, buyer, sol, price, sig, t)])"
    and "\<forall>c \<in> set (cs @ [(mint, buyer, sol, price, sig, t)]). \<exists>x. op_time c = Fin x"
    and "accepts a mint sig"
    and "rows = recent w t (rows_of mint (flow_history cs
            (flow_set_trending universe (new_aggregator n m w)))) @ [(t, buyer, sol, price)]"
  shows "distinct (map ms_mint ss) \<and>
    (case fst (flow_add mint buyer sol price sig t a) of
       Some s \<Rightarrow> mint \<notin> ms_mint ` set ss \<and> n \<le> length rows \<and> \<not> total_sol rows < m \<and>
                 ms_mint s = mint \<and> ms_buy_sol s = total_sol rows
     | None \<Rightarrow> \<not> (mint \<notin> ms_mint ` set ss \<and> n \<le> length rows \<and> \<not> total_sol rows < m))"
proof -
  let ?a0 = "flow_set_trending universe (new_aggregator n m w)"
  have sorted: "sorted_wrt (\<lambda>c d. op_time c \<le> op_time d) cs" "\<forall>d \<in> set cs. op_time d \<le> t"
    using assms(2) by (auto simp: sorted_wrt_append)
  have a0: "\<forall>m. hf_flows ?a0 m = []" "\<forall>m. hf_triggered ?a0 m = None" "hf_window_seconds ?a0 = w"
    "hf_min_successful_buys ?a0 = n" "hf_min_combined_sol ?a0 = m"
    by (simp_all add: flow_set_trending_def new_aggregator_def restrict_map_def)
  have fin: "\<forall>c \<in> set cs. \<exists>x. op_time c = Fin x" using assms(3) by simp
  note inv = flow_run_invariant [OF assms(1) sorted(1) fin a0(1,2), unfolded a0]
  obtain out a' where add: "flow_add mint buyer sol price sig t a = (out, a')" by fastforce
  have window: "hf_window_seconds a = w" "hf_min_successful_buys a = n" "hf_min_combined_sol a = m"
    using inv by blast+
  have "recent w t (hf_flows a mint) = recent w t (rows_of mint (flow_history cs ?a0))"
    using inv sorted(2) by blast
  then have rows: "rows = recent (hf_window_seconds a) t (hf_flows a mint) @ [(t, buyer, sol, price)]"
    using assms(5) window(1) by simp
  have trig: "hf_triggered a mint = None \<longleftrightarrow> mint \<notin> ms_mint ` set ss" using inv by blast
  have dist: "distinct (map ms_mint ss)" using inv by blast
  note emits = flow_add_emits [OF assms(4) add rows, unfolded window trig]
  show ?thesis
    using dist emits flow_add_triggered [OF add] by (cases out) (auto simp: add)
qed

section \<open>The watcher only queues what trends\<close>

abbreviation watches :: "string set \<Rightarrow> ('w \<times> MomentumState, 'a) io \<Rightarrow> bool" where
  "watches U m \<equiv> grows (\<lambda>\<sigma>. mo_trending_mints (snd \<sigma>) = U) (\<lambda>\<sigma>. mo_queue (snd \<sigma>))
     (\<lambda>s. ms_mint s \<in> U \<and> ms_mint s \<notin> set STABLE_MINTS \<and> ms_mint s \<noteq> WSOL) m"

lemma watches_world [grows]: "watches U (in_world m)" "watches U (state f)"
  by (rule grows_world [where I = "\<lambda>s. mo_trending_mints s = U" and get = mo_queue])+

lemma watches_update:
  "(\<And>s. mo_trending_mints (g s) = mo_trending_mints s \<and> mo_queue (g s) = mo_queue s) \<Longrightarrow> watches U (update g)"
  by (rule grows_update [where I = "\<lambda>s. mo_trending_mints s = U" and get = mo_queue]) auto

lemma watches_pool: "watches U (pool_exists E F pool)"
  unfolding pool_exists_def pool_lookup_def
  by (intro grows watches_update) (simp_all add: cache_pool_def Let_def)

lemma watches_aggregate: "watches U (aggregate mint buyer sol price sig time)"
  by (auto simp: grows_def aggregate_def split: prod.split)

lemma aggregate_mint:
  "aggregate mint buyer sol price sig time \<sigma> = (Inr (Some ms), \<sigma>') \<Longrightarrow> ms_mint ms = mint"
  by (auto simp: aggregate_def dest: flow_add_triggered split: prod.splits)

lemma watches_queue:
  assumes "\<And>ms. out = Some ms \<Longrightarrow> ms_mint ms \<in> U \<and> ms_mint ms \<notin> set STABLE_MINTS \<and> ms_mint ms \<noteq> WSOL"
  shows "watches U (queue_aggregated E F S mint out)"
proof (cases out)
  case (Some ms)
  have "watches U (update (\<lambda>s. s\<lparr>mo_queue := mo_queue s @ [ms]\<rparr>))"
    by (rule grows_update [where I = "\<lambda>s. mo_trending_mints s = U" and get = mo_queue])
      (use assms [OF Some] in auto)
  then show ?thesis unfolding queue_aggregated_def Some option.case by (intro grows watches_pool)
qed (simp add: queue_aggregated_def grows)

text \<open>The guards of a buy, with the universe read from the state.\<close>

lemma watches_consider: "watches U (consider_buy E F S a sig natives buyer mint_deltas mr)"
proof -
  have emit: "watches U (bindIO (aggregate (fst mr) buyer sol price sig time) (queue_aggregated E F S (fst mr)))"
    if "fst mr \<in> U" "fst mr \<notin> set STABLE_MINTS" "fst mr \<noteq> WSOL" for sol price time
    using that by (intro grows_bind_from [OF watches_aggregate] watches_queue) (auto dest: aggregate_mint)
  have universe: "watches U (bindIO (state mo_trending_mints) (\<lambda>trending.
      if trending = {} \<or> fst mr \<notin> trending then retIO ()
      else bindIO (in_world (now E)) (\<lambda>time.
        bindIO (aggregate (fst mr) buyer sol price sig time) (queue_aggregated E F S (fst mr)))))"
    if "\<not> (fst mr \<in> set STABLE_MINTS \<or> fst mr = WSOL)" for sol price
  proof (rule grows_bind_from [OF watches_world(2)])
    fix trending \<sigma> \<sigma>'
    assume "mo_trending_mints (snd \<sigma>) = U" "state mo_trending_mints \<sigma> = (Inr trending, \<sigma>')"
    then have "trending = U" by (auto simp: state_def split: prod.splits)
    then show "watches U (if trending = {} \<or> fst mr \<notin> trending then retIO ()
      else bindIO (in_world (now E)) (\<lambda>time.
        bindIO (aggregate (fst mr) buyer sol price sig time) (queue_aggregated E F S (fst mr))))"
      using that by (intro grows emit) auto
  qed
  show ?thesis unfolding consider_buy_def Let_def by (intro grows universe)
qed

text \<open>
  C29. The watcher fails closed.  Whatever the socket and the RPC node answer and however often it
  reconnects, a run leaves the trending universe alone and only appends to the queue, and every
  signal it appends is of a mint of that universe that is neither wrapped SOL nor a stable coin;
  with no universe yet, it queues nothing.
\<close>

theorem watch_run_fails_closed:
  assumes "watch_run fuel E F S a url is_open (w, s) = (r, (w', s'))"
  shows "mo_trending_mints s' = mo_trending_mints s \<and>
    (\<exists>new. mo_queue s' = mo_queue s @ new \<and>
      (\<forall>q \<in> set new. ms_mint q \<in> mo_trending_mints s \<and> ms_mint q \<notin> set STABLE_MINTS \<and> ms_mint q \<noteq> WSOL))"
proof -
  let ?U = "mo_trending_mints s"
  have message: "watches ?U (watch_message E F S a payload)" for payload
    unfolding watch_message_def watch_transaction_def
    by (intro grows watches_update watches_consider) (simp add: remember_signature_def Let_def)
  have "watches ?U (watch_run fuel E F S a url is_open)"
    by (rule watcher.run_grows; (unfold watch_connect_def watch_step_def)?; intro grows message)
  from growsE [OF this _ assms] obtain new where "mo_trending_mints s' = ?U" "mo_queue s' = mo_queue s @ new"
    "list_all (\<lambda>q. ms_mint q \<in> ?U \<and> ms_mint q \<notin> set STABLE_MINTS \<and> ms_mint q \<noteq> WSOL) new"
    by auto
  then show ?thesis by (intro conjI exI [of _ new]) (simp_all only: list_all_iff)
qed

section \<open>Witnesses\<close>

definition demo_buys :: "flow_op list" where
  "demo_buys = [(''M'', ''a'', Fin 1, Fin 100, JStr ''s1'', Fin 0), (''M'', ''b'', Fin 2, Fin 100, JStr ''s2'', Fin 7)]"

theorem flow_first_full_window_witness:
  "fst (flow_run demo_buys (flow_set_trending {''M''} (new_aggregator 2 (Fin 1) (Fin 5)))) = [] \<and>
   map_option ms_buy_sol (fst (flow_add ''M'' ''c'' (Fin 3) (Fin 100) (JStr ''s3'') (Fin 9)
      (snd (flow_run demo_buys (flow_set_trending {''M''} (new_aggregator 2 (Fin 1) (Fin 5)))))))
     = Some (Fin 5)"
proof -
  let ?a0 = "flow_set_trending {''M''} (new_aggregator 2 (Fin 1) (Fin 5))"
  let ?row = "\<lambda>t b x. (Fin t, b, Fin x, Fin 100) :: flow_row"
  obtain a where a: "a = \<lparr> hf_min_successful_buys = 2, hf_min_combined_sol = Fin 1, hf_window_seconds = Fin 5,
      hf_trending = {''M''}, hf_seen_signatures = {JStr ''s1'', JStr ''s2''},
      hf_flows = (\<lambda>_. [])(''M'' := [?row 7 ''b'' 2]), hf_triggered = (\<lambda>_. None) |` {''M''} \<rparr>" by blast
  have run: "flow_run demo_buys ?a0 = ([], a)"
    by (simp add: a demo_buys_def flow_add_def accepts_def flow_set_trending_def new_aggregator_def recent_def
        Let_def insert_commute)
  have acc: "accepts a ''M'' (JStr ''s3'')" by (simp add: a accepts_def)
  have hist: "[?row 7 ''b'' 2] @ [?row 9 ''c'' 3] = recent (Fin 5) (Fin 9) (rows_of ''M'' (flow_history demo_buys ?a0))
      @ [?row 9 ''c'' 3]"
    by (simp add: demo_buys_def flow_add_def accepts_def flow_set_trending_def new_aggregator_def recent_def
        rows_of_def Let_def)
  have sorted: "sorted_wrt (\<lambda>c d. op_time c \<le> op_time d)
      (demo_buys @ [(''M'', ''c'', Fin 3, Fin 100, JStr ''s3'', Fin 9)])"
    and fin: "\<forall>c \<in> set (demo_buys @ [(''M'', ''c'', Fin 3, Fin 100, JStr ''s3'', Fin 9)]). \<exists>x. op_time c = Fin x"
    by (simp_all add: demo_buys_def)
  have total: "total_sol ([?row 7 ''b'' 2] @ [?row 9 ''c'' 3]) = Fin 5"
    by (simp add: total_sol_def row_sol_def py_sum_def zero_pyfloat_def)
  from flow_first_full_window [OF run sorted fin acc hist] total
  show ?thesis by (auto simp: run split: option.splits)
qed

theorem watch_run_fails_closed_witness:
  "\<forall>F :: nat feed_env. \<exists>r w' s'. watch_run 3 dead_env F demo_solders \<lparr>ma_minimum_buy_usd = Fin 0, ma_sol_price_usd = Fin 74\<rparr>
     ''u'' False (0, new_watcher) = (r, (w', s')) \<and> mo_queue s' = []"
proof
  fix F :: "nat feed_env"
  obtain r w' s' where run: "watch_run 3 dead_env F demo_solders \<lparr>ma_minimum_buy_usd = Fin 0, ma_sol_price_usd = Fin 74\<rparr>
     ''u'' False (0, new_watcher) = (r, (w', s'))"
    by (metis surj_pair)
  from watch_run_fails_closed [OF run] have "mo_queue s' = []" by (auto simp: new_watcher_def)
  with run show "\<exists>r w' s'. watch_run 3 dead_env F demo_solders \<lparr>ma_minimum_buy_usd = Fin 0, ma_sol_price_usd = Fin 74\<rparr>
     ''u'' False (0, new_watcher) = (r, (w', s')) \<and> mo_queue s' = []" by blast
qed

end
