(* ===== verification/Copytrader.thy ===== *)
theory Copytrader
  imports Momentum
begin

text \<open>
  \<open>backrunner/copytrader.py\<close>: the watcher of other wallets' buys.  Python looks the name
  \<open>tx\<close> up at line 201, where nothing has bound it, so every transaction that gets that far
  raises \<open>NameError\<close>; what the code writes after that line never runs and has no counterpart
  here.  The state is the signatures seen and the signal queue; the socket is the \<open>feed_env\<close> of
  the momentum watcher, whose \<open>None\<close> is the one-second timeout.
\<close>

record CopyTradeSignal =
  cs_buyer :: string
  cs_mint :: string
  cs_buy_sol :: pyfloat
  cs_buy_usd :: pyfloat
  cs_received :: pyfloat
  cs_signature :: string
  cs_slot :: int

record CopyState =
  ct_seen_signatures :: "string set"
  ct_queue :: "CopyTradeSignal list"

record copy_args =
  ca_rpc_url :: string
  ca_watched_wallets :: "string list"
  ca_minimum_buy_usd :: pyfloat

definition new_copy_watcher :: CopyState where
  "new_copy_watcher = \<lparr> ct_seen_signatures = {}, ct_queue = [] \<rparr>"

section \<open>Notifications\<close>

text \<open>\<open>_parse_log_notification\<close>, which nothing calls any more.\<close>

record CopyLogEvent =
  cl_signature :: string
  cl_slot :: int
  cl_error :: json
  cl_logs :: "string list"

definition copy_parse_log :: "(json \<Rightarrow> string) \<Rightarrow> json \<Rightarrow> CopyLogEvent option res" where
  "copy_parse_log rp payload =
     bindR (dict_get payload ''method'' JNull) (\<lambda>method.
     if method \<noteq> JStr ''logsNotification'' then ret None
     else
       bindR (bindR (dict_get payload ''params'' (JDict [])) (\<lambda>p. dict_get p ''result'' (JDict []))) (\<lambda>result.
       bindR (dict_get result ''value'' (JDict [])) (\<lambda>value.
       bindR (dict_get value ''signature'' JNull) (\<lambda>sig.
       bindR (bindR (dict_get result ''context'' (JDict [])) (\<lambda>c. dict_get c ''slot'' JNull)) (\<lambda>slot.
       if \<not> truthy sig \<or> slot = JNull then ret None
       else
         bindR (py_int slot) (\<lambda>n.
         bindR (dict_get value ''err'' JNull) (\<lambda>err.
         bindR (bindR (dict_get value ''logs'' JNull) (\<lambda>l. py_iter (py_or l (JList [])))) (\<lambda>ls.
         ret (Some \<lparr> cl_signature = py_str rp sig, cl_slot = n, cl_error = err,
                     cl_logs = map (py_str rp) ls \<rparr>)))))))))"

record TransactionEvent =
  te_signature :: string
  te_slot :: int
  te_error :: json
  te_meta :: json
  te_message :: json
  te_logs :: "string list"

definition parse_transaction_notification :: "(json \<Rightarrow> string) \<Rightarrow> json \<Rightarrow> TransactionEvent option res" where
  "parse_transaction_notification rp payload =
     bindR (dict_get payload ''method'' JNull) (\<lambda>method.
     if method \<noteq> JStr ''transactionNotification'' then ret None
     else
       bindR (bindR (dict_get payload ''params'' (JDict [])) (\<lambda>p. dict_get p ''result'' (JDict []))) (\<lambda>result.
       bindR (dict_get result ''value'' (JDict [])) (\<lambda>value.
       bindR (dict_get value ''signature'' JNull) (\<lambda>sig.
       bindR (bindR (dict_get result ''context'' (JDict [])) (\<lambda>c. dict_get c ''slot'' JNull)) (\<lambda>slot.
       if \<not> truthy sig \<or> slot = JNull then ret None
       else
         bindR (dict_get value ''transaction'' (JDict [])) (\<lambda>tx_data.
         bindR (py_int slot) (\<lambda>n.
         bindR (dict_get tx_data ''meta'' (JDict [])) (\<lambda>meta.
         bindR (dict_get meta ''err'' JNull) (\<lambda>err.
         bindR (bindR (dict_get tx_data ''transaction'' (JDict [])) (\<lambda>t. dict_get t ''message'' (JDict []))) (\<lambda>msg.
         bindR (bindR (dict_get meta ''logMessages'' JNull) (\<lambda>l. py_iter (py_or l (JList [])))) (\<lambda>ls.
         ret (Some \<lparr> te_signature = py_str rp sig, te_slot = n, te_error = err, te_meta = meta,
                     te_message = msg, te_logs = map (py_str rp) ls \<rparr>))))))))))))"

section \<open>One notification\<close>

definition copy_remember :: "string \<Rightarrow> CopyState \<Rightarrow> CopyState" where
  "copy_remember sig s =
     (let seen = insert sig (ct_seen_signatures s)
      in s\<lparr>ct_seen_signatures := (if 10000 < card seen then {} else seen)\<rparr>)"

definition has_venue :: "TransactionEvent \<Rightarrow> bool" where
  "has_venue e \<longleftrightarrow>
     list_ex (\<lambda>line. substr PUMP_AMM_PROGRAM line \<or> substr METEORA_DLMM_PROGRAM_ID line) (te_logs e)"

definition copy_account_key :: "(json \<Rightarrow> string) \<Rightarrow> json \<Rightarrow> string res" where
  "copy_account_key rp k =
     (if is_dict k then bindR (dict_get k ''pubkey'' JNull) (\<lambda>v. ret (py_str rp v)) else ret (py_str rp k))"

definition copy_transaction :: "(json \<Rightarrow> string) \<Rightarrow> TransactionEvent \<Rightarrow> ('w \<times> CopyState, unit) io" where
  "copy_transaction rp e =
     bindIO (liftR (bindR (bindR (dict_get (te_message e) ''accountKeys'' (JList [])) py_iter)
         (mapR (copy_account_key rp)))) (\<lambda>account_keys.
     bindIO (liftR (watch_deltas rp (te_meta e))) (\<lambda>ds.
     bindIO (liftR (native_delta (te_meta e) account_keys)) (\<lambda>natives.
     raiseIO (NameError ''name 'tx' is not defined''))))"

definition copy_message :: "(json \<Rightarrow> string) \<Rightarrow> json \<Rightarrow> ('w \<times> CopyState, unit) io" where
  "copy_message rp payload =
     bindIO (liftR (parse_transaction_notification rp payload)) (\<lambda>event. case event of
       None \<Rightarrow> retIO ()
     | Some e \<Rightarrow>
         bindIO (state ct_seen_signatures) (\<lambda>seen.
         if te_signature e \<in> seen then retIO ()
         else
           bindIO (update (copy_remember (te_signature e))) (\<lambda>_.
           if truthy (te_error e) then retIO ()
           else if \<not> has_venue e then retIO ()
           else copy_transaction rp e)))"

section \<open>The run\<close>

definition copy_subscription :: "copy_args \<Rightarrow> json" where
  "copy_subscription a = JDict [(''jsonrpc'', JStr ''2.0''), (''id'', JInt 1),
     (''method'', JStr ''transactionSubscribe''),
     (''params'', JList
       [JDict [(''accountInclude'', JList (map JStr (ca_watched_wallets a))),
               (''failed'', JBool False), (''vote'', JBool False)],
        JDict [(''commitment'', JStr ''processed''), (''encoding'', JStr ''jsonParsed''),
               (''transactionDetails'', JStr ''full''), (''showRewards'', JBool False),
               (''maxSupportedTransactionVersion'', JInt 0)]])]"

definition copy_connect :: "'w feed_env \<Rightarrow> copy_args \<Rightarrow> ('w \<times> CopyState, unit) io" where
  "copy_connect F a =
     bindIO (in_world (feed_open F (ca_rpc_url a) (copy_subscription a))) (\<lambda>confirmation.
     liftR (bindR (dict_get confirmation ''error'' JNull) (\<lambda>err.
       bindR (if truthy err then ret True
              else bindR (py_in ''result'' confirmation) (\<lambda>b. ret (\<not> b))) (\<lambda>failed.
       if failed then raise (RuntimeError ''subscription failed'') else ret ()))))"

definition copy_step :: "'w env \<Rightarrow> 'w feed_env \<Rightarrow> ('w \<times> CopyState, unit) io" where
  "copy_step E F =
     bindIO (in_world (feed_recv F)) (\<lambda>msg. case msg of
       None \<Rightarrow> retIO ()
     | Some payload \<Rightarrow> copy_message (rep E) payload)"

text \<open>The fuel bounds the turns, which the code does not.\<close>

fun copy_run :: "nat \<Rightarrow> 'w env \<Rightarrow> 'w feed_env \<Rightarrow> copy_args \<Rightarrow> bool \<Rightarrow> ('w \<times> CopyState, unit) io" where
  "copy_run 0 E F a is_open = retIO ()"
| "copy_run (Suc fuel) E F a is_open =
     bindIO (catchIO
         (bindIO (if is_open then retIO () else copy_connect F a) (\<lambda>_.
          bindIO (copy_step E F) (\<lambda>_. retIO True)))
         (\<lambda>_. bindIO (in_world (sleep E (Fin 3))) (\<lambda>_. retIO False)))
       (copy_run fuel E F a)"

interpretation copier: reconnecting "copy_connect F a" "copy_step E F" "in_world (sleep E (Fin 3))"
  "\<lambda>n. copy_run n E F a" for E F a
  by unfold_locales (simp_all only: copy_run.simps returns_sleep)

section \<open>Properties\<close>

abbreviation copies_nothing :: "('w \<times> CopyState, 'a) io \<Rightarrow> bool" where
  "copies_nothing m \<equiv> grows (\<lambda>\<sigma>. True) (\<lambda>\<sigma>. ct_queue (snd \<sigma>)) (\<lambda>_. False) m"

lemma copies_nothing_update:
  "copies_nothing (update (copy_remember sig))"
  by (auto simp: grows_def update_def copy_remember_def Let_def)

lemma copies_nothing_message: "copies_nothing (copy_message rp payload)"
  unfolding copy_message_def copy_transaction_def by (intro grows copies_nothing_update)

text \<open>
  The copy-trade watcher never reports a trade.  Whatever the node sends, for however many
  turns and reconnections, its signal queue stays as it was; and a notification of a transaction
  not seen before, without an error and with a venue in its logs, the very case the watcher is
  for, never returns: it raises and ends the connection.
\<close>

theorem copy_watcher_never_signals:
  assumes "copy_run fuel E F a is_open (w, s) = (r, (w', s'))"
  shows "ct_queue s' = ct_queue s \<and> r = Inr () \<and>
    (\<forall>payload e w s. parse_transaction_notification (rep E) payload = Inr (Some e) \<and>
       te_signature e \<notin> ct_seen_signatures s \<and> \<not> truthy (te_error e) \<and> has_venue e \<longrightarrow>
       (\<exists>x. fst (copy_message (rep E) payload (w :: 'w, s)) = Inl x))"
proof (intro conjI allI impI)
  have keeps: "copies_nothing (copy_run fuel E F a is_open)"
    by (rule copier.run_grows; (unfold copy_connect_def copy_step_def)?; intro grows copies_nothing_message)
  obtain new where "ct_queue (snd (w', s')) = ct_queue (snd (w, s)) @ new" "list_all (\<lambda>_. False) new"
    by (rule growsE [OF keeps _ assms]) simp_all
  then show "ct_queue s' = ct_queue s" by (cases new) simp_all
  show "r = Inr ()" using copier.run_returns [of fuel E F a is_open "(w, s)"] assms by simp
next
  fix payload e and w :: 'w and s :: CopyState
  assume "parse_transaction_notification (rep E) payload = Inr (Some e) \<and>
    te_signature e \<notin> ct_seen_signatures s \<and> \<not> truthy (te_error e) \<and> has_venue e"
  then show "\<exists>x. fst (copy_message (rep E) payload (w, s)) = Inl x"
    by (auto simp: copy_message_def copy_transaction_def bindIO_def state_def update_def liftR_def
        raiseIO_def split: sum.splits prod.splits)
qed

theorem copy_watcher_never_signals_witness:
  "\<forall>F :: nat feed_env. \<exists>w' s'. copy_run 5 dead_env F \<lparr>ca_rpc_url = ''u'', ca_watched_wallets = [''W''],
     ca_minimum_buy_usd = Fin 0\<rparr> False (0, new_copy_watcher) = (Inr (), (w', s')) \<and> ct_queue s' = []"
proof
  fix F :: "nat feed_env"
  obtain r w' s' where run: "copy_run 5 dead_env F \<lparr>ca_rpc_url = ''u'', ca_watched_wallets = [''W''],
     ca_minimum_buy_usd = Fin 0\<rparr> False (0, new_copy_watcher) = (r, (w', s'))"
    by (metis surj_pair)
  from copy_watcher_never_signals [OF run] have "r = Inr ()" "ct_queue s' = []"
    by (auto simp: new_copy_watcher_def)
  with run show "\<exists>w' s'. copy_run 5 dead_env F \<lparr>ca_rpc_url = ''u'', ca_watched_wallets = [''W''],
     ca_minimum_buy_usd = Fin 0\<rparr> False (0, new_copy_watcher) = (Inr (), (w', s')) \<and> ct_queue s' = []"
    by blast
qed

end
