(* ===== verification/Jupiter.thy ===== *)
theory Jupiter
  imports Providers
begin

text \<open>
  \<open>backrunner/jupiter.py\<close>: the two swap legs of a generic round trip, each built by
  Jupiter's \<open>/build\<close> service.  The second leg spends the first leg's guaranteed minimum
  output, so it can never ask for tokens the first leg may not deliver.
\<close>

definition BUILD_URL :: string where
  "BUILD_URL = ''https://api.jup.ag/swap/v2/build''"

record SwapBuild =
  input_mint :: string
  output_mint :: string
  in_amount :: int
  out_amount :: int
  other_amount_threshold :: int
  slippage_bps :: int
  pool_keys :: "string list"
  pool_labels :: "string list"
  raw :: json

definition plan_field :: "(json \<Rightarrow> string) \<Rightarrow> string \<Rightarrow> json \<Rightarrow> string res" where
  "plan_field rp field plan =
     bindR (dict_item plan ''swapInfo'') (\<lambda>info.
     bindR (dict_item info field) (\<lambda>v. ret (py_str rp v)))"

definition int_field :: "json \<Rightarrow> string \<Rightarrow> int res" where
  "int_field payload k = bindR (dict_item payload k) py_int"

definition str_field :: "(json \<Rightarrow> string) \<Rightarrow> json \<Rightarrow> string \<Rightarrow> string res" where
  "str_field rp payload k = bindR (dict_item payload k) (\<lambda>v. ret (py_str rp v))"

definition swap_build_from_payload :: "(json \<Rightarrow> string) \<Rightarrow> json \<Rightarrow> SwapBuild res" where
  "swap_build_from_payload rp payload =
     bindR (dict_get payload ''routePlan'' JNull) (\<lambda>route.
     let plans = py_or route (JList []) in
     if \<not> truthy plans then raise (ValueError ''Jupiter returned no route plan'')
     else
       bindR (str_field rp payload ''inputMint'') (\<lambda>im.
       bindR (str_field rp payload ''outputMint'') (\<lambda>om.
       bindR (int_field payload ''inAmount'') (\<lambda>ia.
       bindR (int_field payload ''outAmount'') (\<lambda>oa.
       bindR (int_field payload ''otherAmountThreshold'') (\<lambda>th.
       bindR (int_field payload ''slippageBps'') (\<lambda>sl.
       bindR (bindR (py_iter plans) (mapR (plan_field rp ''ammKey''))) (\<lambda>keys.
       bindR (bindR (py_iter plans) (mapR (plan_field rp ''label''))) (\<lambda>labels.
       ret \<lparr> input_mint = im, output_mint = om, in_amount = ia, out_amount = oa,
             other_amount_threshold = th, slippage_bps = sl, pool_keys = keys,
             pool_labels = labels, raw = payload \<rparr>)))))))))"

record RoundTripBuild =
  input_lamports :: int
  buy :: SwapBuild
  sell :: SwapBuild

definition distinct_pools :: "RoundTripBuild \<Rightarrow> bool" where
  "distinct_pools r \<longleftrightarrow> set (pool_keys (buy r)) \<inter> set (pool_keys (sell r)) = {}"

definition conservative_gross_lamports :: "RoundTripBuild \<Rightarrow> int" where
  "conservative_gross_lamports r = other_amount_threshold (sell r) - input_lamports r"

record JupiterBuildClient =
  jupiter_key :: "string option"

text \<open>The query string of one build request.\<close>

definition build_params ::
  "string \<Rightarrow> string \<Rightarrow> int \<Rightarrow> string \<Rightarrow> int \<Rightarrow> int \<Rightarrow> (string \<times> json) list" where
  "build_params in_mint out_mint amount taker slippage max_accounts =
     [(''inputMint'', JStr in_mint), (''outputMint'', JStr out_mint),
      (''amount'', JStr (str_of_int amount)), (''taker'', JStr taker),
      (''slippageBps'', JStr (str_of_int slippage)),
      (''maxAccounts'', JStr (str_of_int max_accounts)),
      (''mode'', JStr ''fast''), (''blockhashSlotsToExpiry'', JStr ''30'')]"

definition build ::
  "'w env \<Rightarrow> string \<Rightarrow> string \<Rightarrow> int \<Rightarrow> string \<Rightarrow> int \<Rightarrow> int \<Rightarrow> ('w, SwapBuild) io" where
  "build E in_mint out_mint amount taker slippage max_accounts =
     (if amount \<le> 0 then raiseIO (ValueError ''Jupiter build amount must be positive'')
      else bindIO (http_get E BUILD_URL
             (build_params in_mint out_mint amount taker slippage max_accounts)) (\<lambda>payload.
           liftR (swap_build_from_payload (rep E) payload)))"

definition build_round_trip ::
  "'w env \<Rightarrow> JupiterBuildClient \<Rightarrow> string \<Rightarrow> int \<Rightarrow> string \<Rightarrow> int \<Rightarrow> int
   \<Rightarrow> ('w, RoundTripBuild) io" where
  "build_round_trip E client token_mint lamports taker slippage max_accounts =
     bindIO (build E WSOL token_mint lamports taker slippage max_accounts) (\<lambda>b.
     bindIO (if jupiter_key client = None then sleep E (flit (21 / 10)) else retIO ()) (\<lambda>_.
     bindIO (build E token_mint WSOL (other_amount_threshold b) taker slippage max_accounts) (\<lambda>s.
     retIO \<lparr> input_lamports = lamports, buy = b, sell = s \<rparr>)))"

section \<open>Lemmas\<close>

lemma mapR_nonempty: "mapR f xs = Inr ys \<Longrightarrow> (ys = [] \<longleftrightarrow> xs = [])"
  using mapR_length by force

lemma py_iter_truthy: "truthy v \<Longrightarrow> py_iter v = Inr xs \<Longrightarrow> xs \<noteq> []"
  by (cases v) auto

lemma swap_build_pools:
  assumes "swap_build_from_payload rp payload = Inr b"
  shows "pool_keys b \<noteq> []" and "length (pool_labels b) = length (pool_keys b)"
    and "raw b = payload"
proof -
  from assms obtain route where g: "dict_get payload ''routePlan'' JNull = Inr route"
    unfolding swap_build_from_payload_def by auto
  define plans where "plans = py_or route (JList [])"
  from assms g have t: "truthy plans"
    by (auto simp: swap_build_from_payload_def plans_def Let_def split: if_splits)
  from assms g t obtain xs keys labels where
    "py_iter plans = Inr xs" "mapR (plan_field rp ''ammKey'') xs = Inr keys"
    "mapR (plan_field rp ''label'') xs = Inr labels"
    "pool_keys b = keys" "pool_labels b = labels" "raw b = payload"
    unfolding swap_build_from_payload_def plans_def Let_def by (auto simp: bindR_eq_Inr)
  with t show "pool_keys b \<noteq> []" "length (pool_labels b) = length (pool_keys b)" "raw b = payload"
    using mapR_nonempty [of "plan_field rp ''ammKey''" xs keys] py_iter_truthy [of plans xs]
    by (auto simp: mapR_length)
qed

lemma build_Inr:
  "build E im om n t sl ma w = (Inr b, w') \<Longrightarrow>
   0 < n \<and> (\<exists>p. http_get E BUILD_URL (build_params im om n t sl ma) w = (Inr p, w') \<and>
                swap_build_from_payload (rep E) p = Inr b)"
  by (auto simp: build_def split: if_splits)

lemma build_round_trip_Inr:
  assumes "build_round_trip E c mint n t sl ma w = (Inr r, w')"
  shows "input_lamports r = n"
    and "\<exists>w1. build E WSOL mint n t sl ma w = (Inr (buy r), w1)"
    and "\<exists>w2. build E mint WSOL (other_amount_threshold (buy r)) t sl ma w2 = (Inr (sell r), w')"
  using assms unfolding build_round_trip_def by (auto, blast)

section \<open>Properties\<close>

text \<open>
  C26. A completed round-trip build was asked for with a positive input amount, its first leg
  guarantees a positive output, and its second leg is what the service answered to a request
  whose amount field reads back as exactly that guaranteed output (never the optimistic quote),
  so the sale cannot spend more tokens than the purchase is sure to deliver.  Both legs name at
  least one pool, with one label each.
\<close>

theorem build_round_trip_chains_minimum:
  assumes "build_round_trip E c mint n t sl ma w = (Inr r, w')"
    and "other_amount_threshold (buy r) < 10 ^ digit_limit"
  shows "input_lamports r = n \<and> 0 < n \<and> 0 < other_amount_threshold (buy r) \<and>
    (\<exists>w2 params p amount.
       http_get E BUILD_URL params w2 = (Inr p, w') \<and>
       swap_build_from_payload (rep E) p = Inr (sell r) \<and>
       map_of params ''amount'' = Some (JStr amount) \<and>
       int_of_str amount = Inr (other_amount_threshold (buy r)) \<and>
       map_of params ''inputMint'' = Some (JStr mint) \<and>
       map_of params ''outputMint'' = Some (JStr WSOL)) \<and>
    pool_keys (buy r) \<noteq> [] \<and> pool_keys (sell r) \<noteq> [] \<and>
    length (pool_labels (buy r)) = length (pool_keys (buy r)) \<and>
    length (pool_labels (sell r)) = length (pool_keys (sell r))"
proof -
  note parts = build_round_trip_Inr [OF assms(1)]
  from parts(2) obtain w1 where b: "build E WSOL mint n t sl ma w = (Inr (buy r), w1)" by blast
  from parts(3) obtain w2 where
    s: "build E mint WSOL (other_amount_threshold (buy r)) t sl ma w2 = (Inr (sell r), w')"
    by blast
  let ?ps = "build_params mint WSOL (other_amount_threshold (buy r)) t sl ma"
  from build_Inr [OF b] obtain p1 where p1: "0 < n" "swap_build_from_payload (rep E) p1 = Inr (buy r)"
    by blast
  from build_Inr [OF s] obtain p2 where p2: "0 < other_amount_threshold (buy r)"
    "http_get E BUILD_URL ?ps w2 = (Inr p2, w')" "swap_build_from_payload (rep E) p2 = Inr (sell r)"
    by blast
  have "int_of_str (str_of_int (other_amount_threshold (buy r)))
        = Inr (other_amount_threshold (buy r))"
    using p2(1) assms(2) by (intro int_of_str_of_int) simp
  moreover have "map_of ?ps ''amount'' = Some (JStr (str_of_int (other_amount_threshold (buy r))))"
    "map_of ?ps ''inputMint'' = Some (JStr mint)" "map_of ?ps ''outputMint'' = Some (JStr WSOL)"
    by (simp_all add: build_params_def)
  ultimately show ?thesis
    using parts(1) p1 p2 swap_build_pools [OF p1(2)] swap_build_pools [OF p2(3)] by blast
qed

text \<open>A service that answers every request with a fixed one-pool plan.\<close>

definition demo_plan :: "string \<Rightarrow> json" where
  "demo_plan pool = JDict
     [(''routePlan'', JList [JDict [(''swapInfo'', JDict [(''ammKey'', JStr pool),
        (''label'', JStr ''DEX'')])]]),
      (''inputMint'', JStr ''A''), (''outputMint'', JStr ''B''), (''inAmount'', JInt 1),
      (''outAmount'', JInt 9), (''otherAmountThreshold'', JInt 7), (''slippageBps'', JInt 100)]"

definition demo_jupiter_env :: "nat env" where
  "demo_jupiter_env = dead_env
     \<lparr> http_get := (\<lambda>_ _ w. (Inr (demo_plan (if w = 0 then ''P'' else ''Q'')), Suc w)) \<rparr>"

lemma demo_plan_parse:
  "swap_build_from_payload rp (demo_plan p) = Inr \<lparr> input_mint = ''A'', output_mint = ''B'',
     in_amount = 1, out_amount = 9, other_amount_threshold = 7, slippage_bps = 100,
     pool_keys = [p], pool_labels = [''DEX''], raw = demo_plan p \<rparr>"
  by (simp add: swap_build_from_payload_def demo_plan_def Let_def py_or_def str_field_def
      int_field_def plan_field_def)

lemma demo_build_round_trip:
  "\<exists>r. build_round_trip demo_jupiter_env \<lparr>jupiter_key = None\<rparr> ''M'' 5 ''T'' 100 50 0 = (Inr r, 2)
       \<and> other_amount_threshold (buy r) = 7"
  by (simp add: build_round_trip_def build_def bindIO_def demo_jupiter_env_def dead_env_def
      demo_plan_parse sleep_def)

theorem build_round_trip_chains_minimum_witness:
  "\<exists>r. build_round_trip demo_jupiter_env \<lparr>jupiter_key = None\<rparr> ''M'' 5 ''T'' 100 50 0 = (Inr r, 2)
       \<and> input_lamports r = 5 \<and> 0 < other_amount_threshold (buy r)"
proof -
  obtain r where r: "build_round_trip demo_jupiter_env \<lparr>jupiter_key = None\<rparr> ''M'' 5 ''T'' 100 50 0
      = (Inr r, 2)" "other_amount_threshold (buy r) = 7"
    using demo_build_round_trip by blast
  have "(7 :: int) < 10 ^ digit_limit"
    using power_increasing [of 1 digit_limit "10 :: int"] by (simp add: Suc_leI)
  with r have "other_amount_threshold (buy r) < 10 ^ digit_limit" by simp
  from build_round_trip_chains_minimum [OF r(1) this] r(1) show ?thesis by blast
qed

end
