(* ===== verification/Composer.thy ===== *)
theory Composer
  imports Jupiter
begin

text \<open>
  \<open>backrunner/composer.py\<close>: the two transaction composers.  Each sends a JSON payload to a
  Node script and reads its answer; the direct composer refuses an answer that claims to be
  signed or submitted.
\<close>

definition packet_limit :: int where
  "packet_limit = 1232"

definition account_limit :: int where
  "account_limit = 64"

record CompiledRoundTrip =
  transaction_base64 :: string
  version :: int
  instruction_count :: int
  serialized_size :: int
  account_count :: int
  signature_count :: int

definition fits_packet_limit :: "CompiledRoundTrip \<Rightarrow> bool" where
  "fits_packet_limit c \<longleftrightarrow> serialized_size c \<le> packet_limit"

definition fits_account_limit :: "CompiledRoundTrip \<Rightarrow> bool" where
  "fits_account_limit c \<longleftrightarrow> account_count c \<le> account_limit"

record DirectRouteRequest =
  req_rpc_url :: string
  req_executor_program_id :: string
  req_user :: string
  req_pump_pool :: string
  req_meteora_pool :: string
  req_intermediate_mint :: string
  req_input_lamports :: int
  req_direction :: string
  req_minimum_profit_lamports :: int
  req_valid_until_slot :: int
  req_min_context_slot :: int
  req_lookup_table_addresses :: "string list"
  req_slippage_bps :: int
  req_compute_unit_limit :: int
  req_compute_unit_price_micro_lamports :: int
  req_tip_lamports :: int
  req_tip_recipient :: "string option"

record DirectCompiledRoundTrip =
  d_transaction_base64 :: string
  recent_blockhash :: string
  last_valid_block_height :: int
  d_instruction_count :: int
  d_serialized_size :: int
  d_account_count :: int
  lookup_table_addresses :: "string list"
  funding_lamports :: int
  quote_account :: string
  intermediate_account :: string
  first_program :: string
  second_program :: string
  executor_program :: string
  signed :: bool
  submitted :: bool

definition direct_fits_packet_limit :: "DirectCompiledRoundTrip \<Rightarrow> bool" where
  "direct_fits_packet_limit c \<longleftrightarrow> d_serialized_size c \<le> packet_limit"

definition direct_fits_account_limit :: "DirectCompiledRoundTrip \<Rightarrow> bool" where
  "direct_fits_account_limit c \<longleftrightarrow> d_account_count c \<le> account_limit"

section \<open>Running a composer script\<close>

text \<open>The detail a failed script leaves: its error output, else its output, else a fixed text.\<close>

definition failure_detail :: "CompletedProcess \<Rightarrow> string \<Rightarrow> string" where
  "failure_detail p unknown =
     (if strip (stderr p) \<noteq> [] then strip (stderr p)
      else if strip (stdout p) \<noteq> [] then strip (stdout p) else unknown)"

definition compose_round_trip ::
  "'w env \<Rightarrow> RoundTripBuild \<Rightarrow> string \<Rightarrow> ('w, CompiledRoundTrip) io" where
  "compose_round_trip E route taker =
     bindIO (run_script E ''compose-roundtrip.mjs''
       (JDict [(''taker'', JStr taker), (''buy'', raw (buy route)), (''sell'', raw (sell route))]))
     (\<lambda>result.
       if returncode result \<noteq> 0
       then raiseIO (RuntimeError (''transaction composition failed: ''
              @ failure_detail result ''unknown composer failure''))
       else liftR (bindR (stdout_json result) (\<lambda>payload.
         bindR (str_field (rep E) payload ''transactionBase64'') (\<lambda>tx.
         bindR (int_field payload ''version'') (\<lambda>v.
         bindR (int_field payload ''instructionCount'') (\<lambda>ic.
         bindR (int_field payload ''serializedSize'') (\<lambda>sz.
         bindR (int_field payload ''accountCount'') (\<lambda>ac.
         bindR (int_field payload ''signatureCount'') (\<lambda>sc.
         ret \<lparr> transaction_base64 = tx, version = v, instruction_count = ic,
               serialized_size = sz, account_count = ac, signature_count = sc \<rparr>)))))))))"

definition opt_str :: "string option \<Rightarrow> json" where
  "opt_str x = (case x of None \<Rightarrow> JNull | Some s \<Rightarrow> JStr s)"

definition direct_payload :: "DirectRouteRequest \<Rightarrow> json" where
  "direct_payload q = JDict
     [(''rpcUrl'', JStr (req_rpc_url q)),
      (''executorProgramId'', JStr (req_executor_program_id q)),
      (''user'', JStr (req_user q)),
      (''pumpPool'', JStr (req_pump_pool q)),
      (''meteoraPool'', JStr (req_meteora_pool q)),
      (''intermediateMint'', JStr (req_intermediate_mint q)),
      (''inputAmount'', JInt (req_input_lamports q)),
      (''direction'', JStr (req_direction q)),
      (''minimumProfit'', JInt (req_minimum_profit_lamports q)),
      (''validUntilSlot'', JInt (req_valid_until_slot q)),
      (''minContextSlot'', JInt (req_min_context_slot q)),
      (''lookupTableAddresses'', JList (map JStr (req_lookup_table_addresses q))),
      (''slippageBps'', JInt (req_slippage_bps q)),
      (''computeUnitLimit'', JInt (req_compute_unit_limit q)),
      (''computeUnitPriceMicroLamports'', JInt (req_compute_unit_price_micro_lamports q)),
      (''tipLamports'', JInt (req_tip_lamports q)),
      (''tipRecipient'', opt_str (req_tip_recipient q))]"

definition bool_field :: "json \<Rightarrow> string \<Rightarrow> bool res" where
  "bool_field payload k = bindR (dict_item payload k) (\<lambda>v. ret (truthy v))"

text \<open>
  Reading the direct composer's answer.  The no-submit boundary is checked first: an answer
  that says it signed or submitted anything is refused before the rest is read.
\<close>

definition parse_direct_output :: "(json \<Rightarrow> string) \<Rightarrow> json \<Rightarrow> DirectCompiledRoundTrip res" where
  "parse_direct_output rp output =
     bindR (bool_field output ''signed'') (\<lambda>sg.
     bindR (bool_field output ''submitted'') (\<lambda>sb.
     if sg \<or> sb
     then raise (RuntimeError ''direct composer violated the unsigned no-submit boundary'')
     else
       bindR (str_field rp output ''unsignedTransactionBase64'') (\<lambda>tx.
       bindR (str_field rp output ''recentBlockhash'') (\<lambda>bh.
       bindR (int_field output ''lastValidBlockHeight'') (\<lambda>lv.
       bindR (int_field output ''instructionCount'') (\<lambda>ic.
       bindR (int_field output ''serializedBytes'') (\<lambda>sz.
       bindR (int_field output ''accountCount'') (\<lambda>ac.
       bindR (bindR (dict_item output ''lookupTableAddresses'') py_iter) (\<lambda>lt.
       bindR (int_field output ''fundingLamports'') (\<lambda>fl.
       bindR (str_field rp output ''quoteAccount'') (\<lambda>qa.
       bindR (str_field rp output ''intermediateAccount'') (\<lambda>ia.
       bindR (str_field rp output ''firstProgram'') (\<lambda>fp.
       bindR (str_field rp output ''secondProgram'') (\<lambda>sp.
       bindR (str_field rp output ''executorProgram'') (\<lambda>ep.
       ret \<lparr> d_transaction_base64 = tx, recent_blockhash = bh, last_valid_block_height = lv,
             d_instruction_count = ic, d_serialized_size = sz, d_account_count = ac,
             lookup_table_addresses = map (py_str rp) lt, funding_lamports = fl,
             quote_account = qa, intermediate_account = ia, first_program = fp,
             second_program = sp, executor_program = ep, signed = sg, submitted = sb \<rparr>
       )))))))))))))))"

definition compose_direct_round_trip ::
  "'w env \<Rightarrow> DirectRouteRequest \<Rightarrow> ('w, DirectCompiledRoundTrip) io" where
  "compose_direct_round_trip E request =
     bindIO (run_script E ''compose-direct-roundtrip.mjs'' (direct_payload request)) (\<lambda>result.
       if returncode result \<noteq> 0
       then raiseIO (RuntimeError (''direct transaction composition failed: ''
              @ failure_detail result ''unknown direct composer failure''))
       else liftR (bindR (stdout_json result) (parse_direct_output (rep E))))"

section \<open>Lemmas\<close>

lemma parse_direct_output_unsigned:
  "parse_direct_output rp out = Inr c \<Longrightarrow> \<not> signed c \<and> \<not> submitted c"
  unfolding parse_direct_output_def by (auto split: if_splits)

lemma compose_direct_unsigned:
  "compose_direct_round_trip E q w = (Inr c, w') \<Longrightarrow> \<not> signed c \<and> \<not> submitted c"
  unfolding compose_direct_round_trip_def
  by (auto split: if_splits dest!: parse_direct_output_unsigned)

end
