(* ===== verification/Engine.thy ===== *)
theory Engine
  imports PyValue
begin

text \<open>
  \<open>backrunner/engine.py\<close>: the profitability check of an all-or-nothing round trip.  Amounts
  are lamports, Python's unbounded integers; the return in basis points uses Python's floor
  division.
\<close>

record CostModel =
  transaction_fee_lamports :: int
  jito_tip_lamports :: int
  safety_margin_lamports :: int
  minimum_net_profit_lamports :: int
  failed_attempt_reserve_lamports :: int

definition total_lamports :: "CostModel \<Rightarrow> int" where
  "total_lamports c =
     transaction_fee_lamports c + jito_tip_lamports c + safety_margin_lamports c
     + failed_attempt_reserve_lamports c"

record RoundTripResult =
  executable :: bool
  gross_profit_lamports :: int
  net_profit_lamports :: int
  return_bps :: int

definition evaluate_round_trip :: "int \<Rightarrow> int \<Rightarrow> CostModel \<Rightarrow> RoundTripResult res" where
  "evaluate_round_trip buy_lamports sell_lamports costs =
     (if buy_lamports \<le> 0 then raise (ValueError ''buy_lamports must be positive'')
      else
        let gross = sell_lamports - buy_lamports;
            net = gross - total_lamports costs
        in ret \<lparr>
             executable = (minimum_net_profit_lamports costs \<le> net),
             gross_profit_lamports = gross,
             net_profit_lamports = net,
             return_bps = (net * 10000) div buy_lamports \<rparr>)"

lemma evaluate_round_trip_raises_iff:
  "(\<exists>e. evaluate_round_trip b s c = Inl e) \<longleftrightarrow> b \<le> 0"
  by (simp add: evaluate_round_trip_def Let_def)

lemma evaluate_round_trip_Inr:
  "evaluate_round_trip b s c = Inr r \<Longrightarrow>
     0 < b \<and> gross_profit_lamports r = s - b \<and>
     net_profit_lamports r = s - b - total_lamports c \<and>
     executable r = (minimum_net_profit_lamports c \<le> s - b - total_lamports c) \<and>
     return_bps r = ((s - b - total_lamports c) * 10000) div b"
  by (auto simp: evaluate_round_trip_def Let_def split: if_splits)

text \<open>Floor division brackets the exact return.\<close>

lemma floor_bps_bounds:
  fixes n b :: int
  assumes "0 < b"
  shows "(n * 10000) div b * b \<le> n * 10000" "n * 10000 < ((n * 10000) div b + 1) * b"
proof -
  have "n * 10000 = (n * 10000) div b * b + (n * 10000) mod b"
    by (rule div_mult_mod_eq [symmetric])
  moreover have "0 \<le> (n * 10000) mod b" "(n * 10000) mod b < b" using assms by simp_all
  ultimately show "(n * 10000) div b * b \<le> n * 10000"
    and "n * 10000 < ((n * 10000) div b + 1) * b"
    unfolding distrib_right mult_1 by linarith+
qed

lemma bps_nonneg_iff:
  fixes n b :: int
  assumes "0 < b"
  shows "0 \<le> (n * 10000) div b \<longleftrightarrow> 0 \<le> n"
  using assms by (simp add: pos_imp_zdiv_nonneg_iff)

section \<open>Properties\<close>

text \<open>
  The round-trip evaluation runs on every positive input amount, and marks the trip
  executable exactly when the sale proceeds cover the purchase, every cost of the cost model
  (fee, tip, safety margin, failed-attempt reserve) and the minimum net profit.  The return in
  basis points is the exact return rounded down, so its sign is the sign of the net profit.
\<close>

theorem evaluate_round_trip_correct:
  assumes "0 < b"
  shows "\<exists>r. evaluate_round_trip b s c = Inr r \<and>
    (executable r \<longleftrightarrow>
       b + transaction_fee_lamports c + jito_tip_lamports c + safety_margin_lamports c
         + failed_attempt_reserve_lamports c + minimum_net_profit_lamports c \<le> s) \<and>
    net_profit_lamports r = gross_profit_lamports r - total_lamports c \<and>
    return_bps r * b \<le> net_profit_lamports r * 10000 \<and>
    net_profit_lamports r * 10000 < (return_bps r + 1) * b \<and>
    (0 \<le> return_bps r \<longleftrightarrow> 0 \<le> net_profit_lamports r)"
proof -
  obtain r where r: "evaluate_round_trip b s c = Inr r"
    using assms evaluate_round_trip_raises_iff [of b s c]
    by (cases "evaluate_round_trip b s c") auto
  note facts = evaluate_round_trip_Inr [OF r]
  show ?thesis
    using r facts floor_bps_bounds [OF assms, of "s - b - total_lamports c"]
      bps_nonneg_iff [OF assms, of "s - b - total_lamports c"]
    by (intro exI [of _ r]) (auto simp: total_lamports_def)
qed

theorem evaluate_round_trip_correct_witness:
  "\<exists>r. evaluate_round_trip 10000000 12000000
        \<lparr>transaction_fee_lamports = 5000, jito_tip_lamports = 100000,
         safety_margin_lamports = 100000, minimum_net_profit_lamports = 279929,
         failed_attempt_reserve_lamports = 815123\<rparr> = Inr r \<and> executable r"
  using evaluate_round_trip_correct
    [of 10000000 12000000 "\<lparr>transaction_fee_lamports = 5000, jito_tip_lamports = 100000,
         safety_margin_lamports = 100000, minimum_net_profit_lamports = 279929,
         failed_attempt_reserve_lamports = 815123\<rparr>"]
  by auto

end
