(* ===== verification/Shadow.thy ===== *)
theory Shadow
  imports Composer Engine
begin

text \<open>
  \<open>backrunner/shadow.py\<close>: the two shadow assessments.  \<open>assess_shadow\<close> judges a generic
  Jupiter round trip, \<open>run_direct_shadow_route\<close> builds, simulates and judges a direct
  Pump/Meteora round trip.  A report is a record; its rejection reasons are listed in the order
  the code appends them.
\<close>

record ShadowDecision =
  approved :: bool
  rejection_reasons :: "string list"
  sd_gross_profit_lamports :: int
  sd_net_profit_lamports :: int
  sd_return_bps :: int

definition assess_shadow ::
  "RoundTripBuild \<Rightarrow> CompiledRoundTrip \<Rightarrow> SimulationResult \<Rightarrow> int \<Rightarrow> int \<Rightarrow> int \<Rightarrow> int
   \<Rightarrow> ShadowDecision res" where
  "assess_shadow route compiled simulation failed_attempt_reserve minimum_net_profit jito_tip
     safety_margin =
     (let reasons =
        flag (\<not> distinct_pools route) ''pools_overlap'' @
        flag (\<not> fits_packet_limit compiled) ''transaction_too_large'' @
        flag (\<not> fits_account_limit compiled) ''too_many_accounts'' @
        flag (\<not> succeeded simulation) ''simulation_failed''
      in bindR (evaluate_round_trip (input_lamports route) (other_amount_threshold (sell route))
            \<lparr> transaction_fee_lamports = fee_lamports simulation, jito_tip_lamports = jito_tip,
              safety_margin_lamports = safety_margin,
              minimum_net_profit_lamports = minimum_net_profit,
              failed_attempt_reserve_lamports = failed_attempt_reserve \<rparr>) (\<lambda>result.
         let reasons' = reasons @ flag (\<not> executable result) ''insufficient_net_profit''
         in ret \<lparr> approved = (reasons' = []), rejection_reasons = reasons',
                  sd_gross_profit_lamports = gross_profit_lamports result,
                  sd_net_profit_lamports = net_profit_lamports result,
                  sd_return_bps = return_bps result \<rparr>))"

section \<open>The generic route\<close>

text \<open>The report of \<open>run_shadow_route\<close>, one field per entry of the dictionary it returns.\<close>

record ShadowReport =
  sr_mode :: string
  sr_token_mint :: string
  sr_input_lamports :: int
  sr_buy_minimum_output :: int
  sr_buy_pools :: "string list"
  sr_buy_labels :: "string list"
  sr_sell_input_amount :: int
  sr_sell_minimum_output_lamports :: int
  sr_sell_pools :: "string list"
  sr_sell_labels :: "string list"
  sr_version :: int
  sr_instructions :: int
  sr_bytes :: int
  sr_accounts :: int
  sr_signature_slots :: int
  sr_signed :: bool
  sr_sim_succeeded :: bool
  sr_context_slot :: int
  sr_units_consumed :: int
  sr_fee_lamports :: int
  sr_error :: json
  sr_logs_tail :: "string list"
  sr_conservative_gross_lamports :: int
  sr_net_after_all_reserves_lamports :: int
  sr_return_bps :: int
  sr_shadow_approved :: bool
  sr_rejection_reasons :: "string list"
  sr_transactions_submitted :: int
  sr_live_execution_enabled :: bool

text \<open>Python's \<open>xs[-n:]\<close>.\<close>

definition last_n :: "nat \<Rightarrow> 'a list \<Rightarrow> 'a list" where
  "last_n n xs = drop (length xs - n) xs"

definition run_shadow_route ::
  "'w env \<Rightarrow> JupiterBuildClient \<Rightarrow> string \<Rightarrow> int \<Rightarrow> string \<Rightarrow> int \<Rightarrow> int \<Rightarrow> int \<Rightarrow> int \<Rightarrow> int \<Rightarrow> int
   \<Rightarrow> int option \<Rightarrow> ('w, ShadowReport) io" where
  "run_shadow_route E jupiter token_mint lamports taker slippage max_accounts
     failed_attempt_reserve minimum_net_profit jito_tip safety_margin min_context_slot =
     bindIO (build_round_trip E jupiter token_mint lamports taker slippage max_accounts) (\<lambda>route.
     bindIO (compose_round_trip E route taker) (\<lambda>compiled.
     bindIO (simulate_transaction E (transaction_base64 compiled) min_context_slot True []) (\<lambda>sim.
     bindIO (liftR (assess_shadow route compiled sim failed_attempt_reserve minimum_net_profit
                      jito_tip safety_margin)) (\<lambda>decision.
     retIO \<lparr>
       sr_mode = ''DRY_RUN_SHADOW_ROUTE'',
       sr_token_mint = token_mint,
       sr_input_lamports = lamports,
       sr_buy_minimum_output = other_amount_threshold (buy route),
       sr_buy_pools = pool_keys (buy route),
       sr_buy_labels = pool_labels (buy route),
       sr_sell_input_amount = in_amount (sell route),
       sr_sell_minimum_output_lamports = other_amount_threshold (sell route),
       sr_sell_pools = pool_keys (sell route),
       sr_sell_labels = pool_labels (sell route),
       sr_version = version compiled,
       sr_instructions = instruction_count compiled,
       sr_bytes = serialized_size compiled,
       sr_accounts = account_count compiled,
       sr_signature_slots = signature_count compiled,
       sr_signed = False,
       sr_sim_succeeded = succeeded sim,
       sr_context_slot = context_slot sim,
       sr_units_consumed = units_consumed sim,
       sr_fee_lamports = fee_lamports sim,
       sr_error = error sim,
       sr_logs_tail = last_n 8 (logs sim),
       sr_conservative_gross_lamports = sd_gross_profit_lamports decision,
       sr_net_after_all_reserves_lamports = sd_net_profit_lamports decision,
       sr_return_bps = sd_return_bps decision,
       sr_shadow_approved = approved decision,
       sr_rejection_reasons = rejection_reasons decision,
       sr_transactions_submitted = 0,
       sr_live_execution_enabled = False \<rparr>))))"

section \<open>The direct route\<close>

text \<open>
  The wallet's net balance change, as far as the simulation can tell, with the reasons this part
  of the code appends: the wallet's balance must be the same before and after the simulation, and
  the simulation must have returned the wallet's account.
\<close>

definition wallet_net_reasons ::
  "int \<Rightarrow> int \<Rightarrow> int \<Rightarrow> SimulationResult \<Rightarrow> int option \<times> string list" where
  "wallet_net_reasons pre baseline required simulation =
     (if baseline \<noteq> pre then (None, [''wallet_baseline_changed''])
      else case account_lamports simulation of
        [] \<Rightarrow> (None, [''wallet_balance_unavailable''])
      | None # _ \<Rightarrow> (None, [''wallet_balance_unavailable''])
      | Some post # _ \<Rightarrow>
          (let net = post - pre in
             (Some net,
              if net + required < 0 then [''wallet_net_exceeds_max_loss'']
              else if net < 0 then []
              else if net < required then [''wallet_net_below_required_gross'']
              else [])))"

definition venue_markers :: "string list" where
  "venue_markers = [''Program pAMMBay'', ''Program LBUZKhR'', ''Program log: ExecutorError'']"

definition log_reasons :: "SimulationResult \<Rightarrow> int option \<Rightarrow> string list" where
  "log_reasons simulation wallet_net =
     (let joined = join '' '' (logs simulation) in
        flag (substr ''Program log: profit floor not met'' joined) ''executor_rejected_profit_floor'' @
        flag (succeeded simulation \<and> (case wallet_net of None \<Rightarrow> False | Some n \<Rightarrow> 0 < n)
              \<and> \<not> list_ex (\<lambda>m. substr m joined) venue_markers)
          ''expected_venue_or_executor_logs_absent'')"

definition fee_reason :: "int \<Rightarrow> int \<Rightarrow> string" where
  "fee_reason fee maximum =
     ''fee_exceeds_maximum: '' @ str_of_int fee @ '' > '' @ str_of_int maximum"

definition direct_reasons ::
  "DirectCompiledRoundTrip \<Rightarrow> SimulationResult \<Rightarrow> int \<Rightarrow> int \<Rightarrow> int \<Rightarrow> int \<Rightarrow> int
   \<Rightarrow> int option \<times> string list" where
  "direct_reasons compiled simulation min_context_slot pre baseline required maximum_fee =
     (let (net, net_rs) = wallet_net_reasons pre baseline required simulation in
      (net,
       flag (\<not> direct_fits_packet_limit compiled) ''transaction_too_large'' @
       flag (\<not> direct_fits_account_limit compiled) ''too_many_accounts'' @
       flag (context_slot simulation < min_context_slot) ''stale_simulation_context'' @
       flag (\<not> succeeded simulation) ''simulation_failed'' @
       net_rs @
       flag (maximum_fee < fee_lamports simulation)
         (fee_reason (fee_lamports simulation) maximum_fee) @
       log_reasons simulation net))"

text \<open>The report of \<open>run_direct_shadow_route\<close>.\<close>

record DirectReport =
  dr_mode :: string
  dr_token_mint :: string
  dr_pump_pool :: string
  dr_meteora_pool :: string
  dr_direction :: string
  dr_input_lamports :: int
  dr_required_gross_profit_lamports :: int
  dr_valid_until_slot :: int
  dr_transaction :: DirectCompiledRoundTrip
  dr_sim_succeeded :: bool
  dr_context_slot :: int
  dr_units_consumed :: int
  dr_fee_lamports :: int
  dr_error :: json
  dr_logs_tail :: "string list"
  dr_pre_balance_lamports :: int
  dr_baseline_lamports :: int
  dr_post_balance_lamports :: "int option"
  dr_wallet_net_lamports :: "int option"
  dr_shadow_approved :: bool
  dr_rejection_reasons :: "string list"
  dr_transactions_submitted :: int
  dr_live_execution_enabled :: bool

text \<open>The keyword arguments of \<open>run_direct_shadow_route\<close>.\<close>

record DirectArgs =
  token_mint :: string
  pump_pool :: string
  meteora_pool :: string
  direction :: string
  da_input_lamports :: int
  taker :: string
  executor_program_id :: string
  rpc_url :: string
  min_context_slot :: int
  slot_ttl :: int
  da_lookup_tables :: "string list"
  da_slippage_bps :: int
  compute_unit_limit :: int
  compute_unit_price_micro_lamports :: int
  required_gross_profit :: int
  tip_lamports :: int
  tip_recipient :: "string option"
  maximum_transaction_fee :: int

definition direct_request :: "DirectArgs \<Rightarrow> DirectRouteRequest" where
  "direct_request a = \<lparr>
     req_rpc_url = rpc_url a,
     req_executor_program_id = executor_program_id a,
     req_user = taker a,
     req_pump_pool = pump_pool a,
     req_meteora_pool = meteora_pool a,
     req_intermediate_mint = token_mint a,
     req_input_lamports = da_input_lamports a,
     req_direction = direction a,
     req_minimum_profit_lamports = required_gross_profit a,
     req_valid_until_slot = min_context_slot a + slot_ttl a,
     req_min_context_slot = min_context_slot a,
     req_lookup_table_addresses = da_lookup_tables a,
     req_slippage_bps = da_slippage_bps a,
     req_compute_unit_limit = compute_unit_limit a,
     req_compute_unit_price_micro_lamports = compute_unit_price_micro_lamports a,
     req_tip_lamports = tip_lamports a,
     req_tip_recipient = tip_recipient a \<rparr>"

definition direct_report ::
  "DirectArgs \<Rightarrow> int \<Rightarrow> DirectCompiledRoundTrip \<Rightarrow> SimulationResult \<Rightarrow> int \<Rightarrow> DirectReport" where
  "direct_report a pre compiled simulation baseline =
     (let (net, reasons) = direct_reasons compiled simulation (min_context_slot a) pre baseline
                             (required_gross_profit a) (maximum_transaction_fee a)
      in \<lparr> dr_mode = ''DRY_RUN_DIRECT_PUMP_METEORA'',
           dr_token_mint = token_mint a,
           dr_pump_pool = pump_pool a,
           dr_meteora_pool = meteora_pool a,
           dr_direction = direction a,
           dr_input_lamports = da_input_lamports a,
           dr_required_gross_profit_lamports = required_gross_profit a,
           dr_valid_until_slot = req_valid_until_slot (direct_request a),
           dr_transaction = compiled,
           dr_sim_succeeded = succeeded simulation,
           dr_context_slot = context_slot simulation,
           dr_units_consumed = units_consumed simulation,
           dr_fee_lamports = fee_lamports simulation,
           dr_error = error simulation,
           dr_logs_tail = last_n 12 (logs simulation),
           dr_pre_balance_lamports = pre,
           dr_baseline_lamports = baseline,
           dr_post_balance_lamports =
             (case account_lamports simulation of [] \<Rightarrow> None | x # _ \<Rightarrow> x),
           dr_wallet_net_lamports = net,
           dr_shadow_approved = (reasons = []),
           dr_rejection_reasons = reasons,
           dr_transactions_submitted = 0,
           dr_live_execution_enabled = False \<rparr>)"

definition run_direct_shadow_route :: "'w env \<Rightarrow> DirectArgs \<Rightarrow> ('w, DirectReport) io" where
  "run_direct_shadow_route E a =
     (if min_context_slot a < 0 \<or> slot_ttl a < 1
      then raiseIO (ValueError
        ''direct shadow requires a nonnegative context slot and positive slot TTL'')
      else
        bindIO (balance E (taker a) (Some (min_context_slot a))) (\<lambda>pre.
        bindIO (compose_direct_round_trip E (direct_request a)) (\<lambda>compiled.
        bindIO (simulate_transaction E (d_transaction_base64 compiled)
                  (Some (min_context_slot a)) False [taker a]) (\<lambda>simulation.
        bindIO (balance E (taker a) (Some (context_slot simulation))) (\<lambda>baseline.
        retIO (direct_report a pre compiled simulation baseline))))))"

section \<open>Lemmas\<close>

lemma wallet_net_reasons_clean:
  "wallet_net_reasons pre baseline required s = (net, []) \<longleftrightarrow>
     baseline = pre \<and>
     (\<exists>post rest. account_lamports s = Some post # rest \<and> net = Some (post - pre) \<and>
        pre - post \<le> required \<and> (post < pre \<or> required \<le> post - pre))"
proof (cases "account_lamports s")
  case (Cons x xs)
  then show ?thesis
    by (cases x) (auto simp: wallet_net_reasons_def Let_def)
qed (simp add: wallet_net_reasons_def)

lemma log_reasons_clean:
  "log_reasons s (Some n) = [] \<longleftrightarrow>
     \<not> substr ''Program log: profit floor not met'' (join '' '' (logs s)) \<and>
     (succeeded s \<and> 0 < n \<longrightarrow> (\<exists>m \<in> set venue_markers. substr m (join '' '' (logs s))))"
  by (auto simp: log_reasons_def Let_def list_ex_iff)

lemma direct_reasons_snd:
  "snd (direct_reasons c s ms pre bl req mf) =
     flag (\<not> direct_fits_packet_limit c) ''transaction_too_large'' @
     flag (\<not> direct_fits_account_limit c) ''too_many_accounts'' @
     flag (context_slot s < ms) ''stale_simulation_context'' @
     flag (\<not> succeeded s) ''simulation_failed'' @
     snd (wallet_net_reasons pre bl req s) @
     flag (mf < fee_lamports s) (fee_reason (fee_lamports s) mf) @
     log_reasons s (fst (wallet_net_reasons pre bl req s))"
  by (simp only: direct_reasons_def Let_def case_prod_beta snd_conv)

lemma direct_reasons_fst:
  "fst (direct_reasons c s ms pre bl req mf) = fst (wallet_net_reasons pre bl req s)"
  by (simp only: direct_reasons_def Let_def case_prod_beta fst_conv)

lemma direct_report_fields:
  "dr_transaction (direct_report a pre c s bl) = c"
  "dr_wallet_net_lamports (direct_report a pre c s bl) =
     fst (wallet_net_reasons pre bl (required_gross_profit a) s)"
  "dr_rejection_reasons (direct_report a pre c s bl) =
     snd (direct_reasons c s (min_context_slot a) pre bl (required_gross_profit a)
       (maximum_transaction_fee a))"
  "dr_transactions_submitted (direct_report a pre c s bl) = 0"
  "dr_live_execution_enabled (direct_report a pre c s bl) = False"
  "dr_valid_until_slot (direct_report a pre c s bl) = min_context_slot a + slot_ttl a"
  by (simp_all add: direct_report_def direct_reasons_fst direct_request_def case_prod_beta)

lemma direct_report_approved:
  "dr_shadow_approved (direct_report a pre c s bl) \<longleftrightarrow>
     snd (direct_reasons c s (min_context_slot a) pre bl (required_gross_profit a)
       (maximum_transaction_fee a)) = []"
  by (simp add: direct_report_def case_prod_beta)

lemma direct_approved_iff:
  "dr_shadow_approved (direct_report a pre c s bl) \<longleftrightarrow>
     direct_fits_packet_limit c \<and> direct_fits_account_limit c \<and>
     min_context_slot a \<le> context_slot s \<and> succeeded s \<and>
     fee_lamports s \<le> maximum_transaction_fee a \<and> bl = pre \<and>
     (\<exists>post rest. account_lamports s = Some post # rest \<and>
        pre - post \<le> required_gross_profit a \<and>
        (post < pre \<or> required_gross_profit a \<le> post - pre) \<and>
        log_reasons s (Some (post - pre)) = [])"
proof -
  obtain net rs where w: "wallet_net_reasons pre bl (required_gross_profit a) s = (net, rs)"
    by force
  show ?thesis
  proof (cases "rs = []")
    case True
    then obtain post rest where pr: "bl = pre" "account_lamports s = Some post # rest"
      "net = Some (post - pre)"
      "pre - post \<le> required_gross_profit a"
      "post < pre \<or> required_gross_profit a \<le> post - pre"
      using w wallet_net_reasons_clean [of pre bl "required_gross_profit a" s net] by auto
    show ?thesis
      unfolding direct_report_approved direct_reasons_snd w
      using True pr by (auto simp: not_less)
  next
    case False
    then have "\<not> (bl = pre \<and> (\<exists>post rest. account_lamports s = Some post # rest \<and>
        pre - post \<le> required_gross_profit a \<and>
        (post < pre \<or> required_gross_profit a \<le> post - pre)))"
      using w wallet_net_reasons_clean [of pre bl "required_gross_profit a" s] by auto
    then show ?thesis
      unfolding direct_report_approved direct_reasons_snd w using False by auto
  qed
qed

lemma run_direct_Inr:
  assumes "run_direct_shadow_route E a w = (Inr r, w')"
  obtains pre c s bl w1 w2 w3 where
    "0 \<le> min_context_slot a" "1 \<le> slot_ttl a"
    "balance E (taker a) (Some (min_context_slot a)) w = (Inr pre, w1)"
    "compose_direct_round_trip E (direct_request a) w1 = (Inr c, w2)"
    "simulate_transaction E (d_transaction_base64 c) (Some (min_context_slot a)) False [taker a] w2
       = (Inr s, w3)"
    "balance E (taker a) (Some (context_slot s)) w3 = (Inr bl, w')"
    "r = direct_report a pre c s bl"
  using assms unfolding run_direct_shadow_route_def
  by (auto split: if_splits)

section \<open>Properties\<close>

text \<open>
  C25. The generic shadow assessment of a route with a positive input raises nothing, and
  approves exactly when the two legs use disjoint pools, the transaction fits the packet and
  account limits, the simulation succeeded, and the guaranteed proceeds cover the input, the
  simulated fee, tip, margin, reserve and minimum profit; every rejected decision says why.
\<close>

theorem assess_shadow_approves_iff:
  assumes "0 < input_lamports route"
  shows "\<exists>d. assess_shadow route compiled sim reserve minimum tip margin = Inr d \<and>
    (approved d \<longleftrightarrow>
       set (pool_keys (buy route)) \<inter> set (pool_keys (sell route)) = {} \<and>
       serialized_size compiled \<le> 1232 \<and> account_count compiled \<le> 64 \<and>
       error sim = JNull \<and>
       input_lamports route + fee_lamports sim + tip + margin + reserve + minimum
         \<le> other_amount_threshold (sell route)) \<and>
    (approved d \<longleftrightarrow> rejection_reasons d = [])"
proof -
  let ?c = "\<lparr> transaction_fee_lamports = fee_lamports sim, jito_tip_lamports = tip,
      safety_margin_lamports = margin, minimum_net_profit_lamports = minimum,
      failed_attempt_reserve_lamports = reserve \<rparr>"
  obtain r where r: "evaluate_round_trip (input_lamports route)
      (other_amount_threshold (sell route)) ?c = Inr r"
    using assms evaluate_round_trip_raises_iff by (metis sum.exhaust not_le)
  have "executable r \<longleftrightarrow> input_lamports route + fee_lamports sim + tip + margin + reserve + minimum
      \<le> other_amount_threshold (sell route)"
    using evaluate_round_trip_Inr [OF r] by (auto simp: total_lamports_def)
  then show ?thesis
    using r by (simp add: assess_shadow_def distinct_pools_def fits_packet_limit_def
        fits_account_limit_def packet_limit_def account_limit_def succeeded_def Let_def)
qed

definition demo_leg :: "string \<Rightarrow> int \<Rightarrow> SwapBuild" where
  "demo_leg pool threshold = \<lparr> input_mint = ''Input'', output_mint = ''Output'', in_amount = 1,
     out_amount = threshold, other_amount_threshold = threshold, slippage_bps = 100,
     pool_keys = [pool], pool_labels = [''DEX''], raw = JDict [] \<rparr>"

definition demo_compiled :: CompiledRoundTrip where
  "demo_compiled = \<lparr> transaction_base64 = ''tx'', version = 0, instruction_count = 5,
     serialized_size = 1000, account_count = 20, signature_count = 1 \<rparr>"

definition demo_sim :: "int option list \<Rightarrow> string list \<Rightarrow> SimulationResult" where
  "demo_sim accs lg = \<lparr> context_slot = 998, error = JNull, logs = lg, units_consumed = 300000,
     fee_lamports = 5000, account_lamports = accs \<rparr>"

theorem assess_shadow_approves_iff_witness:
  "\<exists>d. assess_shadow \<lparr> input_lamports = 10000000, buy = demo_leg ''PoolA'' 1000000,
           sell = demo_leg ''PoolB'' 12000000 \<rparr> demo_compiled (demo_sim [] []) 815123 279929
           100000 100000 = Inr d \<and> approved d"
  using assess_shadow_approves_iff [of "\<lparr> input_lamports = 10000000,
      buy = demo_leg ''PoolA'' 1000000, sell = demo_leg ''PoolB'' 12000000 \<rparr>"
      demo_compiled "demo_sim [] []" 815123 279929 100000 100000]
  by (auto simp: demo_leg_def demo_compiled_def demo_sim_def)

text \<open>
  C1. What an approved direct report certifies: the transaction fits both Solana limits, the
  simulation ran at or after the requested slot without error and under the fee cap, the
  wallet's real balance did not move around the simulation, the wallet's simulated balance was
  returned, no profit-floor rejection is in the logs, a gain comes with the log of a venue, and
  the net result is either at least the required profit, or a loss of at most that amount.
\<close>

theorem direct_report_approved_iff:
  "dr_shadow_approved (direct_report a pre c s baseline) \<longleftrightarrow>
     d_serialized_size c \<le> 1232 \<and> d_account_count c \<le> 64 \<and>
     min_context_slot a \<le> context_slot s \<and> error s = JNull \<and>
     fee_lamports s \<le> maximum_transaction_fee a \<and> baseline = pre \<and>
     \<not> substr ''Program log: profit floor not met'' (join '' '' (logs s)) \<and>
     (\<exists>post rest. account_lamports s = Some post # rest \<and>
        pre - post \<le> required_gross_profit a \<and>
        (post < pre \<or> required_gross_profit a \<le> post - pre) \<and>
        (0 < post - pre \<longrightarrow> (\<exists>m \<in> set venue_markers. substr m (join '' '' (logs s)))))"
  unfolding direct_approved_iff log_reasons_clean
  by (auto simp: direct_fits_packet_limit_def direct_fits_account_limit_def packet_limit_def
      account_limit_def succeeded_def split: if_splits)

text \<open>
  The report's condition is an equivalence over any arguments; here is an approved report, the
  one of the project's own test.
\<close>

definition demo_direct :: "int \<Rightarrow> DirectArgs" where
  "demo_direct required = \<lparr> token_mint = ''mint'', pump_pool = ''pump'', meteora_pool = ''met'',
     direction = ''meteora_to_pump'', da_input_lamports = 10000000, taker = ''user'',
     executor_program_id = ''executor'', rpc_url = ''https://rpc.test'', min_context_slot = 997,
     slot_ttl = 2, da_lookup_tables = [''alt''], da_slippage_bps = 100,
     compute_unit_limit = 600000, compute_unit_price_micro_lamports = 1000,
     required_gross_profit = required, tip_lamports = 100000, tip_recipient = Some ''tip'',
     maximum_transaction_fee = 700000 \<rparr>"

definition demo_direct_compiled :: DirectCompiledRoundTrip where
  "demo_direct_compiled = \<lparr> d_transaction_base64 = ''AA=='', recent_blockhash = ''blockhash'',
     last_valid_block_height = 100, d_instruction_count = 8, d_serialized_size = 598,
     d_account_count = 42, lookup_table_addresses = [''alt''], funding_lamports = 10000000,
     quote_account = ''quote'', intermediate_account = ''token'', first_program = ''meteora'',
     second_program = ''pump'', executor_program = ''executor'', signed = False,
     submitted = False \<rparr>"

theorem direct_report_approved_iff_witness:
  "dr_shadow_approved (direct_report (demo_direct 1295052) 1000000000 demo_direct_compiled
     (demo_sim [Some 1001500000] [''Program LBUZKhR swap2 executing'']) 1000000000)"
  unfolding direct_report_approved_iff
  by (simp add: demo_direct_def demo_direct_compiled_def demo_sim_def venue_markers_def join_def)

text \<open>
  Approval is not monotone in the result.  For every positive required profit, a simulation
  that leaves the wallet any amount short, up to the required profit, is approved when the rest
  is in order, while a simulation that breaks even (or gains less than the required profit) is
  rejected: the required profit doubles as the permitted loss.
\<close>

theorem direct_report_loss_approved_gain_rejected:
  assumes "0 < loss" "loss \<le> required_gross_profit a"
    and "0 \<le> gain" "gain < required_gross_profit a"
    and "d_serialized_size c \<le> 1232" "d_account_count c \<le> 64"
    and "min_context_slot a \<le> context_slot s" "error s = JNull"
    and "fee_lamports s \<le> maximum_transaction_fee a"
    and "\<not> substr ''Program log: profit floor not met'' (join '' '' (logs s))"
  shows "dr_shadow_approved
           (direct_report a pre c (s\<lparr>account_lamports := [Some (pre - loss)]\<rparr>) pre) \<and>
         \<not> dr_shadow_approved
           (direct_report a pre c (s\<lparr>account_lamports := [Some (pre + gain)]\<rparr>) pre)"
  using assms unfolding direct_approved_iff log_reasons_clean
  by (auto simp: direct_fits_packet_limit_def
      direct_fits_account_limit_def packet_limit_def account_limit_def succeeded_def)

theorem direct_report_loss_approved_gain_rejected_witness:
  "dr_shadow_approved (direct_report (demo_direct 1295052) 1000000000 demo_direct_compiled
     ((demo_sim [] [])\<lparr>account_lamports := [Some (1000000000 - 1295052)]\<rparr>) 1000000000) \<and>
   \<not> dr_shadow_approved (direct_report (demo_direct 1295052) 1000000000 demo_direct_compiled
     ((demo_sim [] [])\<lparr>account_lamports := [Some (1000000000 + 0)]\<rparr>) 1000000000)"
  by (rule direct_report_loss_approved_gain_rejected)
    (simp_all add: demo_direct_def demo_direct_compiled_def demo_sim_def join_def)

text \<open>
  C24. No direct shadow run submits: a run that returns a report has a nonnegative context slot
  and a validity window of at least one slot beyond it, composed a transaction that is neither
  signed nor submitted, and reports zero submissions with live execution off; when it approves,
  the wallet balance read after the simulation (at the simulated slot) equals the one read
  before.
\<close>

theorem run_direct_shadow_no_submit:
  assumes "run_direct_shadow_route E a w = (Inr r, w')"
  shows "0 \<le> min_context_slot a \<and> min_context_slot a < dr_valid_until_slot r \<and>
    \<not> signed (dr_transaction r) \<and> \<not> submitted (dr_transaction r) \<and>
    dr_transactions_submitted r = 0 \<and> \<not> dr_live_execution_enabled r \<and>
    (dr_shadow_approved r \<longrightarrow>
      (\<exists>pre w1 slot w3. min_context_slot a \<le> slot \<and>
        balance E (taker a) (Some (min_context_slot a)) w = (Inr pre, w1) \<and>
        balance E (taker a) (Some slot) w3 = (Inr pre, w')))"
proof -
  from assms obtain pre c s bl w1 w2 w3 where run:
    "0 \<le> min_context_slot a" "1 \<le> slot_ttl a"
    "balance E (taker a) (Some (min_context_slot a)) w = (Inr pre, w1)"
    "compose_direct_round_trip E (direct_request a) w1 = (Inr c, w2)"
    "balance E (taker a) (Some (context_slot s)) w3 = (Inr bl, w')"
    "r = direct_report a pre c s bl"
    by (rule run_direct_Inr)
  from compose_direct_unsigned [OF run(4)] have "\<not> signed c" "\<not> submitted c" by auto
  moreover have "dr_shadow_approved r \<Longrightarrow> bl = pre \<and> min_context_slot a \<le> context_slot s"
    unfolding run(6) direct_approved_iff by blast
  ultimately show ?thesis using run by (auto simp: direct_report_fields)
qed

text \<open>A node that answers every request, with the wallet's balance steady.\<close>

definition demo_rpc :: "json \<Rightarrow> (nat, json) io" where
  "demo_rpc req w =
     (let method = (case dict_item req ''method'' of Inr m \<Rightarrow> m | Inl _ \<Rightarrow> JNull) in
      (Inr (JDict [(''result'',
        if method = JStr ''getBalance'' then JDict [(''value'', JInt 1000000000)]
        else JDict [(''context'', JDict [(''slot'', JInt 998)]),
          (''value'', JDict [(''err'', JNull), (''fee'', JInt 5000),
             (''logs'', JList [JStr ''Program LBUZKhR swap2'']),
             (''accounts'', JList [JDict [(''lamports'', JInt 1001500000)]])])])]), Suc w))"

definition demo_composer_output :: json where
  "demo_composer_output = JDict
     [(''signed'', JBool False), (''submitted'', JBool False),
      (''unsignedTransactionBase64'', JStr ''AA==''), (''recentBlockhash'', JStr ''bh''),
      (''lastValidBlockHeight'', JInt 100), (''instructionCount'', JInt 8),
      (''serializedBytes'', JInt 598), (''accountCount'', JInt 42),
      (''lookupTableAddresses'', JList [JStr ''alt'']), (''fundingLamports'', JInt 10000000),
      (''quoteAccount'', JStr ''q''), (''intermediateAccount'', JStr ''t''),
      (''firstProgram'', JStr ''m''), (''secondProgram'', JStr ''p''),
      (''executorProgram'', JStr ''e'')]"

definition demo_shadow_env :: "nat env" where
  "demo_shadow_env = dead_env
     \<lparr> rpc_post := demo_rpc,
       run_script := (\<lambda>_ _ w. (Inr \<lparr> returncode = 0, stdout = [], stderr = [],
          stdout_json = Inr demo_composer_output \<rparr>, Suc w)) \<rparr>"

lemma demo_shadow_run:
  assumes "0 \<le> min_context_slot a" "min_context_slot a \<le> 998" "1 \<le> slot_ttl a"
  shows "\<exists>r. run_direct_shadow_route demo_shadow_env a w = (Inr r, w + 4) \<and>
       dr_wallet_net_lamports r = Some 1500000"
  using assms
  by (simp add: run_direct_shadow_route_def demo_shadow_env_def dead_env_def
      balance_def rpc_call_def bindIO_def rpc_request_def demo_rpc_def Let_def
      compose_direct_round_trip_def demo_composer_output_def parse_direct_output_def
      bool_field_def str_field_def int_field_def simulate_transaction_def parse_simulation_def
      simulated_lamports_def py_or_def direct_report_fields wallet_net_reasons_def)

theorem run_direct_shadow_no_submit_witness:
  "\<exists>r. run_direct_shadow_route demo_shadow_env (demo_direct 1295052) 0 = (Inr r, 4) \<and>
       \<not> signed (dr_transaction r) \<and> dr_transactions_submitted r = 0 \<and>
       997 < dr_valid_until_slot r"
proof -
  obtain r where r: "run_direct_shadow_route demo_shadow_env (demo_direct 1295052) 0 = (Inr r, 4)"
    using demo_shadow_run [of "demo_direct 1295052" 0] by (auto simp: demo_direct_def)
  from run_direct_shadow_no_submit [OF r] r show ?thesis
    by (auto simp: demo_direct_def)
qed

end
