(* ===== verification/Config.thy ===== *)
theory Config
  imports PyValue
begin

text \<open>
  \<open>backrunner/config.py\<close>: the configuration of the Python side, read from a YAML document.
  What \<open>yaml.safe_load\<close> makes of the file's text is the argument; every conversion, default
  and check is the code's, in the code's order.
\<close>

record Config =
  c_dry_run :: bool
  c_rpc_url :: string
  c_minimum_buy_usd :: pyfloat
  c_maximum_transaction_gap :: int
  c_sol_price_usd :: pyfloat
  c_commitment :: string
  c_replay_fixture :: string
  c_failed_attempt_reserve_lamports :: int
  c_minimum_net_profit_lamports :: int
  c_shadow_taker :: string
  c_shadow_input_lamports :: int
  c_slippage_bps :: int
  c_max_accounts :: int
  c_jito_tip_lamports :: int
  c_safety_margin_lamports :: int
  c_risk_state_path :: string
  c_pilot_risk_pct :: pyfloat
  c_validated_risk_pct :: pyfloat
  c_trade_cap_usd :: pyfloat
  c_wallet_reserve_usd :: pyfloat
  c_daily_loss_pct :: pyfloat
  c_maximum_drawdown_pct :: pyfloat
  c_executor_program_id :: string
  c_direct_lookup_table_addresses :: "string list"
  c_direct_compute_unit_limit :: int
  c_direct_compute_unit_price_micro_lamports :: int
  c_direct_opportunity_slot_ttl :: int
  c_maximum_transaction_fee_lamports :: int
  c_direct_tip_lamports :: int
  c_direct_tip_recipient :: "string option"

definition required_gross_profit_lamports :: "Config \<Rightarrow> int" where
  "required_gross_profit_lamports c =
     c_failed_attempt_reserve_lamports c + c_minimum_net_profit_lamports c
       + c_safety_margin_lamports c + c_maximum_transaction_fee_lamports c
       + c_direct_tip_lamports c"

section \<open>Reading\<close>

definition get_int :: "json \<Rightarrow> string \<Rightarrow> int \<Rightarrow> int res" where
  "get_int raw_doc k d = bindR (dict_get raw_doc k (JInt d)) py_int"

definition get_float :: "json \<Rightarrow> string \<Rightarrow> json \<Rightarrow> pyfloat res" where
  "get_float raw_doc k d = bindR (dict_get raw_doc k d) py_float"

definition get_str :: "(json \<Rightarrow> string) \<Rightarrow> json \<Rightarrow> string \<Rightarrow> string \<Rightarrow> string res" where
  "get_str rp raw_doc k d = bindR (dict_get raw_doc k (JStr d)) (\<lambda>v. ret (py_str rp v))"

text \<open>\<open>Path(v)\<close> takes a string only.\<close>

definition get_path :: "json \<Rightarrow> string \<Rightarrow> string \<Rightarrow> string res" where
  "get_path raw_doc k d = bindR (dict_get raw_doc k (JStr d)) (\<lambda>v. case v of
     JStr s \<Rightarrow> ret s | _ \<Rightarrow> raise (TypeError ''argument should be a str or an os.PathLike object''))"

text \<open>The fields \<open>load_config\<close> checks, before it builds the \<open>Config\<close>.\<close>

record CheckedFields =
  k_dry_run :: bool
  k_gap :: int
  k_shadow_input :: int
  k_slippage_bps :: int
  k_max_accounts :: int
  k_lookup_tables :: "string list"
  k_compute_unit_limit :: int
  k_compute_unit_price :: int
  k_slot_ttl :: int
  k_maximum_fee :: int
  k_direct_tip :: int
  k_tip_recipient :: "string option"

definition check_fields :: "(json \<Rightarrow> string) \<Rightarrow> json \<Rightarrow> CheckedFields res" where
  "check_fields rp raw_doc =
     bindR (dict_get raw_doc ''dry_run'' (JBool True)) (\<lambda>dry.
     bindR (get_int raw_doc ''maximum_transaction_gap'' 3) (\<lambda>gap.
     bindR (guardR (1 \<le> gap) (ValueError ''maximum_transaction_gap must be at least 1'')) (\<lambda>_.
     bindR (get_int raw_doc ''shadow_input_lamports'' 10000000) (\<lambda>shadow_input.
     bindR (guardR (0 < shadow_input) (ValueError ''shadow_input_lamports must be positive'')) (\<lambda>_.
     bindR (get_int raw_doc ''slippage_bps'' 100) (\<lambda>slippage.
     bindR (guardR (0 \<le> slippage \<and> slippage \<le> 5000)
              (ValueError ''slippage_bps must be between 0 and 5000'')) (\<lambda>_.
     bindR (get_int raw_doc ''max_accounts'' 50) (\<lambda>accounts.
     bindR (guardR (1 \<le> accounts \<and> accounts \<le> 64)
              (ValueError ''max_accounts must be between 1 and 64'')) (\<lambda>_.
     bindR (bindR (dict_get raw_doc ''direct_lookup_table_addresses'' (JList [])) py_iter) (\<lambda>tables.
     bindR (get_int raw_doc ''direct_compute_unit_limit'' 600000) (\<lambda>cu_limit.
     bindR (guardR (1 \<le> cu_limit \<and> cu_limit \<le> 1400000)
              (ValueError ''direct_compute_unit_limit must be between 1 and 1400000'')) (\<lambda>_.
     bindR (get_int raw_doc ''direct_compute_unit_price_micro_lamports'' 800000) (\<lambda>cu_price.
     bindR (guardR (0 \<le> cu_price)
              (ValueError ''direct_compute_unit_price_micro_lamports cannot be negative'')) (\<lambda>_.
     bindR (get_int raw_doc ''direct_opportunity_slot_ttl'' 2) (\<lambda>ttl.
     bindR (guardR (1 \<le> ttl \<and> ttl \<le> 32)
              (ValueError ''direct_opportunity_slot_ttl must be between 1 and 32'')) (\<lambda>_.
     bindR (get_int raw_doc ''maximum_transaction_fee_lamports'' 700000) (\<lambda>fee.
     bindR (get_int raw_doc ''direct_tip_lamports'' 0) (\<lambda>tip.
     bindR (guardR (0 \<le> fee \<and> 0 \<le> tip)
              (ValueError ''direct fee and tip limits cannot be negative'')) (\<lambda>_.
     bindR (dict_get raw_doc ''direct_tip_recipient'' JNull) (\<lambda>recipient_raw.
     let recipient = (if truthy recipient_raw then Some (py_str rp recipient_raw) else None) in
     bindR (guardR (tip = 0 \<or> recipient \<noteq> None)
              (ValueError ''direct_tip_recipient is required when direct_tip_lamports is nonzero'')) (\<lambda>_.
     ret \<lparr> k_dry_run = truthy dry, k_gap = gap, k_shadow_input = shadow_input,
           k_slippage_bps = slippage, k_max_accounts = accounts,
           k_lookup_tables = map (py_str rp) tables, k_compute_unit_limit = cu_limit,
           k_compute_unit_price = cu_price, k_slot_ttl = ttl, k_maximum_fee = fee,
           k_direct_tip = tip, k_tip_recipient = recipient \<rparr>)))))))))))))))))))))"

text \<open>The \<open>return Config(...)\<close>: the checked fields, and the others converted in order.\<close>

definition build_config :: "(json \<Rightarrow> string) \<Rightarrow> json \<Rightarrow> CheckedFields \<Rightarrow> Config res" where
  "build_config rp raw_doc k =
     bindR (get_str rp raw_doc ''rpc_url'' ''https://solana-rpc.publicnode.com'') (\<lambda>v1.
     bindR (get_float raw_doc ''minimum_buy_usd'' (JInt 300)) (\<lambda>v2.
     bindR (get_float raw_doc ''sol_price_usd'' (JFloat (flit (73385944 / 1000000)))) (\<lambda>v4.
     bindR (get_str rp raw_doc ''commitment'' ''finalized'') (\<lambda>v5.
     bindR (get_path raw_doc ''replay_fixture'' ''fixtures/wallet_a_replay.json'') (\<lambda>v6.
     bindR (get_int raw_doc ''failed_attempt_reserve_lamports'' 815123) (\<lambda>v7.
     bindR (get_int raw_doc ''minimum_net_profit_lamports'' 279929) (\<lambda>v8.
     bindR (get_str rp raw_doc ''shadow_taker'' ''MRiYA4oN3158fCV8evhuCofrDzbHyYvYnGZUDJvoCsa'') (\<lambda>v9.
     bindR (get_int raw_doc ''jito_tip_lamports'' 100000) (\<lambda>v13.
     bindR (get_int raw_doc ''safety_margin_lamports'' 100000) (\<lambda>v14.
     bindR (get_path raw_doc ''risk_state_path'' ''data/runtime-state.json'') (\<lambda>v15.
     bindR (get_float raw_doc ''pilot_risk_pct'' (JFloat (Fin 5))) (\<lambda>v16.
     bindR (get_float raw_doc ''validated_risk_pct'' (JFloat (Fin 10))) (\<lambda>v17.
     bindR (get_float raw_doc ''trade_cap_usd'' (JFloat (Fin 25))) (\<lambda>v18.
     bindR (get_float raw_doc ''wallet_reserve_usd'' (JFloat (Fin 10))) (\<lambda>v19.
     bindR (get_float raw_doc ''daily_loss_pct'' (JFloat (Fin 3))) (\<lambda>v20.
     bindR (get_float raw_doc ''maximum_drawdown_pct'' (JFloat (Fin 5))) (\<lambda>v21.
     bindR (get_str rp raw_doc ''executor_program_id'' []) (\<lambda>v22.
     ret \<lparr> c_dry_run = k_dry_run k,
           c_rpc_url = v1,
           c_minimum_buy_usd = v2,
           c_maximum_transaction_gap = k_gap k,
           c_sol_price_usd = v4,
           c_commitment = v5,
           c_replay_fixture = v6,
           c_failed_attempt_reserve_lamports = v7,
           c_minimum_net_profit_lamports = v8,
           c_shadow_taker = v9,
           c_shadow_input_lamports = k_shadow_input k,
           c_slippage_bps = k_slippage_bps k,
           c_max_accounts = k_max_accounts k,
           c_jito_tip_lamports = v13,
           c_safety_margin_lamports = v14,
           c_risk_state_path = v15,
           c_pilot_risk_pct = v16,
           c_validated_risk_pct = v17,
           c_trade_cap_usd = v18,
           c_wallet_reserve_usd = v19,
           c_daily_loss_pct = v20,
           c_maximum_drawdown_pct = v21,
           c_executor_program_id = v22,
           c_direct_lookup_table_addresses = k_lookup_tables k,
           c_direct_compute_unit_limit = k_compute_unit_limit k,
           c_direct_compute_unit_price_micro_lamports = k_compute_unit_price k,
           c_direct_opportunity_slot_ttl = k_slot_ttl k,
           c_maximum_transaction_fee_lamports = k_maximum_fee k,
           c_direct_tip_lamports = k_direct_tip k,
           c_direct_tip_recipient = k_tip_recipient k \<rparr>))))))))))))))))))"

definition load_config :: "(json \<Rightarrow> string) \<Rightarrow> json \<Rightarrow> Config res" where
  "load_config rp document =
     (let raw_doc = py_or document (JDict []) in
      bindR (check_fields rp raw_doc) (build_config rp raw_doc))"

section \<open>Properties\<close>

lemma check_fields_Inr:
  assumes "check_fields rp (JDict m) = Inr k"
  shows "1 \<le> k_gap k \<and>
    0 < k_shadow_input k \<and>
    0 \<le> k_slippage_bps k \<and>
    k_slippage_bps k \<le> 5000 \<and>
    1 \<le> k_max_accounts k \<and>
    k_max_accounts k \<le> 64 \<and>
    1 \<le> k_compute_unit_limit k \<and>
    k_compute_unit_limit k \<le> 1400000 \<and>
    0 \<le> k_compute_unit_price k \<and>
    1 \<le> k_slot_ttl k \<and>
    k_slot_ttl k \<le> 32 \<and>
    0 \<le> k_maximum_fee k \<and>
    0 \<le> k_direct_tip k \<and>
    (k_direct_tip k = 0 \<or> k_tip_recipient k \<noteq> None) \<and>
    k_dry_run k = truthy (case map_of m ''dry_run'' of None \<Rightarrow> JBool True | Some v \<Rightarrow> v)"
  using assms unfolding check_fields_def Let_def
  by (elim bindR_Inr_elim)
    (simp only: ret_simp sum.inject guardR_eq_Inr dict_get.simps, hypsubst, simp split: if_splits)

lemma build_config_fields:
  assumes "build_config rp raw_doc k = Inr c"
  shows "c_dry_run c = k_dry_run k \<and>
    c_maximum_transaction_gap c = k_gap k \<and>
    c_shadow_input_lamports c = k_shadow_input k \<and>
    c_slippage_bps c = k_slippage_bps k \<and>
    c_max_accounts c = k_max_accounts k \<and>
    c_direct_compute_unit_limit c = k_compute_unit_limit k \<and>
    c_direct_compute_unit_price_micro_lamports c = k_compute_unit_price k \<and>
    c_direct_opportunity_slot_ttl c = k_slot_ttl k \<and>
    c_maximum_transaction_fee_lamports c = k_maximum_fee k \<and>
    c_direct_tip_lamports c = k_direct_tip k \<and>
    c_direct_tip_recipient c = k_tip_recipient k"
  using assms unfolding build_config_def
  by (elim bindR_Inr_elim) (simp only: ret_simp sum.inject, hypsubst, simp)

lemma load_config_checked:
  assumes "load_config rp document = Inr c"
  obtains m k where "py_or document (JDict []) = JDict m" "check_fields rp (JDict m) = Inr k"
    "c_dry_run c = k_dry_run k" "c_maximum_transaction_gap c = k_gap k"
    "c_shadow_input_lamports c = k_shadow_input k" "c_slippage_bps c = k_slippage_bps k"
    "c_max_accounts c = k_max_accounts k" "c_direct_compute_unit_limit c = k_compute_unit_limit k"
    "c_direct_compute_unit_price_micro_lamports c = k_compute_unit_price k"
    "c_direct_opportunity_slot_ttl c = k_slot_ttl k" "c_maximum_transaction_fee_lamports c = k_maximum_fee k"
    "c_direct_tip_lamports c = k_direct_tip k" "c_direct_tip_recipient c = k_tip_recipient k"
proof -
  let ?d = "py_or document (JDict [])"
  obtain k where k: "check_fields rp ?d = Inr k" "build_config rp ?d k = Inr c"
    using assms unfolding load_config_def Let_def by (elim bindR_Inr_elim)
  obtain m where m: "?d = JDict m"
    using k(1) by (cases ?d) (simp_all add: check_fields_def)
  show ?thesis
    using that [OF m k(1) [unfolded m]] build_config_fields [OF k(2)] by blast
qed

text \<open>
  C9. A configuration that loads is within its limits, and live trading is opt-in.  Every field
  the code bounds is inside its bounds, a tip always has a recipient, and \<open>dry_run\<close> is off
  only if the document is a mapping that sets \<open>dry_run\<close> to a false value: a missing file
  body, a missing key, or a string such as ''false'' all keep the dry run on.
\<close>

theorem load_config_within_limits:
  assumes "load_config rp document = Inr c"
  shows "1 \<le> c_maximum_transaction_gap c \<and> 0 < c_shadow_input_lamports c \<and>
    0 \<le> c_slippage_bps c \<and> c_slippage_bps c \<le> 5000 \<and>
    1 \<le> c_max_accounts c \<and> c_max_accounts c \<le> 64 \<and>
    1 \<le> c_direct_compute_unit_limit c \<and> c_direct_compute_unit_limit c \<le> 1400000 \<and>
    0 \<le> c_direct_compute_unit_price_micro_lamports c \<and>
    1 \<le> c_direct_opportunity_slot_ttl c \<and> c_direct_opportunity_slot_ttl c \<le> 32 \<and>
    0 \<le> c_maximum_transaction_fee_lamports c \<and> 0 \<le> c_direct_tip_lamports c \<and>
    (c_direct_tip_lamports c = 0 \<or> c_direct_tip_recipient c \<noteq> None) \<and>
    (c_dry_run c \<or> (\<exists>m v. document = JDict m \<and> map_of m ''dry_run'' = Some v \<and> \<not> truthy v))"
proof -
  obtain m k where mk: "py_or document (JDict []) = JDict m" "check_fields rp (JDict m) = Inr k"
    "c_dry_run c = k_dry_run k" "c_maximum_transaction_gap c = k_gap k"
    "c_shadow_input_lamports c = k_shadow_input k" "c_slippage_bps c = k_slippage_bps k"
    "c_max_accounts c = k_max_accounts k" "c_direct_compute_unit_limit c = k_compute_unit_limit k"
    "c_direct_compute_unit_price_micro_lamports c = k_compute_unit_price k"
    "c_direct_opportunity_slot_ttl c = k_slot_ttl k" "c_maximum_transaction_fee_lamports c = k_maximum_fee k"
    "c_direct_tip_lamports c = k_direct_tip k" "c_direct_tip_recipient c = k_tip_recipient k"
    using assms by (rule load_config_checked)
  note checked = check_fields_Inr [OF mk(2)]
  have "document = JDict m" if "m \<noteq> []"
    using mk(1) that by (auto simp: py_or_def split: if_splits)
  then have "c_dry_run c \<or> (\<exists>m v. document = JDict m \<and> map_of m ''dry_run'' = Some v \<and> \<not> truthy v)"
    using checked mk(3) by (cases "m = []") (auto split: option.splits)
  then show ?thesis using checked mk by simp
qed

text \<open>
  The configuration of an empty document.  It loads, keeps the dry run on, has no executor and
  no tip, and asks of a direct route the five reserves added up: 1895052 lamports.
\<close>

theorem load_config_default:
  "\<exists>c. load_config rp JNull = Inr c \<and> load_config rp (JDict []) = Inr c \<and> c_dry_run c \<and>
    c_executor_program_id c = [] \<and> c_direct_tip_recipient c = None \<and>
    c_direct_lookup_table_addresses c = [] \<and>
    required_gross_profit_lamports c = 1895052"
proof -
  have "\<exists>c. load_config rp (JDict []) = Inr c \<and> c_dry_run c \<and>
    c_executor_program_id c = [] \<and> c_direct_tip_recipient c = None \<and>
    c_direct_lookup_table_addresses c = [] \<and> required_gross_profit_lamports c = 1895052"
    by (simp add: load_config_def check_fields_def get_int_def get_float_def get_str_def
        get_path_def build_config_def py_or_def required_gross_profit_lamports_def float_of_int_def)
  moreover have "load_config rp JNull = load_config rp (JDict [])"
    by (simp add: load_config_def py_or_def)
  ultimately show ?thesis by simp
qed

text \<open>Two configurations that load, one live and one dry.\<close>

lemma demo_live_config:
  obtains c where "load_config (\<lambda>_. []) (JDict [(''dry_run'', JBool False)]) = Inr c" "\<not> c_dry_run c"
proof -
  have "\<exists>c. load_config (\<lambda>_. []) (JDict [(''dry_run'', JBool False)]) = Inr c \<and> \<not> c_dry_run c"
    by (simp add: load_config_def check_fields_def get_int_def get_float_def get_str_def
        get_path_def build_config_def py_or_def float_of_int_def)
  with that show thesis by blast
qed

lemma demo_dry_config:
  obtains c where "load_config (\<lambda>_. []) JNull = Inr c" "c_dry_run c"
    "c_direct_opportunity_slot_ttl c = 2"
proof -
  have "\<exists>c. load_config (\<lambda>_. []) JNull = Inr c \<and> c_dry_run c \<and> c_direct_opportunity_slot_ttl c = 2"
    by (simp add: load_config_def check_fields_def get_int_def get_float_def get_str_def
        get_path_def build_config_def py_or_def float_of_int_def)
  with that show thesis by blast
qed

theorem load_config_within_limits_witness:
  "\<exists>c. load_config (\<lambda>_. []) (JDict [(''dry_run'', JBool False)]) = Inr c \<and>
     \<not> c_dry_run c \<and> c_max_accounts c \<le> 64"
proof -
  obtain c where c: "load_config (\<lambda>_. []) (JDict [(''dry_run'', JBool False)]) = Inr c" "\<not> c_dry_run c"
    by (rule demo_live_config)
  then show ?thesis using load_config_within_limits [OF c(1)] by blast
qed

end
