(* ===== verification/LiveLoop.thy ===== *)
theory LiveLoop
  imports Shadow Coordination Config Pools Tracing
begin

text \<open>
  \<open>ops/live-loop.py\<close>: the loop that turns detected buys into direct routes and, in live mode,
  signs and submits the approved ones.  The loop's variables and files are a record beside the
  world; an exception leaves them as they were when it was raised.  The signing key and its
  address come from \<open>solders\<close> and are parameters, and so are the clocks and the random token
  of a lock, and which requests to the disk raise (\<open>host\<close>).  Console
  output is not modelled.
\<close>

record 'w host =
  monotonic :: "'w \<Rightarrow> pyfloat \<times> 'w"
  utc_now :: "'w \<Rightarrow> datetime \<times> 'w"
  draw_attempt :: "'w \<Rightarrow> attempt \<times> 'w"
  disk :: "'w disk"

definition read_host :: "('w \<Rightarrow> 'a \<times> 'w) \<Rightarrow> ('w, 'a) io" where
  "read_host f w = (case f w of (x, w') \<Rightarrow> (Inr x, w'))"

text \<open>The loop's variables, its files, and the modification time of its lock file.\<close>

record LiveState =
  ls_stream :: log_stream
  ls_files :: files
  ls_mints :: "string set"
  ls_sol_price :: pyfloat
  ls_last_heartbeat :: pyfloat
  ls_last_refresh :: pyfloat
  ls_seen_candidates :: "string set"
  ls_venue_events :: nat
  ls_confirmed_events :: nat
  ls_candidate_count :: nat
  ls_trade_count :: nat
  ls_daily_loss_lamports :: int
  ls_lock :: "pyfloat option"
  ls_candidates_log :: "json list"
  ls_trades_log :: "json list"

text \<open>What \<open>main\<close> fixes before the loop.\<close>

record 'w live_args =
  la_env :: "'w env"
  la_socket :: "'w socket_env"
  la_host :: "'w host"
  la_solders :: solders
  la_config :: Config
  la_gmgn :: GmgnProvider
  la_live_mode :: bool
  la_keypair :: "json option"
  la_hot_wallet :: string

text \<open>\<open>live_mode\<close>, \<open>keypair\<close> and \<open>hot_wallet\<close>, from the configuration and the key file.\<close>

definition live_start ::
  "'w env \<Rightarrow> 'w socket_env \<Rightarrow> 'w host \<Rightarrow> solders \<Rightarrow> Config \<Rightarrow> GmgnProvider \<Rightarrow> (json \<times> string)
   \<Rightarrow> 'w live_args" where
  "live_start E W H S c g key =
     (let live_mode = \<not> c_dry_run c;
          keypair = (if live_mode then Some (fst key) else None)
      in \<lparr> la_env = E, la_socket = W, la_host = H, la_solders = S, la_config = c, la_gmgn = g,
           la_live_mode = live_mode, la_keypair = keypair,
           la_hot_wallet = (case keypair of Some _ \<Rightarrow> snd key | None \<Rightarrow> c_shadow_taker c) \<rparr>)"

section \<open>The lock and the submission\<close>

text \<open>
  \<open>try_acquire_lock\<close> of this script: the lock counts as held while it is younger than two
  minutes; then the file is touched.
\<close>

definition try_acquire_lock :: "pyfloat \<Rightarrow> pyfloat option \<Rightarrow> bool \<times> pyfloat option" where
  "try_acquire_lock time lock = (case lock of
     Some mtime \<Rightarrow> if time - mtime < Fin 120 then (False, lock) else (True, Some time)
   | None \<Rightarrow> (True, Some time))"

definition create_dynamic_alt ::
  "'w env \<Rightarrow> string \<Rightarrow> json \<Rightarrow> string list \<Rightarrow> string list \<Rightarrow> ('w, string) io" where
  "create_dynamic_alt E connection_url payer writable_accounts readonly_accounts =
     bindIO (run_script E ''create-dynamic-alt.mjs'' (JDict
       [(''rpcUrl'', JStr connection_url), (''payerKeypair'', payer),
        (''writableAccounts'', JList (map JStr writable_accounts)),
        (''readonlyAccounts'', JList (map JStr readonly_accounts))])) (\<lambda>result.
     if returncode result \<noteq> 0
     then raiseIO (RuntimeError (''ALT creation failed: '' @ strip (stderr result)))
     else liftR (bindR (stdout_json result) (\<lambda>output.
       bindR (dict_item output ''altAddress'') (\<lambda>v. ret (py_str (rep E) v)))))"

definition sign_payload :: "string \<Rightarrow> json \<Rightarrow> string \<Rightarrow> json" where
  "sign_payload connection_url signer transaction_b64 = JDict
     [(''rpcUrl'', JStr connection_url), (''signerKeypair'', signer),
      (''transactionBase64'', JStr transaction_b64)]"

definition sign_script :: string where
  "sign_script = ''sign-and-submit.mjs''"

definition sign_and_submit :: "'w env \<Rightarrow> string \<Rightarrow> json \<Rightarrow> string \<Rightarrow> ('w, json) io" where
  "sign_and_submit E connection_url signer transaction_b64 =
     bindIO (run_script E sign_script (sign_payload connection_url signer transaction_b64)) (\<lambda>result.
     if returncode result \<noteq> 0 then
       retIO (JDict [(''submitted'', JBool False), (''error'',
         JStr (if strip (stderr result) \<noteq> [] then strip (stderr result) else strip (stdout result)))])
     else liftR (stdout_json result))"

section \<open>One route in one direction\<close>

definition live_required_gross :: "Config \<Rightarrow> int" where
  "live_required_gross c = c_failed_attempt_reserve_lamports c + c_minimum_net_profit_lamports c
     + c_safety_margin_lamports c"

definition live_direct_args ::
  "'w live_args \<Rightarrow> string \<Rightarrow> DirectPoolRoute \<Rightarrow> string \<Rightarrow> int \<Rightarrow> DirectArgs" where
  "live_direct_args a mint route dir current_slot =
     (let c = la_config a in
      \<lparr> token_mint = mint, pump_pool = route_pump_pool route, meteora_pool = route_meteora_pool route,
        direction = dir, da_input_lamports = c_shadow_input_lamports c, taker = la_hot_wallet a,
        executor_program_id = c_executor_program_id c, rpc_url = c_rpc_url c,
        min_context_slot = max 0 (current_slot - 2), slot_ttl = c_direct_opportunity_slot_ttl c,
        da_lookup_tables = c_direct_lookup_table_addresses c, da_slippage_bps = c_slippage_bps c,
        compute_unit_limit = c_direct_compute_unit_limit c,
        compute_unit_price_micro_lamports = c_direct_compute_unit_price_micro_lamports c,
        required_gross_profit = live_required_gross c, tip_lamports = c_direct_tip_lamports c,
        tip_recipient = (case c_direct_tip_recipient c of
            Some r \<Rightarrow> if r = [] then None else Some r | None \<Rightarrow> None),
        maximum_transaction_fee = c_maximum_transaction_fee_lamports c \<rparr>)"

text \<open>The exceptions a failed simulation may raise without ending the search.\<close>

fun simulation_error :: "exn \<Rightarrow> bool" where
  "simulation_error (RuntimeError _) = True"
| "simulation_error (ActiveAttemptError _) = True"
| "simulation_error (DuplicateCandidateError _) = True"
| "simulation_error (TypeError _) = True"
| "simulation_error (ValueError _) = True"
| "simulation_error (JSONDecodeError _) = True"
| "simulation_error (KeyError _) = True"
| "simulation_error _ = False"

definition simulate_direction :: "'w env \<Rightarrow> DirectArgs \<Rightarrow> ('w, DirectReport option) io" where
  "simulate_direction E args =
     catchIO (bindIO (run_direct_shadow_route E args) (\<lambda>r. retIO (Some r)))
       (\<lambda>e. if simulation_error e then retIO None else raiseIO e)"

definition opt_int :: "int option \<Rightarrow> json" where
  "opt_int v = (case v of None \<Rightarrow> JNull | Some n \<Rightarrow> JInt n)"

definition candidate_record ::
  "datetime \<Rightarrow> LargeBuyEvent \<Rightarrow> DirectPoolRoute \<Rightarrow> DirectReport \<Rightarrow> json" where
  "candidate_record time cand route report = JDict
     [(''observed_at'', JStr (isoformat time)), (''mint'', JStr (lb_mint cand)),
      (''buy_usd'', JFloat (lb_buy_usd cand)), (''direction'', JStr (dr_direction report)),
      (''route'', JDict [(''pump_pool'', JStr (route_pump_pool route)),
         (''meteora_pool'', JStr (route_meteora_pool route)),
         (''meteora_tvl_usd'', JFloat (route_meteora_tvl_usd route))]),
      (''shadow_approved'', JBool (dr_shadow_approved report)),
      (''rejection_reasons'', JList (map JStr (dr_rejection_reasons report))),
      (''wallet_net_lamports'', opt_int (dr_wallet_net_lamports report)),
      (''sim_succeeded'', JBool (dr_sim_succeeded report)), (''transactions_submitted'', JInt 0)]"

definition trade_record ::
  "datetime \<Rightarrow> LargeBuyEvent \<Rightarrow> DirectPoolRoute \<Rightarrow> DirectReport \<Rightarrow> json \<Rightarrow> json \<Rightarrow> json \<Rightarrow> json" where
  "trade_record time cand route report was_submitted sig err = JDict
     [(''executed_at'', JStr (isoformat time)), (''mint'', JStr (lb_mint cand)),
      (''direction'', JStr (dr_direction report)), (''pump_pool'', JStr (route_pump_pool route)),
      (''meteora_pool'', JStr (route_meteora_pool route)), (''buy_usd'', JFloat (lb_buy_usd cand)),
      (''wallet_net_lamports'', opt_int (dr_wallet_net_lamports report)),
      (''submitted'', was_submitted), (''signature'', sig), (''error'', err)]"

type_synonym ('w, 'a) live = "('w \<times> LiveState, 'a) io"

definition append_jsonl :: "'w live_args \<Rightarrow> (LiveState \<Rightarrow> LiveState) \<Rightarrow> ('w, unit) live" where
  "append_jsonl a put_line = bindIO (in_world (disk (la_host a) Append)) (\<lambda>_. update put_line)"

text \<open>The body of the \<open>try\<close> after the lock was acquired: what follows the submission, and all of it.\<close>

definition record_trade ::
  "'w live_args \<Rightarrow> LargeBuyEvent \<Rightarrow> DirectPoolRoute \<Rightarrow> DirectReport \<Rightarrow> json \<Rightarrow> ('w, unit) live" where
  "record_trade a cand route report result =
     bindIO (liftR (dict_get result ''submitted'' (JBool False))) (\<lambda>was_submitted.
     bindIO (liftR (dict_get result ''signature'' (JStr []))) (\<lambda>sig.
     bindIO (liftR (dict_get result ''error'' (JStr []))) (\<lambda>err.
     bindIO (in_world (read_host (utc_now (la_host a)))) (\<lambda>time.
     bindIO (append_jsonl a (\<lambda>s. s\<lparr>ls_trades_log := ls_trades_log s
               @ [trade_record time cand route report was_submitted sig err]\<rparr>)) (\<lambda>_.
     update (\<lambda>s. s
       \<lparr> ls_trade_count := ls_trade_count s + 1,
         ls_daily_loss_lamports := ls_daily_loss_lamports s
           + (if truthy was_submitted then 0
              else c_failed_attempt_reserve_lamports (la_config a)) \<rparr>))))))"

definition execute_trade ::
  "'w live_args \<Rightarrow> json \<Rightarrow> LargeBuyEvent \<Rightarrow> DirectPoolRoute \<Rightarrow> DirectReport \<Rightarrow> ('w, unit) live" where
  "execute_trade a signer cand route report =
     bindIO (in_world (sign_and_submit (la_env a) (c_rpc_url (la_config a)) signer
               (d_transaction_base64 (dr_transaction report)))) (record_trade a cand route report)"

text \<open>An \<open>OSError\<close> of the unlink is swallowed, and the lock file stays.\<close>

definition release_lock :: "'w live_args \<Rightarrow> ('w, unit) live" where
  "release_lock a =
     catchIO (bindIO (in_world (disk (la_host a) Unlink)) (\<lambda>_. update (\<lambda>s. s\<lparr>ls_lock := None\<rparr>)))
       (\<lambda>e. if is_os_error e then retIO () else raiseIO e)"

text \<open>
  \<open>try_acquire_lock\<close> with its requests to the disk: a lock whose age cannot be read counts as
  stale.  The modification time that the touch leaves is a reading of the clock.
\<close>

definition lock_held :: "'w live_args \<Rightarrow> pyfloat option \<Rightarrow> ('w, bool) live" where
  "lock_held a lock = (case lock of
     None \<Rightarrow> retIO False
   | Some mtime \<Rightarrow>
       catchIO
         (bindIO (in_world (now (la_env a))) (\<lambda>time.
          bindIO (in_world (disk (la_host a) Stat)) (\<lambda>_. retIO (\<not> fst (try_acquire_lock time lock)))))
         (\<lambda>e. if is_os_error e then retIO False else raiseIO e))"

definition acquire_lock :: "'w live_args \<Rightarrow> ('w, bool) live" where
  "acquire_lock a =
     bindIO (in_world (disk (la_host a) Make_dir)) (\<lambda>_.
     bindIO (in_world (disk (la_host a) Exists)) (\<lambda>_.
     bindIO (state ls_lock) (\<lambda>lock.
     bindIO (lock_held a lock) (\<lambda>held.
     if held then retIO False
     else
       bindIO (in_world (disk (la_host a) Touch)) (\<lambda>_.
       bindIO (in_world (now (la_env a))) (\<lambda>time.
       bindIO (update (\<lambda>s. s\<lparr>ls_lock := Some time\<rparr>)) (\<lambda>_. retIO True)))))))"

text \<open>The decision after a simulation: true when a trade was executed.\<close>

definition act_on_report ::
  "'w live_args \<Rightarrow> LargeBuyEvent \<Rightarrow> DirectPoolRoute \<Rightarrow> DirectReport \<Rightarrow> ('w, bool) live" where
  "act_on_report a cand route report =
     bindIO (in_world (read_host (utc_now (la_host a)))) (\<lambda>time.
     bindIO (append_jsonl a (\<lambda>s. s\<lparr>ls_candidates_log := ls_candidates_log s
              @ [candidate_record time cand route report]\<rparr>)) (\<lambda>_.
     if \<not> dr_shadow_approved report \<or> \<not> la_live_mode a then retIO False
     else case la_keypair a of
       None \<Rightarrow> retIO False
     | Some signer \<Rightarrow>
         bindIO (acquire_lock a) (\<lambda>got.
         if \<not> got then retIO False
         else bindIO (finallyIO (execute_trade a signer cand route report) (release_lock a))
                (\<lambda>_. retIO True))))"

definition try_direction ::
  "'w live_args \<Rightarrow> LargeBuyEvent \<Rightarrow> DirectPoolRoute \<Rightarrow> string \<Rightarrow> ('w, bool) live" where
  "try_direction a cand route dir =
     bindIO (in_world (latest_slot (la_env a) ''processed'')) (\<lambda>slot.
     bindIO (in_world (simulate_direction (la_env a)
               (live_direct_args a (lb_mint cand) route dir slot))) (\<lambda>sim. case sim of
       None \<Rightarrow> retIO False
     | Some report \<Rightarrow> act_on_report a cand route report))"

section \<open>Candidates and events\<close>

definition directions :: "string list" where
  "directions = [''pump_to_meteora'', ''meteora_to_pump'']"

definition try_routes ::
  "'w live_args \<Rightarrow> LargeBuyEvent \<Rightarrow> DirectPoolRoute list \<Rightarrow> ('w, bool) live" where
  "try_routes a cand routes =
     until_true (\<lambda>route. until_true (try_direction a cand route) directions) routes"

definition candidate_id :: "LargeBuyEvent \<Rightarrow> string" where
  "candidate_id cand = lb_signature cand @ '':'' @ str_of_nat (lb_transaction_index cand) @ '':''
     @ lb_mint cand"

definition process_candidate :: "'w live_args \<Rightarrow> LargeBuyEvent \<Rightarrow> ('w, unit) live" where
  "process_candidate a cand =
     bindIO (state ls_seen_candidates) (\<lambda>seen.
     if candidate_id cand \<in> seen then retIO ()
     else
       bindIO (update (\<lambda>s. s\<lparr>ls_seen_candidates := insert (candidate_id cand) (ls_seen_candidates s),
                             ls_candidate_count := ls_candidate_count s + 1\<rparr>)) (\<lambda>_.
       bindIO (in_world (discover_direct_routes (la_env a) (la_solders a) (lb_mint cand) (Fin 1000))) (\<lambda>routes.
       bindIO (try_routes a cand routes) (\<lambda>_. retIO ()))))"

definition process_event :: "'w live_args \<Rightarrow> ProcessedLogEvent \<Rightarrow> ('w, unit) live" where
  "process_event a event =
     bindIO (update (\<lambda>s. s\<lparr>ls_venue_events := ls_venue_events s + 1\<rparr>)) (\<lambda>_.
     if \<not> pl_succeeded event then retIO ()
     else
       bindIO (in_world (fetch_confirmed 12 (la_env a) (flit (1 / 10)) (pl_signature event))) (\<lambda>tx.
       case tx of
         None \<Rightarrow> retIO ()
       | Some t \<Rightarrow>
           bindIO (update (\<lambda>s. s\<lparr>ls_confirmed_events := ls_confirmed_events s + 1\<rparr>)) (\<lambda>_.
           bindIO (state ls_mints) (\<lambda>mints.
           bindIO (state ls_sol_price) (\<lambda>price.
           bindIO (liftR (bindR (normalize_transaction t) (\<lambda>block.
               detect_large_buys (rep (la_env a)) block (pl_slot event) (set_order (la_env a) mints)
                 price (c_minimum_buy_usd (la_config a))))) (\<lambda>candidates.
           for_each (process_candidate a) candidates))))))"

section \<open>The loop\<close>

definition evidence_path :: string where
  "evidence_path = ''data/shadow_evidence.jsonl''"

definition live_heartbeat :: "'w live_args \<Rightarrow> ('w, unit) live" where
  "live_heartbeat a =
     bindIO (in_world (read_host (utc_now (la_host a)))) (\<lambda>time.
     bindIO (in_world (read_host (draw_attempt (la_host a)))) (\<lambda>A.
     bindIO (state ls_files) (\<lambda>fs.
     case evidence_heartbeat (rep (la_env a)) evidence_path A time None (Fin 120) fs of (r, fs') \<Rightarrow>
       bindIO (update (\<lambda>s. s\<lparr>ls_files := fs'\<rparr>)) (\<lambda>_. liftR r))))"

definition maybe_heartbeat :: "'w live_args \<Rightarrow> pyfloat \<Rightarrow> ('w, unit) live" where
  "maybe_heartbeat a t =
     bindIO (state ls_last_heartbeat) (\<lambda>last.
     if Fin 60 \<le> t - last
     then bindIO (live_heartbeat a) (\<lambda>_. update (\<lambda>s. s\<lparr>ls_last_heartbeat := t\<rparr>))
     else retIO ())"

definition maybe_refresh :: "'w live_args \<Rightarrow> pyfloat \<Rightarrow> ('w, unit) live" where
  "maybe_refresh a t =
     bindIO (state ls_last_refresh) (\<lambda>last.
     if Fin 120 \<le> t - last
     then
       bindIO (in_world (trending_mints (la_env a) (la_gmgn a))) (\<lambda>refreshed.
       bindIO (update (\<lambda>s. if refreshed \<noteq> {} then s\<lparr>ls_mints := refreshed\<rparr> else s)) (\<lambda>_.
       bindIO (in_world (sol_price_usd (la_env a) (la_gmgn a))) (\<lambda>price.
       update (\<lambda>s. s\<lparr>ls_sol_price := price, ls_last_refresh := t\<rparr>))))
     else retIO ())"

definition live_poll :: "'w live_args \<Rightarrow> ('w, ProcessedLogEvent option) live" where
  "live_poll a =
     bindIO (state ls_stream) (\<lambda>st.
     bindIO (in_world (poll_event (la_env a) (la_socket a) st)) (\<lambda>(event, st').
     bindIO (update (\<lambda>s. s\<lparr>ls_stream := st'\<rparr>)) (\<lambda>_. retIO event)))"

text \<open>One turn of the inner loop.\<close>

definition live_step :: "'w live_args \<Rightarrow> ('w, unit) live" where
  "live_step a =
     bindIO (in_world (read_host (monotonic (la_host a)))) (\<lambda>t.
     bindIO (maybe_heartbeat a t) (\<lambda>_.
     bindIO (maybe_refresh a t) (\<lambda>_.
     bindIO (live_poll a) (\<lambda>event. case event of
       None \<Rightarrow> retIO ()
     | Some e \<Rightarrow> process_event a e))))"

definition live_connect :: "'w live_args \<Rightarrow> ('w, unit) live" where
  "live_connect a =
     bindIO (in_world (stream_enter (la_socket a) (c_rpc_url (la_config a)) new_stream)) (\<lambda>st.
     update (\<lambda>s. s\<lparr>ls_stream := st\<rparr>))"

text \<open>The classes after which the outer loop reconnects; others end the program.\<close>

fun reconnects :: "exn \<Rightarrow> bool" where
  "reconnects (JSONDecodeError _) = True"
| "reconnects (OSError _) = True"
| "reconnects (FileExistsError _) = True"
| "reconnects (RuntimeError _) = True"
| "reconnects (ActiveAttemptError _) = True"
| "reconnects (DuplicateCandidateError _) = True"
| "reconnects (TypeError _) = True"
| "reconnects (ValueError _) = True"
| "reconnects (RequestException _) = True"
| "reconnects _ = False"

text \<open>
  The two nested loops; the fuel bounds the number of turns, which the code does not, and running
  out of it is the end of the observation.  The flag says whether the stream is open.
\<close>

fun live_loop :: "nat \<Rightarrow> 'w live_args \<Rightarrow> bool \<Rightarrow> ('w, unit) live" where
  "live_loop 0 a is_open = retIO ()"
| "live_loop (Suc fuel) a is_open =
     bindIO (catchIO
         (bindIO (if is_open then retIO () else live_connect a) (\<lambda>_.
          bindIO (live_step a) (\<lambda>_. retIO True)))
         (\<lambda>e. if reconnects e
              then bindIO (in_world (sleep (la_env a) (Fin 5))) (\<lambda>_. retIO False)
              else raiseIO e))
       (live_loop fuel a)"

definition live_init :: "'w live_args \<Rightarrow> files \<Rightarrow> pyfloat option \<Rightarrow> ('w, LiveState) io" where
  "live_init a fs lock =
     bindIO (trending_mints (la_env a) (la_gmgn a)) (\<lambda>mints.
     bindIO (sol_price_usd (la_env a) (la_gmgn a)) (\<lambda>price.
     bindIO (read_host (monotonic (la_host a))) (\<lambda>t.
     retIO \<lparr> ls_stream = new_stream, ls_files = fs, ls_mints = mints, ls_sol_price = price,
             ls_last_heartbeat = Fin 0, ls_last_refresh = t, ls_seen_candidates = {},
             ls_venue_events = 0, ls_confirmed_events = 0, ls_candidate_count = 0,
             ls_trade_count = 0, ls_daily_loss_lamports = 0, ls_lock = lock,
             ls_candidates_log = [], ls_trades_log = [] \<rparr>)))"

section \<open>What a run starts\<close>

definition traced_host :: "'w host \<Rightarrow> ('w \<times> script_log) host" where
  "traced_host H = \<lparr>
     monotonic = (\<lambda>(w, l). case monotonic H w of (x, w') \<Rightarrow> (x, (w', l))),
     utc_now = (\<lambda>(w, l). case utc_now H w of (x, w') \<Rightarrow> (x, (w', l))),
     draw_attempt = (\<lambda>(w, l). case draw_attempt H w of (x, w') \<Rightarrow> (x, (w', l))),
     disk = (\<lambda>op. with_log (disk H op)) \<rparr>"

lemma emits_host [emits]:
  "emits snd J (read_host (monotonic (traced_host H)))"
  "emits snd J (read_host (utc_now (traced_host H)))"
  "emits snd J (read_host (draw_attempt (traced_host H)))"
  by (auto simp: emits_iff traced_host_def read_host_def split: prod.split)

lemma emits_disk [emits]: "emits snd J (disk (traced_host H) op)"
  by (simp add: traced_host_def emits)

lemma emits_direct:
  assumes "\<And>input. J (''compose-direct-roundtrip.mjs'', input)"
  shows "emits snd J (run_direct_shadow_route (traced E) args)"
  unfolding run_direct_shadow_route_def compose_direct_round_trip_def
  by (intro emits emits_run_script assms)

lemma emits_simulate_direction:
  assumes "\<And>input. J (''compose-direct-roundtrip.mjs'', input)"
  shows "emits snd J (simulate_direction (traced E) args)"
  unfolding simulate_direction_def by (intro emits emits_direct assms)

lemma emits_discover [emits]: "emits snd J (discover_direct_routes (traced E) S mint tvl)"
  unfolding discover_direct_routes_def onchain_routes_def pools_for_mint_def by (intro emits)

text \<open>The arguments of a loop whose environment keeps the log.\<close>

definition traced_args ::
  "'w env \<Rightarrow> 'w socket_env \<Rightarrow> 'w host \<Rightarrow> solders \<Rightarrow> Config \<Rightarrow> GmgnProvider \<Rightarrow> (json \<times> string)
   \<Rightarrow> ('w \<times> script_log) live_args" where
  "traced_args E W H S c g key = live_start (traced E) (traced_socket W) (traced_host H) S c g key"

lemma traced_args_simps [simp]:
  "la_env (traced_args E W H S c g key) = traced E"
  "la_socket (traced_args E W H S c g key) = traced_socket W"
  "la_host (traced_args E W H S c g key) = traced_host H"
  "la_config (traced_args E W H S c g key) = c"
  "la_live_mode (traced_args E W H S c g key) = (\<not> c_dry_run c)"
  "la_keypair (traced_args E W H S c g key) = (if c_dry_run c then None else Some (fst key))"
  by (simp_all add: traced_args_def live_start_def Let_def)

text \<open>
  An entry of the log that is allowed: any script but the signer, and the signer only on the
  transaction of an approved report, with the key, in live mode.
\<close>

definition justified ::
  "('w \<times> script_log) env \<Rightarrow> Config \<Rightarrow> json \<Rightarrow> string \<times> json \<Rightarrow> bool" where
  "justified E c key entry \<longleftrightarrow> fst entry \<noteq> sign_script \<or>
     (\<not> c_dry_run c \<and> (\<exists>args w w' report.
        run_direct_shadow_route E args w = (Inr report, w') \<and> dr_shadow_approved report \<and>
        required_gross_profit args = live_required_gross c \<and>
        maximum_transaction_fee args = c_maximum_transaction_fee_lamports c \<and>
        snd entry = sign_payload (c_rpc_url c) key (d_transaction_base64 (dr_transaction report))))"

lemma justified_other: "name \<noteq> sign_script \<Longrightarrow> justified E c key (name, input)"
  by (simp add: justified_def)

lemma simulate_direction_Some:
  "simulate_direction E args w = (Inr (Some r), w') \<Longrightarrow> run_direct_shadow_route E args w = (Inr r, w')"
  by (auto simp: simulate_direction_def catchIO_def bindIO_def split: prod.splits sum.splits if_splits)

lemma emits_act_on_report:
  assumes "dr_shadow_approved report \<Longrightarrow> \<not> c_dry_run c \<Longrightarrow>
      justified (traced E) c (fst key)
        (sign_script, sign_payload (c_rpc_url c) (fst key) (d_transaction_base64 (dr_transaction report)))"
  shows "emits (snd \<circ> fst) (justified (traced E) c (fst key))
    (act_on_report (traced_args E W H S c g key) cand route report)"
proof (cases "dr_shadow_approved report \<and> \<not> c_dry_run c")
  case False
  then show ?thesis
    unfolding act_on_report_def append_jsonl_def traced_args_simps by (intro emits) auto
next
  case True
  have "emits snd (justified (traced E) c (fst key)) (sign_and_submit (traced E) (c_rpc_url c) (fst key)
      (d_transaction_base64 (dr_transaction report)))"
    unfolding sign_and_submit_def using True assms by (intro emits emits_run_script) auto
  then show ?thesis
    using True unfolding act_on_report_def execute_trade_def record_trade_def release_lock_def acquire_lock_def lock_held_def
      append_jsonl_def traced_args_simps
    by (auto intro!: emits)
qed

lemma live_direct_args_simps [simp]:
  "required_gross_profit (live_direct_args a mint route dir slot) = live_required_gross (la_config a)"
  "maximum_transaction_fee (live_direct_args a mint route dir slot)
     = c_maximum_transaction_fee_lamports (la_config a)"
  by (simp_all add: live_direct_args_def Let_def)

lemma in_world_Inr: "in_world m (w, s) = (Inr x, (w', s')) \<Longrightarrow> m w = (Inr x, w')"
  by (auto simp: in_world_def split: prod.splits)

lemma emits_try_direction:
  "emits (snd \<circ> fst) (justified (traced E) c (fst key))
    (try_direction (traced_args E W H S c g key) cand route dir)"
  unfolding try_direction_def
proof (rule grows_bind)
  fix slot
  let ?args = "live_direct_args (traced_args E W H S c g key) (lb_mint cand) route dir slot"
  have quiet: "emits snd (justified (traced E) c (fst key)) (simulate_direction (traced E) ?args)"
    by (rule emits_simulate_direction) (simp add: justified_other sign_script_def)
  show "emits (snd \<circ> fst) (justified (traced E) c (fst key))
    (bindIO (in_world (simulate_direction (la_env (traced_args E W H S c g key)) ?args))
      (\<lambda>sim. case sim of None \<Rightarrow> retIO False
        | Some report \<Rightarrow> act_on_report (traced_args E W H S c g key) cand route report))"
  proof (rule emits_bind_from)
    show "emits (snd \<circ> fst) (justified (traced E) c (fst key))
        (in_world (simulate_direction (la_env (traced_args E W H S c g key)) ?args))"
      using quiet by (simp add: emits_in_world)
    fix sim w w'
    assume run: "in_world (simulate_direction (la_env (traced_args E W H S c g key)) ?args) w = (Inr sim, w')"
    show "emits (snd \<circ> fst) (justified (traced E) c (fst key)) (case sim of None \<Rightarrow> retIO False
        | Some report \<Rightarrow> act_on_report (traced_args E W H S c g key) cand route report)"
    proof (cases sim)
      case None
      then show ?thesis by (simp add: emits)
    next
      case (Some report)
      obtain u s u' s' where ws: "w = (u, s)" "w' = (u', s')" by (cases w, cases w')
      have "simulate_direction (traced E) ?args u = (Inr (Some report), u')"
        by (rule in_world_Inr [OF run [unfolded ws Some traced_args_simps]])
      then have "run_direct_shadow_route (traced E) ?args u = (Inr report, u')"
        by (rule simulate_direction_Some)
      note direct = this
      have "justified (traced E) c (fst key)
          (sign_script, sign_payload (c_rpc_url c) (fst key) (d_transaction_base64 (dr_transaction report)))"
        if "dr_shadow_approved report" "\<not> c_dry_run c"
        using that unfolding justified_def fst_conv snd_conv
        by (intro disjI2 conjI exI [of _ ?args] exI [of _ u] exI [of _ u'] exI [of _ report]
            direct refl live_direct_args_simps [of "traced_args E W H S c g key", unfolded traced_args_simps])
      then show ?thesis unfolding Some by (simp add: emits_act_on_report)
    qed
  qed
qed (unfold traced_args_simps, intro emits)

lemma emits_live_step:
  "emits (snd \<circ> fst) (justified (traced E) c (fst key)) (live_step (traced_args E W H S c g key))"
proof -
  let ?a = "traced_args E W H S c g key"
  let ?J = "justified (traced E) c (fst key)"
  have candidate: "emits (snd \<circ> fst) ?J (process_candidate ?a cand)" for cand
    unfolding process_candidate_def try_routes_def traced_args_simps
    by (intro emits emits_try_direction)
  have event: "emits (snd \<circ> fst) ?J (process_event ?a e)" for e
    unfolding process_event_def traced_args_simps by (intro emits candidate)
  show ?thesis
    unfolding live_step_def maybe_heartbeat_def maybe_refresh_def live_heartbeat_def live_poll_def
      traced_args_simps
    by (intro emits event)
qed

lemma emits_live_loop:
  "emits (snd \<circ> fst) (justified (traced E) c (fst key)) (live_loop fuel (traced_args E W H S c g key) b)"
proof (induction fuel arbitrary: b)
  case (Suc fuel)
  show ?case
    unfolding live_loop.simps live_connect_def traced_args_simps
    by (intro emits emits_live_step Suc.IH)
qed (unfold live_loop.simps, intro emits)

text \<open>A host whose clock stands still and whose disk never fails.\<close>

definition demo_host :: "nat host" where
  "demo_host = \<lparr> monotonic = (\<lambda>w. (Fin 0, w)),
     utc_now = (\<lambda>w. (\<lparr> year = 2026, month = 7, day = 30, hour = 0, minute = 0, second = 0,
        microsecond = 0, utcoffset = Some 0 \<rparr>, w)),
     draw_attempt = (\<lambda>w. (demo_attempt ''k'', w)), disk = (\<lambda>_. retIO ()) \<rparr>"

end
