(* ===== verification/Strategy.thy ===== *)
theory Strategy
  imports Positions Copytrader LiveLoop "HOL-Library.Multiset"
begin

text \<open>
  \<open>ops/strategy_loop.py\<close>: configuration, entry sizing, the risk manager and the dispatcher that
  turns queued signals into entries and positions.  The two watchers run beside it in threads of
  their own; here the loop only takes from their queues, whose next item is a parameter, as is
  whether the loop's log files can be written.  Console output is not modelled, except where
  printing can raise.
\<close>

section \<open>Configuration\<close>

fun set_default :: "string \<times> json \<Rightarrow> json \<Rightarrow> json res" where
  "set_default (k, v) (JDict m) = Inr (JDict (case map_of m k of None \<Rightarrow> m @ [(k, v)] | Some _ \<Rightarrow> m))"
| "set_default _ _ = Inl (AttributeError ''setdefault'')"

definition strategy_default :: "int \<Rightarrow> int \<Rightarrow> int \<Rightarrow> int \<Rightarrow> (string \<times> json) list" where
  "strategy_default hold tp sl n = [(''enabled'', JBool True), (''buy_usd'', JInt 5),
     (''hold_seconds'', JInt hold), (''take_profit_pct'', JInt tp), (''stop_loss_pct'', JInt sl),
     (''max_positions'', JInt n)]"

definition config_defaults :: "(string \<times> json) list" where
  "config_defaults =
     [(''rpc_url'', JStr ''https://mainnet.helius-rpc.com/?api-key=a6b53727-2ed9-4b83-84fd-d05bc430fc90''),
      (''dry_run'', JBool True), (''minimum_buy_usd'', JInt 200),
      (''shadow_input_lamports'', JInt 50000000), (''slippage_bps'', JInt 100),
      (''daily_loss_pct'', JInt 3), (''maximum_drawdown_pct'', JInt 5), (''trade_cap_usd'', JInt 25),
      (''wallet_reserve_usd'', JInt 10), (''sol_price_usd'', JInt 74),
      (''direct_compute_unit_price_micro_lamports'', JInt 50000),
      (''maximum_transaction_fee_lamports'', JInt 100000)]"

text \<open>\<open>load_config\<close> on the parsed document (\<open>yaml.safe_load(...) or {}\<close>).\<close>

definition strategy_config :: "json \<Rightarrow> json res" where
  "strategy_config document =
     (let raw_doc = py_or document (JDict []) in
      bindR (dict_get raw_doc ''strategies'' (JDict [])) (\<lambda>strategies.
      bindR (set_default (''momentum'', JDict (strategy_default 15 3 5 3)) strategies) (\<lambda>strategies.
      bindR (set_default (''snipe'', JDict (strategy_default 30 10 8 2)) strategies) (\<lambda>strategies.
      bindR (dict_get raw_doc ''copy_wallets'' (JList [])) (\<lambda>wallets.
      bindR (set_default (''copytrade'', JDict (strategy_default 20 5 6 3 @ [(''watch_wallets'', wallets)]))
               strategies) (\<lambda>strategies.
      bindR (set_item raw_doc ''strategies'' strategies) (\<lambda>doc.
      foldR set_default config_defaults doc)))))))"

text \<open>A configuration value in a comparison: an integer is compared exactly.\<close>

fun compared :: "json \<Rightarrow> pyfloat res" where
  "compared (JInt n) = Inr (Fin (of_int n))"
| "compared v = num v"

definition config_num :: "json \<Rightarrow> string \<Rightarrow> json \<Rightarrow> pyfloat res" where
  "config_num config key d = bindR (dict_get config key d) num"

text \<open>\<open>cfg.get(name, {})\<close> of the strategies, and its \<open>enabled\<close>.\<close>

definition strategy_cfg :: "json \<Rightarrow> string \<Rightarrow> json res" where
  "strategy_cfg config name =
     bindR (dict_item config ''strategies'') (\<lambda>cfg. dict_get cfg name (JDict []))"

definition enabled :: "json \<Rightarrow> string \<Rightarrow> bool res" where
  "enabled config name =
     bindR (strategy_cfg config name) (\<lambda>c. bindR (dict_get c ''enabled'' (JBool True)) (\<lambda>v. ret (truthy v)))"

section \<open>Entry size\<close>

definition calculate_entry_size_sol ::
  "pyfloat \<Rightarrow> pyfloat \<Rightarrow> pyfloat \<Rightarrow> pyfloat \<Rightarrow> pyfloat option" where
  "calculate_entry_size_sol balance_sol reserve_sol balance_pct minimum_sol =
     (let available = balance_sol - reserve_sol in
      if available < minimum_sol then None
      else Some (py_max minimum_sol (py_round (available * balance_pct) 9)))"

section \<open>RiskManager\<close>

record RiskManager =
  rk_daily_loss_lamports :: int
  rk_daily_trades :: nat
  rk_daily_reset_time :: pyfloat
  rk_initial_balance :: int

text \<open>The balance of the configured wallet; any failure counts as an empty wallet.\<close>

definition get_balance :: "'w env \<Rightarrow> json \<Rightarrow> ('w, int) io" where
  "get_balance E config =
     catchIO
       (bindIO (liftR (dict_item config ''rpc_url'')) (\<lambda>_.
        bindIO (liftR (dict_get config ''shadow_taker'' (JStr []))) (\<lambda>taker.
        bindIO (rpc_call E ''getBalance'' [taker, JDict [(''commitment'', JStr ''confirmed'')]]) (\<lambda>result.
        liftR (bindR (dict_item result ''value'') py_int)))))
       (\<lambda>_. retIO 0)"

definition new_risk :: "'w env \<Rightarrow> json \<Rightarrow> ('w, RiskManager) io" where
  "new_risk E config =
     bindIO (now E) (\<lambda>t. bindIO (get_balance E config) (\<lambda>b.
     retIO \<lparr> rk_daily_loss_lamports = 0, rk_daily_trades = 0, rk_daily_reset_time = t,
             rk_initial_balance = b \<rparr>))"

definition balance_sol :: "'w env \<Rightarrow> json \<Rightarrow> ('w, pyfloat) io" where
  "balance_sol E config =
     bindIO (get_balance E config) (\<lambda>b.
     liftR (bindR (float_of_int b) (\<lambda>x. ret (fdiv x (Fin 1000000000)))))"

definition check_daily_reset :: "pyfloat \<Rightarrow> RiskManager \<Rightarrow> RiskManager" where
  "check_daily_reset t k =
     (if Fin 86400 < t - rk_daily_reset_time k
      then k\<lparr>rk_daily_loss_lamports := 0, rk_daily_trades := 0, rk_daily_reset_time := t\<rparr> else k)"

definition max_loss :: "json \<Rightarrow> RiskManager \<Rightarrow> pyfloat res" where
  "max_loss config k =
     bindR (config_num config ''maximum_drawdown_pct'' (JInt 5)) (\<lambda>pct.
     bindR (float_of_int (rk_initial_balance k)) (\<lambda>b. ret (fdiv pct (Fin 100) * b)))"

definition trade_allowed :: "json \<Rightarrow> pyfloat \<Rightarrow> RiskManager \<Rightarrow> bool res" where
  "trade_allowed config buy_sol k =
     bindR (max_loss config k) (\<lambda>limit.
     bindR (dict_get config ''sol_price_usd'' (JInt 74)) (\<lambda>price.
     if limit < Fin (of_int (rk_daily_loss_lamports k)) then ret False
     else
       bindR (num price) (\<lambda>p.
       bindR (bindR (dict_get config ''trade_cap_usd'' (JInt 25)) compared) (\<lambda>cap.
       ret (buy_sol * p \<le> cap)))))"

definition can_trade :: "'w env \<Rightarrow> json \<Rightarrow> pyfloat \<Rightarrow> ('w \<times> RiskManager, bool) io" where
  "can_trade E config buy_sol =
     bindIO (in_world (now E)) (\<lambda>t.
     bindIO (update (check_daily_reset t)) (\<lambda>_.
     bindIO (state (trade_allowed config buy_sol)) liftR))"

definition risk_record_trade :: "pyfloat \<Rightarrow> ('w \<times> RiskManager, unit) io" where
  "risk_record_trade cost_sol =
     bindIO (update (\<lambda>k. k\<lparr>rk_daily_trades := rk_daily_trades k + 1\<rparr>)) (\<lambda>_.
     bindIO (liftR (int_of_float (cost_sol * Fin 1000000000))) (\<lambda>n.
     update (\<lambda>k. k\<lparr>rk_daily_loss_lamports := rk_daily_loss_lamports k + n\<rparr>)))"

section \<open>Signals\<close>

record TradeSignal =
  ts_strategy :: string
  ts_mint :: string
  ts_pump_pool :: string
  ts_buy_sol :: pyfloat
  ts_source_id :: string
  ts_confidence :: string

text \<open>
  \<open>signals.sort(key=..., reverse=True)\<close>: descending by the key, equal ones in their order.
  \<open>outranks s t\<close> says that the key of \<open>s\<close> is strictly greater.
\<close>

definition rank :: "TradeSignal \<Rightarrow> int" where
  "rank s = (if ts_confidence s = ''high'' then 0 else 1)"

definition outranks :: "TradeSignal \<Rightarrow> TradeSignal \<Rightarrow> bool" where
  "outranks s t \<longleftrightarrow> (if rank s = rank t then ts_buy_sol t < ts_buy_sol s else rank t < rank s)"

fun insert_signal :: "TradeSignal \<Rightarrow> TradeSignal list \<Rightarrow> TradeSignal list" where
  "insert_signal s [] = [s]"
| "insert_signal s (t # ts) = (if outranks t s then t # insert_signal s ts else s # t # ts)"

definition sort_signals :: "TradeSignal list \<Rightarrow> TradeSignal list" where
  "sort_signals ss = foldr insert_signal ss []"

definition top_signals :: "TradeSignal list \<Rightarrow> TradeSignal list" where
  "top_signals ss = take 3 (sort_signals ss)"

section \<open>Laws of the entry size\<close>

text \<open>
  The entry size.  With a percentage of at most one and a nonnegative minimum, an entry is at
  least the minimum, is only made when the balance above the reserve covers the minimum, never
  exceeds that balance (rounded to lamports) when it is above the minimum, and never shrinks when
  the balance grows.
\<close>

theorem entry_size_sound:
  assumes "calculate_entry_size_sol b (Fin r) (Fin q) (Fin m) = Some e"
    and "0 < q" "q \<le> 1" "0 \<le> m" "b \<noteq> NaN"
  shows "Fin m \<le> e \<and> Fin m \<le> b - Fin r \<and> e \<le> py_max (Fin m) (py_round (b - Fin r) 9) \<and>
    (b \<le> b' \<longrightarrow> (\<exists>e'. calculate_entry_size_sol b' (Fin r) (Fin q) (Fin m) = Some e' \<and> e \<le> e'))"
proof -
  let ?x = "b - Fin r"
  have x: "?x \<noteq> NaN" using assms(5) by (cases b) (simp_all add: pyfloat_arith_defs)
  have above: "Fin m \<le> ?x" and e: "e = py_max (Fin m) (py_round (?x * Fin q) 9)"
    using assms(1) x by (auto simp: calculate_entry_size_sol_def Let_def not_flt split: if_splits)
  have part: "?x * Fin q \<le> ?x"
  proof (cases ?x)
    case (Fin y)
    then have "0 \<le> y" "rnd y = Fin y"
      using above assms(4) is_double_minus [of b "Fin r"] by (auto simp: is_double_def)
    then show ?thesis
      using assms(3) Fin by (auto simp: mult_left_le intro: rnd_le_double)
  next
    case PInf
    then show ?thesis using assms(2) by (simp add: pyfloat_arith_defs inf_of_sign_def)
  next
    case NInf
    then show ?thesis using above by simp
  qed (use x in simp)
  have rounded: "py_round (?x * Fin q) 9 \<le> py_round ?x 9" using py_round_mono [OF part] .
  then have "py_round ?x 9 \<noteq> NaN" by (rule fle_not_NaN)
  then have upper: "e \<le> py_max (Fin m) (py_round ?x 9)"
    using fle_trans [OF rounded py_max_ge2 [of "Fin m" "py_round ?x 9"]]
    unfolding e by (intro py_max_least py_max_ge1) simp_all
  have "\<exists>e'. calculate_entry_size_sol b' (Fin r) (Fin q) (Fin m) = Some e' \<and> e \<le> e'" if "b \<le> b'"
  proof -
    have more: "?x \<le> b' - Fin r" using fadd_mono [OF that, of "- r"] by (simp add: pyfloat_arith_defs)
    then have le: "py_round (?x * Fin q) 9 \<le> py_round ((b' - Fin r) * Fin q) 9"
      by (intro py_round_mono fmul_mono_nonneg assms(2))
    have "\<not> b' - Fin r < Fin m"
      using fle_trans [OF above more] by (auto dest: fle_flt_trans)
    moreover have "e \<le> py_max (Fin m) (py_round ((b' - Fin r) * Fin q) 9)"
      unfolding e using fle_trans [OF le py_max_ge2 [of "Fin m"]] fle_not_NaN(2) [OF le]
      by (intro py_max_least py_max_ge1) simp_all
    ultimately show ?thesis by (simp add: calculate_entry_size_sol_def Let_def)
  qed
  with above upper show ?thesis unfolding e by (simp add: py_max_ge1)
qed

theorem entry_size_sound_witness:
  "calculate_entry_size_sol (Fin 3) (Fin 1) (Fin (1 / 2)) (Fin 1) = Some (Fin 1) \<and>
   Fin 1 \<le> Fin 3 - Fin 1"
proof -
  have run: "calculate_entry_size_sol (Fin 3) (Fin 1) (Fin (1 / 2)) (Fin 1) = Some (Fin 1)"
    by (simp add: calculate_entry_size_sol_def Let_def py_max_def)
  from entry_size_sound [OF run, of "Fin 3"] run show ?thesis by simp
qed

section \<open>Laws of the ranking\<close>

lemma mset_insert_signal: "mset (insert_signal s ts) = add_mset s (mset ts)"
  by (induction ts) auto

lemma mset_sort_signals: "mset (sort_signals ss) = mset ss"
  by (induction ss) (simp_all add: sort_signals_def mset_insert_signal)

lemma sorted_insert_signal:
  "sorted_wrt (\<lambda>s t. rank t \<le> rank s) ts \<Longrightarrow> sorted_wrt (\<lambda>s t. rank t \<le> rank s) (insert_signal s ts)"
proof (induction ts)
  case (Cons t ts)
  have members: "set (insert_signal s ts) = insert s (set ts)"
    by (metis mset_insert_signal set_mset_add_mset_insert set_mset_mset)
  show ?case
  proof (cases "outranks t s")
    case True
    then have "rank s \<le> rank t" by (auto simp: outranks_def split: if_splits)
    with True Cons members show ?thesis by simp
  next
    case False
    then have "rank t \<le> rank s" by (auto simp: outranks_def split: if_splits)
    with False Cons.prems show ?thesis by force
  qed
qed simp

lemma sorted_sort_signals: "sorted_wrt (\<lambda>s t. rank t \<le> rank s) (sort_signals ss)"
  by (induction ss) (simp_all add: sort_signals_def sorted_insert_signal)

text \<open>In a list sorted so, a high-confidence signal stands behind every other.\<close>

lemma high_last:
  assumes "sorted_wrt (\<lambda>s t. rank t \<le> rank s) ts" "k < length ts" "ts ! k = s" "rank s = 0"
  shows "length (filter (\<lambda>t. rank t \<noteq> 0) ts) \<le> k"
proof -
  have "rank (ts ! j) = 0" if "k \<le> j" "j < length ts" for j
  proof -
    have "rank (ts ! j) \<le> rank (ts ! k)"
      using assms(1) that by (cases "j = k") (auto simp: sorted_wrt_iff_nth_less)
    moreover have "0 \<le> rank (ts ! j)" by (simp add: rank_def)
    ultimately show ?thesis using assms(3,4) by simp
  qed
  then have none: "filter (\<lambda>t. rank t \<noteq> 0) (drop k ts) = []"
    by (auto simp: filter_empty_conv in_set_conv_nth)
  have "filter (\<lambda>t. rank t \<noteq> 0) ts = filter (\<lambda>t. rank t \<noteq> 0) (take k ts)"
    using none append_take_drop_id [of k ts] by (metis append_Nil2 filter_append)
  then show ?thesis using length_filter_le [of _ "take k ts"] by simp
qed

text \<open>
  The three signals a turn keeps.  They are among the gathered ones; but the sort puts the
  signals of medium confidence first: one of high confidence is kept only if there are fewer than
  three others, so three medium signals displace every high one.
\<close>

theorem top_signals_prefer_medium:
  "mset (top_signals ss) \<subseteq># mset ss \<and> length (top_signals ss) = min 3 (length ss) \<and>
   (\<forall>s. s \<in> set (top_signals ss) \<and> ts_confidence s = ''high'' \<longrightarrow>
      length (filter (\<lambda>t. ts_confidence t \<noteq> ''high'') ss) < 3)"
proof (intro conjI allI impI)
  show "mset (top_signals ss) \<subseteq># mset ss"
    unfolding top_signals_def mset_sort_signals [of ss, symmetric]
    by (metis append_take_drop_id mset_append mset_subset_eq_add_left)
  have len: "length (sort_signals ss) = length ss" using mset_sort_signals by (metis size_mset)
  then show "length (top_signals ss) = min 3 (length ss)" by (simp add: top_signals_def)
  fix s assume s: "s \<in> set (top_signals ss) \<and> ts_confidence s = ''high''"
  then obtain k where k: "k < 3" "k < length (sort_signals ss)" "sort_signals ss ! k = s"
    by (auto simp: top_signals_def in_set_conv_nth)
  have "mset (filter (\<lambda>t. rank t \<noteq> 0) (sort_signals ss)) = mset (filter (\<lambda>t. rank t \<noteq> 0) ss)"
    by (simp add: mset_sort_signals)
  then have "length (filter (\<lambda>t. rank t \<noteq> 0) ss) \<le> k"
    using high_last [OF sorted_sort_signals k(2,3)] s by (metis rank_def size_mset)
  moreover have "(rank t \<noteq> 0) = (ts_confidence t \<noteq> ''high'')" for t by (simp add: rank_def)
  ultimately show "length (filter (\<lambda>t. ts_confidence t \<noteq> ''high'') ss) < 3" using k(1) by simp
qed

definition demo_signal :: "string \<Rightarrow> rat \<Rightarrow> TradeSignal" where
  "demo_signal confidence x = \<lparr> ts_strategy = ''momentum'', ts_mint = ''M'', ts_pump_pool = ''P'',
     ts_buy_sol = Fin x, ts_source_id = ''B'', ts_confidence = confidence \<rparr>"

theorem top_signals_prefer_medium_witness:
  "demo_signal ''high'' 9 \<notin> set (top_signals [demo_signal ''high'' 9, demo_signal ''medium'' 1,
     demo_signal ''medium'' 2, demo_signal ''medium'' 3])"
  using top_signals_prefer_medium [of "[demo_signal ''high'' 9, demo_signal ''medium'' 1,
     demo_signal ''medium'' 2, demo_signal ''medium'' 3]"]
  by (auto simp: demo_signal_def)

end
