(* ===== verification/Detection.thy ===== *)
theory Detection
  imports Strategy
begin

text \<open>
  The signal detectors and the price lookup of \<open>ops/strategy_loop.py\<close>, which the main loop no
  longer calls: large buys of any token, buys of watched wallets, and new trending mints.  The
  state beside the world is the caller's set of seen mints.  Unlike \<open>detector.py\<close>, the owners
  and mints of the balances are used as they come, so they are JSON values here; what cannot be a
  dictionary key raises.
\<close>

section \<open>Balances\<close>

type_synonym raw_deltas = "(json \<times> (json \<times> pyfloat) list) list"

definition hashed :: "json \<Rightarrow> json res" where
  "hashed v = (if hashable v then ret v else raise (TypeError ''unhashable type''))"

definition raw_step :: "pyfloat \<Rightarrow> json \<Rightarrow> raw_deltas \<Rightarrow> raw_deltas res" where
  "raw_step sgn_factor bal ds =
     bindR (dict_get bal ''owner'' JNull) (\<lambda>owner.
     if \<not> truthy owner then ret ds
     else
       bindR (dict_item bal ''uiTokenAmount'') (\<lambda>amount.
       bindR (bindR (dict_item amount ''amount'') py_int) (\<lambda>n.
       bindR (bindR (dict_item amount ''decimals'') py_int) (\<lambda>d.
       bindR (ui_amount n d) (\<lambda>v.
       bindR (hashed owner) (\<lambda>owner.
       bindR (bindR (dict_item bal ''mint'') hashed) (\<lambda>mint.
       ret (add_delta owner mint (sgn_factor * v) ds))))))))"

definition raw_pass :: "json \<Rightarrow> string \<Rightarrow> pyfloat \<Rightarrow> raw_deltas \<Rightarrow> raw_deltas res" where
  "raw_pass meta field sgn_factor ds =
     bindR (bindR (dict_get meta field (JList [])) py_iter) (\<lambda>bals. foldR (raw_step sgn_factor) bals ds)"

text \<open>A transaction of a block: nothing when it failed, or its token and native changes.\<close>

definition raw_changes ::
  "(json \<Rightarrow> string) \<Rightarrow> json \<Rightarrow> (raw_deltas \<times> (string \<times> pyfloat) list) option res" where
  "raw_changes rp rcd =
     bindR (dict_get rcd ''meta'' JNull) (\<lambda>meta0.
     let meta = py_or meta0 (JDict []) in
     bindR (dict_get meta ''err'' JNull) (\<lambda>err.
     if err \<noteq> JNull then ret None
     else
       bindR (dict_get rcd ''transaction'' JNull) (\<lambda>tx0.
       bindR (bindR (dict_get (py_or tx0 (JDict [])) ''accountKeys'' (JList [])) py_iter) (\<lambda>keys.
       bindR (mapR (pubkey rp) keys) (\<lambda>account_keys.
       bindR (raw_pass meta ''preTokenBalances'' (Fin (- 1)) []) (\<lambda>ds.
       bindR (raw_pass meta ''postTokenBalances'' (Fin 1) ds) (\<lambda>ds.
       bindR (native_delta meta account_keys) (\<lambda>natives.
       ret (Some (ds, natives))))))))))"

definition raw_lookup0 :: "(json \<times> pyfloat) list \<Rightarrow> json \<Rightarrow> pyfloat" where
  "raw_lookup0 kvs k = (case map_of kvs k of None \<Rightarrow> Fin 0 | Some x \<Rightarrow> x)"

definition raw_buy_sol ::
  "(string \<times> pyfloat) list \<Rightarrow> json \<Rightarrow> (json \<times> pyfloat) list \<Rightarrow> pyfloat" where
  "raw_buy_sol natives buyer mint_deltas =
     py_max (py_max (Fin 0) (- raw_lookup0 mint_deltas (JStr WSOL)))
       (py_max (Fin 0) (- (case buyer of JStr b \<Rightarrow> lookup0 natives b | _ \<Rightarrow> Fin 0)))"

section \<open>Signals\<close>

text \<open>
  The pool of a mint; \<open>Pubkey.from_string\<close> takes only text.  A buyer that is no text is kept as
  Python prints it.
\<close>

definition raw_pool :: "solders \<Rightarrow> json \<Rightarrow> (string \<times> string) res" where
  "raw_pool S mint = (case mint of
     JStr m \<Rightarrow> bindR (canonical_pump_pool S m) (\<lambda>p. ret (m, p))
   | _ \<Rightarrow> raise (TypeError ''argument must be str''))"

definition momentum_size :: "pyfloat \<Rightarrow> pyfloat" where
  "momentum_size buy_sol = py_max (py_min (fdiv buy_sol (Fin 10)) (flit (5 / 100))) (flit (3 / 1000))"

definition momentum_signal :: "string \<Rightarrow> string \<Rightarrow> string \<Rightarrow> pyfloat \<Rightarrow> pyfloat \<Rightarrow> TradeSignal" where
  "momentum_signal buyer mint pool buy_sol buy_usd = \<lparr> ts_strategy = ''momentum'', ts_mint = mint,
     ts_pump_pool = pool, ts_buy_sol = momentum_size buy_sol, ts_source_id = buyer,
     ts_confidence = (if Fin 500 \<le> buy_usd then ''high'' else ''medium'') \<rparr>"

definition copytrade_signal :: "string \<Rightarrow> string \<Rightarrow> string \<Rightarrow> pyfloat \<Rightarrow> pyfloat \<Rightarrow> TradeSignal" where
  "copytrade_signal buyer mint pool buy_sol buy_usd = \<lparr> ts_strategy = ''copytrade'', ts_mint = mint,
     ts_pump_pool = pool, ts_buy_sol = py_min (fdiv buy_sol (Fin 5)) (flit (2 / 100)),
     ts_source_id = buyer, ts_confidence = ''high'' \<rparr>"

definition snipe_signal :: "string \<Rightarrow> string \<Rightarrow> TradeSignal" where
  "snipe_signal mint pool = \<lparr> ts_strategy = ''snipe'', ts_mint = mint, ts_pump_pool = pool,
     ts_buy_sol = flit (5 / 1000), ts_source_id = ''gmgn_trending'', ts_confidence = ''medium'' \<rparr>"

text \<open>Loops that append to one list of signals.\<close>

fun gather :: "('x \<Rightarrow> ('s, 'e list) io) \<Rightarrow> 'x list \<Rightarrow> ('s, 'e list) io" where
  "gather f [] = retIO []"
| "gather f (x # xs) = bindIO (f x) (\<lambda>ys. bindIO (gather f xs) (\<lambda>zs. retIO (ys @ zs)))"

type_synonym ('w, 'a) detect = "('w \<times> json set, 'a) io"

definition see_mint :: "json \<Rightarrow> ('w, unit) detect" where
  "see_mint mint = update (insert mint)"

text \<open>One buyer and one mint; both detectors end in the same lines but for the signal.\<close>

definition raw_buy ::
  "(json \<Rightarrow> string) \<Rightarrow> solders \<Rightarrow> (string \<Rightarrow> string \<Rightarrow> string \<Rightarrow> pyfloat \<Rightarrow> pyfloat \<Rightarrow> TradeSignal)
   \<Rightarrow> pyfloat \<Rightarrow> pyfloat \<Rightarrow> (string \<times> pyfloat) list \<Rightarrow> json \<Rightarrow> (json \<times> pyfloat) list
   \<Rightarrow> json \<times> pyfloat \<Rightarrow> ('w, TradeSignal list) detect" where
  "raw_buy rp S signal sol_price minimum_buy_usd natives buyer mint_deltas = (\<lambda>(mint, received).
     if received \<le> Fin 0 then retIO []
     else if mint \<in> JStr ` set STABLE_MINTS \<or> mint = JStr WSOL then retIO []
     else
       bindIO (state (\<lambda>seen. mint \<in> seen)) (\<lambda>known.
       let buy_sol = raw_buy_sol natives buyer mint_deltas;
           buy_usd = buy_sol * sol_price
       in if known \<or> buy_usd < minimum_buy_usd then retIO []
          else
            bindIO (see_mint mint) (\<lambda>_.
            bindIO (liftR (raw_pool S mint)) (\<lambda>(m, pool).
            retIO [signal (py_str rp buyer) m pool buy_sol buy_usd]))))"

definition raw_transaction ::
  "(json \<Rightarrow> string) \<Rightarrow> solders \<Rightarrow> (json \<Rightarrow> bool) \<Rightarrow> (string \<Rightarrow> string \<Rightarrow> string \<Rightarrow> pyfloat \<Rightarrow> pyfloat \<Rightarrow> TradeSignal)
   \<Rightarrow> pyfloat \<Rightarrow> pyfloat \<Rightarrow> json \<Rightarrow> ('w, TradeSignal list) detect" where
  "raw_transaction rp S watched signal sol_price minimum_buy_usd rcd =
     bindIO (liftR (raw_changes rp rcd)) (\<lambda>changes. case changes of
       None \<Rightarrow> retIO []
     | Some (ds, natives) \<Rightarrow>
         gather (\<lambda>(buyer, mint_deltas).
           if watched buyer
           then gather (raw_buy rp S signal sol_price minimum_buy_usd natives buyer mint_deltas) mint_deltas
           else retIO []) ds)"

text \<open>The newest block; one the node does not have gives no signals, and so does any failure.\<close>

definition newest_block :: "'w env \<Rightarrow> string \<Rightarrow> ('w, json option) detect" where
  "newest_block E commitment =
     bindIO (in_world (latest_slot E commitment)) (\<lambda>slot.
     catchIO (bindIO (in_world (block_accounts E commitment slot)) (\<lambda>b. retIO (Some b)))
       (\<lambda>e. case e of RuntimeError _ \<Rightarrow> retIO None | _ \<Rightarrow> raiseIO e))"

definition scan_newest ::
  "'w env \<Rightarrow> string \<Rightarrow> (json \<Rightarrow> ('w, TradeSignal list) detect) \<Rightarrow> ('w, TradeSignal list) detect" where
  "scan_newest E commitment f =
     catchIO (bindIO (newest_block E commitment) (\<lambda>block. case block of
         None \<Rightarrow> retIO []
       | Some b \<Rightarrow>
           bindIO (liftR (bindR (dict_get b ''transactions'' (JList [])) py_iter)) (gather f)))
       (\<lambda>_. retIO [])"

definition detect_momentum_signals ::
  "'w env \<Rightarrow> solders \<Rightarrow> string \<Rightarrow> pyfloat \<Rightarrow> pyfloat \<Rightarrow> ('w, TradeSignal list) detect" where
  "detect_momentum_signals E S commitment sol_price minimum_buy_usd =
     scan_newest E commitment
       (raw_transaction (rep E) S (\<lambda>_. True) momentum_signal sol_price minimum_buy_usd)"

definition detect_copytrade_signals ::
  "'w env \<Rightarrow> solders \<Rightarrow> string \<Rightarrow> string list \<Rightarrow> pyfloat \<Rightarrow> pyfloat \<Rightarrow> ('w, TradeSignal list) detect" where
  "detect_copytrade_signals E S commitment watch_wallets sol_price minimum_buy_usd =
     (if watch_wallets = [] then retIO []
      else scan_newest E commitment
        (raw_transaction (rep E) S (\<lambda>buyer. buyer \<in> JStr ` set watch_wallets) copytrade_signal
          sol_price minimum_buy_usd))"

definition snipe_mint :: "solders \<Rightarrow> string \<Rightarrow> ('w, TradeSignal list) detect" where
  "snipe_mint S mint =
     bindIO (state (\<lambda>seen. JStr mint \<in> seen)) (\<lambda>known.
     if known then retIO []
     else
       bindIO (see_mint (JStr mint)) (\<lambda>_.
       bindIO (liftR (canonical_pump_pool S mint)) (\<lambda>pool.
       retIO [snipe_signal mint pool])))"

definition detect_snipe_signals ::
  "'w env \<Rightarrow> solders \<Rightarrow> GmgnProvider \<Rightarrow> ('w, TradeSignal list) detect" where
  "detect_snipe_signals E S g =
     catchIO (bindIO (in_world (trending_mints E g)) (\<lambda>mints.
         if mints = {} then retIO []
         else gather (snipe_mint S) (take 5 (set_order E mints))))
       (\<lambda>_. retIO [])"

section \<open>Prices\<close>

definition quoted_price :: "json \<Rightarrow> string \<Rightarrow> (string \<times> pyfloat) list \<Rightarrow> (string \<times> pyfloat) list res" where
  "quoted_price data mint prices =
     bindR (bindR (dict_get data mint (JDict [])) (\<lambda>d. dict_get d ''price'' JNull)) (\<lambda>price.
     if \<not> truthy price then ret prices
     else bindR (py_float price) (\<lambda>p. ret (AList.update mint p prices)))"

definition get_current_prices :: "'w env \<Rightarrow> string list \<Rightarrow> ('w, (string \<times> pyfloat) list) io" where
  "get_current_prices E mints =
     (if mints = [] then retIO []
      else catchIO
        (bindIO (http_get E (''https://price.jup.ag/v6/price?ids='' @ join '','' mints) []) (\<lambda>resp.
         liftR (bindR (dict_get resp ''data'' (JDict [])) (\<lambda>data. foldR (quoted_price data) mints []))))
        (\<lambda>_. retIO []))"

section \<open>Properties\<close>

text \<open>
  What a detector may do: the seen mints only grow, and the signals it returns are for different
  mints, which were not seen before and are now.
\<close>

definition signals_fresh :: "(TradeSignal \<Rightarrow> bool) \<Rightarrow> ('w, TradeSignal list) detect \<Rightarrow> bool" where
  "signals_fresh P m \<longleftrightarrow> (\<forall>w S r w' S'. m (w, S) = (r, (w', S')) \<longrightarrow> S \<subseteq> S' \<and>
     (\<forall>ss. r = Inr ss \<longrightarrow> distinct (map ts_mint ss) \<and>
       (\<forall>s \<in> set ss. P s \<and> JStr (ts_mint s) \<notin> S \<and> JStr (ts_mint s) \<in> S')))"

lemma signals_freshD:
  assumes "signals_fresh P m" "m (w, S) = (r, (w', S'))"
  shows "S \<subseteq> S'" "r = Inr ss \<Longrightarrow> distinct (map ts_mint ss)"
    "r = Inr ss \<Longrightarrow> s \<in> set ss \<Longrightarrow> P s \<and> JStr (ts_mint s) \<notin> S \<and> JStr (ts_mint s) \<in> S'"
  using assms unfolding signals_fresh_def by blast+

lemma fresh_none: "signals_fresh P (retIO [])" "signals_fresh P (raiseIO e)"
  by (simp_all add: signals_fresh_def)

lemma fresh_if:
  "(b \<Longrightarrow> signals_fresh P m) \<Longrightarrow> (\<not> b \<Longrightarrow> signals_fresh P n) \<Longrightarrow> signals_fresh P (if b then m else n)"
  by simp

lemma fresh_gather:
  assumes "\<And>x. x \<in> set xs \<Longrightarrow> signals_fresh P (f x)"
  shows "signals_fresh P (gather f xs)"
  using assms
proof (induction xs)
  case (Cons x xs)
  have first: "signals_fresh P (f x)" and others: "signals_fresh P (gather f xs)"
    using Cons by simp_all
  show ?case
    unfolding signals_fresh_def
  proof (intro allI impI)
    fix w S r w' S'
    assume "gather f (x # xs) (w, S) = (r, (w', S'))"
    then have run: "bindIO (f x) (\<lambda>ys. bindIO (gather f xs) (\<lambda>zs. retIO (ys @ zs))) (w, S) = (r, (w', S'))"
      by simp
    then show "S \<subseteq> S' \<and> (\<forall>ss. r = Inr ss \<longrightarrow> distinct (map ts_mint ss) \<and>
       (\<forall>s \<in> set ss. P s \<and> JStr (ts_mint s) \<notin> S \<and> JStr (ts_mint s) \<in> S'))"
    proof (cases rule: bindIO_run)
      case (raised e)
      with signals_freshD(1) [OF first] show ?thesis by blast
    next
      case (returned ys \<sigma>)
      obtain w1 S1 where \<sigma>: "\<sigma> = (w1, S1)" by (cases \<sigma>)
      note one = signals_freshD [OF first returned(1) [unfolded \<sigma>]]
      from returned(2) show ?thesis
        unfolding \<sigma>
      proof (cases rule: bindIO_run)
        case (raised e)
        with signals_freshD(1) [OF others] one(1) show ?thesis by blast
      next
        case (returned zs \<sigma>')
        then have \<sigma>': "gather f xs (w1, S1) = (Inr zs, (w', S'))" and r: "r = Inr (ys @ zs)" by auto
        note two = signals_freshD [OF others \<sigma>']
        have "set (map ts_mint ys) \<inter> set (map ts_mint zs) = {}" using one(3) two(3) by fastforce
        with r one(1,2) two(1,2) one(3) two(3) show ?thesis by auto
      qed
    qed
  qed
qed (simp add: fresh_none)

text \<open>Operations that leave the set alone may come before.\<close>

lemma fresh_bind:
  assumes "\<And>w S r w' S'. m (w, S) = (r, (w', S')) \<Longrightarrow> S' = S" "\<And>x. signals_fresh P (f x)"
  shows "signals_fresh P (bindIO m f)"
  unfolding signals_fresh_def
proof (intro allI impI)
  fix w S r w' S'
  assume "bindIO m f (w, S) = (r, (w', S'))"
  then show "S \<subseteq> S' \<and> (\<forall>ss. r = Inr ss \<longrightarrow> distinct (map ts_mint ss) \<and>
       (\<forall>s \<in> set ss. P s \<and> JStr (ts_mint s) \<notin> S \<and> JStr (ts_mint s) \<in> S'))"
  proof (cases rule: bindIO_run)
    case (raised e)
    with assms(1) show ?thesis by blast
  next
    case (returned x \<sigma>)
    obtain w1 where "\<sigma> = (w1, S)" using assms(1) returned(1) by (metis surj_pair)
    with returned(2) assms(2) show ?thesis unfolding signals_fresh_def by blast
  qed
qed

lemma fresh_catch: "signals_fresh P m \<Longrightarrow> signals_fresh P (catchIO m (\<lambda>_. retIO []))"
  unfolding signals_fresh_def catchIO_def by (auto split: prod.splits sum.splits)

lemma fresh_raw_buy:
  assumes "\<And>mint pool buy_sol buy_usd. Fin 0 \<le> buy_sol \<Longrightarrow>
      P (signal (py_str rp buyer) mint pool buy_sol buy_usd) \<and>
      ts_mint (signal (py_str rp buyer) mint pool buy_sol buy_usd) = mint"
  shows "signals_fresh P (raw_buy rp S signal price minimum natives buyer ds mr)"
proof -
  have "Fin 0 \<le> raw_buy_sol natives buyer ds"
    unfolding raw_buy_sol_def by (rule fle_trans [OF py_max_ge1 py_max_ge1]) (simp_all add: py_max_not_NaN)
  then show ?thesis
    using assms
    by (cases mr) (auto simp: raw_buy_def signals_fresh_def see_mint_def update_def state_def bindIO_def
        raw_pool_def Let_def split: if_splits sum.splits json.splits)
qed

lemma fresh_transaction:
  assumes "\<And>buyer mint pool buy_sol buy_usd. watched buyer \<Longrightarrow> Fin 0 \<le> buy_sol \<Longrightarrow>
      P (signal (py_str rp buyer) mint pool buy_sol buy_usd) \<and>
      ts_mint (signal (py_str rp buyer) mint pool buy_sol buy_usd) = mint"
  shows "signals_fresh P (raw_transaction rp S watched signal price minimum rcd)"
proof -
  have "signals_fresh P (gather (\<lambda>(buyer, mds). if watched buyer
      then gather (raw_buy rp S signal price minimum natives buyer mds) mds else retIO []) ds)" for ds natives
    using assms by (intro fresh_gather) (auto intro!: fresh_if fresh_none fresh_gather fresh_raw_buy)
  then show ?thesis
    by (auto simp: raw_transaction_def fresh_none split: sum.split option.split)
qed

lemma newest_block_keeps: "newest_block E c (w, S) = (r, (w', S')) \<Longrightarrow> S' = S"
  by (auto simp: newest_block_def bindIO_def catchIO_def in_world_def split: prod.splits sum.splits exn.splits)

lemma fresh_scan: "(\<And>x. signals_fresh P (f x)) \<Longrightarrow> signals_fresh P (scan_newest E c f)"
  unfolding scan_newest_def
  by (intro fresh_catch fresh_bind)
    (auto dest: newest_block_keeps simp: fresh_none split: option.split sum.split intro!: fresh_gather)

lemma fresh_snipe:
  assumes "\<And>mint pool. P (snipe_signal mint pool)"
  shows "signals_fresh P (detect_snipe_signals E S g)"
proof -
  have "signals_fresh P (snipe_mint S mint)" for mint
    using assms by (auto simp: snipe_mint_def signals_fresh_def see_mint_def update_def state_def bindIO_def
        snipe_signal_def split: sum.splits)
  then show ?thesis
    unfolding detect_snipe_signals_def
    by (intro fresh_catch fresh_bind fresh_if fresh_none fresh_gather)
      (auto simp: in_world_def split: prod.splits)
qed

lemma momentum_size_bounds:
  assumes "Fin 0 \<le> b"
  shows "flit (3 / 1000) \<le> momentum_size b" "momentum_size b \<le> flit (5 / 100)"
proof -
  have small: "flit (3 / 1000) \<le> flit (5 / 100)" unfolding flit_def by (rule rnd_mono) simp
  have lit: "flit x \<noteq> NaN" for x unfolding flit_def by simp
  have part: "fdiv b (Fin 10) \<noteq> NaN" using fdiv_nonneg [of 10 b] assms by (auto dest: fle_not_NaN)
  show "momentum_size b \<le> flit (5 / 100)"
    unfolding momentum_size_def by (intro py_max_least py_min_le2 small part lit)
  show "flit (3 / 1000) \<le> momentum_size b"
    unfolding momentum_size_def by (intro py_max_ge2 py_min_not_NaN part lit)
qed

lemma copy_size_bounds:
  assumes "Fin 0 \<le> b"
  shows "Fin 0 \<le> py_min (fdiv b (Fin 5)) (flit (2 / 100))" "py_min (fdiv b (Fin 5)) (flit (2 / 100)) \<le> flit (2 / 100)"
proof -
  have part: "Fin 0 \<le> fdiv b (Fin 5)" using assms by (intro fdiv_nonneg) simp_all
  have lit: "Fin 0 \<le> flit (2 / 100)" "flit (2 / 100) \<noteq> NaN" unfolding flit_def by (simp_all add: rnd_nonneg)
  show "Fin 0 \<le> py_min (fdiv b (Fin 5)) (flit (2 / 100))" by (intro py_min_greatest part lit)
  show "py_min (fdiv b (Fin 5)) (flit (2 / 100)) \<le> flit (2 / 100)"
    using part lit by (intro py_min_le2) (auto dest: fle_not_NaN)
qed

text \<open>
  C40. What the detectors report.  Whatever the node and the service answer, each detector returns a
  list of signals and raises nothing; the signals are for different mints that were not seen before
  and are marked as seen now, and nothing is ever unmarked.  A momentum entry is between 0.003 and
  0.05 SOL, a mirrored one at most 0.02 SOL and of a watched wallet.
\<close>

theorem detectors_fresh:
  "signals_fresh (\<lambda>s. ts_strategy s = ''momentum'' \<and> flit (3 / 1000) \<le> ts_buy_sol s \<and> ts_buy_sol s \<le> flit (5 / 100))
     (detect_momentum_signals E S c price minimum) \<and>
   signals_fresh (\<lambda>s. ts_strategy s = ''copytrade'' \<and> Fin 0 \<le> ts_buy_sol s \<and> ts_buy_sol s \<le> flit (2 / 100) \<and>
       ts_source_id s \<in> set wallets)
     (detect_copytrade_signals E S c wallets price minimum) \<and>
   signals_fresh (\<lambda>s. ts_strategy s = ''snipe'' \<and> ts_buy_sol s = flit (5 / 1000)) (detect_snipe_signals E S g) \<and>
   (\<exists>ss ss' ss''. fst (detect_momentum_signals E S c price minimum \<sigma>) = Inr ss \<and>
      fst (detect_copytrade_signals E S c wallets price minimum \<sigma>) = Inr ss' \<and>
      fst (detect_snipe_signals E S g \<sigma>) = Inr ss'')"
proof (intro conjI)
  show "signals_fresh (\<lambda>s. ts_strategy s = ''momentum'' \<and> flit (3 / 1000) \<le> ts_buy_sol s \<and> ts_buy_sol s \<le> flit (5 / 100))
     (detect_momentum_signals E S c price minimum)"
    unfolding detect_momentum_signals_def
    by (intro fresh_scan fresh_transaction) (simp add: momentum_signal_def momentum_size_bounds [simplified])
  show "signals_fresh (\<lambda>s. ts_strategy s = ''copytrade'' \<and> Fin 0 \<le> ts_buy_sol s \<and> ts_buy_sol s \<le> flit (2 / 100) \<and>
       ts_source_id s \<in> set wallets) (detect_copytrade_signals E S c wallets price minimum)"
    unfolding detect_copytrade_signals_def
    by (intro fresh_if fresh_none fresh_scan fresh_transaction) (auto simp: copytrade_signal_def copy_size_bounds [simplified])
  show "signals_fresh (\<lambda>s. ts_strategy s = ''snipe'' \<and> ts_buy_sol s = flit (5 / 1000)) (detect_snipe_signals E S g)"
    by (rule fresh_snipe) (simp add: snipe_signal_def)
  have caught: "\<exists>ss. fst (catchIO m (\<lambda>_. retIO []) \<sigma>) = Inr ss" for m :: "('a \<times> json set, TradeSignal list) io"
    by (auto simp: catchIO_def split: prod.split sum.split)
  have "\<exists>ss. fst (detect_momentum_signals E S c price minimum \<sigma>) = Inr ss"
    "\<exists>ss. fst (detect_snipe_signals E S g \<sigma>) = Inr ss"
    unfolding detect_momentum_signals_def detect_snipe_signals_def scan_newest_def by (rule caught)+
  moreover have "\<exists>ss. fst (detect_copytrade_signals E S c wallets price minimum \<sigma>) = Inr ss"
    unfolding detect_copytrade_signals_def scan_newest_def
    by (cases "wallets = []") (simp, simp only: if_False, rule caught)
  ultimately show "\<exists>ss ss' ss''. fst (detect_momentum_signals E S c price minimum \<sigma>) = Inr ss \<and>
      fst (detect_copytrade_signals E S c wallets price minimum \<sigma>) = Inr ss' \<and>
      fst (detect_snipe_signals E S g \<sigma>) = Inr ss''"
    by blast
qed

text \<open>
  A failure in the middle returns no signals at all, but the mints before it stay marked: here a
  buy of \<open>M\<close> is followed by a transaction that is not an object, and the next scan will skip
  \<open>M\<close>.
\<close>

definition demo_buy :: json where
  "demo_buy = JDict [(''meta'', JDict
     [(''preTokenBalances'', JList [JDict [(''owner'', JStr ''B''), (''mint'', JStr WSOL),
         (''uiTokenAmount'', JDict [(''amount'', JInt 10), (''decimals'', JInt 0)])]]),
      (''postTokenBalances'', JList [JDict [(''owner'', JStr ''B''), (''mint'', JStr ''M''),
         (''uiTokenAmount'', JDict [(''amount'', JInt 1), (''decimals'', JInt 0)])]])])]"

definition demo_block_env :: "json list \<Rightarrow> nat env" where
  "demo_block_env txs = dead_env\<lparr>rpc_post := (\<lambda>q. retIO (JDict [(''result'',
     if dict_item q ''method'' = Inr (JStr ''getSlot'') then JInt 9
     else JDict [(''transactions'', JList txs)])]))\<rparr>"

lemma detection_failure_forgets:
  "detect_momentum_signals (demo_block_env [demo_buy]) demo_solders [] (Fin 100) (Fin 300) (0, {})
    = (Inr [\<lparr> ts_strategy = ''momentum'', ts_mint = ''M'', ts_pump_pool = ''P'',
         ts_buy_sol = momentum_size (Fin 10), ts_source_id = ''B'', ts_confidence = ''high'' \<rparr>],
       (0, {JStr ''M''}))" (is ?one)
  "detect_momentum_signals (demo_block_env [demo_buy, JNull]) demo_solders [] (Fin 100) (Fin 300) (0, {})
    = (Inr [], (0, {JStr ''M''}))" (is ?two)
proof -
  have changes: "raw_changes rp demo_buy = Inr (Some ([(JStr ''B'', [(JStr WSOL, Fin (- 10)), (JStr ''M'', Fin 1)])], []))" for rp
    by (simp add: raw_changes_def demo_buy_def raw_pass_def raw_step_def hashed_def ui_amount_def int_truediv_def
        add_delta_def native_delta_def py_or_def pyfloat_arith_defs WSOL_def Let_def)
  obtain e where bad: "raw_changes (\<lambda>_. []) JNull = Inl e"
    by (simp add: raw_changes_def)
  show ?one ?two
    by (simp_all add: detect_momentum_signals_def scan_newest_def newest_block_def demo_block_env_def dead_env_def
        latest_slot_def block_accounts_def rpc_call_def rpc_request_def catchIO_def bindIO_def in_world_def
        raw_transaction_def changes raw_buy_def see_mint_def update_def state_def raw_buy_sol_def raw_lookup0_def
        lookup0_def py_max_def raw_pool_def canonical_pump_pool_def demo_solders_def momentum_signal_def
        bad STABLE_MINTS_def WSOL_def pyfloat_arith_defs Let_def)
qed

end
