(* ===== verification/Borsh.thy ===== *)
theory Borsh
  imports PyValue "HOL-Library.Word"
begin

text \<open>
  Instruction data of the Pump program, as \<open>backrunner/snipers.py\<close> and
  \<open>backrunner/scorer.py\<close> read it: the texts it comes in (\<open>bytes.fromhex\<close>,
  \<open>base64.b64decode\<close>, the third-party \<open>base58\<close>), and the layout of a create instruction.
\<close>

unbundle bit_operations_syntax

type_synonym bytes = "8 word list"

text \<open>
  The package \<open>base58\<close>: both directions are parameters; \<open>b58encode\<close> returns Python
  \<open>bytes\<close>, as documented.
\<close>

datatype pytext = PyStr string | PyBytes bytes

record base58 =
  b58decode :: "string \<Rightarrow> bytes res"
  b58encode :: "bytes \<Rightarrow> bytes"

section \<open>Texts\<close>

definition hex_value :: "char \<Rightarrow> nat option" where
  "hex_value c = (let n = of_char c :: nat in
     if 48 \<le> n \<and> n \<le> 57 then Some (n - 48)
     else if 97 \<le> n \<and> n \<le> 102 then Some (n - 87)
     else if 65 \<le> n \<and> n \<le> 70 then Some (n - 55)
     else None)"

text \<open>\<open>bytes.fromhex\<close>: two digits make a byte, and white space between bytes is skipped.\<close>

fun from_hex :: "string \<Rightarrow> bytes res" where
  "from_hex [] = Inr []"
| "from_hex (c # d # cs) = (if is_space c then from_hex (d # cs) else case (hex_value c, hex_value d) of
     (Some x, Some y) \<Rightarrow> bindR (from_hex cs) (\<lambda>bs. ret (word_of_nat (16 * x + y) # bs))
   | _ \<Rightarrow> raise (ValueError ''non-hexadecimal number found in fromhex() arg''))"
| "from_hex [c] = (if is_space c then ret [] else raise (ValueError ''non-hexadecimal number found in fromhex() arg''))"

definition base64_value :: "char \<Rightarrow> nat option" where
  "base64_value c = (let n = of_char c :: nat in
     if 65 \<le> n \<and> n \<le> 90 then Some (n - 65)
     else if 97 \<le> n \<and> n \<le> 122 then Some (n - 71)
     else if 48 \<le> n \<and> n \<le> 57 then Some (n + 4)
     else if n = 43 then Some 62
     else if n = 47 then Some 63
     else None)"

text \<open>
  \<open>base64.b64decode\<close> without validation: characters outside the alphabet are skipped, padding
  that completes a group of four ends the data.  The arguments are the place in the group, the
  bits left over from the previous character, the padding seen so far, and the bytes decoded so
  far in reverse.
\<close>

fun b64_scan :: "nat \<Rightarrow> nat \<Rightarrow> nat \<Rightarrow> bytes \<Rightarrow> string \<Rightarrow> bytes res" where
  "b64_scan quad left pads out [] =
     (if quad = 0 then ret (rev out) else raise (ValueError ''Incorrect padding''))"
| "b64_scan quad left pads out (c # cs) =
     (if c = CHR ''='' then
        if 2 \<le> quad \<and> 4 \<le> quad + pads + 1 then ret (rev out)
        else b64_scan quad left (if 2 \<le> quad then pads + 1 else pads) out cs
      else case base64_value c of
        None \<Rightarrow> b64_scan quad left pads out cs
      | Some v \<Rightarrow>
          if quad = 0 then b64_scan 1 v 0 out cs
          else if quad = 1 then b64_scan 2 (v mod 16) 0 (word_of_nat (left * 4 + v div 16) # out) cs
          else if quad = 2 then b64_scan 3 (v mod 4) 0 (word_of_nat (left * 16 + v div 4) # out) cs
          else b64_scan 0 0 0 (word_of_nat (left * 64 + v) # out) cs)"

definition b64decode :: "string \<Rightarrow> bytes res" where
  "b64decode s = b64_scan 0 0 0 [] s"

text \<open>
  The instruction's \<open>data\<close>: hexadecimal, 88 characters of base58, or base64; nothing when it
  is not text or cannot be decoded.
\<close>

definition instruction_data :: "base58 \<Rightarrow> json \<Rightarrow> bytes option" where
  "instruction_data B v = (case v of
     JStr s \<Rightarrow>
       (case (if list_all (\<lambda>c. hex_value c \<noteq> None) s then from_hex s
              else if length s = 88 then b58decode B s
              else b64decode s) of
          Inr bs \<Rightarrow> Some bs
        | Inl _ \<Rightarrow> None)
   | _ \<Rightarrow> None)"

section \<open>The create instruction\<close>

definition CREATE_DISCRIMINATOR :: bytes where
  "CREATE_DISCRIMINATOR = [24, 30, 200, 40, 5, 28, 7, 119]"

definition CREATE_V2_DISCRIMINATOR :: bytes where
  "CREATE_V2_DISCRIMINATOR = [214, 144, 76, 236, 95, 139, 49, 180]"

definition is_create :: "bytes \<Rightarrow> bool" where
  "is_create data \<longleftrightarrow> take 8 data = CREATE_DISCRIMINATOR \<or> take 8 data = CREATE_V2_DISCRIMINATOR"

text \<open>\<open>struct.unpack_from("<I", data, offset)[0]\<close>, where \<open>None\<close> stands for \<open>struct.error\<close>.\<close>

definition unpack_u32 :: "bytes \<Rightarrow> nat \<Rightarrow> nat option" where
  "unpack_u32 data offset =
     (if length data < offset + 4 then None
      else Some (unat (data ! offset) + 256 * unat (data ! (offset + 1))
        + 65536 * unat (data ! (offset + 2)) + 16777216 * unat (data ! (offset + 3))))"

text \<open>
  \<open>_borsh_parse_string\<close>: the bytes of the text, cut short by the end of the data, and the offset
  behind the length it announces.
\<close>

definition borsh_parse_string :: "bytes \<Rightarrow> nat \<Rightarrow> (bytes \<times> nat) option" where
  "borsh_parse_string data offset = (case unpack_u32 data offset of
     None \<Rightarrow> None
   | Some n \<Rightarrow> Some (take n (drop (offset + 4) data), offset + 4 + n))"

definition parse_creator_from_instruction :: "base58 \<Rightarrow> bytes \<Rightarrow> pytext option" where
  "parse_creator_from_instruction B data =
     (if length data < 8 then None
      else if \<not> is_create data then None
      else case borsh_parse_string data 8 of
        None \<Rightarrow> None
      | Some (_, o1) \<Rightarrow> (case borsh_parse_string data o1 of
          None \<Rightarrow> None
        | Some (_, o2) \<Rightarrow> (case borsh_parse_string data o2 of
            None \<Rightarrow> None
          | Some (_, o3) \<Rightarrow>
              if length data < o3 + 32 then None
              else Some (PyBytes (b58encode B (take 32 (drop o3 data)))))))"

section \<open>Round trip\<close>

text \<open>What a Borsh writer emits.\<close>

definition pack_u32 :: "nat \<Rightarrow> bytes" where
  "pack_u32 n = [word_of_nat n, word_of_nat (n div 256), word_of_nat (n div 65536), word_of_nat (n div 16777216)]"

definition borsh_string :: "bytes \<Rightarrow> bytes" where
  "borsh_string s = pack_u32 (length s) @ s"

definition create_instruction :: "bytes \<Rightarrow> bytes \<Rightarrow> bytes \<Rightarrow> bytes \<Rightarrow> bytes \<Rightarrow> bytes \<Rightarrow> bytes" where
  "create_instruction disc name symbol uri creator rest =
     disc @ borsh_string name @ borsh_string symbol @ borsh_string uri @ creator @ rest"

lemma unat_byte: "unat (word_of_nat n :: 8 word) = n mod 256"
  by (simp add: unat_of_nat)

lemma unpack_packed:
  assumes "n < 2 ^ 32" "drop offset data = pack_u32 n @ rest"
  shows "unpack_u32 data offset = Some n"
proof -
  have at: "length data = offset + 4 + length rest" "data ! (offset + i) = (pack_u32 n @ rest) ! i"
    if "i < 4" for i
    using assms(2) nth_drop [of offset data i] that
    by (auto simp: pack_u32_def dest: arg_cong [where f = length])
  have top: "n div 16777216 mod 256 = n div 16777216"
    using assms(1) by (simp add: div_less_iff_less_mult)
  have sum: "n mod 256 + 256 * (n div 256 mod 256) + 65536 * (n div 65536 mod 256)
      + 16777216 * (n div 16777216) = n"
  proof -
    let ?a = "n div 256" and ?b = "n div 65536" and ?c = "n div 16777216"
    have "?b = ?a div 256" "?c = ?b div 256" by (simp_all add: div_mult2_eq [symmetric])
    then have "n = n mod 256 + 256 * ?a" "?a = ?a mod 256 + 256 * ?b" "?b = ?b mod 256 + 256 * ?c"
      by (simp_all only: mod_mult_div_eq)
    then show ?thesis by linarith
  qed
  then show ?thesis
    using at [of 0] at [of 1] at [of 2] at [of 3]
    by (simp add: unpack_u32_def pack_u32_def unat_byte numeral_2_eq_2 numeral_3_eq_3 top sum)
qed

lemma pack_u32_length [simp]: "length (pack_u32 n) = 4"
  by (simp add: pack_u32_def)

lemma parse_packed:
  assumes "length s < 2 ^ 32" "drop offset data = borsh_string s @ rest"
  shows "borsh_parse_string data offset = Some (s, offset + 4 + length s)"
    and "drop (offset + 4 + length s) data = rest"
proof -
  have skip: "drop (offset + k) data = drop k (borsh_string s @ rest)" for k
    using assms(2) by (metis add.commute drop_drop)
  have "unpack_u32 data offset = Some (length s)"
    using assms by (intro unpack_packed [where rest = "s @ rest"]) (simp_all add: borsh_string_def)
  moreover have "drop (offset + 4) data = s @ rest"
    unfolding skip by (simp add: borsh_string_def)
  ultimately show "borsh_parse_string data offset = Some (s, offset + 4 + length s)"
    by (simp add: borsh_parse_string_def)
  show "drop (offset + 4 + length s) data = rest"
    unfolding add.assoc skip by (simp add: borsh_string_def)
qed

text \<open>
  C14. Round trip of the create instruction.  From the bytes a Borsh writer emits for either of the
  two discriminators, any name, symbol and link below 4 GiB and any 32-byte creator, with whatever
  behind them, the parser returns that creator; cut short inside the creator, it returns nothing.
\<close>

theorem parse_creator_roundtrip:
  assumes "disc = CREATE_DISCRIMINATOR \<or> disc = CREATE_V2_DISCRIMINATOR"
    and "length name < 2 ^ 32" "length symbol < 2 ^ 32" "length uri < 2 ^ 32" "length creator = 32"
  shows "parse_creator_from_instruction B (create_instruction disc name symbol uri creator rest)
      = Some (PyBytes (b58encode B creator)) \<and>
    (k < 32 \<longrightarrow> parse_creator_from_instruction B
        (create_instruction disc name symbol uri (take k creator) []) = None)"
proof -
  have layout: "parse_creator_from_instruction B (create_instruction disc name symbol uri c more')
      = (if length (c @ more') < 32 then None else Some (PyBytes (b58encode B (take 32 (c @ more')))))"
    for c more'
  proof -
    let ?data = "create_instruction disc name symbol uri c more'"
    have disc: "length disc = 8" "take 8 ?data = disc"
      using assms(1) by (auto simp: CREATE_DISCRIMINATOR_def CREATE_V2_DISCRIMINATOR_def create_instruction_def)
    then have d1: "drop 8 ?data = borsh_string name @ borsh_string symbol @ borsh_string uri @ c @ more'"
      by (simp add: create_instruction_def)
    note p1 = parse_packed [OF assms(2) d1]
    note p2 = parse_packed [OF assms(3) p1(2)]
    note p3 = parse_packed [OF assms(4) p2(2)]
    have "length ?data \<ge> 8" "is_create ?data"
      using disc assms(1) by (auto simp: is_create_def create_instruction_def)
    moreover have "length ?data < 8 + 4 + length name + 4 + length symbol + 4 + length uri + 32
        \<longleftrightarrow> length (c @ more') < 32"
      using disc(1) by (simp add: create_instruction_def borsh_string_def pack_u32_def)
    moreover have "parse_creator_from_instruction B ?data =
       (if length ?data < 8 then None else if \<not> is_create ?data then None
        else if length ?data < 8 + 4 + length name + 4 + length symbol + 4 + length uri + 32 then None
        else Some (PyBytes (b58encode B (take 32 (c @ more')))))"
      by (simp only: parse_creator_from_instruction_def p1(1) p2(1) p3 option.case prod.case)
    ultimately show ?thesis by simp
  qed
  show ?thesis using layout [of creator rest] layout [of "take k creator" "[]"] assms(5) by simp
qed

theorem parse_creator_roundtrip_witness:
  "parse_creator_from_instruction \<lparr>b58decode = Inr \<circ> map of_char, b58encode = rev\<rparr>
     (create_instruction CREATE_V2_DISCRIMINATOR [1, 2] [] [3] (replicate 31 7 @ [9]) [0])
    = Some (PyBytes (9 # replicate 31 7))"
  using parse_creator_roundtrip [of CREATE_V2_DISCRIMINATOR "[1, 2]" "[]" "[3]" "replicate 31 7 @ [9]"
      "\<lparr>b58decode = Inr \<circ> map of_char, b58encode = rev\<rparr>" "[0]"]
  by simp

end
