(* ===== verification/Deploy.thy ===== *)
theory Deploy
  imports Borsh Environment PyText Growing
begin

text \<open>
  \<open>scripts/deploy-executor.py\<close>: the deployment of the executor program.  The program is written
  into a buffer account in chunks, each its own transaction that is sent again up to three times,
  then deployed from the buffer.  Keys, signing and address derivation are those of the package
  solders, a parameter; the state beside the world is the file that records the program id.
\<close>

section \<open>The node\<close>

text \<open>Unlike \<open>SolanaRpc.call\<close>, a missing result raises.\<close>

definition deploy_rpc :: "'w env \<Rightarrow> string \<Rightarrow> json list \<Rightarrow> ('w, json) io" where
  "deploy_rpc E method params =
     bindIO (rpc_post E (JDict [(''jsonrpc'', JStr ''2.0''), (''id'', JInt 1), (''method'', JStr method),
         (''params'', JList params)])) (\<lambda>data.
     liftR (bindR (dict_get data ''error'' JNull) (\<lambda>err.
       if truthy err then raise (RuntimeError (''RPC error: '' @ py_str (rep E) err))
       else dict_item data ''result'')))"

definition confirmed_commitment :: json where
  "confirmed_commitment = JDict [(''commitment'', JStr ''confirmed'')]"

definition get_blockhash :: "'w env \<Rightarrow> ('w, json) io" where
  "get_blockhash E =
     bindIO (deploy_rpc E ''getLatestBlockhash'' [confirmed_commitment]) (\<lambda>result.
     liftR (bindR (dict_item result ''value'') (\<lambda>value.
       bindR (dict_item value ''blockhash'') (\<lambda>bh.
       bindR (dict_item value ''lastValidBlockHeight'') (\<lambda>_. ret bh)))))"

text \<open>One status of \<open>getSignatureStatuses\<close>: confirmed, not yet, or failed on chain.\<close>

definition tx_confirmed :: "(json \<Rightarrow> string) \<Rightarrow> json \<Rightarrow> bool res" where
  "tx_confirmed rp status =
     bindR (bindR (dict_get status ''value'' (JList [JNull])) (\<lambda>v. py_index v 0)) (\<lambda>val.
     if \<not> truthy val then ret False
     else
       bindR (dict_get val ''confirmationStatus'' JNull) (\<lambda>c.
       if c \<noteq> JStr ''confirmed'' \<and> c \<noteq> JStr ''finalized'' then ret False
       else
         bindR (dict_get val ''err'' JNull) (\<lambda>err.
         if truthy err then raise (RuntimeError (''tx failed: '' @ py_str rp err)) else ret True)))"

fun confirm_tx :: "nat \<Rightarrow> 'w env \<Rightarrow> string \<Rightarrow> ('w, bool) io" where
  "confirm_tx 0 E sig = retIO False"
| "confirm_tx (Suc n) E sig =
     bindIO (deploy_rpc E ''getSignatureStatuses'' [JList [JStr sig]]) (\<lambda>status.
     bindIO (liftR (tx_confirmed (rep E) status)) (\<lambda>ok.
     if ok then retIO True
     else bindIO (sleep E (Fin 1)) (\<lambda>_. confirm_tx n E sig)))"

section \<open>Instructions\<close>

definition BPF_LOADER :: string where
  "BPF_LOADER = ''BPFLoaderUpgradeab1e11111111111111111111111''"

definition SYSTEM_PROGRAM :: string where
  "SYSTEM_PROGRAM = ''11111111111111111111111111111111''"

text \<open>An account of an instruction: its key, whether it signs, whether it is writable.\<close>

datatype deploy_ix =
    Create_account string string int nat string
  | Instruction string "(string \<times> bool \<times> bool) list" bytes

record deployer =
  dp_program_id :: string
  dp_buffer :: string
  dp_sign :: "deploy_ix list \<Rightarrow> bool \<Rightarrow> json \<Rightarrow> (string \<times> string) res"
  dp_program_data :: string

text \<open>
  \<open>struct.pack("<I", n)\<close> and \<open>struct.pack("<Q", n)\<close>; what does not fit raises
  \<open>struct.error\<close>, here a \<open>ValueError\<close>, which nothing on the way catches either.
\<close>

definition struct_u32 :: "nat \<Rightarrow> bytes res" where
  "struct_u32 n = (if n < 2 ^ 32 then ret (pack_u32 n) else raise (ValueError ''argument out of range''))"

definition struct_u64 :: "nat \<Rightarrow> bytes res" where
  "struct_u64 n = (if n < 2 ^ 64 then ret (pack_u32 n @ pack_u32 (n div 2 ^ 32))
     else raise (ValueError ''argument out of range''))"

definition CHUNK_SIZE :: nat where
  "CHUNK_SIZE = 512"

text \<open>\<open>[elf[i:i+CHUNK_SIZE] for i in range(0, elf_size, CHUNK_SIZE)]\<close>\<close>

definition chunks :: "bytes \<Rightarrow> bytes list" where
  "chunks elf = map (\<lambda>k. take CHUNK_SIZE (drop (k * CHUNK_SIZE) elf))
     [0..<(length elf + CHUNK_SIZE - 1) div CHUNK_SIZE]"

definition write_data :: "nat \<Rightarrow> bytes \<Rightarrow> bytes res" where
  "write_data offset chunk =
     bindR (struct_u32 offset) (\<lambda>o32.
     bindR (struct_u32 (length chunk)) (\<lambda>l32.
     ret ([1] @ o32 @ l32 @ chunk)))"

definition buffer_accounts :: "deployer \<Rightarrow> (string \<times> bool \<times> bool) list" where
  "buffer_accounts d = [(dp_buffer d, False, True), (dp_program_id d, True, False)]"

definition init_ix :: "deployer \<Rightarrow> deploy_ix" where
  "init_ix d = Instruction BPF_LOADER (buffer_accounts d) (pack_u32 0)"

definition write_ixs :: "deployer \<Rightarrow> bytes \<Rightarrow> deploy_ix list res" where
  "write_ixs d elf = mapR (\<lambda>(i, chunk).
     bindR (write_data (i * CHUNK_SIZE) chunk) (\<lambda>data.
     ret (Instruction BPF_LOADER (buffer_accounts d) data))) (enumerate 0 (chunks elf))"

definition deploy_ix_of :: "deployer \<Rightarrow> bytes \<Rightarrow> deploy_ix res" where
  "deploy_ix_of d elf =
     bindR (struct_u64 (length elf)) (\<lambda>n.
     ret (Instruction BPF_LOADER
       [(dp_program_data d, False, True), (dp_buffer d, False, True), (dp_program_id d, False, True),
        (dp_program_id d, True, False), (SYSTEM_PROGRAM, False, False), (dp_program_id d, True, False)]
       ([2] @ n)))"

section \<open>Sending\<close>

text \<open>
  \<open>send_and_confirm\<close>: the first argument is how many attempts are left; the block hash and the
  signature are made outside the handler, the rest inside.  \<open>None\<close> is Python's implicit result
  behind the loop.
\<close>

definition send_once :: "'w env \<Rightarrow> string \<Rightarrow> string \<Rightarrow> ('w, bool) io" where
  "send_once E tx sig =
     bindIO (deploy_rpc E ''sendTransaction'' [JStr tx, JDict [(''encoding'', JStr ''base64''),
         (''maxRetries'', JInt 3), (''skipPreflight'', JBool True)]]) (\<lambda>_.
     confirm_tx 120 E sig)"

fun send_and_confirm ::
  "nat \<Rightarrow> 'w env \<Rightarrow> deployer \<Rightarrow> deploy_ix list \<Rightarrow> bool \<Rightarrow> ('w, string option) io" where
  "send_and_confirm 0 E d ixs buffer_signs = retIO None"
| "send_and_confirm (Suc n) E d ixs buffer_signs =
     bindIO (get_blockhash E) (\<lambda>bh.
     bindIO (liftR (dp_sign d ixs buffer_signs bh)) (\<lambda>(tx, sig).
     bindIO (catchIO
        (bindIO (send_once E tx sig) (\<lambda>ok.
         if ok then retIO True
         else if n \<noteq> 0 then retIO False
         else raiseIO (RuntimeError (''tx not confirmed: '' @ sig))))
        (\<lambda>e. if n \<noteq> 0 then bindIO (sleep E (Fin 1)) (\<lambda>_. retIO False) else raiseIO e)) (\<lambda>sent.
     if sent then retIO (Some sig) else send_and_confirm n E d ixs buffer_signs)))"

section \<open>The deployment\<close>

text \<open>The lamports of the new account; the package takes a 64-bit unsigned integer.\<close>

fun lamports_arg :: "json \<Rightarrow> int res" where
  "lamports_arg (JInt n) = (if 0 \<le> n \<and> n < 2 ^ 64 then ret n else raise (OverflowError ''int too big to convert''))"
| "lamports_arg (JBool b) = ret (if b then 1 else 0)"
| "lamports_arg _ = raise (TypeError ''argument must be int'')"

type_synonym ('w, 'a) deploy = "('w \<times> string option, 'a) io"

definition send :: "'w env \<Rightarrow> deployer \<Rightarrow> deploy_ix list \<Rightarrow> bool \<Rightarrow> ('w, unit) deploy" where
  "send E d ixs buffer_signs =
     bindIO (in_world (send_and_confirm 3 E d ixs buffer_signs)) (\<lambda>_. retIO ())"

text \<open>\<open>acct and acct.get("executable")\<close>\<close>

definition account_executable :: "json \<Rightarrow> bool res" where
  "account_executable result =
     bindR (dict_get result ''value'' JNull) (\<lambda>acct.
     if \<not> truthy acct then ret False
     else bindR (dict_get acct ''executable'' JNull) (\<lambda>x. ret (truthy x)))"

definition program_deployed :: "'w env \<Rightarrow> deployer \<Rightarrow> ('w, bool) deploy" where
  "program_deployed E d =
     bindIO (in_world (deploy_rpc E ''getAccountInfo'' [JStr (dp_program_id d), confirmed_commitment]))
       (\<lambda>result. liftR (account_executable result))"

definition record_program :: "deployer \<Rightarrow> ('w, unit) deploy" where
  "record_program d = update (\<lambda>_. Some (dp_program_id d))"

definition write_program :: "'w env \<Rightarrow> deployer \<Rightarrow> bytes \<Rightarrow> ('w, unit) deploy" where
  "write_program E d elf =
     bindIO (in_world (deploy_rpc E ''getMinimumBalanceForRentExemption'' [JInt (int (length elf + 8))])) (\<lambda>min_rent.
     bindIO (liftR (lamports_arg min_rent)) (\<lambda>lamports.
     bindIO (send E d [Create_account (dp_program_id d) (dp_buffer d) lamports (length elf + 8) BPF_LOADER] True) (\<lambda>_.
     bindIO (send E d [init_ix d] False) (\<lambda>_.
     bindIO (liftR (write_ixs d elf)) (\<lambda>ixs.
     for_each (\<lambda>ix. send E d [ix] False) ixs)))))"

definition deploy_main :: "'w env \<Rightarrow> deployer \<Rightarrow> bytes \<Rightarrow> ('w, unit) deploy" where
  "deploy_main E d elf =
     bindIO (in_world (deploy_rpc E ''getBalance'' [JStr (dp_program_id d), confirmed_commitment])) (\<lambda>result.
     bindIO (liftR (bindR (dict_item result ''value'') num)) (\<lambda>bal.
     bindIO (program_deployed E d) (\<lambda>already.
     if already then record_program d
     else if bal < Fin 250000000 then retIO ()
     else
       bindIO (write_program E d elf) (\<lambda>_.
       bindIO (liftR (deploy_ix_of d elf)) (\<lambda>ix.
       bindIO (send E d [ix] False) (\<lambda>_.
       bindIO (program_deployed E d) (\<lambda>ok.
       if ok then record_program d else retIO ())))))))"

section \<open>The chunks\<close>

text \<open>The program bytes in a write instruction, behind the tag, the offset and the length.\<close>

fun write_payload :: "deploy_ix \<Rightarrow> bytes" where
  "write_payload (Instruction program accounts data) = drop 9 data"
| "write_payload (Create_account payer account lamports space owner) = []"

definition chunk_at :: "bytes \<Rightarrow> nat \<Rightarrow> bytes" where
  "chunk_at elf k = take CHUNK_SIZE (drop (k * CHUNK_SIZE) elf)"

definition chunk_write :: "deployer \<Rightarrow> bytes \<Rightarrow> nat \<Rightarrow> deploy_ix" where
  "chunk_write d elf k = Instruction BPF_LOADER (buffer_accounts d)
     ([1] @ pack_u32 (k * CHUNK_SIZE) @ pack_u32 (length (chunk_at elf k)) @ chunk_at elf k)"

lemma write_ixs_chunks:
  assumes "length elf < 2 ^ 32"
  shows "write_ixs d elf = Inr (map (chunk_write d elf) [0..<(length elf + CHUNK_SIZE - 1) div CHUNK_SIZE])"
proof -
  let ?n = "(length elf + CHUNK_SIZE - 1) div CHUNK_SIZE"
  have "enumerate 0 (chunks elf) = map (\<lambda>k. (k, chunk_at elf k)) [0..<?n]"
    by (simp add: chunks_def chunk_at_def enumerate_map_upt)
  moreover have "bindR (write_data (k * CHUNK_SIZE) (chunk_at elf k)) (\<lambda>data. ret (Instruction BPF_LOADER (buffer_accounts d) data))
      = Inr (chunk_write d elf k)" if "k < ?n" for k
  proof -
    have "k * CHUNK_SIZE < length elf" using that by (simp add: CHUNK_SIZE_def)
    then have "k * CHUNK_SIZE < 2 ^ 32" "length (chunk_at elf k) < 2 ^ 32"
      using assms by (simp_all add: chunk_at_def CHUNK_SIZE_def)
    then show ?thesis by (simp add: write_data_def struct_u32_def chunk_write_def)
  qed
  ultimately show ?thesis
    unfolding write_ixs_def by (subst mapR_all [where g = "\<lambda>(k, c). chunk_write d elf k"]) auto
qed

lemma length_chunk_at: "length (chunk_at elf k) = min CHUNK_SIZE (length elf - k * CHUNK_SIZE)"
  by (simp add: chunk_at_def)

lemma concat_chunks: "concat (map (chunk_at elf) [0..<m]) = take (m * CHUNK_SIZE) elf"
proof (induction m)
  case (Suc m)
  have "take (Suc m * CHUNK_SIZE) elf = take (m * CHUNK_SIZE) elf @ chunk_at elf m"
    unfolding chunk_at_def take_add [symmetric] by (simp add: add.commute)
  then show ?case by (simp add: Suc.IH)
qed simp

text \<open>A one-byte tag before an offset, read with the four bytes of the tag of \<open>init_ix\<close>.\<close>

lemma unpack_shifted:
  "unpack_u32 ([1] @ pack_u32 n @ rest) 0 = Some (1 + 256 * (n mod 2 ^ 24))"
proof -
  have "n mod (256 * 256 * 256) = 256 * 256 * (n div (256 * 256) mod 256) + n mod (256 * 256)"
    "n mod (256 * 256) = 256 * (n div 256 mod 256) + n mod 256"
    by (rule mod_mult2_eq)+
  then show ?thesis by (simp add: unpack_u32_def pack_u32_def unat_byte)
qed

text \<open>
  C16. The write instructions carry the program.  For a program below 4 GiB they are built, one for
  each 512 bytes begun; their payloads in order are the program; and instruction number \<open>k\<close> has the
  tag 1, the offset of its payload in the program and the length of its payload, which is 512 bytes
  except for the last.  The tag is a single byte: read with the four bytes that the initialisation
  before it gives its own tag, it is 1 only where the offset is a multiple of 16 MiB, and the low
  bytes of the offset are part of it everywhere else.
\<close>

theorem write_ixs_carry_program:
  assumes "length elf < 2 ^ 32"
  shows "\<exists>ixs. write_ixs d elf = Inr ixs \<and> length ixs = (length elf + 511) div 512 \<and>
    concat (map write_payload ixs) = elf \<and>
    (\<forall>k<length ixs. \<exists>data. ixs ! k = Instruction BPF_LOADER (buffer_accounts d) data \<and>
       data ! 0 = 1 \<and> unpack_u32 data 1 = Some (k * 512) \<and>
       unpack_u32 data 5 = Some (length (write_payload (ixs ! k))) \<and>
       length (write_payload (ixs ! k)) \<le> 512 \<and>
       (Suc k < length ixs \<longrightarrow> length (write_payload (ixs ! k)) = 512) \<and>
       unpack_u32 data 0 = Some (1 + 256 * (k * 512 mod 2 ^ 24)))"
proof -
  let ?n = "(length elf + CHUNK_SIZE - 1) div CHUNK_SIZE"
  let ?ixs = "map (chunk_write d elf) [0..<?n]"
  have payload: "write_payload (chunk_write d elf k) = chunk_at elf k" for k
    by (simp add: chunk_write_def pack_u32_def)
  have "length elf \<le> ?n * CHUNK_SIZE" by (simp add: CHUNK_SIZE_def)
  then have "concat (map write_payload ?ixs) = elf"
    by (simp add: comp_def payload concat_chunks)
  moreover have "\<exists>data. ?ixs ! k = Instruction BPF_LOADER (buffer_accounts d) data \<and>
      data ! 0 = 1 \<and> unpack_u32 data 1 = Some (k * 512) \<and>
      unpack_u32 data 5 = Some (length (write_payload (?ixs ! k))) \<and>
      length (write_payload (?ixs ! k)) \<le> 512 \<and>
      (Suc k < length ?ixs \<longrightarrow> length (write_payload (?ixs ! k)) = 512) \<and>
      unpack_u32 data 0 = Some (1 + 256 * (k * 512 mod 2 ^ 24))" if k: "k < length ?ixs" for k
  proof -
    let ?c = "chunk_at elf k"
    let ?data = "[1] @ pack_u32 (k * CHUNK_SIZE) @ pack_u32 (length ?c) @ ?c"
    have ix: "?ixs ! k = chunk_write d elf k" using k by simp
    have "k * 512 < length elf" using k by (simp add: CHUNK_SIZE_def)
    then have small: "k * CHUNK_SIZE < 2 ^ 32" "length ?c < 2 ^ 32"
      using assms by (simp_all add: CHUNK_SIZE_def length_chunk_at)
    have "unpack_u32 ?data 1 = Some (k * CHUNK_SIZE)" "unpack_u32 ?data 5 = Some (length ?c)"
      using small by (auto intro: unpack_packed simp: pack_u32_def)
    moreover have "Suc k < length ?ixs \<Longrightarrow> length ?c = 512"
      by (simp add: length_chunk_at CHUNK_SIZE_def)
    ultimately show ?thesis
      unfolding ix payload using unpack_shifted [of "k * CHUNK_SIZE"]
      by (intro exI [of _ ?data]) (simp add: chunk_write_def CHUNK_SIZE_def length_chunk_at)
  qed
  ultimately show ?thesis
    using write_ixs_chunks [OF assms] by (intro exI [of _ ?ixs]) (simp add: CHUNK_SIZE_def)
qed

theorem write_ixs_carry_program_witness:
  "\<exists>ixs. write_ixs \<lparr>dp_program_id = ''P'', dp_buffer = ''B'', dp_sign = (\<lambda>_ _ _. Inr (''t'', ''s'')),
      dp_program_data = ''D''\<rparr> (replicate 600 7) = Inr ixs \<and>
    length ixs = 2 \<and> concat (map write_payload ixs) = replicate 600 7"
  using write_ixs_carry_program [of "replicate 600 7"
      "\<lparr>dp_program_id = ''P'', dp_buffer = ''B'', dp_sign = (\<lambda>_ _ _. Inr (''t'', ''s'')), dp_program_data = ''D''\<rparr>"]
  by auto

section \<open>Sending and recording\<close>

definition status_says :: "'w env \<Rightarrow> string \<Rightarrow> bool" where
  "status_says E sig \<longleftrightarrow> (\<exists>w w' status. deploy_rpc E ''getSignatureStatuses'' [JList [JStr sig]] w = (Inr status, w')
     \<and> tx_confirmed (rep E) status = Inr True)"

lemma confirm_tx_True: "confirm_tx n E sig w = (Inr True, w') \<Longrightarrow> status_says E sig"
proof (induction n arbitrary: w)
  case (Suc n)
  then show ?case
    by (fastforce simp: status_says_def split: if_splits sum.splits)
qed simp

lemma send_once_True: "send_once E tx sig w = (Inr True, w') \<Longrightarrow> status_says E sig"
  unfolding send_once_def by (auto dest: confirm_tx_True)

text \<open>
  C36. Sending ends with a confirmed transaction or an exception.  With at least one attempt,
  whatever the node answers, a transaction that is sent never ends without a signature: when
  it returns, the node has reported the returned signature as confirmed and without an error.
\<close>

theorem send_and_confirm_confirmed:
  assumes "send_and_confirm (Suc n) E d ixs b w = (Inr x, w')"
  shows "\<exists>sig. x = Some sig \<and> status_says E sig"
  using assms
proof (induction n arbitrary: w)
  case 0
  then show ?case
    by (auto simp: catchIO_def split: sum.splits prod.splits if_splits dest!: send_once_True)
next
  case (Suc n)
  from Suc.prems obtain tx sig sent w1 w2 where run:
    "catchIO (bindIO (send_once E tx sig) (\<lambda>ok. if ok then retIO True else if Suc n \<noteq> 0 then retIO False
         else raiseIO (RuntimeError (''tx not confirmed: '' @ sig))))
       (\<lambda>e. bindIO (sleep E (Fin 1)) (\<lambda>_. retIO False)) w1 = (Inr sent, w2)"
    "(if sent then retIO (Some sig) else send_and_confirm (Suc n) E d ixs b) w2 = (Inr x, w')"
    by (auto simp del: send_and_confirm.simps simp: send_and_confirm.simps(2) [of "Suc n"] split: sum.splits)
  show ?case
  proof (cases sent)
    case True
    with run(1) have "\<exists>w3. send_once E tx sig w1 = (Inr True, w3)"
      by (auto simp: catchIO_def split: sum.splits prod.splits if_splits)
    with True run(2) show ?thesis by (auto dest: send_once_True)
  next
    case False
    with run(2) Suc.IH show ?thesis by simp
  qed
qed

text \<open>A node on which every transaction is confirmed at once and the program runs.\<close>

definition demo_deployer :: deployer where
  "demo_deployer = \<lparr> dp_program_id = ''P'', dp_buffer = ''B'', dp_sign = (\<lambda>_ _ _. Inr (''t'', ''s'')),
     dp_program_data = ''D'' \<rparr>"

definition demo_result :: "json \<Rightarrow> json" where
  "demo_result q =
     (if dict_item q ''method'' = Inr (JStr ''getSignatureStatuses'')
      then JDict [(''value'', JList [JDict [(''confirmationStatus'', JStr ''finalized'')]])]
      else if dict_item q ''method'' = Inr (JStr ''getBalance'') then JDict [(''value'', JInt 5)]
      else JDict [(''value'', JDict [(''blockhash'', JStr ''h''), (''lastValidBlockHeight'', JInt 1),
        (''executable'', JBool True)])])"

definition demo_deploy_env :: "nat env" where
  "demo_deploy_env = dead_env\<lparr>rpc_post := (\<lambda>q. retIO (JDict [(''result'', demo_result q)]))\<rparr>"

lemma demo_deploy_rpc: "deploy_rpc demo_deploy_env m ps = retIO (demo_result (JDict [(''jsonrpc'', JStr ''2.0''),
    (''id'', JInt 1), (''method'', JStr m), (''params'', JList ps)]))"
  by (simp add: deploy_rpc_def demo_deploy_env_def retIO_def fun_eq_iff bindIO_def)

theorem send_and_confirm_confirmed_witness:
  "send_and_confirm 3 demo_deploy_env demo_deployer [] False 0 = (Inr (Some ''s''), 0) \<and>
   status_says demo_deploy_env ''s''"
proof -
  have run: "send_and_confirm (Suc 2) demo_deploy_env demo_deployer [] False 0 = (Inr (Some ''s''), 0)"
    by (simp add: get_blockhash_def demo_deploy_rpc demo_result_def demo_deployer_def send_once_def catchIO_def
        bindIO_def tx_confirmed_def numeral_eq_Suc)
  from send_and_confirm_confirmed [OF run] run show ?thesis by (simp add: numeral_3_eq_3 numeral_2_eq_2)
qed

text \<open>Everything but the last line of the deployment leaves the file alone.\<close>

definition keeps_record :: "('w, 'a) deploy \<Rightarrow> bool" where
  "keeps_record m \<longleftrightarrow> (\<forall>\<sigma>. snd (snd (m \<sigma>)) = snd \<sigma>)"

lemma keeps_record_basic:
  "keeps_record (retIO x)" "keeps_record (raiseIO e)" "keeps_record (liftR r)" "keeps_record (in_world n)"
  by (auto simp: keeps_record_def in_world_def split: prod.splits)

lemma keeps_record_bind:
  assumes "keeps_record m" "\<And>x. keeps_record (f x)"
  shows "keeps_record (bindIO m f)"
  unfolding keeps_record_def
proof
  fix \<sigma>
  obtain r \<sigma>'' where run: "bindIO m f \<sigma> = (r, \<sigma>'')" by (metis surj_pair)
  have m: "snd (snd (m \<sigma>)) = snd \<sigma>" for \<sigma> using assms(1) unfolding keeps_record_def by blast
  have f: "snd (snd (f x \<sigma>)) = snd \<sigma>" for x \<sigma> using assms(2) unfolding keeps_record_def by blast
  from run show "snd (snd (bindIO m f \<sigma>)) = snd \<sigma>"
  proof (cases rule: bindIO_run)
    case (raised e)
    with m [of \<sigma>] run show ?thesis by simp
  next
    case (returned x \<sigma>')
    with m [of \<sigma>] f [of x \<sigma>'] run show ?thesis by simp
  qed
qed

lemmas keeps_record_intros = keeps_record_basic keeps_record_bind

lemma keeps_record_run: "keeps_record m \<Longrightarrow> m (w, f) = (r, (w', f')) \<Longrightarrow> f' = f"
  unfolding keeps_record_def by (metis snd_conv)

lemma keeps_record_send: "keeps_record (send E d ixs b)"
  unfolding send_def by (intro keeps_record_intros)

lemma keeps_record_for_each: "(\<And>x. keeps_record (f x)) \<Longrightarrow> keeps_record (for_each f xs)"
  by (induction xs) (auto intro!: keeps_record_intros)

lemma keeps_record_write: "keeps_record (write_program E d elf)"
  unfolding write_program_def by (intro keeps_record_intros keeps_record_send keeps_record_for_each)

lemma keeps_record_deployed: "keeps_record (program_deployed E d)"
  unfolding program_deployed_def by (intro keeps_record_intros)

definition node_says_executable :: "'w env \<Rightarrow> deployer \<Rightarrow> bool" where
  "node_says_executable E d \<longleftrightarrow> (\<exists>w w' v. deploy_rpc E ''getAccountInfo''
     [JStr (dp_program_id d), confirmed_commitment] w = (Inr v, w') \<and> account_executable v = Inr True)"

lemma program_deployed_True: "program_deployed E d \<sigma> = (Inr True, \<sigma>') \<Longrightarrow> node_says_executable E d"
  unfolding program_deployed_def node_says_executable_def
  by (cases \<sigma>) (auto simp: in_world_def split: prod.splits, metis)

definition records_only :: "'w env \<Rightarrow> deployer \<Rightarrow> ('w, unit) deploy \<Rightarrow> bool" where
  "records_only E d m \<longleftrightarrow> (\<forall>w f r w' f'. m (w, f) = (r, (w', f')) \<longrightarrow>
     f' = f \<or> (f' = Some (dp_program_id d) \<and> r = Inr () \<and> node_says_executable E d))"

lemma records_only_keeps: "keeps_record m \<Longrightarrow> records_only E d m"
  by (auto simp: records_only_def dest: keeps_record_run)

lemma records_only_bind:
  assumes "keeps_record m" "\<And>x \<sigma> \<sigma>'. m \<sigma> = (Inr x, \<sigma>') \<Longrightarrow> records_only E d (g x)"
  shows "records_only E d (bindIO m g)"
  unfolding records_only_def
proof (intro allI impI)
  fix w f r w' f'
  assume "bindIO m g (w, f) = (r, (w', f'))"
  then show "f' = f \<or> (f' = Some (dp_program_id d) \<and> r = Inr () \<and> node_says_executable E d)"
  proof (cases rule: bindIO_run)
    case (raised e)
    then show ?thesis using keeps_record_run [OF assms(1) raised(1)] by simp
  next
    case (returned x \<sigma>)
    obtain w1 f1 where \<sigma>: "\<sigma> = (w1, f1)" by (cases \<sigma>)
    have f1: "f1 = f" using keeps_record_run [OF assms(1) returned(1) [unfolded \<sigma>]] .
    have "records_only E d (g x)" using assms(2) returned(1) .
    from this [unfolded records_only_def, rule_format, OF returned(2) [unfolded \<sigma> f1]] show ?thesis .
  qed
qed

lemma records_only_if:
  "(b \<Longrightarrow> records_only E d m) \<Longrightarrow> (\<not> b \<Longrightarrow> records_only E d n) \<Longrightarrow> records_only E d (if b then m else n)"
  by simp

lemma records_only_record: "node_says_executable E d \<Longrightarrow> records_only E d (record_program d)"
  by (simp add: records_only_def record_program_def update_def)

text \<open>
  C37. The program id is only recorded for a program the node runs.  Whatever happens during a
  deployment, the file either stays as it was, or it holds the program id, the deployment returned,
  and the node has reported the account as executable.
\<close>

theorem deploy_main_records:
  assumes "deploy_main E d elf (w, f) = (r, (w', f'))" "f' \<noteq> f"
  shows "f' = Some (dp_program_id d) \<and> r = Inr () \<and> node_says_executable E d"
proof -
  have "records_only E d (deploy_main E d elf)"
    unfolding deploy_main_def
  proof (rule records_only_bind)
    fix result \<sigma> \<sigma>'
    show "keeps_record (in_world (deploy_rpc E ''getBalance'' [JStr (dp_program_id d), confirmed_commitment]))"
      by (rule keeps_record_basic)
  next
    fix result
    have last: "records_only E d (bindIO (program_deployed E d)
        (\<lambda>ok. if ok then record_program d else retIO ()))"
    proof (rule records_only_bind [OF keeps_record_deployed])
      fix ok \<sigma> \<sigma>'
      assume "program_deployed E d \<sigma> = (Inr ok, \<sigma>')"
      then have "ok \<Longrightarrow> node_says_executable E d" using program_deployed_True by simp
      then show "records_only E d (if ok then record_program d else retIO ())"
        by (intro records_only_if records_only_record records_only_keeps keeps_record_basic)
    qed
    have wrote: "records_only E d (bindIO (write_program E d elf) (\<lambda>_.
        bindIO (liftR (deploy_ix_of d elf)) (\<lambda>ix. bindIO (send E d [ix] False) (\<lambda>_.
        bindIO (program_deployed E d) (\<lambda>ok. if ok then record_program d else retIO ())))))"
      by (rule records_only_bind keeps_record_write keeps_record_basic keeps_record_send last)+
    show "records_only E d (bindIO (liftR (bindR (dict_item result ''value'') num)) (\<lambda>bal.
        bindIO (program_deployed E d) (\<lambda>already.
        if already then record_program d else if bal < Fin 250000000 then retIO ()
        else bindIO (write_program E d elf) (\<lambda>_.
          bindIO (liftR (deploy_ix_of d elf)) (\<lambda>ix. bindIO (send E d [ix] False) (\<lambda>_.
          bindIO (program_deployed E d) (\<lambda>ok. if ok then record_program d else retIO ())))))))"
    proof (rule records_only_bind [OF keeps_record_basic(3)], rule records_only_bind [OF keeps_record_deployed])
      fix bal already \<sigma> \<sigma>'
      assume "program_deployed E d \<sigma> = (Inr already, \<sigma>')"
      then have "already \<Longrightarrow> node_says_executable E d" using program_deployed_True by simp
      then show "records_only E d (if already then record_program d
        else if bal < Fin 250000000 then retIO ()
        else bindIO (write_program E d elf) (\<lambda>_.
          bindIO (liftR (deploy_ix_of d elf)) (\<lambda>ix. bindIO (send E d [ix] False) (\<lambda>_.
          bindIO (program_deployed E d) (\<lambda>ok. if ok then record_program d else retIO ())))))"
        by (intro records_only_if records_only_record wrote records_only_keeps keeps_record_basic)
    qed
  qed
  then show ?thesis
    using assms unfolding records_only_def by blast
qed

theorem deploy_main_records_witness:
  "deploy_main demo_deploy_env demo_deployer [1, 2, 3] (0, None) = (Inr (), (0, Some ''P'')) \<and>
   node_says_executable demo_deploy_env demo_deployer"
proof -
  have run: "deploy_main demo_deploy_env demo_deployer [1, 2, 3] (0, None) = (Inr (), (0, Some ''P''))"
    by (simp add: deploy_main_def program_deployed_def demo_deploy_rpc demo_result_def bindIO_def in_world_def
        account_executable_def record_program_def update_def demo_deployer_def num.simps float_of_int_def)
  from deploy_main_records [OF run] run show ?thesis by simp
qed

end
