(* ===== verification/Extensions.thy ===== *)
theory Extensions
  imports Borsh Providers
begin

text \<open>
  \<open>scripts/check-t22-extensions.py\<close>: which Token-2022 extensions a mint account carries.  The
  bytes behind the base account are first searched for known extensions at every offset; only when
  none is found are they walked entry by entry.
\<close>

section \<open>The account's bytes\<close>

text \<open>\<open>struct.unpack_from("<H", raw, offset)[0]\<close>, at offsets the loops keep inside the data.\<close>

definition u16_at :: "bytes \<Rightarrow> nat \<Rightarrow> nat" where
  "u16_at raw_data offset = unat (raw_data ! offset) + 256 * unat (raw_data ! (offset + 1))"

definition KNOWN :: "(nat \<times> string) list" where
  "KNOWN = [(0, ''TransferFeeConfig''), (2, ''NonTransferable''), (3, ''DefaultAccountState''),
     (4, ''ImmutableOwner''), (5, ''Memo''), (6, ''PermanentDelegate''), (7, ''ConfidentialTransferMint''),
     (8, ''InterestBearingConfig''), (9, ''CpiGuard''), (11, ''TransferHook''),
     (12, ''TransferHookResult''), (13, ''TokenMetadata''), (16, ''MetadataPointer'')]"

definition DANGEROUS :: "nat list" where
  "DANGEROUS = [0, 2, 3, 6, 7, 9, 11]"

text \<open>The search at every offset from 82 on.\<close>

definition known_entry_at :: "bytes \<Rightarrow> nat \<Rightarrow> bool" where
  "known_entry_at raw_data offset \<longleftrightarrow>
     u16_at raw_data offset \<in> fst ` set KNOWN \<and> 0 < u16_at raw_data (offset + 2) \<and>
     offset + 4 + u16_at raw_data (offset + 2) \<le> length raw_data"

definition scan_offsets :: "bytes \<Rightarrow> nat set" where
  "scan_offsets raw_data =
     u16_at raw_data ` set (filter (known_entry_at raw_data) [82..<length raw_data - 4])"

text \<open>The walk over the entries; two zeros are skipped, an entry beyond the data ends it.\<close>

function walk_entries :: "bytes \<Rightarrow> nat \<Rightarrow> nat set" where
  "walk_entries raw_data offset =
     (if length raw_data < offset + 4 then {}
      else
        let t = u16_at raw_data offset; n = u16_at raw_data (offset + 2) in
        if t = 0 \<and> n = 0 then walk_entries raw_data (offset + 4)
        else if length raw_data < offset + 4 + n then {}
        else insert t (walk_entries raw_data (offset + 4 + n)))"
  by auto
termination by (relation "measure (\<lambda>(raw_data, offset). length raw_data - offset)") auto

declare walk_entries.simps [simp del]

definition found_extensions :: "bytes \<Rightarrow> nat set" where
  "found_extensions raw_data =
     (let found = scan_offsets raw_data in if found = {} then walk_entries raw_data 82 else found)"

definition dangerous_extensions :: "bytes \<Rightarrow> nat set" where
  "dangerous_extensions raw_data = found_extensions raw_data \<inter> set DANGEROUS"

text \<open>The names printed of the dangerous ones; the order of Python's set is not modelled.\<close>

definition dangerous_names :: "bytes \<Rightarrow> string list" where
  "dangerous_names raw_data =
     map snd (filter (\<lambda>(t, _). t \<in> dangerous_extensions raw_data) KNOWN)"

section \<open>The script\<close>

definition account_bytes :: "json \<Rightarrow> bytes res" where
  "account_bytes info =
     bindR (dict_item info ''data'') (\<lambda>v.
     bindR (case v of JList _ \<Rightarrow> py_index v 0 | _ \<Rightarrow> ret v) (\<lambda>text. case text of
       JStr s \<Rightarrow> b64decode s
     | _ \<Rightarrow> raise (TypeError ''argument should be a bytes-like object or ASCII string'')))"

definition check_mint :: "'w env \<Rightarrow> string \<Rightarrow> ('w, string list) io" where
  "check_mint E mint =
     bindIO (account_info E mint) (\<lambda>info. case info of
       None \<Rightarrow> raiseIO (TypeError '''NoneType' object is not subscriptable'')
     | Some v \<Rightarrow> bindIO (liftR (account_bytes v)) (\<lambda>raw_data. retIO (dangerous_names raw_data)))"

fun check_mints :: "'w env \<Rightarrow> string list \<Rightarrow> ('w, (string \<times> string list) list) io" where
  "check_mints E [] = retIO []"
| "check_mints E (m # ms) =
     bindIO (check_mint E m) (\<lambda>names.
     bindIO (check_mints E ms) (\<lambda>rest. retIO ((m, names) # rest)))"

section \<open>Properties\<close>

lemma dangerous_known: "t \<in> set DANGEROUS \<Longrightarrow> t \<in> fst ` set KNOWN"
  by (auto simp: DANGEROUS_def KNOWN_def)

definition entry_in :: "bytes \<Rightarrow> nat \<Rightarrow> nat \<Rightarrow> bool" where
  "entry_in raw_data t k \<longleftrightarrow> u16_at raw_data k = t \<and> k + 4 + u16_at raw_data (k + 2) \<le> length raw_data"

text \<open>An entry the walk passes over lies behind its start and inside the data.\<close>

lemma walk_entries_sound: "t \<in> walk_entries raw_data offset \<Longrightarrow> \<exists>k\<ge>offset. entry_in raw_data t k"
proof (induction raw_data offset rule: walk_entries.induct)
  case (1 raw_data offset)
  let ?t = "u16_at raw_data offset" and ?n = "u16_at raw_data (offset + 2)"
  have inside: "\<not> length raw_data < offset + 4"
    using 1(3) by (auto simp: walk_entries.simps [of _ offset])
  show ?case
  proof (cases "?t = 0 \<and> ?n = 0")
    case True
    then have "t \<in> walk_entries raw_data (offset + 4)"
      using 1(3) inside by (simp add: walk_entries.simps [of _ offset] Let_def)
    from 1(1) [OF inside refl refl True this] obtain k where "offset + 4 \<le> k" "entry_in raw_data t k" by blast
    then show ?thesis by (intro exI [of _ k]) simp
  next
    case False
    have n: "\<not> length raw_data < offset + 4 + ?n"
      using 1(3) False inside by (auto simp: walk_entries.simps [of _ offset] Let_def split: if_splits)
    with 1(3) False inside have "t = ?t \<or> t \<in> walk_entries raw_data (offset + 4 + ?n)"
      by (auto simp: walk_entries.simps [of _ offset] Let_def split: if_splits)
    then show ?thesis
    proof
      assume "t = ?t"
      with n show ?thesis by (intro exI [of _ offset]) (simp add: entry_in_def)
    next
      assume "t \<in> walk_entries raw_data (offset + 4 + ?n)"
      from 1(2) [OF inside refl refl False n this] obtain k where "offset + 4 + ?n \<le> k" "entry_in raw_data t k"
        by blast
      then show ?thesis by (intro exI [of _ k]) simp
    qed
  qed
qed

lemma found_extensions_sound:
  assumes "u \<in> found_extensions raw_data"
  shows "\<exists>j\<ge>82. entry_in raw_data u j"
proof (cases "scan_offsets raw_data = {}")
  case True
  with assms show ?thesis by (intro walk_entries_sound) (simp add: found_extensions_def Let_def)
next
  case False
  then have "found_extensions raw_data = scan_offsets raw_data" by (simp add: found_extensions_def Let_def)
  with assms obtain j where "82 \<le> j" "known_entry_at raw_data j" "u = u16_at raw_data j"
    unfolding scan_offsets_def by auto
  then show ?thesis by (intro exI [of _ j]) (simp add: entry_in_def known_entry_at_def)
qed

text \<open>Well-formed entries as bytes: the type, the length of the value, the value.\<close>

definition pack_u16 :: "nat \<Rightarrow> bytes" where
  "pack_u16 n = [word_of_nat n, word_of_nat (n div 256)]"

fun tlv :: "(nat \<times> bytes) list \<Rightarrow> bytes" where
  "tlv [] = []"
| "tlv ((t, v) # es) = pack_u16 t @ pack_u16 (length v) @ v @ tlv es"

definition tlv_ok :: "(nat \<times> bytes) list \<Rightarrow> bool" where
  "tlv_ok es \<longleftrightarrow> (\<forall>(t, v) \<in> set es. t < 2 ^ 16 \<and> length v < 2 ^ 16 \<and> (t, v) \<noteq> (0, []))"

lemma u16_packed:
  assumes "raw_data = pre @ pack_u16 n @ rest" "n < 2 ^ 16" "k = length pre"
  shows "u16_at raw_data k = n"
  using assms
  by (simp add: u16_at_def pack_u16_def nth_append unat_of_nat take_bit_eq_mod)

text \<open>The walk reads entries that were laid out one after the other, and skips zeros behind them.\<close>

lemma walk_zeros:
  "raw_data = pre @ replicate n 0 \<Longrightarrow> length pre = offset \<Longrightarrow> walk_entries raw_data offset = {}"
proof (induction n arbitrary: pre offset rule: less_induct)
  case (less n)
  show ?case
  proof (cases "4 \<le> n")
    case True
    have "u16_at raw_data offset = 0" "u16_at raw_data (offset + 2) = 0"
      using True less.prems by (simp_all add: u16_at_def nth_append)
    moreover have "replicate n 0 = replicate 4 0 @ replicate (n - 4) (0 :: 8 word)"
      using True by (simp add: replicate_add [symmetric])
    then have "walk_entries raw_data (offset + 4) = {}"
      using True less.prems by (intro less.IH [of "n - 4" "pre @ replicate 4 0"]) simp_all
    ultimately show ?thesis by (simp add: walk_entries.simps [of _ offset])
  next
    case False
    with less.prems show ?thesis by (simp add: walk_entries.simps [of _ offset])
  qed
qed

lemma walk_tlv:
  "raw_data = pre @ tlv es @ replicate n 0 \<Longrightarrow> length pre = offset \<Longrightarrow> tlv_ok es \<Longrightarrow>
   walk_entries raw_data offset = fst ` set es"
proof (induction es arbitrary: pre offset)
  case Nil
  then show ?case by (simp add: walk_zeros)
next
  case (Cons e es)
  obtain t v where e: "e = (t, v)" by (cases e)
  let ?pre = "pre @ pack_u16 t @ pack_u16 (length v) @ v"
  have ok: "t < 2 ^ 16" "length v < 2 ^ 16" "(t, v) \<noteq> (0, [])" "tlv_ok es"
    using Cons.prems(3) by (auto simp: tlv_ok_def e)
  have raw: "raw_data = pre @ pack_u16 t @ pack_u16 (length v) @ v @ tlv es @ replicate n 0"
    using Cons.prems(1) by (simp add: e)
  have at: "u16_at raw_data offset = t"
    using raw ok(1) Cons.prems(2) [symmetric] by (rule u16_packed)
  have len: "u16_at raw_data (offset + 2) = length v"
    by (rule u16_packed [where pre = "pre @ pack_u16 t" and rest = "v @ tlv es @ replicate n 0"])
      (use raw ok(2) Cons.prems(2) in \<open>simp_all add: pack_u16_def\<close>)
  have "walk_entries raw_data (offset + 4 + length v) = fst ` set es"
    by (rule Cons.IH [of ?pre]) (use raw ok(4) Cons.prems(2) in \<open>simp_all add: pack_u16_def\<close>)
  moreover have "\<not> length raw_data < offset + 4 + length v"
    using Cons.prems(2) by (simp add: raw pack_u16_def)
  ultimately show ?case
    using ok(3) by (auto simp: walk_entries.simps [of _ offset] at len [unfolded add_2_eq_Suc'] Let_def e)
qed

lemma dangerous_names_set:
  "set (dangerous_names raw_data) = (\<lambda>t. the (map_of KNOWN t)) ` dangerous_extensions raw_data"
proof -
  have "distinct (map fst KNOWN)" by (simp add: KNOWN_def)
  then have named: "map_of KNOWN t = Some n \<longleftrightarrow> (t, n) \<in> set KNOWN" for t n by simp
  have "\<exists>n. map_of KNOWN t = Some n" if "t \<in> dangerous_extensions raw_data" for t
    using dangerous_known [of t] that by (metis Int_iff dangerous_extensions_def map_of_eq_None_iff not_None_eq)
  then show ?thesis unfolding dangerous_names_def
    by (auto simp: named [symmetric] image_iff) (metis option.sel)+
qed

lemma nonempty_entry_found:
  assumes "82 \<le> k" "entry_in raw_data t k" "t \<in> set DANGEROUS" "0 < u16_at raw_data (k + 2)"
  shows "t \<in> dangerous_extensions raw_data"
proof -
  have "k \<in> set (filter (known_entry_at raw_data) [82..<length raw_data - 4])"
    using assms dangerous_known by (auto simp: known_entry_at_def entry_in_def)
  then have "t \<in> scan_offsets raw_data" using assms(2) unfolding scan_offsets_def entry_in_def by blast
  then show ?thesis
    using assms(3) by (auto simp: dangerous_extensions_def found_extensions_def Let_def)
qed

text \<open>
  C38. What the check flags, on any account data.  Every dangerous extension with a nonempty value
  that lies inside the data from offset 82 on is flagged by name, wherever it is.  Every name flagged
  is that of a dangerous type that stands at some offset from 82 on with its value inside the data.
  And where the search at every offset finds nothing, the walk is exact: behind the 82 bytes of the
  base account, well-formed entries followed by zeros are flagged by name exactly if they are
  dangerous, those with an empty value included.
\<close>

theorem dangerous_extensions_flagged:
  "(\<forall>t k. 82 \<le> k \<and> entry_in raw_data t k \<and> t \<in> set DANGEROUS \<and> 0 < u16_at raw_data (k + 2) \<longrightarrow>
      the (map_of KNOWN t) \<in> set (dangerous_names raw_data)) \<and>
   (\<forall>name \<in> set (dangerous_names raw_data). \<exists>t \<in> set DANGEROUS. map_of KNOWN t = Some name \<and>
      (\<exists>k\<ge>82. entry_in raw_data t k)) \<and>
   (\<forall>base es n. raw_data = base @ tlv es @ replicate n 0 \<and> length base = 82 \<and> tlv_ok es \<and>
      scan_offsets raw_data = {} \<longrightarrow>
      set (dangerous_names raw_data) = (\<lambda>t. the (map_of KNOWN t)) ` (fst ` set es \<inter> set DANGEROUS))"
proof (intro conjI allI impI ballI)
  fix t k
  assume "82 \<le> k \<and> entry_in raw_data t k \<and> t \<in> set DANGEROUS \<and> 0 < u16_at raw_data (k + 2)"
  then show "the (map_of KNOWN t) \<in> set (dangerous_names raw_data)"
    using nonempty_entry_found [of k raw_data t] by (simp add: dangerous_names_set)
next
  fix name
  assume "name \<in> set (dangerous_names raw_data)"
  then obtain t where t: "t \<in> dangerous_extensions raw_data" "name = the (map_of KNOWN t)"
    by (auto simp: dangerous_names_set)
  then have "t \<in> set DANGEROUS" "\<exists>k\<ge>82. entry_in raw_data t k"
    using found_extensions_sound by (auto simp: dangerous_extensions_def)
  moreover from this(1) have "map_of KNOWN t = Some name"
    using dangerous_known [of t] t(2) by (metis map_of_eq_None_iff option.exhaust_sel)
  ultimately show "\<exists>t \<in> set DANGEROUS. map_of KNOWN t = Some name \<and> (\<exists>k\<ge>82. entry_in raw_data t k)"
    by blast
next
  fix base es n
  assume "raw_data = base @ tlv es @ replicate n 0 \<and> length base = 82 \<and> tlv_ok es \<and> scan_offsets raw_data = {}"
  then have "walk_entries raw_data 82 = fst ` set es" "scan_offsets raw_data = {}"
    using walk_tlv [of raw_data base es n 82] by blast+
  then have "found_extensions raw_data = fst ` set es" by (simp add: found_extensions_def)
  then show "set (dangerous_names raw_data) = (\<lambda>t. the (map_of KNOWN t)) ` (fst ` set es \<inter> set DANGEROUS)"
    by (simp add: dangerous_names_set dangerous_extensions_def)
qed

text \<open>A permanent delegate with a value, found by the search, and without one, found by the walk.\<close>

theorem dangerous_extensions_flagged_witness:
  "''PermanentDelegate'' \<in> set (dangerous_names (replicate 82 255 @ [6, 0, 1, 0, 255])) \<and>
   set (dangerous_names (replicate 82 255 @ tlv [(6, []), (9, [])] @ replicate 4 0))
     = {''PermanentDelegate'', ''CpiGuard''}"
proof
  let ?found = "replicate 82 255 @ [6, 0, 1, 0, 255] :: bytes"
  have "entry_in ?found 6 82" "0 < u16_at ?found (82 + 2)"
    by (simp_all add: entry_in_def u16_at_def nth_append)
  then have "the (map_of KNOWN 6) \<in> set (dangerous_names ?found)"
    using dangerous_extensions_flagged [of ?found, THEN conjunct1, rule_format, of 82 6]
    by (simp add: DANGEROUS_def)
  then show "''PermanentDelegate'' \<in> set (dangerous_names ?found)" by (simp add: KNOWN_def)
  let ?walked = "replicate 82 255 @ tlv [(6, []), (9, [])] @ replicate 4 0 :: bytes"
  have len: "length ?walked = 94" by (simp add: pack_u16_def)
  have "[82..<length ?walked - 4] = [82, 83, 84, 85, 86, 87, 88, 89]" unfolding len by (simp add: upt_rec)
  then have "scan_offsets ?walked = {}"
    by (simp add: scan_offsets_def known_entry_at_def u16_at_def nth_append pack_u16_def KNOWN_def)
  moreover have "tlv_ok [(6, []), (9, [])]" by (simp add: tlv_ok_def)
  ultimately have "set (dangerous_names ?walked)
      = (\<lambda>t. the (map_of KNOWN t)) ` (fst ` set [(6, [] :: bytes), (9, [])] \<inter> set DANGEROUS)"
    using dangerous_extensions_flagged [of ?walked, THEN conjunct2, THEN conjunct2, rule_format,
        of "replicate 82 255" "[(6, []), (9, [])]" 4] by simp
  then show "set (dangerous_names ?walked) = {''PermanentDelegate'', ''CpiGuard''}"
    by (simp add: DANGEROUS_def KNOWN_def)
qed

text \<open>
  A dangerous extension with an empty value is missed as soon as another known one is found, because
  the walk is skipped: here a type 2 entry of length 0 stands before a type 16 entry.
\<close>

definition demo_mint_data :: bytes where
  "demo_mint_data = replicate 82 255 @ [2, 0, 0, 0, 16, 0, 1, 0, 255]"

lemma empty_extension_missed:
  "walk_entries demo_mint_data 82 = {2, 16}" "dangerous_extensions demo_mint_data = {}"
proof -
  have len: "length demo_mint_data = 91" by (simp add: demo_mint_data_def)
  have at: "u16_at demo_mint_data 82 = 2" "u16_at demo_mint_data 84 = 0" "u16_at demo_mint_data 86 = 16"
    "u16_at demo_mint_data 88 = 1" "u16_at demo_mint_data 83 = 0" "u16_at demo_mint_data 85 = 4096"
    by (simp_all add: u16_at_def demo_mint_data_def nth_append)
  show "walk_entries demo_mint_data 82 = {2, 16}"
    by (simp add: walk_entries.simps len at Let_def)
  have "[82..<length demo_mint_data - 4] = [82, 83, 84, 85, 86]" unfolding len by (simp add: upt_rec)
  then have "scan_offsets demo_mint_data = {16}"
    by (simp add: scan_offsets_def known_entry_at_def len at KNOWN_def)
  then show "dangerous_extensions demo_mint_data = {}"
    by (simp add: dangerous_extensions_def found_extensions_def DANGEROUS_def)
qed

end
