(* ===== verification/RouteTools.thy ===== *)
theory RouteTools
  imports Pools Detector Coordination "HOL-Library.List_Lexorder" "HOL-Library.Char_ord"
begin

text \<open>
  The tools that prepare routes: \<open>scripts/find-shadow-route.py\<close> lists routes of legacy mints,
  \<open>scripts/warm-routes.py\<close> keeps a cache of the routes of trending mints, and
  \<open>scripts/build-universal-alt.py\<close> turns the cache into the accounts of a lookup table.
  \<open>scripts/fetch-tx.py\<close> lists the accounts and token balances of one transaction.
\<close>

section \<open>find-shadow-route\<close>

record ShadowRouteRow =
  sr_mint :: string
  sr_pump_pool :: string
  sr_meteora_pool :: string
  sr_tvl :: pyfloat
  sr_volume :: pyfloat

definition find_pools_params :: "(string \<times> json) list" where
  "find_pools_params = [(''page'', JInt 1), (''page_size'', JInt 1000),
     (''sort_by'', JStr ''volume_24h:desc''), (''filter_by'', JStr ''is_blacklisted=false && tvl>=1000'')]"

text \<open>The mint of a row beside WSOL, when WSOL is one of its two tokens.\<close>

definition row_mint :: "(json \<Rightarrow> string) \<Rightarrow> json \<Rightarrow> string option res" where
  "row_mint rp row =
     bindR (token_address rp row ''token_x'') (\<lambda>token_x.
     bindR (token_address rp row ''token_y'') (\<lambda>token_y.
     ret (if token_x \<noteq> WSOL \<and> token_y \<noteq> WSOL then None
          else Some (if token_x = WSOL then token_y else token_x))))"

definition shadow_route_row :: "(json \<Rightarrow> string) \<Rightarrow> string \<Rightarrow> string \<Rightarrow> json \<Rightarrow> ShadowRouteRow res" where
  "shadow_route_row rp mint pump_pool row =
     bindR (dict_item row ''address'') (\<lambda>address.
     bindR (bindR (dict_get row ''tvl'' JNull) (\<lambda>v. py_float (py_or v (JInt 0)))) (\<lambda>tvl.
     bindR (bindR (dict_get row ''volume'' JNull) (\<lambda>v. dict_get (py_or v (JDict [])) ''24h'' JNull)) (\<lambda>day.
     bindR (py_float (py_or day (JInt 0))) (\<lambda>volume.
     ret \<lparr> sr_mint = mint, sr_pump_pool = pump_pool, sr_meteora_pool = py_str rp address,
           sr_tvl = tvl, sr_volume = volume \<rparr>))))"

text \<open>\<open>info is None or info.get("owner") != program\<close>, negated.\<close>

definition owned_by :: "'w env \<Rightarrow> string \<Rightarrow> string \<Rightarrow> ('w, bool) io" where
  "owned_by E address program =
     bindIO (account_info E address) (\<lambda>info. case info of
       None \<Rightarrow> retIO False
     | Some v \<Rightarrow> bindIO (liftR (dict_get v ''owner'' JNull)) (\<lambda>owner. retIO (owner = JStr program)))"

text \<open>One new mint: its row, or nothing.\<close>

definition shadow_route ::
  "'w env \<Rightarrow> solders \<Rightarrow> string \<Rightarrow> json \<Rightarrow> ('w, ShadowRouteRow option) io" where
  "shadow_route E S mint row =
     bindIO (owned_by E mint LEGACY_TOKEN_PROGRAM) (\<lambda>legacy.
     if \<not> legacy then retIO None
     else
       bindIO (liftR (canonical_pump_pool S mint)) (\<lambda>pump_pool.
       bindIO (owned_by E pump_pool PUMP_AMM_PROGRAM) (\<lambda>pump.
       if \<not> pump then retIO None
       else bindIO (liftR (shadow_route_row (rep E) mint pump_pool row)) (\<lambda>r. retIO (Some r)))))"

text \<open>
  The loop over the rows: the mints examined so far and how many routes may still be listed; the
  lines printed, in order.
\<close>

fun find_rows ::
  "'w env \<Rightarrow> solders \<Rightarrow> string set \<Rightarrow> string set \<Rightarrow> nat \<Rightarrow> json list \<Rightarrow> ('w, ShadowRouteRow list) io" where
  "find_rows E S trending examined n [] = retIO []"
| "find_rows E S trending examined n (row # rows) =
     bindIO (liftR (row_mint (rep E) row)) (\<lambda>m. case m of
       None \<Rightarrow> find_rows E S trending examined n rows
     | Some mint \<Rightarrow>
         if mint \<notin> trending \<or> mint \<in> examined then find_rows E S trending examined n rows
         else
           bindIO (shadow_route E S mint row) (\<lambda>r. case r of
             None \<Rightarrow> find_rows E S trending (insert mint examined) n rows
           | Some x \<Rightarrow>
               if n \<le> 1 then retIO [x]
               else bindIO (find_rows E S trending (insert mint examined) (n - 1) rows)
                      (\<lambda>xs. retIO (x # xs))))"

definition find_shadow_route :: "'w env \<Rightarrow> solders \<Rightarrow> GmgnProvider \<Rightarrow> ('w, ShadowRouteRow list) io" where
  "find_shadow_route E S g =
     bindIO (trending_mints E g) (\<lambda>trending.
     bindIO (http_get E METEORA_URL find_pools_params) (\<lambda>payload.
     bindIO (liftR (bindR (dict_item payload ''data'') py_iter)) (\<lambda>rows.
     find_rows E S trending {} 10 rows)))"

section \<open>warm-routes\<close>

definition cached_route :: "DirectPoolRoute \<Rightarrow> json" where
  "cached_route r = JDict
     [(''pump_pool'', JStr (route_pump_pool r)), (''meteora_pool'', JStr (route_meteora_pool r)),
      (''meteora_tvl_usd'', JFloat (route_meteora_tvl_usd r)),
      (''meteora_volume_24h_usd'', JFloat (route_meteora_volume_24h_usd r))]"

text \<open>\<open>mint in cache\<close> and \<open>cache[mint] = ...\<close> for one trending mint, then the pause.\<close>

definition warm_mint :: "'w env \<Rightarrow> solders \<Rightarrow> string \<Rightarrow> json \<Rightarrow> ('w, json) io" where
  "warm_mint E S mint cache =
     bindIO (liftR (py_in mint cache)) (\<lambda>known.
     if known then retIO cache
     else
       bindIO (discover_direct_routes E S mint (Fin 1000)) (\<lambda>routes.
       bindIO (liftR (if routes = [] then ret cache
                      else set_item cache mint (JList (map cached_route routes)))) (\<lambda>cache.
       bindIO (sleep E (flit (1 / 10))) (\<lambda>_. retIO cache))))"

fun warm_mints :: "'w env \<Rightarrow> solders \<Rightarrow> string list \<Rightarrow> json \<Rightarrow> ('w, json) io" where
  "warm_mints E S [] cache = retIO cache"
| "warm_mints E S (m # ms) cache = bindIO (warm_mint E S m cache) (warm_mints E S ms)"

definition load_cache :: "string \<Rightarrow> files \<Rightarrow> json res" where
  "load_cache path fs = (if fs path = None then ret (JDict []) else read_json fs path)"

definition warm_routes ::
  "'w env \<Rightarrow> solders \<Rightarrow> GmgnProvider \<Rightarrow> string \<Rightarrow> ('w \<times> files, unit) io" where
  "warm_routes E S g path =
     bindIO (in_world (trending_mints E g)) (\<lambda>trending.
     bindIO (state (load_cache path)) (\<lambda>loaded.
     bindIO (liftR loaded) (\<lambda>cache.
     bindIO (in_world (warm_mints E S (set_order E trending) cache)) (\<lambda>cache.
     update (\<lambda>fs. fs(path \<mapsto> JsonFile cache))))))"

section \<open>build-universal-alt\<close>

definition COMMON_READONLY :: "string list" where
  "COMMON_READONLY = [''11111111111111111111111111111111'', LEGACY_TOKEN_PROGRAM, TOKEN_2022_PROGRAM,
     ''ComputeBudget111111111111111111111111111111'', ''ATokenGPvbdGVxr1b2hvZbsiqW5xWH25efTNsLJA8knL'',
     PUMP_AMM_PROGRAM, ''LBUZKhRxPF3XUpBCjp4YzTKgLccjZhTSDM9YuVaPwxo'',
     ''EBBCNegFwVq4Vas6aEnhVKmVExxZ1kwFhvSNqNxpuWzs'', WSOL,
     ''pfeeUxB6jkeY1Hxd7CsFCAjcbHA9rWtchMGdZ6VojVZ'', ''MemoSq4gqABAXKb96qnH8TysNcWxMyWCqXgDLGmfcHr'']"

text \<open>An address of the cache; one that is not text, which warm-routes never writes, raises here.\<close>

definition address_text :: "json \<Rightarrow> string res" where
  "address_text v = (case v of JStr s \<Rightarrow> ret s | _ \<Rightarrow> raise (TypeError ''not an address''))"

definition route_addresses :: "json \<Rightarrow> string list res" where
  "route_addresses route =
     bindR (bindR (dict_item route ''pump_pool'') address_text) (\<lambda>p.
     bindR (bindR (dict_item route ''meteora_pool'') address_text) (\<lambda>m. ret [p, m]))"

definition cache_addresses :: "json \<Rightarrow> string list res" where
  "cache_addresses cache = (case cache of
     JDict entries \<Rightarrow> concatR (\<lambda>(_, routes). bindR (py_iter routes) (concatR route_addresses)) entries
   | _ \<Rightarrow> raise (AttributeError ''items''))"

record lookup_accounts =
  alt_writable :: "string list"
  alt_readonly :: "string list"

text \<open>\<open>None\<close> is the exit code 1 without a cache.\<close>

definition build_alt :: "string \<Rightarrow> files \<Rightarrow> lookup_accounts option res" where
  "build_alt path fs =
     (if fs path = None then ret None
      else
        bindR (read_json fs path) (\<lambda>cache.
        bindR (cache_addresses cache) (\<lambda>pools.
        ret (Some \<lparr> alt_writable = take 256 (sort (remdups pools)), alt_readonly = COMMON_READONLY \<rparr>))))"

section \<open>fetch-tx\<close>

definition fetch_signature :: string where
  "fetch_signature = ''55GVmkDCRDY6WeXM5b142oiSUnJ4qatSveVrLQN3AETsem1zCa4zWHGyDD8fPirTuLPY2hesXHp4bH9dcY4p8DF3''"

text \<open>A printed balance: the mint, the owner and the amount, for mints other than WSOL.\<close>

definition balance_line :: "json \<Rightarrow> (json \<times> json \<times> json) list res" where
  "balance_line p =
     bindR (dict_get p ''mint'' JNull) (\<lambda>mint.
     if \<not> truthy mint \<or> mint = JStr WSOL then ret []
     else
       bindR (dict_item p ''owner'') (\<lambda>owner.
       bindR (bindR (dict_get p ''uiTokenAmount'' (JDict [])) (\<lambda>a. dict_get a ''uiAmount'' JNull)) (\<lambda>amount.
       ret [(mint, owner, amount)])))"

definition fetch_tx :: "'w env \<Rightarrow> ('w, string list \<times> (json \<times> json \<times> json) list) io" where
  "fetch_tx E =
     bindIO (rpc_post E (rpc_request ''getTransaction'' [JStr fetch_signature,
         JDict [(''encoding'', JStr ''jsonParsed''), (''commitment'', JStr ''confirmed''),
           (''maxSupportedTransactionVersion'', JInt 0)]])) (\<lambda>resp.
     liftR (bindR (dict_item resp ''result'') (\<lambda>tx.
       bindR (bindR (bindR (dict_item tx ''transaction'') (\<lambda>t. dict_item t ''message''))
                (\<lambda>m. dict_item m ''accountKeys'')) (\<lambda>keys.
       bindR (bindR (py_iter keys) (mapR (pubkey (rep E)))) (\<lambda>accts.
       bindR (bindR (dict_item tx ''meta'') (\<lambda>meta. dict_get meta ''preTokenBalances'' (JList []))) (\<lambda>pre.
       bindR (bindR (py_iter pre) (concatR balance_line)) (\<lambda>lines.
       ret (accts, lines))))))))"

section \<open>Properties of the listing\<close>

lemma shadow_route_sound:
  assumes "shadow_route E S mint row w = (Inr (Some x), w')"
  shows "sr_mint x = mint \<and> canonical_pump_pool S mint = Inr (sr_pump_pool x)"
  using assms by (auto simp: shadow_route_def shadow_route_row_def split: if_splits sum.splits)

text \<open>
  The listing is short and sound: at most the given number of routes, one per mint, each of a
  trending mint that was not examined before, with the derived Pump pool.
\<close>

lemma find_rows_sound:
  "find_rows E S trending examined n rows w = (Inr xs, w') \<Longrightarrow> 1 \<le> n \<Longrightarrow>
    length xs \<le> n \<and> distinct (map sr_mint xs) \<and> sr_mint ` set xs \<subseteq> trending - examined \<and>
    list_all (\<lambda>x. canonical_pump_pool S (sr_mint x) = Inr (sr_pump_pool x)) xs"
proof (induction rows arbitrary: examined n xs w)
  case (Cons row rows)
  from Cons.prems(1) obtain m where m: "row_mint (rep E) row = Inr m" by (auto split: sum.splits)
  show ?case
  proof (cases "m = None \<or> the m \<notin> trending \<or> the m \<in> examined")
    case True
    with Cons m show ?thesis by (cases m) auto
  next
    case False
    then obtain mint where mint: "m = Some mint" "mint \<in> trending" "mint \<notin> examined" by auto
    with Cons.prems(1) m obtain r w1 where r: "shadow_route E S mint row w = (Inr r, w1)" by auto
    show ?thesis
    proof (cases r)
      case None
      with Cons.prems m mint r have "find_rows E S trending (insert mint examined) n rows w1 = (Inr xs, w')"
        by (auto simp: bindIO_Inr)
      from Cons.IH [OF this Cons.prems(2)] show ?thesis by auto
    next
      case (Some x)
      note x = shadow_route_sound [OF r [unfolded Some]]
      show ?thesis
      proof (cases "n \<le> 1")
        case True
        with Cons.prems m mint r Some x show ?thesis by (auto simp: bindIO_Inr)
      next
        case False
        with Cons.prems m mint r Some obtain ys where xs: "xs = x # ys"
          "find_rows E S trending (insert mint examined) (n - 1) rows w1 = (Inr ys, w')"
          by (auto simp: bindIO_Inr)
        from Cons.IH [OF xs(2)] False have "length ys \<le> n - 1 \<and> distinct (map sr_mint ys) \<and>
            sr_mint ` set ys \<subseteq> trending - insert mint examined \<and>
            list_all (\<lambda>x. canonical_pump_pool S (sr_mint x) = Inr (sr_pump_pool x)) ys" by simp
        with xs(1) x mint False show ?thesis by auto
      qed
    qed
  qed
qed simp

section \<open>Properties of the cache\<close>

text \<open>A cache as warm-routes writes it, and the pools in it.\<close>

definition route_cache :: "(string \<times> json) list \<Rightarrow> bool" where
  "route_cache m \<longleftrightarrow> (\<forall>v \<in> snd ` set m. \<exists>rs. rs \<noteq> [] \<and> v = JList (map cached_route rs))"

definition cached_pools :: "(string \<times> json) list \<Rightarrow> string set" where
  "cached_pools m = {p. \<exists>v \<in> snd ` set m. \<exists>xs. v = JList xs \<and> (\<exists>x \<in> set xs.
     dict_item x ''pump_pool'' = Inr (JStr p) \<or> dict_item x ''meteora_pool'' = Inr (JStr p))}"

lemma cached_pools_Cons: "cached_pools ((k, v) # m) = {p. \<exists>xs. v = JList xs \<and> (\<exists>x \<in> set xs.
     dict_item x ''pump_pool'' = Inr (JStr p) \<or> dict_item x ''meteora_pool'' = Inr (JStr p))} \<union> cached_pools m"
  unfolding cached_pools_def by auto

lemma update_new: "k \<notin> fst ` set m \<Longrightarrow> AList.update k v m = m @ [(k, v)]"
  by (induction m) auto

lemma warm_mint_extends:
  assumes "warm_mint E S mint (JDict m) w = (Inr c, w')" "route_cache m"
  shows "\<exists>m'. c = JDict m' \<and> route_cache m' \<and> map_of m \<subseteq>\<^sub>m map_of m'"
proof (cases "mint \<in> fst ` set m")
  case True
  with assms show ?thesis by (auto simp: warm_mint_def)
next
  case False
  then consider "c = JDict m"
    | routes where "routes \<noteq> []" "c = JDict (m @ [(mint, JList (map cached_route routes))])"
    using assms(1) by (auto simp: warm_mint_def update_new sleep_def split: if_splits)
  then show ?thesis
  proof cases
    case 1
    with assms(2) show ?thesis by simp
  next
    case 2
    have "map_of m \<subseteq>\<^sub>m map_of (m @ [x])" for x
      by (auto simp: map_add_def map_le_def split: option.split)
    with 2 assms(2) show ?thesis by (auto simp: route_cache_def)
  qed
qed

lemma warm_mints_extends:
  "warm_mints E S ms (JDict m) w = (Inr c, w') \<Longrightarrow> route_cache m \<Longrightarrow>
    \<exists>m'. c = JDict m' \<and> route_cache m' \<and> map_of m \<subseteq>\<^sub>m map_of m'"
proof (induction ms arbitrary: m w)
  case (Cons a ms)
  from Cons.prems(1) obtain c1 w1 where first: "warm_mint E S a (JDict m) w = (Inr c1, w1)"
    and others: "warm_mints E S ms c1 w1 = (Inr c, w')" by auto
  from warm_mint_extends [OF first Cons.prems(2)] obtain m1 where m1: "c1 = JDict m1" "route_cache m1"
    "map_of m \<subseteq>\<^sub>m map_of m1" by blast
  from Cons.IH [OF others [unfolded m1(1)] m1(2)] m1(3) show ?case using map_le_trans by blast
qed auto

lemma routes_addresses:
  "concatR route_addresses (map cached_route rs) = Inr (concat (map (\<lambda>r. [route_pump_pool r, route_meteora_pool r]) rs))"
  by (induction rs) (simp_all add: route_addresses_def cached_route_def address_text_def)

lemma cache_addresses_pools:
  "route_cache m \<Longrightarrow> \<exists>ps. cache_addresses (JDict m) = Inr ps \<and> set ps = cached_pools m"
proof (induction m)
  case (Cons e m)
  obtain k v where e: "e = (k, v)" by (cases e)
  from Cons.prems obtain rs where v: "v = JList (map cached_route rs)" and m: "route_cache m"
    by (auto simp: route_cache_def e)
  from Cons.IH [OF m] obtain ps where ps: "cache_addresses (JDict m) = Inr ps" "set ps = cached_pools m" by blast
  have "{p. \<exists>xs. v = JList xs \<and> (\<exists>x \<in> set xs. dict_item x ''pump_pool'' = Inr (JStr p) \<or>
      dict_item x ''meteora_pool'' = Inr (JStr p))} = (\<Union>r \<in> set rs. {route_pump_pool r, route_meteora_pool r})"
    unfolding v by (auto simp: cached_route_def)
  then have pools: "cached_pools (e # m) = (\<Union>r \<in> set rs. {route_pump_pool r, route_meteora_pool r}) \<union> set ps"
    by (simp only: e cached_pools_Cons ps(2))
  have "cache_addresses (JDict (e # m)) = Inr (concat (map (\<lambda>r. [route_pump_pool r, route_meteora_pool r]) rs) @ ps)"
    using ps(1) by (simp add: cache_addresses_def e v routes_addresses)
  then show ?case unfolding pools by auto
qed (simp add: cache_addresses_def cached_pools_def)

text \<open>
  C39. Warming the cache and building the table fit together.  When warm-routes fails, the file is as
  it was.  When it returns on an absent or well-formed cache, the new file is a well-formed cache that
  keeps every earlier entry, and the table can be built from it: its writable accounts are sorted,
  distinct, at most 256, all pools of the cache, and all of them when they are at most 256.
\<close>

theorem warm_routes_then_build:
  assumes "warm_routes E S g path (w, fs) = (r, (w', fs'))"
    and "load_cache path fs = Inr (JDict m)" "route_cache m"
  shows "(r \<noteq> Inr () \<longrightarrow> fs' = fs) \<and>
    (r = Inr () \<longrightarrow> (\<exists>m' alt. fs' = fs(path \<mapsto> JsonFile (JDict m')) \<and> route_cache m' \<and>
       map_of m \<subseteq>\<^sub>m map_of m' \<and> build_alt path fs' = Inr (Some alt) \<and> sorted (alt_writable alt) \<and>
       distinct (alt_writable alt) \<and> length (alt_writable alt) \<le> 256 \<and>
       set (alt_writable alt) \<subseteq> cached_pools m' \<and>
       (card (cached_pools m') \<le> 256 \<longrightarrow> set (alt_writable alt) = cached_pools m')))"
proof (intro conjI impI)
  assume "r \<noteq> Inr ()"
  with assms(1) show "fs' = fs"
    by (auto simp: warm_routes_def bindIO_def in_world_def state_def update_def split: prod.splits sum.splits)
next
  assume "r = Inr ()"
  with assms(1,2) obtain c w1 ms w2 where run: "warm_mints E S ms (JDict m) w1 = (Inr c, w2)"
    and fs': "fs' = fs(path \<mapsto> JsonFile c)"
    by (auto simp: warm_routes_def bindIO_def in_world_def state_def update_def split: prod.splits sum.splits)
  from warm_mints_extends [OF run assms(3)] obtain m' where m': "c = JDict m'" "route_cache m'"
    "map_of m \<subseteq>\<^sub>m map_of m'" by blast
  from cache_addresses_pools [OF m'(2)] obtain ps where ps: "cache_addresses (JDict m') = Inr ps"
    "set ps = cached_pools m'" by blast
  define alt where "alt = \<lparr> alt_writable = take 256 (sort (remdups ps)), alt_readonly = COMMON_READONLY \<rparr>"
  have "build_alt path fs' = Inr (Some alt)"
    by (simp add: build_alt_def fs' m'(1) read_json_def ps(1) alt_def)
  moreover have "sorted (alt_writable alt)" "distinct (alt_writable alt)" "length (alt_writable alt) \<le> 256"
    by (simp_all add: alt_def sorted_wrt_take)
  moreover have "set (alt_writable alt) \<subseteq> cached_pools m'"
    using set_take_subset [of 256 "sort (remdups ps)"] ps(2) by (simp add: alt_def)
  moreover have "set (alt_writable alt) = cached_pools m'" if "card (cached_pools m') \<le> 256"
  proof -
    have "length (sort (remdups ps)) \<le> 256" using that ps(2) by (simp add: length_remdups_card_conv)
    then show ?thesis using ps(2) by (simp add: alt_def)
  qed
  ultimately show "\<exists>m' alt. fs' = fs(path \<mapsto> JsonFile (JDict m')) \<and> route_cache m' \<and>
       map_of m \<subseteq>\<^sub>m map_of m' \<and> build_alt path fs' = Inr (Some alt) \<and> sorted (alt_writable alt) \<and>
       distinct (alt_writable alt) \<and> length (alt_writable alt) \<le> 256 \<and>
       set (alt_writable alt) \<subseteq> cached_pools m' \<and>
       (card (cached_pools m') \<le> 256 \<longrightarrow> set (alt_writable alt) = cached_pools m')"
    using fs' m' by blast
qed

text \<open>One trending mint \<open>M\<close> with a Pump pool \<open>P\<close> and a Meteora pool \<open>Q\<close>.\<close>

definition demo_owner :: "json \<Rightarrow> string" where
  "demo_owner q = (case dict_item q ''params'' of
     Inr (JList (JStr a # _)) \<Rightarrow> if a = ''M'' then LEGACY_TOKEN_PROGRAM else PUMP_AMM_PROGRAM
   | _ \<Rightarrow> [])"

definition demo_warm_env :: "nat env" where
  "demo_warm_env = dead_env
     \<lparr> http_get := (\<lambda>u _. retIO (if u = METEORA_URL then JDict [(''data'', JList [demo_pool_row])]
         else JDict [(''code'', JInt 0), (''data'', JDict [(''rank'', JList [JDict [(''address'', JStr ''M'')]])])])),
       rpc_post := (\<lambda>q. retIO (JDict [(''result'', JDict [(''value'', JDict [(''owner'', JStr (demo_owner q))])])])),
       set_order := (\<lambda>M. if M = {''M''} then [''M''] else []) \<rparr>"

lemma demo_warm:
  "warm_routes demo_warm_env demo_solders \<lparr>api_key = None, fallback_sol_price_usd = Fin 100\<rparr> ''c''
     (0, \<lambda>_. None) = (Inr (), (0, [''c'' \<mapsto> JsonFile (JDict [(''M'', JList [cached_route demo_route])])]))"
proof -
  have trending: "trending_mints demo_warm_env \<lparr>api_key = None, fallback_sol_price_usd = Fin 100\<rparr> w = (Inr {''M''}, w)"
    for w by (simp add: trending_mints_def intervals_def trending_interval_def gmgn_get_def bindIO_def
      catchIO_def demo_warm_env_def parse_trending_mints_def METEORA_URL_def public_rank_url_def)
  have owner: "account_info demo_warm_env a = retIO (Some (JDict [(''owner'',
      JStr (if a = ''M'' then LEGACY_TOKEN_PROGRAM else PUMP_AMM_PROGRAM))]))" for a
    by (simp add: account_info_def rpc_call_def rpc_request_def demo_warm_env_def demo_owner_def bindIO_def fun_eq_iff)
  have pools: "pools_for_mint demo_warm_env ''M'' = retIO [\<lparr> mp_address = ''Q'', mp_token_x = ''M'',
      mp_token_y = WSOL, mp_tvl_usd = Fin 2000, mp_volume_24h_usd = Fin 0, mp_blacklisted = False \<rparr>]"
    by (simp add: pools_for_mint_def demo_warm_env_def parse_pools_def parse_pool_row_def
        token_address_def demo_pool_row_def py_or_def float_of_int_def bindIO_def fun_eq_iff)
  have route: "discover_direct_routes demo_warm_env demo_solders ''M'' (Fin 1000) = retIO [demo_route]"
    by (simp add: discover_direct_routes_def owner onchain_routes_def pools canonical_pump_pool_def
        demo_solders_def Let_def usable_pool_def direct_route_def demo_route_def fun_eq_iff)
  show ?thesis
    by (simp add: warm_routes_def bindIO_def in_world_def trending state_def load_cache_def warm_mint_def
        demo_warm_env_def [THEN arg_cong [where f = set_order]] route sleep_def update_def)
      (simp add: demo_warm_env_def dead_env_def)
qed

theorem warm_routes_then_build_witness:
  "\<exists>alt. build_alt ''c'' [''c'' \<mapsto> JsonFile (JDict [(''M'', JList [cached_route demo_route])])] = Inr (Some alt) \<and>
     sorted (alt_writable alt) \<and> distinct (alt_writable alt) \<and> length (alt_writable alt) \<le> 256"
proof -
  have "load_cache ''c'' (\<lambda>_. None) = Inr (JDict [])" "route_cache []"
    by (simp_all add: load_cache_def route_cache_def)
  from warm_routes_then_build [OF demo_warm this] show ?thesis by blast
qed

end
