(* ===== verification/Scorer.thy ===== *)
theory Scorer
  imports Borsh Momentum PyText
begin

text \<open>
  \<open>backrunner/scorer.py\<close>: the history of a token creator, its score, and the decision whether
  to buy a launch.  The scorer keeps its profiles in memory; the optional cache file, off by
  default, is not modelled (\<open>cache_path = None\<close>).  Times and counts of the node's answers are
  numbers as \<open>num\<close> reads them.
\<close>

section \<open>Profiles and decisions\<close>

record CreatorProfile =
  cp_address :: pytext
  cp_wallet_age_days :: pyfloat
  cp_total_creates :: nat
  cp_total_graduates :: nat
  cp_graduation_rate :: pyfloat
  cp_tokens_last_7d :: nat
  cp_tokens_last_24h :: nat
  cp_median_hours :: pyfloat
  cp_score :: pyfloat
  cp_tags :: "string list"
  cp_last_scored :: pyfloat

record SnipeDecision =
  sd_mint :: string
  sd_creator :: pytext
  sd_profile :: "CreatorProfile option"
  sd_approved :: bool
  sd_reason :: string

definition decision_reasons :: "CreatorProfile \<Rightarrow> string list" where
  "decision_reasons p =
     flag (cp_wallet_age_days p < fdiv (Fin 1) (Fin 24)) ''wallet_too_fresh'' @
     flag (10 < cp_total_creates p \<and> cp_graduation_rate p < flit (1 / 1000))
       (''low_graduation_rate_'' @ fixed 4 (cp_graduation_rate p)) @
     flag (20 < cp_tokens_last_24h p) (''too_many_tokens_24h_'' @ str_of_nat (cp_tokens_last_24h p)) @
     flag (500 < cp_total_creates p) (''too_many_tokens_total_'' @ str_of_nat (cp_total_creates p))"

definition decide :: "CreatorProfile \<Rightarrow> string \<Rightarrow> SnipeDecision" where
  "decide p mint =
     (let rs = decision_reasons p in
      \<lparr> sd_mint = mint, sd_creator = cp_address p, sd_profile = Some p, sd_approved = (length rs = 0),
        sd_reason = (if rs \<noteq> [] then join ''; '' rs else ''ok'') \<rparr>)"

section \<open>The history\<close>

text \<open>What the scan of the signatures counts.\<close>

record history =
  hi_create_times :: "pyfloat list"
  hi_graduates :: nat
  hi_creates :: nat
  hi_last_7d :: nat
  hi_last_24h :: nat

definition no_history :: history where
  "no_history = \<lparr> hi_create_times = [], hi_graduates = 0, hi_creates = 0, hi_last_7d = 0, hi_last_24h = 0 \<rparr>"

definition program_of :: "(json \<Rightarrow> string) \<Rightarrow> json \<Rightarrow> string res" where
  "program_of rp ix =
     bindR (dict_get ix ''program'' (JStr [])) (\<lambda>p.
     bindR (dict_get ix ''programId'' p) (\<lambda>v. ret (py_str rp v)))"

text \<open>Counting one create instruction at a block time.\<close>

definition count_create :: "pyfloat \<Rightarrow> json \<Rightarrow> history \<Rightarrow> history res" where
  "count_create time block_time h =
     (let h = h\<lparr>hi_creates := hi_creates h + 1\<rparr> in
      if \<not> truthy block_time then ret h
      else
        bindR (num block_time) (\<lambda>t.
        let age_hours = fdiv (time - t) (Fin 3600) in
        ret (h\<lparr>hi_create_times := hi_create_times h @ [t],
               hi_last_7d := hi_last_7d h + (if age_hours \<le> Fin 168 then 1 else 0),
               hi_last_24h := hi_last_24h h + (if age_hours \<le> Fin 24 then 1 else 0)\<rparr>)))"

definition log_lines :: "(json \<Rightarrow> string) \<Rightarrow> json \<Rightarrow> string list res" where
  "log_lines rp meta =
     bindR (dict_get meta ''logMessages'' JNull) (\<lambda>a.
     bindR (if truthy a then ret a else dict_get meta ''logs'' JNull) (\<lambda>b.
     bindR (py_iter (py_or b (JList []))) (\<lambda>ls. ret (map (py_str rp) ls))))"

definition graduated :: "string list \<Rightarrow> bool" where
  "graduated lines \<longleftrightarrow>
     list_ex (\<lambda>l. substr ''complete'' (map to_lower l) \<or> substr ''migrate'' (map to_lower l)) lines"

text \<open>
  The second look at the instructions, when no log line says so: it only sets a variable that the
  code no longer reads, so all it can do is raise on data that has no length.
\<close>

definition has_length :: "json \<Rightarrow> unit res" where
  "has_length v = (case v of JStr _ \<Rightarrow> ret () | JList _ \<Rightarrow> ret () | JDict _ \<Rightarrow> ret ()
     | _ \<Rightarrow> raise (TypeError ''object has no len()''))"

definition trade_bytes :: "json \<Rightarrow> bool" where
  "trade_bytes v = (case v of
     JStr s \<Rightarrow> (case from_hex (take 16 s) of Inr d \<Rightarrow> d \<noteq> [] \<and> d \<noteq> CREATE_DISCRIMINATOR \<and> d \<noteq> CREATE_V2_DISCRIMINATOR
                 | Inl _ \<Rightarrow> False)
   | _ \<Rightarrow> False)"

fun data_length :: "json \<Rightarrow> nat" where
  "data_length (JStr s) = length s"
| "data_length (JList xs) = length xs"
| "data_length (JDict m) = length m"
| "data_length _ = 0"

fun look_again :: "(json \<Rightarrow> string) \<Rightarrow> json list \<Rightarrow> unit res" where
  "look_again rp [] = ret ()"
| "look_again rp (ix # ixs) =
     bindR (program_of rp ix) (\<lambda>prog.
     if prog \<noteq> PUMP_PROGRAM then look_again rp ixs
     else
       bindR (dict_get ix ''data'' JNull) (\<lambda>v.
       if \<not> truthy v then look_again rp ixs
       else bindR (has_length v) (\<lambda>_.
         if 8 \<le> data_length v \<and> trade_bytes v then ret () else look_again rp ixs)))"

definition scan_instruction ::
  "(json \<Rightarrow> string) \<Rightarrow> base58 \<Rightarrow> pyfloat \<Rightarrow> json \<Rightarrow> json \<Rightarrow> json list \<Rightarrow> json \<Rightarrow> history \<Rightarrow> history res" where
  "scan_instruction rp B time block_time meta instructions ix h =
     bindR (program_of rp ix) (\<lambda>prog.
     if prog \<noteq> PUMP_PROGRAM then ret h
     else
       bindR (dict_get ix ''data'' JNull) (\<lambda>v.
       if \<not> truthy v then ret h
       else case instruction_data B v of
         None \<Rightarrow> ret h
       | Some data \<Rightarrow>
           if \<not> is_create data then ret h
           else
             bindR (count_create time block_time h) (\<lambda>h.
             bindR (log_lines rp meta) (\<lambda>lines.
             if graduated lines then ret (h\<lparr>hi_graduates := hi_graduates h + 1\<rparr>)
             else bindR (look_again rp instructions) (\<lambda>_. ret h)))))"

definition scan_transaction ::
  "(json \<Rightarrow> string) \<Rightarrow> base58 \<Rightarrow> pyfloat \<Rightarrow> json \<Rightarrow> json \<Rightarrow> history \<Rightarrow> history res" where
  "scan_transaction rp B time block_time tx h =
     bindR (dict_get tx ''meta'' (JDict [])) (\<lambda>meta.
     bindR (dict_get meta ''err'' JNull) (\<lambda>err.
     if truthy err then ret h
     else
       bindR (bindR (dict_get tx ''transaction'' (JDict [])) (\<lambda>t. dict_get t ''message'' (JDict []))) (\<lambda>msg.
       bindR (bindR (dict_get msg ''instructions'' (JList [])) py_iter) (\<lambda>ixs.
       foldR (scan_instruction rp B time block_time meta ixs) ixs h))))"

fun scan_signatures ::
  "'w env \<Rightarrow> 'w feed_env \<Rightarrow> base58 \<Rightarrow> pyfloat \<Rightarrow> json list \<Rightarrow> history \<Rightarrow> ('w, history) io" where
  "scan_signatures E F B time [] h = retIO h"
| "scan_signatures E F B time (s # ss) h =
     bindIO (liftR (dict_item s ''signature'')) (\<lambda>sig.
     bindIO (liftR (dict_get s ''blockTime'' (JInt 0))) (\<lambda>block_time.
     bindIO (fetch_transaction F sig) (\<lambda>tx.
     bindIO (liftR (if truthy tx then scan_transaction (rep E) B time block_time tx h else ret h)) (\<lambda>h.
     scan_signatures E F B time ss h))))"

section \<open>The score\<close>

text \<open>\<open>sorted\<close> of floats, none of them \<open>NaN\<close>.\<close>

fun insert_float :: "pyfloat \<Rightarrow> pyfloat list \<Rightarrow> pyfloat list" where
  "insert_float x [] = [x]"
| "insert_float x (y # ys) = (if y < x then y # insert_float x ys else x # y # ys)"

definition sort_floats :: "pyfloat list \<Rightarrow> pyfloat list" where
  "sort_floats xs = foldr insert_float xs []"

fun gaps :: "pyfloat list \<Rightarrow> pyfloat list" where
  "gaps (x # y # ys) = (y - x) # gaps (y # ys)"
| "gaps _ = []"

definition median_hours :: "pyfloat list \<Rightarrow> pyfloat" where
  "median_hours ts =
     (if length ts < 2 then Fin 0
      else let gs = sort_floats (gaps (sort_floats ts)) in fdiv (gs ! (length gs div 2)) (Fin 3600))"

text \<open>The adjustments in the code's order, each with its tag.\<close>

definition adjustments :: "pyfloat \<Rightarrow> pyfloat \<Rightarrow> nat \<Rightarrow> nat \<Rightarrow> pyfloat \<Rightarrow> (pyfloat \<times> string) list" where
  "adjustments age rate creates last_24h median =
     (if Fin 30 < age then [(flit (2 / 10), ''aged_wallet'')]
      else flag (age < Fin 1) (- flit (2 / 10), ''fresh_wallet'')) @
     (if flit (1 / 100) < rate then [(flit (2 / 10), ''high_graduation'')]
      else flag (flit (1 / 1000) < rate) (flit (1 / 10), ''moderate_graduation'')) @
     flag (100 < creates) (- flit (1 / 10), ''high_volume_creator'') @
     flag (10 < last_24h) (- flit (1 / 10), ''high_frequency'') @
     flag (Fin 24 < median) (flit (1 / 10), ''measured_pace'')"

definition final_score :: "(pyfloat \<times> string) list \<Rightarrow> pyfloat" where
  "final_score adjs =
     py_max (Fin 0) (py_min (Fin 1) (fold (\<lambda>(x, _) s. s + x) adjs (flit (5 / 10))))"

definition profile_of :: "pytext \<Rightarrow> pyfloat \<Rightarrow> history \<Rightarrow> CreatorProfile res" where
  "profile_of creator age h =
     bindR (int_truediv (int (hi_graduates h)) (max (int (hi_creates h)) 1)) (\<lambda>rate.
     let median = median_hours (hi_create_times h);
         adjs = adjustments age rate (hi_creates h) (hi_last_24h h) median
     in ret \<lparr> cp_address = creator, cp_wallet_age_days = age, cp_total_creates = hi_creates h,
          cp_total_graduates = hi_graduates h, cp_graduation_rate = rate,
          cp_tokens_last_7d = hi_last_7d h, cp_tokens_last_24h = hi_last_24h h,
          cp_median_hours = median, cp_score = final_score adjs, cp_tags = map snd adjs,
          cp_last_scored = Fin 0 \<rparr>)"

definition fresh_profile :: "pytext \<Rightarrow> CreatorProfile" where
  "fresh_profile creator = \<lparr> cp_address = creator, cp_wallet_age_days = Fin 0, cp_total_creates = 0,
     cp_total_graduates = 0, cp_graduation_rate = Fin 0, cp_tokens_last_7d = 0, cp_tokens_last_24h = 0,
     cp_median_hours = Fin 0, cp_score = flit (3 / 10), cp_tags = [''fresh_wallet''], cp_last_scored = Fin 0 \<rparr>"

text \<open>\<open>sigs[-1]\<close>, and the wallet's age from its time.\<close>

definition last_item :: "json \<Rightarrow> json res" where
  "last_item v = (case v of
     JList xs \<Rightarrow> (if xs = [] then raise (IndexError ''list index out of range'') else ret (last xs))
   | JStr s \<Rightarrow> (if s = [] then raise (IndexError ''string index out of range'') else ret (JStr [last s]))
   | JDict m \<Rightarrow> raise (KeyError ''-1'')
   | _ \<Rightarrow> raise (TypeError ''object is not subscriptable''))"

definition wallet_age_days :: "pyfloat \<Rightarrow> json \<Rightarrow> pyfloat res" where
  "wallet_age_days time sigs =
     bindR (last_item sigs) (\<lambda>s.
     bindR (dict_get s ''blockTime'' (JInt 0)) (\<lambda>t.
     if truthy t then bindR (num t) (\<lambda>x. ret (fdiv (time - x) (Fin 86400))) else ret (Fin 0)))"

text \<open>
  \<open>_fetch_profile\<close>: \<open>json.dumps\<close> of the request comes first, and it raises on a creator
  that is \<open>bytes\<close>.
\<close>

definition fetch_profile ::
  "'w env \<Rightarrow> 'w feed_env \<Rightarrow> base58 \<Rightarrow> int \<Rightarrow> pytext \<Rightarrow> ('w, CreatorProfile) io" where
  "fetch_profile E F B max_sigs creator = (case creator of
     PyBytes _ \<Rightarrow> raiseIO (TypeError ''Object of type bytes is not JSON serializable'')
   | PyStr address \<Rightarrow>
       bindIO (feed_post F (rpc_request ''getSignaturesForAddress''
           [JStr address, JDict [(''limit'', JInt (min max_sigs 1000))]])) (\<lambda>resp.
       bindIO (liftR (dict_get resp ''result'' (JList []))) (\<lambda>sigs.
       if \<not> truthy sigs then retIO (fresh_profile creator)
       else
         bindIO (now E) (\<lambda>time.
         bindIO (liftR (wallet_age_days time sigs)) (\<lambda>age.
         bindIO (liftR (py_iter sigs)) (\<lambda>ss.
         bindIO (scan_signatures E F B time ss no_history) (\<lambda>h.
         liftR (profile_of creator age h))))))))"

section \<open>CreatorScorer\<close>

type_synonym profile_cache = "(pytext \<times> (CreatorProfile \<times> pyfloat)) list"

definition cached_profile :: "pytext \<Rightarrow> pyfloat \<Rightarrow> profile_cache \<Rightarrow> CreatorProfile option" where
  "cached_profile creator time cache = (case map_of cache creator of
     Some (p, cached_at) \<Rightarrow> if time - cached_at < Fin 86400 then Some p else None
   | None \<Rightarrow> None)"

definition scoring_error :: "pytext \<Rightarrow> string \<Rightarrow> exn \<Rightarrow> SnipeDecision" where
  "scoring_error creator mint e = \<lparr> sd_mint = mint, sd_creator = creator, sd_profile = None,
     sd_approved = False, sd_reason = ''scoring_error: '' @ exn_text e \<rparr>"

definition score ::
  "'w env \<Rightarrow> 'w feed_env \<Rightarrow> base58 \<Rightarrow> int \<Rightarrow> pytext \<Rightarrow> string \<Rightarrow> ('w \<times> profile_cache, SnipeDecision) io" where
  "score E F B max_sigs creator mint =
     bindIO (in_world (now E)) (\<lambda>time.
     bindIO (state (cached_profile creator time)) (\<lambda>hit. case hit of
       Some p \<Rightarrow> retIO (decide p mint)
     | None \<Rightarrow>
         catchIO
           (bindIO (in_world (fetch_profile E F B max_sigs creator)) (\<lambda>p.
            let p = p\<lparr>cp_last_scored := time\<rparr> in
            bindIO (update (AList.update creator (p, time))) (\<lambda>_. retIO (decide p mint))))
           (\<lambda>e. retIO (scoring_error creator mint e))))"

definition cache_size :: "profile_cache \<Rightarrow> nat" where
  "cache_size cache = length cache"

section \<open>Properties\<close>

text \<open>
  What the scorer approves.  A creator is approved, with the reason \<open>ok\<close>, exactly when
  its wallet is at least an hour old, it has created at most ten tokens or graduated at least one
  in a thousand, at most twenty in the last day and at most five hundred in all; the score itself
  plays no part.
\<close>

theorem decide_approves_iff:
  "(sd_approved (decide p mint) \<longleftrightarrow>
     \<not> cp_wallet_age_days p < fdiv (Fin 1) (Fin 24) \<and>
     (cp_total_creates p \<le> 10 \<or> \<not> cp_graduation_rate p < flit (1 / 1000)) \<and>
     cp_tokens_last_24h p \<le> 20 \<and> cp_total_creates p \<le> 500) \<and>
   (sd_reason (decide p mint) = ''ok'' \<longleftrightarrow> sd_approved (decide p mint)) \<and>
   (sd_approved (decide (p\<lparr>cp_score := x\<rparr>) mint) \<longleftrightarrow> sd_approved (decide p mint))"
proof (intro conjI)
  have "\<exists>t. join ''; '' (r # rs) = r @ t" for r rs
    by (induction rs rule: rev_induct) (auto simp: join_def)
  then have "join ''; '' (r # rs) \<noteq> ''ok''" if "r \<noteq> []" "hd r \<noteq> CHR ''o''" for r rs
    using that by (metis hd_append2 list.sel(1))
  then have "decision_reasons p \<noteq> [] \<Longrightarrow> join ''; '' (decision_reasons p) \<noteq> ''ok''"
    by (auto simp: decision_reasons_def flag_def)
  then show "sd_reason (decide p mint) = ''ok'' \<longleftrightarrow> sd_approved (decide p mint)"
    by (auto simp: decide_def Let_def)
qed (auto simp: decide_def decision_reasons_def flag_def Let_def)

definition nested_counts :: "history \<Rightarrow> bool" where
  "nested_counts h \<longleftrightarrow> hi_last_24h h \<le> hi_last_7d h \<and> hi_last_7d h \<le> hi_creates h \<and> hi_graduates h \<le> hi_creates h"

lemma zero_counts: "nested_counts no_history"
  by (simp add: nested_counts_def no_history_def)

lemma count_create_counts:
  assumes "count_create time t h = Inr h'" "nested_counts h"
  shows "nested_counts h' \<and> hi_graduates h' < hi_creates h'"
proof -
  have "x \<le> Fin 24 \<Longrightarrow> x \<le> Fin 168" for x by (erule fle_trans) simp
  with assms show ?thesis
    by (auto simp: count_create_def nested_counts_def Let_def bindR_eq_Inr split: if_splits)
qed

lemma scan_instruction_counts:
  "scan_instruction rp B time t meta ixs ix h = Inr h' \<Longrightarrow> nested_counts h \<Longrightarrow> nested_counts h'"
  by (auto simp: scan_instruction_def bindR_eq_Inr nested_counts_def
      dest!: count_create_counts split: if_splits option.splits)

lemma scan_transaction_counts:
  assumes "scan_transaction rp B time t tx h = Inr h'" "nested_counts h"
  shows "nested_counts h'"
proof -
  have "foldR (scan_instruction rp B time t meta ixs) js h = Inr h' \<Longrightarrow> nested_counts h \<Longrightarrow> nested_counts h'"
    for meta ixs js h h'
    by (induction js arbitrary: h) (auto simp: bindR_eq_Inr dest: scan_instruction_counts)
  with assms show ?thesis
    by (auto simp: scan_transaction_def bindR_eq_Inr split: if_splits)
qed

lemma scan_signatures_counts:
  "scan_signatures E F B time ss h w = (Inr h', w') \<Longrightarrow> nested_counts h \<Longrightarrow> nested_counts h'"
proof (induction ss arbitrary: h w)
  case (Cons s ss)
  from Cons.prems(1) obtain t tx h1 w1 where
    "(if truthy tx then scan_transaction (rep E) B time t tx h else ret h) = Inr h1"
    "scan_signatures E F B time ss h1 w1 = (Inr h', w')"
    by (auto simp: bindIO_Inr raiseIO_def split: sum.splits)
  with Cons.IH Cons.prems(2) scan_transaction_counts show ?case
    by (metis Inr_inject ret_def)
qed (simp add: retIO_def)

lemma final_score_bounds: "Fin 0 \<le> final_score adjs \<and> final_score adjs \<le> Fin 1"
  unfolding final_score_def by (intro conjI py_max_ge1 py_max_least py_min_le1) simp_all

text \<open>
  C5. A fetched profile is consistent.  Whatever the node answers, when a profile comes back its
  counts are nested (launches of the last day, of the last week, in all; graduations in all), its
  graduation rate and its score are between zero and one, and so is never \<open>NaN\<close>.
\<close>

theorem fetch_profile_sound:
  assumes "fetch_profile E F B n creator w = (Inr p, w')"
  shows "cp_tokens_last_24h p \<le> cp_tokens_last_7d p \<and> cp_tokens_last_7d p \<le> cp_total_creates p \<and>
    cp_total_graduates p \<le> cp_total_creates p \<and>
    Fin 0 \<le> cp_graduation_rate p \<and> cp_graduation_rate p \<le> Fin 1 \<and>
    Fin 0 \<le> cp_score p \<and> cp_score p \<le> Fin 1"
proof -
  consider "p = fresh_profile creator"
    | age h where "profile_of creator age h = Inr p" "nested_counts h"
    using assms scan_signatures_counts [of E F B _ _ no_history]
    by (auto simp: fetch_profile_def bindIO_Inr raiseIO_def liftR_def zero_counts
        split: pytext.splits if_splits sum.splits)
  then show ?thesis
  proof cases
    case 1
    have "Fin 0 \<le> flit (3 / 10)" "flit (3 / 10) \<le> Fin 1"
      unfolding flit_def by (simp_all add: rnd_nonneg rnd_le_double)
    with 1 show ?thesis by (simp add: fresh_profile_def)
  next
    case 2
    then obtain rate where rate: "int_truediv (int (hi_graduates h)) (max (int (hi_creates h)) 1) = Inr rate"
      "cp_graduation_rate p = rate" "cp_score p = final_score (adjustments age rate (hi_creates h) (hi_last_24h h) (cp_median_hours p))"
      "cp_tokens_last_24h p = hi_last_24h h" "cp_tokens_last_7d p = hi_last_7d h"
      "cp_total_creates p = hi_creates h" "cp_total_graduates p = hi_graduates h"
      by (auto simp: profile_of_def bindR_eq_Inr Let_def)
    have "of_int (int (hi_graduates h)) \<le> (of_int (max (int (hi_creates h)) 1) :: rat)"
      using 2(2) by (intro iffD2 [OF of_int_le_iff]) (auto simp: nested_counts_def max_def)
    then have "rnd (of_int (int (hi_graduates h)) / of_int (max (int (hi_creates h)) 1)) \<le> Fin 1"
      by (intro rnd_le_double) simp_all
    moreover have "Fin 0 \<le> rnd (of_int (int (hi_graduates h)) / of_int (max (int (hi_creates h)) 1))"
      by (intro rnd_nonneg) simp
    moreover have "rate = rnd (of_int (int (hi_graduates h)) / of_int (max (int (hi_creates h)) 1))"
      using rate(1) by (auto simp: int_truediv_def split: if_splits pyfloat.splits)
    ultimately have "Fin 0 \<le> rate \<and> rate \<le> Fin 1" by (simp only:)
    with rate 2(2) final_score_bounds show ?thesis by (simp add: nested_counts_def)
  qed
qed

definition demo_create :: json where
  "demo_create = JDict [(''programId'', JStr PUMP_PROGRAM), (''data'', JStr ''181ec828051c0777'')]"

definition demo_history_feed :: "nat feed_env" where
  "demo_history_feed = \<lparr> feed_post = (\<lambda>q w. (Inr (JDict [(''result'',
       if dict_item q ''method'' = Inr (JStr ''getSignaturesForAddress'')
       then JList [JDict [(''signature'', JStr ''s''), (''blockTime'', JInt 0)]]
       else JDict [(''meta'', JDict []),
         (''transaction'', JDict [(''message'', JDict [(''instructions'', JList [demo_create])])])])]), w)),
     feed_open = (\<lambda>_ _. raiseIO (OSError [])), feed_recv = retIO None \<rparr>"

theorem fetch_profile_sound_witness:
  "\<exists>p. fetch_profile dead_env demo_history_feed \<lparr>b58decode = Inr \<circ> map of_char, b58encode = id\<rparr> 200
      (PyStr ''W'') 0 = (Inr p, 0) \<and>
     cp_total_creates p = 1 \<and> cp_graduation_rate p \<le> Fin 1 \<and> cp_score p \<le> Fin 1"
proof -
  let ?B = "\<lparr>b58decode = Inr \<circ> map of_char, b58encode = id\<rparr> :: base58"
  have data: "instruction_data ?B (JStr ''181ec828051c0777'') = Some CREATE_DISCRIMINATOR"
    by (simp add: instruction_data_def hex_value_def CREATE_DISCRIMINATOR_def is_space_def Let_def)
  have scanned: "scan_transaction (\<lambda>_. []) ?B (Fin 0) (JInt 0)
      (JDict [(''meta'', JDict []),
         (''transaction'', JDict [(''message'', JDict [(''instructions'', JList [demo_create])])])]) no_history
    = Inr (no_history\<lparr>hi_creates := 1\<rparr>)"
    by (simp add: scan_transaction_def scan_instruction_def demo_create_def program_of_def data is_create_def
        count_create_def log_lines_def graduated_def look_again.simps has_length_def py_or_def no_history_def
        CREATE_DISCRIMINATOR_def trade_bytes_def hex_value_def is_space_def Let_def)
  have "\<exists>p. fetch_profile dead_env demo_history_feed ?B 200 (PyStr ''W'') 0 = (Inr p, 0) \<and> cp_total_creates p = 1"
    by (simp add: fetch_profile_def demo_history_feed_def bindIO_def rpc_request_def now_def dead_env_def
        wallet_age_days_def last_item_def fetch_transaction_def catchIO_def scanned [unfolded no_history_def] profile_of_def retIO_def bindR_def
        int_truediv_def no_history_def median_hours_def Let_def)
  then obtain p where p: "fetch_profile dead_env demo_history_feed ?B 200 (PyStr ''W'') 0 = (Inr p, 0)"
    "cp_total_creates p = 1" by blast
  from fetch_profile_sound [OF p(1)] p show ?thesis by blast
qed

end
