(* ===== verification/ScorerCache.thy ===== *)
theory ScorerCache
  imports Scorer Files Environment
begin

text \<open>
  The cache file of \<open>backrunner/scorer.py\<close>: loaded when the scorer is made, written after every
  profile fetched.  The state beside the world is the files and the profiles in memory; which requests
  to the disk raise is a parameter.  A saved
  profile is read back with the types the saver writes; Python would keep a value of another type as
  it is, here it ends the load like a missing field.
\<close>

section \<open>Profiles as JSON\<close>

definition profile_fields :: "string list" where
  "profile_fields = [''address'', ''wallet_age_days'', ''total_creates'', ''total_graduates'',
     ''graduation_rate'', ''tokens_last_7d'', ''tokens_last_24h'',
     ''median_time_between_launches_hours'', ''score'', ''tags'', ''last_scored'']"

text \<open>\<open>json.dumps\<close> takes no \<open>bytes\<close>.\<close>

definition text_json :: "pytext \<Rightarrow> string res" where
  "text_json t = (case t of PyStr s \<Rightarrow> ret s
     | PyBytes _ \<Rightarrow> raise (TypeError ''Object of type bytes is not JSON serializable''))"

definition profile_json :: "pyfloat \<Rightarrow> CreatorProfile \<Rightarrow> json res" where
  "profile_json time p =
     bindR (text_json (cp_address p)) (\<lambda>address.
     ret (JDict [(''address'', JStr address), (''wallet_age_days'', JFloat (cp_wallet_age_days p)),
       (''total_creates'', JInt (int (cp_total_creates p))),
       (''total_graduates'', JInt (int (cp_total_graduates p))),
       (''graduation_rate'', JFloat (cp_graduation_rate p)),
       (''tokens_last_7d'', JInt (int (cp_tokens_last_7d p))),
       (''tokens_last_24h'', JInt (int (cp_tokens_last_24h p))),
       (''median_time_between_launches_hours'', JFloat (cp_median_hours p)),
       (''score'', JFloat (cp_score p)), (''tags'', JList (map JStr (cp_tags p))),
       (''last_scored'', JFloat time)]))"

definition count_json :: "json \<Rightarrow> nat res" where
  "count_json v = (case v of JInt n \<Rightarrow> ret (nat n) | _ \<Rightarrow> raise (TypeError ''not a count''))"

definition text_of :: "json \<Rightarrow> string res" where
  "text_of v = (case v of JStr s \<Rightarrow> ret s | _ \<Rightarrow> raise (TypeError ''not text''))"

text \<open>\<open>CreatorProfile(**profile_dict)\<close>: unknown keys raise, \<open>last_scored\<close> may be missing.\<close>

definition profile_from :: "json \<Rightarrow> CreatorProfile res" where
  "profile_from v = (case v of
     JDict m \<Rightarrow>
       if \<not> fst ` set m \<subseteq> set profile_fields then raise (TypeError ''unexpected keyword argument'')
       else
         bindR (bindR (dict_item v ''address'') text_of) (\<lambda>address.
         bindR (bindR (dict_item v ''wallet_age_days'') num) (\<lambda>age.
         bindR (bindR (dict_item v ''total_creates'') count_json) (\<lambda>creates.
         bindR (bindR (dict_item v ''total_graduates'') count_json) (\<lambda>graduates.
         bindR (bindR (dict_item v ''graduation_rate'') num) (\<lambda>rate.
         bindR (bindR (dict_item v ''tokens_last_7d'') count_json) (\<lambda>n7.
         bindR (bindR (dict_item v ''tokens_last_24h'') count_json) (\<lambda>n24.
         bindR (bindR (dict_item v ''median_time_between_launches_hours'') num) (\<lambda>median.
         bindR (bindR (dict_item v ''score'') num) (\<lambda>s.
         bindR (bindR (bindR (dict_get v ''tags'' (JList [])) py_iter) (mapR text_of)) (\<lambda>tags.
         bindR (bindR (dict_get v ''last_scored'' (JInt 0)) num) (\<lambda>scored.
         ret \<lparr> cp_address = PyStr address, cp_wallet_age_days = age, cp_total_creates = creates,
              cp_total_graduates = graduates, cp_graduation_rate = rate, cp_tokens_last_7d = n7,
              cp_tokens_last_24h = n24, cp_median_hours = median, cp_score = s, cp_tags = tags,
              cp_last_scored = scored \<rparr>)))))))))))
   | _ \<Rightarrow> raise (TypeError ''argument after ** must be a mapping''))"

section \<open>Saving and loading\<close>

text \<open>Every profile is taken with the time as its \<open>last_scored\<close>; the text is made afterwards.\<close>

fun stamp_entries :: "'w env \<Rightarrow> profile_cache \<Rightarrow> ('w, (pytext \<times> CreatorProfile \<times> pyfloat) list) io" where
  "stamp_entries E [] = retIO []"
| "stamp_entries E ((addr, (p, _)) # cache) =
     bindIO (now E) (\<lambda>time.
     bindIO (stamp_entries E cache) (\<lambda>rest. retIO ((addr, (p, time)) # rest)))"

definition entry_json :: "pytext \<times> CreatorProfile \<times> pyfloat \<Rightarrow> (string \<times> json) res" where
  "entry_json = (\<lambda>(addr, (p, time)).
     bindR (text_json addr) (\<lambda>k. bindR (profile_json time p) (\<lambda>j. ret (k, j))))"

type_synonym ('w, 'a) scorer = "('w \<times> (files \<times> profile_cache), 'a) io"

definition on_cache :: "('w \<times> profile_cache, 'a) io \<Rightarrow> ('w, 'a) scorer" where
  "on_cache m = (\<lambda>(w, (fs, c)). case m (w, c) of (r, (w', c')) \<Rightarrow> (r, (w', (fs, c'))))"

text \<open>
  Saving: the directory is made, the text is made, and then the file is opened, which empties it, and
  written.  Whatever raises is swallowed.
\<close>

definition save_cache :: "'w env \<Rightarrow> 'w disk \<Rightarrow> string option \<Rightarrow> ('w, unit) scorer" where
  "save_cache E D path = (case path of
     None \<Rightarrow> retIO ()
   | Some p \<Rightarrow>
       if p = [] then retIO ()
       else catchIO
         (bindIO (state snd) (\<lambda>cache.
          bindIO (in_world (stamp_entries E cache)) (\<lambda>stamped.
          bindIO (in_world (D Make_dir)) (\<lambda>_.
          bindIO (liftR (mapR entry_json stamped)) (\<lambda>entries.
          bindIO (in_world (D Open_write)) (\<lambda>_.
          bindIO (update (\<lambda>(fs, c). (fs(p \<mapsto> Corrupt), c))) (\<lambda>_.
          bindIO (in_world (D Write_text)) (\<lambda>_.
          update (\<lambda>(fs, c). (fs(p \<mapsto> JsonFile (JDict entries)), c))))))))))
         (\<lambda>_. retIO ()))"

text \<open>
  The loop of the constructor over the file's entries, which keeps what it has read when an entry
  raises.
\<close>

fun load_entries :: "pyfloat \<Rightarrow> (string \<times> json) list \<Rightarrow> profile_cache \<Rightarrow> profile_cache" where
  "load_entries time [] cache = cache"
| "load_entries time ((addr, v) # entries) cache =
     (case bindR (dict_get v ''last_scored'' (JInt 0)) num of
        Inl _ \<Rightarrow> cache
      | Inr scored \<Rightarrow>
          if time - scored < Fin 86400 then
            (case profile_from v of
               Inl _ \<Rightarrow> cache
             | Inr p \<Rightarrow> load_entries time entries (AList.update (PyStr addr) (p, time) cache))
          else load_entries time entries cache)"

text \<open>
  The constructor.  Whether the file exists is asked outside the handler; reading it, parsing it
  and whatever its entries raise are inside.
\<close>

definition load_profiles :: "'w env \<Rightarrow> 'w disk \<Rightarrow> string option \<Rightarrow> files \<Rightarrow> ('w, profile_cache) io" where
  "load_profiles E D path fs = (case path of
     None \<Rightarrow> retIO []
   | Some p \<Rightarrow>
       if p = [] then retIO []
       else
         bindIO (D Exists) (\<lambda>_.
         if fs p = None then retIO []
         else catchIO
           (bindIO (D Read_text) (\<lambda>_.
            bindIO (liftR (read_json fs p)) (\<lambda>data.
            bindIO (now E) (\<lambda>time. case data of
              JDict entries \<Rightarrow> retIO (load_entries time entries [])
            | _ \<Rightarrow> raiseIO (AttributeError ''no attribute items'')))))
           (\<lambda>_. retIO [])))"

text \<open>\<open>score\<close> with its cache file.\<close>

definition score_saved ::
  "'w env \<Rightarrow> 'w disk \<Rightarrow> 'w feed_env \<Rightarrow> base58 \<Rightarrow> int \<Rightarrow> string option \<Rightarrow> pytext \<Rightarrow> string
   \<Rightarrow> ('w, SnipeDecision) scorer" where
  "score_saved E D F B max_sigs path creator mint =
     bindIO (in_world (now E)) (\<lambda>time.
     bindIO (state (\<lambda>(fs, c). cached_profile creator time c)) (\<lambda>hit. case hit of
       Some p \<Rightarrow> retIO (decide p mint)
     | None \<Rightarrow>
         bindIO (catchIO
             (bindIO (in_world (fetch_profile E F B max_sigs creator)) (\<lambda>p. retIO (Inr p)))
             (\<lambda>e. retIO (Inl e))) (\<lambda>fetched. case fetched of
           Inl e \<Rightarrow> retIO (scoring_error creator mint e)
         | Inr p0 \<Rightarrow>
             let p = p0\<lparr>cp_last_scored := time\<rparr> in
             bindIO (update (\<lambda>(fs, c). (fs, AList.update creator (p, time) c))) (\<lambda>_.
             bindIO (save_cache E D path) (\<lambda>_. retIO (decide p mint))))))"

section \<open>Round trip\<close>

text \<open>What a cache says apart from its times.\<close>

definition untimed :: "profile_cache \<Rightarrow> (pytext \<times> CreatorProfile) list" where
  "untimed cache = map (\<lambda>(a, (p, _)). (a, p\<lparr>cp_last_scored := Fin 0\<rparr>)) cache"

definition text_cache :: "profile_cache \<Rightarrow> bool" where
  "text_cache cache \<longleftrightarrow> distinct (map fst cache) \<and>
     (\<forall>(a, (p, _)) \<in> set cache. (\<exists>s. a = PyStr s) \<and> (\<exists>s. cp_address p = PyStr s))"

lemma mapR_text_of: "mapR text_of (map JStr ts) = Inr ts"
  by (induction ts) (simp_all add: text_of_def)

lemma profile_from_json:
  assumes "profile_json t p = Inr j"
  shows "profile_from j = Inr (p\<lparr>cp_last_scored := t\<rparr>)" "dict_get j ''last_scored'' d = Inr (JFloat t)"
proof -
  obtain a where a: "cp_address p = PyStr a" and j: "j = JDict [(''address'', JStr a),
       (''wallet_age_days'', JFloat (cp_wallet_age_days p)),
       (''total_creates'', JInt (int (cp_total_creates p))),
       (''total_graduates'', JInt (int (cp_total_graduates p))),
       (''graduation_rate'', JFloat (cp_graduation_rate p)),
       (''tokens_last_7d'', JInt (int (cp_tokens_last_7d p))),
       (''tokens_last_24h'', JInt (int (cp_tokens_last_24h p))),
       (''median_time_between_launches_hours'', JFloat (cp_median_hours p)),
       (''score'', JFloat (cp_score p)), (''tags'', JList (map JStr (cp_tags p))),
       (''last_scored'', JFloat t)]"
    using assms by (auto simp: profile_json_def text_json_def split: pytext.splits)
  show "dict_get j ''last_scored'' d = Inr (JFloat t)" by (simp add: j)
  show "profile_from j = Inr (p\<lparr>cp_last_scored := t\<rparr>)"
    using a by (simp add: j profile_from_def profile_fields_def text_of_def count_json_def mapR_text_of)
qed

lemma update_fresh: "k \<notin> fst ` set m \<Longrightarrow> AList.update k v m = m @ [(k, v)]"
  by (induction m) auto

text \<open>An entry and its copy with a reading of the clock.\<close>

definition stamped :: "'w env \<Rightarrow> pytext \<times> CreatorProfile \<times> pyfloat \<Rightarrow> pytext \<times> CreatorProfile \<times> pyfloat \<Rightarrow> bool" where
  "stamped E e e' \<longleftrightarrow> fst e' = fst e \<and> fst (snd e') = fst (snd e) \<and> (\<exists>w. snd (snd e') = fst (clock E w))"

lemma stamp_entries_shape:
  "\<exists>es w'. stamp_entries E cache w = (Inr es, w') \<and>
     list_all2 (stamped E) cache es"
proof (induction cache arbitrary: w)
  case (Cons e cache)
  obtain a p t where e: "e = (a, (p, t))" by (cases e)
  obtain w1 where w1: "now E w = (Inr (fst (clock E w)), w1)" by (metis now_Inr prod.collapse)
  from Cons.IH [of w1] obtain es w' where es: "stamp_entries E cache w1 = (Inr es, w')" "list_all2 (stamped E) cache es"
    by blast
  have "stamp_entries E (e # cache) w = (Inr ((a, (p, fst (clock E w))) # es), w')"
    by (simp add: e bindIO_def w1 es(1))
  moreover have "stamped E e (a, (p, fst (clock E w)))" by (auto simp: stamped_def e)
  ultimately show ?case using es(2) by auto
qed simp

lemma load_entries_stamped:
  assumes "list_all2 (stamped E) cache es"
    and "text_cache cache" "mapR entry_json es = Inr js" "\<And>w. time - fst (clock E w) < Fin 86400"
    and "fst ` set acc \<inter> fst ` set cache = {}"
  shows "\<exists>loaded. load_entries time js acc = acc @ loaded \<and> untimed loaded = untimed cache \<and>
    list_all (\<lambda>(a, (p, t)). t = time) loaded"
  using assms(1,2,3,5)
proof (induction arbitrary: js acc rule: list_all2_induct)
  case (Cons e cache e' es)
  obtain a p t where e: "e = (a, (p, t))" by (cases e)
  with Cons(1) obtain w where e': "e' = (a, (p, fst (clock E w)))" by (cases e') (auto simp: stamped_def)
  from Cons.prems(2) obtain k j js' where js: "js = (k, j) # js'" "text_json a = Inr k"
    "profile_json (fst (clock E w)) p = Inr j" "mapR entry_json es = Inr js'"
    by (auto simp: e' entry_json_def)
  have a: "a = PyStr k" using js(2) by (auto simp: text_json_def split: pytext.splits)
  have tc: "text_cache cache" "a \<notin> fst ` set cache" using Cons.prems(1) by (auto simp: text_cache_def e)
  let ?q = "(a, (p\<lparr>cp_last_scored := fst (clock E w)\<rparr>, time))"
  have fresh: "a \<notin> fst ` set acc" "fst ` set (acc @ [?q]) \<inter> fst ` set cache = {}"
    using Cons.prems(3) tc(2) by (auto simp: e)
  have "load_entries time js acc = load_entries time js' (acc @ [?q])"
    using assms(4) fresh(1) by (simp add: js(1) profile_from_json [OF js(3)] a update_fresh)
  with Cons.IH [OF tc(1) js(4) fresh(2)] obtain loaded where
    "load_entries time js acc = acc @ [?q] @ loaded" "untimed loaded = untimed cache"
    "list_all (\<lambda>(a, (p, t)). t = time) loaded" by auto
  then show ?case by (intro exI [of _ "?q # loaded"]) (simp add: untimed_def e)
qed (simp add: untimed_def)

text \<open>Every entry of a cache of text becomes JSON.\<close>

lemma stamped_entries_json:
  assumes "list_all2 (stamped E) cache es" "text_cache cache"
  shows "\<exists>js. mapR entry_json es = Inr js"
proof -
  have "\<exists>y. entry_json x = Inr y" if x: "x \<in> set es" for x
  proof -
    obtain e where e: "e \<in> set cache" "stamped E e x"
      using assms(1) x by (metis in_set_conv_nth list_all2_conv_all_nth)
    obtain a p t where x': "x = (a, (p, t))" by (cases x)
    obtain t0 where "e = (a, (p, t0))" using e(2) by (cases e) (auto simp: stamped_def x')
    with e(1) assms(2) obtain k l where "a = PyStr k" "cp_address p = PyStr l"
      unfolding text_cache_def by blast
    then show ?thesis by (simp add: x' entry_json_def text_json_def profile_json_def)
  qed
  then have "entry_json x = Inr (projr (entry_json x))" if "x \<in> set es" for x
    using that by (metis sum.sel(2))
  then show ?thesis by (intro exI) (rule mapR_all)
qed

text \<open>What a save leaves: what was there, an emptied file, or the entries.\<close>

lemma save_cache_result:
  assumes "save_cache E D (Some path) (w, (fs, cache)) = (r, (w', (fs', cache')))"
    and "path \<noteq> []" "text_cache cache"
  obtains es js where "list_all2 (stamped E) cache es" "mapR entry_json es = Inr js"
    "r = Inr ()" "cache' = cache"
    "(fs' = fs \<and> (disk_fails D Make_dir \<or> disk_fails D Open_write)) \<or>
     (fs' = fs(path \<mapsto> Corrupt) \<and> disk_fails D Write_text) \<or> fs' = fs(path \<mapsto> JsonFile (JDict js))"
proof -
  obtain es w1 where es: "stamp_entries E cache w = (Inr es, w1)" "list_all2 (stamped E) cache es"
    using stamp_entries_shape [of E cache w] by (elim exE conjE)
  obtain js where js: "mapR entry_json es = Inr js"
    using stamped_entries_json [OF es(2) assms(3)] by (elim exE)
  obtain q2 w2 where 2: "D Make_dir w1 = (q2, w2)" by (cases "D Make_dir w1")
  obtain q3 w3 where 3: "D Open_write w2 = (q3, w3)" by (cases "D Open_write w2")
  obtain q4 w4 where 4: "D Write_text w3 = (q4, w4)" by (cases "D Write_text w3")
  have fails: "disk_fails D op" if "D op v = (Inl e, v')" for op v e v'
    using that by (auto simp: disk_fails_def)
  note run = assms(1) [unfolded save_cache_def option.case if_not_P [OF assms(2)]]
  have "r = Inr () \<and> cache' = cache \<and>
    ((fs' = fs \<and> (disk_fails D Make_dir \<or> disk_fails D Open_write)) \<or>
     (fs' = fs(path \<mapsto> Corrupt) \<and> disk_fails D Write_text) \<or> fs' = fs(path \<mapsto> JsonFile (JDict js)))"
    using run fails [of Make_dir w1] fails [of Open_write w2] fails [of Write_text w3]
    by (cases q2; cases q3; cases q4)
      (auto simp: bindIO_def catchIO_def state_def in_world_def update_def es(1) js 2 3 4)
  with es(2) js that show ?thesis by blast
qed

text \<open>
  C17. The cache file keeps every profile, however old, or the disk has failed.  Saving a cache of
  creators given as text always returns and leaves the memory as it is.  If the file is then loaded,
  by a clock whose readings are less than a day apart, the scorer gets the same creators with the
  same profiles in the same order, apart from their times: each now counts as cached at one reading
  of that clock, so that a profile that is saved again and again never expires.  The exceptions are those
  the code swallows: if the directory cannot be made or the file not opened, the file is what it was
  before; if writing or reading fails, the load gives nothing at all.
\<close>

theorem cache_roundtrip:
  assumes "save_cache E D (Some path) (w, (fs, cache)) = (r, (w', (fs', cache')))"
    and "load_profiles E D (Some path) fs' v = (Inr loaded, v')"
    and "path \<noteq> []" "text_cache cache" "\<And>u w. fst (clock E u) - fst (clock E w) < Fin 86400"
  shows "r = Inr () \<and> cache' = cache \<and>
    ((untimed loaded = untimed cache \<and> (\<exists>u. list_all (\<lambda>(a, (p, cached_at)). cached_at = fst (clock E u)) loaded)) \<or>
     (fs' = fs \<and> (disk_fails D Make_dir \<or> disk_fails D Open_write)) \<or>
     (loaded = [] \<and> (disk_fails D Write_text \<or> disk_fails D Read_text)))"
proof -
  obtain es js where es: "list_all2 (stamped E) cache es" "mapR entry_json es = Inr js"
    and saved: "r = Inr ()" "cache' = cache"
      "(fs' = fs \<and> (disk_fails D Make_dir \<or> disk_fails D Open_write)) \<or>
       (fs' = fs(path \<mapsto> Corrupt) \<and> disk_fails D Write_text) \<or> fs' = fs(path \<mapsto> JsonFile (JDict js))"
    by (rule save_cache_result [OF assms(1,3,4)])
  obtain q1 v1 where 1: "D Exists v = (q1, v1)" by (cases "D Exists v")
  obtain q2 v2 where 2: "D Read_text v1 = (q2, v2)" by (cases "D Read_text v1")
  obtain time v3 where 3: "clock E v2 = (time, v3)" by (cases "clock E v2")
  have ok: "q1 = Inr ()"
    using assms(2,3) 1 by (cases q1) (auto simp: load_profiles_def bindIO_def)
  note run = assms(2) [unfolded load_profiles_def option.case if_not_P [OF assms(3)]]
  from saved(3) consider (old) "fs' = fs" "disk_fails D Make_dir \<or> disk_fails D Open_write"
    | (emptied) "fs' path = Some Corrupt" "disk_fails D Write_text"
    | (written) "fs' path = Some (JsonFile (JDict js))" by auto
  then show ?thesis
  proof cases
    case emptied
    then have "loaded = []"
      using run 1 2 ok by (cases q2) (auto simp: bindIO_def catchIO_def read_json_def)
    with emptied saved show ?thesis by blast
  next
    case written
    show ?thesis
    proof (cases q2)
      case (Inl e)
      then have "disk_fails D Read_text" using 2 by (auto simp: disk_fails_def)
      moreover have "loaded = []" using run 1 2 Inl ok written by (auto simp: bindIO_def catchIO_def)
      ultimately show ?thesis using saved by blast
    next
      case (Inr u)
      have "loaded = load_entries time js []"
        using run 1 2 3 Inr ok written by (auto simp: bindIO_def catchIO_def read_json_def now_def)
      moreover obtain got where "load_entries time js [] = got" "untimed got = untimed cache"
          "list_all (\<lambda>(a, (p, t)). t = time) got"
        using load_entries_stamped [OF es(1) assms(4) es(2), of time "[]"] assms(5) [of v2] 3 by auto
      ultimately show ?thesis using saved by (intro conjI disjI1 exI [of _ v2]) (simp_all add: 3)
    qed
  qed (use saved in blast)
qed

theorem cache_roundtrip_witness:
  "\<exists>fs' loaded. save_cache dead_env (\<lambda>_. retIO ()) (Some ''c'')
        (0 :: nat, (\<lambda>_. None, [(PyStr ''W'', (fresh_profile (PyStr ''W''), Fin 0))]))
      = (Inr (), (0, (fs', [(PyStr ''W'', (fresh_profile (PyStr ''W''), Fin 0))]))) \<and>
    load_profiles dead_env (\<lambda>_. retIO ()) (Some ''c'') fs' (0 :: nat) = (Inr loaded, 0) \<and>
    untimed loaded = [(PyStr ''W'', fresh_profile (PyStr ''W''))]"
proof -
  let ?cache = "[(PyStr ''W'', (fresh_profile (PyStr ''W''), Fin 0))]"
  let ?D = "(\<lambda>_. retIO ()) :: nat disk"
  have works: "\<not> disk_fails ?D op" for op by (simp add: disk_fails_def)
  obtain r w' fs' cache' where run: "save_cache dead_env ?D (Some ''c'') (0, (\<lambda>_. None, ?cache)) = (r, (w', (fs', cache')))"
    by (metis surj_pair)
  then have w': "w' = 0"
    by (auto simp: save_cache_def catchIO_def bindIO_def state_def in_world_def update_def
        now_def dead_env_def split: sum.splits prod.splits)
  have "\<exists>loaded. load_profiles dead_env ?D (Some ''c'') fs' 0 = (Inr loaded, 0)"
    by (auto simp: load_profiles_def catchIO_def bindIO_def now_def dead_env_def
        split: sum.splits prod.splits json.splits)
  then obtain loaded where load: "load_profiles dead_env ?D (Some ''c'') fs' 0 = (Inr loaded, 0)" ..
  have "text_cache ?cache" by (simp add: text_cache_def fresh_profile_def)
  moreover have "fst (clock (dead_env :: nat env) u) - fst (clock dead_env w) < Fin 86400" for u w
    by (simp add: dead_env_def)
  ultimately have "r = Inr ()" "cache' = ?cache" "untimed loaded = untimed ?cache"
    using cache_roundtrip [OF run load] works by auto
  moreover have "untimed ?cache = [(PyStr ''W'', fresh_profile (PyStr ''W''))]"
    by (simp add: untimed_def fresh_profile_def)
  ultimately show ?thesis using run w' load by (intro exI [of _ fs'] exI [of _ loaded]) simp
qed

text \<open>Without a file the scorer is the one the sniper uses.\<close>

theorem score_saved_without_file:
  "score_saved E D F B max_sigs None creator mint = on_cache (score E F B max_sigs creator mint)"
  by (auto simp: fun_eq_iff score_saved_def score_def on_cache_def save_cache_def bindIO_def catchIO_def
      in_world_def state_def update_def Let_def split: prod.splits sum.splits option.splits)

end
