(* ===== verification/Jito.thy ===== *)
theory Jito
  imports PyText Growing
begin

text \<open>
  \<open>backrunner/jito_sender.py\<close>: the sender of bundles to the regions of the block engine.  The
  HTTP session is a parameter, as is the choice of a tip account.  The name \<open>asyncio\<close> is not
  imported, so that the gathering of the posts raises \<open>NameError\<close> before any of them runs; what
  the code writes after it has no counterpart here.
\<close>

definition TIP_ACCOUNTS :: "string list" where
  "TIP_ACCOUNTS = [''96gYZGLnJYVFmbjzopPSU6QiEV5fGqZNyN9nmNhvrZU5'',
     ''HFqU5x63VTqvQss8hp11i4wVV8bD44PvwucfZ2bU7gRe'', ''Cw8CFyM9FkoMi7K7Crf6HNQqf4uEMzpKw6QNghXLvLkY'',
     ''ADaUMid9yfUytqMBgopwjb2DTLSokTSzL1zt6iGPaS49'', ''DfXygSm4jCyNCybVYYK6DwvWqjKee8pbDmJGcLWNDXjh'',
     ''ADuUkR4vqLUMWXxW9gh6D6L8pMSawimctcNZ5pGwDcEt'', ''DttWaMuVvTiduZRnguLF7jNxTgiMBZ1hyAumKUiL2KRL'',
     ''3AVi9Tg9Uo68tJfuvoKvqKNWKkC5wPdSSdeBnizKZ6jT'']"

definition JITO_ENDPOINTS :: "string list" where
  "JITO_ENDPOINTS = [''https://mainnet.block-engine.jito.wtf/api/v1/bundles'',
     ''https://ny.mainnet.block-engine.jito.wtf/api/v1/bundles'',
     ''https://amsterdam.mainnet.block-engine.jito.wtf/api/v1/bundles'',
     ''https://frankfurt.mainnet.block-engine.jito.wtf/api/v1/bundles'',
     ''https://tokyo.mainnet.block-engine.jito.wtf/api/v1/bundles'',
     ''https://slc.mainnet.block-engine.jito.wtf/api/v1/bundles'']"

text \<open>\<open>random.choice\<close> on the index the generator draws.\<close>

definition random_tip_account :: "nat \<Rightarrow> string" where
  "random_tip_account k = TIP_ACCOUNTS ! (k mod length TIP_ACCOUNTS)"

definition bundle_payload :: "string list \<Rightarrow> string \<Rightarrow> json" where
  "bundle_payload encoded_txs encoding =
     JDict [(''jsonrpc'', JStr ''2.0''), (''id'', JInt 1), (''method'', JStr ''sendBundle''),
       (''params'', JList (if encoding = ''base64''
          then [JList (map JStr encoded_txs), JDict [(''encoding'', JStr encoding)]]
          else [JList (map JStr encoded_txs)]))]"

text \<open>The state: the region that accepted last.\<close>

type_synonym ('w, 'a) jito = "('w \<times> string option, 'a) io"

definition jito_post ::
  "(string \<Rightarrow> json \<Rightarrow> ('w, json) io) \<Rightarrow> string \<Rightarrow> string list \<Rightarrow> string \<Rightarrow> ('w, string \<times> json) jito" where
  "jito_post post url encoded_txs encoding =
     catchIO (bindIO (in_world (post url (bundle_payload encoded_txs encoding))) (\<lambda>data. retIO (url, data)))
       (\<lambda>e. retIO (url, JDict [(''error'', JStr (exn_text e))]))"

text \<open>The posts are coroutines: building their list runs none of them.\<close>

definition send_bundle ::
  "(string \<Rightarrow> json \<Rightarrow> ('w, json) io) \<Rightarrow> string list \<Rightarrow> string \<Rightarrow> ('w, (string \<times> json) list) jito" where
  "send_bundle post encoded_txs encoding =
     (let tasks = map (\<lambda>url. jito_post post url encoded_txs encoding) JITO_ENDPOINTS
      in raiseIO (NameError ''name 'asyncio' is not defined''))"

text \<open>A post always ends with an answer of its region, and leaves the last region alone.\<close>

lemma jito_post_answers:
  "\<exists>v w'. jito_post post url txs enc (w, region) = (Inr (url, v), (w', region))"
  by (auto simp: jito_post_def catchIO_def bindIO_def in_world_def split: prod.split sum.split)

text \<open>No bundle is ever sent: the world and the last region stay as they were.\<close>

lemma send_bundle_never_sends:
  "send_bundle post txs enc \<sigma> = (Inl (NameError ''name 'asyncio' is not defined''), \<sigma>)"
  by (simp add: send_bundle_def)

lemma random_tip_account_in: "random_tip_account k \<in> set TIP_ACCOUNTS"
  unfolding random_tip_account_def by (rule nth_mem) (simp add: TIP_ACCOUNTS_def)

end
