(* ===== verification/Sniper.thy ===== *)
theory Sniper
  imports Scorer Copytrader
begin

text \<open>
  \<open>PumpSniper\<close> of \<open>backrunner/snipers.py\<close>: the watcher of token launches.  Two threads, one on
  the websocket and one polling blocks, share the signatures seen, the limiter of REST calls and
  the scorer.  Python looks \<open>d\<close> up at line 266, where only the nested function has bound it,
  so a launch that gets that far raises \<open>NameError\<close>; what the code writes after it never runs.
  The transports are those of the momentum watcher and of \<open>SolanaRpc\<close>.
\<close>

section \<open>The state\<close>

record SnipeSignal =
  ss_creator :: pytext
  ss_mint :: string
  ss_signature :: json
  ss_slot :: json
  ss_is_v2 :: bool

text \<open>The scorer is a \<open>CreatorScorer\<close> with its number of signatures, or absent.\<close>

record sniper_args =
  sa_rpc_url :: string
  sa_enable_block_poll :: bool
  sa_max_per_minute :: nat
  sa_scorer :: "int option"

record PumpSniper =
  sp_running :: bool
  sp_seen_signatures :: "json set"
  sp_signals_this_minute :: "pyfloat list"
  sp_rest_calls :: "pyfloat list"
  sp_scores :: profile_cache
  sp_queue :: "SnipeSignal list"

definition new_sniper :: PumpSniper where
  "new_sniper = \<lparr> sp_running = False, sp_seen_signatures = {}, sp_signals_this_minute = [],
     sp_rest_calls = [], sp_scores = [], sp_queue = [] \<rparr>"

definition MAX_SEEN :: nat where
  "MAX_SEEN = 5000"

text \<open>\<open>_seen_signatures.add\<close> and the reset behind it; adding to a set hashes.\<close>

definition see_signature :: "json \<Rightarrow> PumpSniper \<Rightarrow> PumpSniper" where
  "see_signature sig s =
     (let seen = insert sig (sp_seen_signatures s)
      in s\<lparr>sp_seen_signatures := (if MAX_SEEN < card seen then {} else seen)\<rparr>)"

text \<open>\<open>_rate_limited\<close>, which nothing calls.\<close>

definition last_minute :: "pyfloat \<Rightarrow> pyfloat list \<Rightarrow> pyfloat list" where
  "last_minute time ts = filter (\<lambda>t. time - t < Fin 60) ts"

definition rate_limited :: "'w env \<Rightarrow> sniper_args \<Rightarrow> ('w \<times> PumpSniper, bool) io" where
  "rate_limited E a =
     bindIO (in_world (now E)) (\<lambda>time.
     bindIO (update (\<lambda>s. s\<lparr>sp_signals_this_minute := last_minute time (sp_signals_this_minute s)\<rparr>)) (\<lambda>_.
     state (\<lambda>s. sa_max_per_minute a \<le> length (sp_signals_this_minute s))))"

text \<open>The limiter of the REST calls, inline in \<open>_check_tx\<close>: whether the call may go out.\<close>

definition admit_call :: "sniper_args \<Rightarrow> pyfloat \<Rightarrow> PumpSniper \<Rightarrow> bool \<times> PumpSniper" where
  "admit_call a time s =
     (let calls = last_minute time (sp_rest_calls s) in
      if sa_max_per_minute a * 3 \<le> length calls then (False, s\<lparr>sp_rest_calls := calls\<rparr>)
      else (True, s\<lparr>sp_rest_calls := calls @ [time]\<rparr>))"

definition admit :: "'w env \<Rightarrow> sniper_args \<Rightarrow> ('w \<times> PumpSniper, bool) io" where
  "admit E a =
     bindIO (in_world (now E)) (\<lambda>time.
     (\<lambda>(w, s). case admit_call a time s of (ok, s') \<Rightarrow> (Inr ok, (w, s'))))"

section \<open>Launches\<close>

text \<open>
  \<open>_check_disc\<close>: whether the instruction creates a token, and its creator.
\<close>

definition check_disc :: "(json \<Rightarrow> string) \<Rightarrow> base58 \<Rightarrow> json \<Rightarrow> (bool \<times> pytext option) res" where
  "check_disc rp B ix =
     bindR (program_of rp ix) (\<lambda>prog.
     if prog \<noteq> PUMP_PROGRAM then ret (False, None)
     else
       bindR (dict_get ix ''data'' JNull) (\<lambda>v.
       if \<not> truthy v then ret (False, None)
       else case instruction_data B v of
         None \<Rightarrow> ret (False, None)
       | Some data \<Rightarrow>
           if is_create data then ret (True, parse_creator_from_instruction B data)
           else ret (False, None)))"

text \<open>The first create instruction of a list, and of the top-level and then the inner ones.\<close>

fun first_create :: "(json \<Rightarrow> string) \<Rightarrow> base58 \<Rightarrow> json list \<Rightarrow> pytext option option res" where
  "first_create rp B [] = ret None"
| "first_create rp B (ix # ixs) =
     bindR (check_disc rp B ix) (\<lambda>(found, c). if found then ret (Some c) else first_create rp B ixs)"

fun first_inner_create :: "(json \<Rightarrow> string) \<Rightarrow> base58 \<Rightarrow> json list \<Rightarrow> pytext option option res" where
  "first_inner_create rp B [] = ret None"
| "first_inner_create rp B (inner # rest) =
     bindR (bindR (dict_get inner ''instructions'' (JList [])) py_iter) (\<lambda>ixs.
     bindR (first_create rp B ixs) (\<lambda>r. case r of
       Some c \<Rightarrow> ret (Some c)
     | None \<Rightarrow> first_inner_create rp B rest))"

definition find_create :: "(json \<Rightarrow> string) \<Rightarrow> base58 \<Rightarrow> json \<Rightarrow> json list \<Rightarrow> pytext option option res" where
  "find_create rp B meta instructions =
     bindR (first_create rp B instructions) (\<lambda>r. case r of
       Some c \<Rightarrow> ret (Some c)
     | None \<Rightarrow>
         bindR (bindR (dict_get meta ''innerInstructions'' (JList [])) py_iter) (first_inner_create rp B))"

definition balance_mints :: "(json \<Rightarrow> string) \<Rightarrow> json \<Rightarrow> string \<Rightarrow> string list res" where
  "balance_mints rp meta key =
     bindR (bindR (dict_get meta key (JList [])) py_iter)
       (mapR (\<lambda>bal. bindR (dict_get bal ''mint'' JNull) (\<lambda>v. ret (py_str rp v))))"

text \<open>
  The mint that only the balances after the transaction hold.  The loop over these stops at the
  first one, so that a malformed balance behind it is not looked at.
\<close>

fun first_new_mint :: "(json \<Rightarrow> string) \<Rightarrow> string list \<Rightarrow> json list \<Rightarrow> string option res" where
  "first_new_mint rp pre_mints [] = ret None"
| "first_new_mint rp pre_mints (bal # bals) =
     bindR (dict_get bal ''mint'' JNull) (\<lambda>v.
     let m = py_str rp v in
     if m \<notin> set pre_mints \<and> m \<noteq> WSOL \<and> m \<noteq> ''So11111111111111111111111111111111111111111''
     then ret (Some m) else first_new_mint rp pre_mints bals)"

definition new_mint :: "(json \<Rightarrow> string) \<Rightarrow> json \<Rightarrow> string option res" where
  "new_mint rp meta =
     bindR (balance_mints rp meta ''preTokenBalances'') (\<lambda>pre_mints.
     bindR (bindR (dict_get meta ''postTokenBalances'' (JList [])) py_iter) (first_new_mint rp pre_mints))"

section \<open>One transaction\<close>

fun text_truthy :: "pytext \<Rightarrow> bool" where
  "text_truthy (PyStr s) = (s \<noteq> [])"
| "text_truthy (PyBytes b) = (b \<noteq> [])"

definition in_scorer :: "('w \<times> profile_cache, 'a) io \<Rightarrow> ('w \<times> PumpSniper, 'a) io" where
  "in_scorer m = (\<lambda>(w, s). case m (w, sp_scores s) of (r, (w', c)) \<Rightarrow> (r, (w', s\<lparr>sp_scores := c\<rparr>)))"

definition note_signal :: "pyfloat \<Rightarrow> PumpSniper \<Rightarrow> PumpSniper" where
  "note_signal time s = s\<lparr>sp_signals_this_minute := sp_signals_this_minute s @ [time]\<rparr>"

text \<open>
  The decision: \<open>True\<close> when the code goes on to the signal.  The message of an approval formats
  the score with \<open>.2f if ...\<close>, which is no format, so that it raises.
\<close>

definition judge ::
  "'w env \<Rightarrow> 'w feed_env \<Rightarrow> base58 \<Rightarrow> sniper_args \<Rightarrow> pytext option \<Rightarrow> string \<Rightarrow> ('w \<times> PumpSniper, bool) io" where
  "judge E F B a creator mint = (case (sa_scorer a, creator) of
     (Some max_sigs, Some c) \<Rightarrow>
       if text_truthy c \<and> c \<noteq> PyStr ''unknown'' then
         bindIO (in_scorer (score E F B max_sigs c mint)) (\<lambda>decision.
         if \<not> sd_approved decision then
           bindIO (in_world (now E)) (\<lambda>time.
           bindIO (update (note_signal time)) (\<lambda>_. retIO False))
         else raiseIO (ValueError ''Invalid format specifier''))
       else retIO True
   | _ \<Rightarrow> retIO True)"

definition judge_transaction ::
  "'w env \<Rightarrow> 'w feed_env \<Rightarrow> base58 \<Rightarrow> sniper_args \<Rightarrow> json \<Rightarrow> ('w \<times> PumpSniper, SnipeSignal option) io" where
  "judge_transaction E F B a tx =
     bindIO (liftR (dict_get tx ''meta'' (JDict []))) (\<lambda>meta.
     bindIO (liftR (dict_get meta ''err'' JNull)) (\<lambda>err.
     if truthy err then retIO None
     else
       bindIO (liftR (bindR (dict_get tx ''transaction'' (JDict [])) (\<lambda>t.
           dict_get t ''message'' (JDict [])))) (\<lambda>msg.
       bindIO (liftR (bindR (bindR (dict_get msg ''accountKeys'' (JList [])) py_iter)
           (mapR (copy_account_key (rep E))))) (\<lambda>account_keys.
       bindIO (liftR (bindR (dict_get msg ''instructions'' (JList [])) py_iter)) (\<lambda>instructions.
       bindIO (liftR (find_create (rep E) B meta instructions)) (\<lambda>found. case found of
         None \<Rightarrow> retIO None
       | Some creator \<Rightarrow>
           bindIO (liftR (new_mint (rep E) meta)) (\<lambda>mint. case mint of
             None \<Rightarrow> retIO None
           | Some m \<Rightarrow>
               if m = [] then retIO None
               else
                 bindIO (liftR (dict_get meta ''slot'' (JInt 0))) (\<lambda>slot.
                 bindIO (judge E F B a creator m) (\<lambda>goes_on.
                 if \<not> goes_on then retIO None
                 else
                   bindIO (in_world (now E)) (\<lambda>time.
                   bindIO (update (note_signal time)) (\<lambda>_.
                   raiseIO (NameError ''name 'd' is not defined''))))))))))))"

definition check_tx ::
  "'w env \<Rightarrow> 'w feed_env \<Rightarrow> base58 \<Rightarrow> sniper_args \<Rightarrow> json \<Rightarrow> ('w \<times> PumpSniper, SnipeSignal option) io" where
  "check_tx E F B a sig =
     bindIO (liftR (guardR (hashable sig) (TypeError ''unhashable type''))) (\<lambda>_.
     bindIO (state sp_seen_signatures) (\<lambda>seen.
     if sig \<in> seen then retIO None
     else
       bindIO (update (see_signature sig)) (\<lambda>_.
       bindIO (admit E a) (\<lambda>admitted.
       if \<not> admitted then retIO None
       else
         bindIO (in_world (fetch_transaction F sig)) (\<lambda>tx.
         if \<not> truthy tx then retIO None
         else judge_transaction E F B a tx)))))"

definition put_signal :: "SnipeSignal option \<Rightarrow> ('w \<times> PumpSniper, unit) io" where
  "put_signal signal = (case signal of
     None \<Rightarrow> retIO ()
   | Some x \<Rightarrow> update (\<lambda>s. s\<lparr>sp_queue := sp_queue s @ [x]\<rparr>))"

section \<open>The websocket\<close>

definition sniper_message ::
  "'w env \<Rightarrow> 'w feed_env \<Rightarrow> base58 \<Rightarrow> sniper_args \<Rightarrow> json \<Rightarrow> ('w \<times> PumpSniper, unit) io" where
  "sniper_message E F B a payload =
     bindIO (liftR (dict_get payload ''method'' JNull)) (\<lambda>method.
     if method \<noteq> JStr ''logsNotification'' then retIO ()
     else
       bindIO (liftR (bindR (dict_get payload ''params'' (JDict [])) (\<lambda>p.
           dict_get p ''result'' (JDict [])))) (\<lambda>result.
       bindIO (liftR (dict_get result ''value'' (JDict []))) (\<lambda>value.
       bindIO (liftR (dict_get value ''signature'' JNull)) (\<lambda>sig.
       if \<not> truthy sig then retIO ()
       else bindIO (check_tx E F B a sig) put_signal))))"

definition sniper_subscription :: json where
  "sniper_subscription = JDict [(''jsonrpc'', JStr ''2.0''), (''id'', JInt 1),
     (''method'', JStr ''logsSubscribe''),
     (''params'', JList [JDict [(''mentions'', JList [JStr PUMP_PROGRAM])],
                         JDict [(''commitment'', JStr ''processed'')]])]"

definition sniper_connect :: "'w feed_env \<Rightarrow> sniper_args \<Rightarrow> ('w \<times> PumpSniper, unit) io" where
  "sniper_connect F a =
     bindIO (in_world (feed_open F (sa_rpc_url a) sniper_subscription)) (\<lambda>confirmation.
     liftR (bindR (dict_get confirmation ''error'' JNull) (\<lambda>err.
       bindR (if truthy err then ret True
              else bindR (py_in ''result'' confirmation) (\<lambda>b. ret (\<not> b))) (\<lambda>failed.
       if failed then raise (RuntimeError ''subscription failed'') else ret ()))))"

text \<open>One turn of \<open>_ws_loop\<close>; the result is whether the socket stays open.\<close>

definition ws_turn ::
  "'w env \<Rightarrow> 'w feed_env \<Rightarrow> base58 \<Rightarrow> sniper_args \<Rightarrow> bool \<Rightarrow> ('w \<times> PumpSniper, bool) io" where
  "ws_turn E F B a is_open =
     bindIO (state sp_running) (\<lambda>running.
     if \<not> running then retIO False
     else
       catchIO
         (bindIO (if is_open then retIO () else sniper_connect F a) (\<lambda>_.
          bindIO (in_world (feed_recv F)) (\<lambda>msg. case msg of
            None \<Rightarrow> retIO True
          | Some payload \<Rightarrow> bindIO (sniper_message E F B a payload) (\<lambda>_. retIO True))))
         (\<lambda>_. bindIO (in_world (sleep E (Fin 3))) (\<lambda>_. retIO False)))"

section \<open>The blocks\<close>

text \<open>One instruction of a polled transaction; a create instruction with a creator is checked.\<close>

definition poll_instruction ::
  "'w env \<Rightarrow> 'w feed_env \<Rightarrow> base58 \<Rightarrow> sniper_args \<Rightarrow> json \<Rightarrow> json \<Rightarrow> ('w \<times> PumpSniper, unit) io" where
  "poll_instruction E F B a sig ix =
     bindIO (liftR (program_of (rep E) ix)) (\<lambda>prog.
     if prog \<noteq> PUMP_PROGRAM then retIO ()
     else
       bindIO (liftR (dict_get ix ''data'' JNull)) (\<lambda>v.
       if \<not> truthy v then retIO ()
       else case instruction_data B v of
         None \<Rightarrow> retIO ()
       | Some data \<Rightarrow>
           (case parse_creator_from_instruction B data of
              None \<Rightarrow> retIO ()
            | Some creator \<Rightarrow>
                if \<not> text_truthy creator then retIO ()
                else
                  bindIO (in_world (transaction_json E sig ''confirmed'')) (\<lambda>full. case full of
                    None \<Rightarrow> retIO ()
                  | Some tx \<Rightarrow>
                      if \<not> truthy tx then retIO ()
                      else bindIO (check_tx E F B a sig) put_signal))))"

text \<open>\<open>(tx.get("signatures") or [""])[0]\<close>\<close>

definition record_signature :: "json \<Rightarrow> json res" where
  "record_signature tx =
     bindR (dict_get tx ''signatures'' JNull) (\<lambda>v. py_index (py_or v (JList [JStr []])) 0)"

definition poll_record ::
  "'w env \<Rightarrow> 'w feed_env \<Rightarrow> base58 \<Rightarrow> sniper_args \<Rightarrow> json \<Rightarrow> ('w \<times> PumpSniper, unit) io" where
  "poll_record E F B a record =
     bindIO (liftR (dict_get record ''meta'' (JDict []))) (\<lambda>meta.
     bindIO (liftR (dict_get meta ''err'' JNull)) (\<lambda>err.
     if truthy err then retIO ()
     else
       bindIO (liftR (dict_get record ''transaction'' (JDict []))) (\<lambda>tx.
       bindIO (liftR (record_signature tx)) (\<lambda>sig.
       if \<not> truthy sig then retIO ()
       else
         bindIO (liftR (guardR (hashable sig) (TypeError ''unhashable type''))) (\<lambda>_.
         bindIO (state sp_seen_signatures) (\<lambda>seen.
         if sig \<in> seen then retIO ()
         else
           bindIO (update (see_signature sig)) (\<lambda>_.
           bindIO (liftR (bindR (bindR (dict_get tx ''accountKeys'' (JList [])) py_iter)
               (mapR (copy_account_key (rep E))))) (\<lambda>account_keys.
           if PUMP_PROGRAM \<notin> set account_keys then retIO ()
           else
             bindIO (liftR (bindR (dict_get tx ''instructions'' (JList [])) py_iter)) (\<lambda>ixs.
             for_each (poll_instruction E F B a sig) ixs)))))))))"

text \<open>A block the node does not have is skipped; any other failure ends the turn.\<close>

definition poll_slot ::
  "'w env \<Rightarrow> 'w feed_env \<Rightarrow> base58 \<Rightarrow> sniper_args \<Rightarrow> int \<Rightarrow> ('w \<times> PumpSniper, unit) io" where
  "poll_slot E F B a slot =
     bindIO (catchIO
         (bindIO (in_world (block_accounts E ''finalized'' slot)) (\<lambda>b. retIO (Some b)))
         (\<lambda>e. case e of RuntimeError _ \<Rightarrow> retIO None | _ \<Rightarrow> raiseIO e)) (\<lambda>block. case block of
       None \<Rightarrow> retIO ()
     | Some b \<Rightarrow>
         bindIO (liftR (bindR (dict_get b ''transactions'' (JList [])) py_iter)) (\<lambda>records.
         for_each (poll_record E F B a) records))"

text \<open>One turn of \<open>_poll_loop\<close>: the latest slot and the three before it.\<close>

definition poll_turn ::
  "'w env \<Rightarrow> 'w feed_env \<Rightarrow> base58 \<Rightarrow> sniper_args \<Rightarrow> ('w \<times> PumpSniper, unit) io" where
  "poll_turn E F B a =
     bindIO (state sp_running) (\<lambda>running.
     if \<not> running then retIO ()
     else
       catchIO
         (bindIO (in_world (latest_slot E ''finalized'')) (\<lambda>latest.
          bindIO (for_each (poll_slot E F B a) [latest, latest - 1, latest - 2, latest - 3]) (\<lambda>_.
          in_world (sleep E (Fin 2)))))
         (\<lambda>_. in_world (sleep E (Fin 5))))"

section \<open>Threads\<close>

text \<open>
  \<open>start\<close>, \<open>stop\<close> and the turns of the two threads in any order.  The polling thread exists
  when it is enabled.  A turn is taken as one step, as if the threads switched only between turns.
\<close>

datatype sniper_op = StartSniper | StopSniper | WsTurn | PollTurn

definition set_running :: "bool \<Rightarrow> PumpSniper \<Rightarrow> PumpSniper" where
  "set_running b s = s\<lparr>sp_running := b\<rparr>"

fun sniper_run ::
  "'w env \<Rightarrow> 'w feed_env \<Rightarrow> base58 \<Rightarrow> sniper_args \<Rightarrow> bool \<Rightarrow> sniper_op list
   \<Rightarrow> ('w \<times> PumpSniper, unit) io" where
  "sniper_run E F B a is_open [] = retIO ()"
| "sniper_run E F B a is_open (StartSniper # ops) =
     bindIO (update (set_running True)) (\<lambda>_. sniper_run E F B a is_open ops)"
| "sniper_run E F B a is_open (StopSniper # ops) =
     bindIO (update (set_running False)) (\<lambda>_. sniper_run E F B a is_open ops)"
| "sniper_run E F B a is_open (WsTurn # ops) =
     bindIO (ws_turn E F B a is_open) (\<lambda>b. sniper_run E F B a b ops)"
| "sniper_run E F B a is_open (PollTurn # ops) =
     bindIO (if sa_enable_block_poll a then poll_turn E F B a else retIO ())
       (\<lambda>_. sniper_run E F B a is_open ops)"

section \<open>Properties\<close>

text \<open>Every value an operation returns is a given one.\<close>

definition yields :: "'a \<Rightarrow> ('s, 'a) io \<Rightarrow> bool" where
  "yields v m \<longleftrightarrow> (\<forall>\<sigma> x \<sigma>'. m \<sigma> = (Inr x, \<sigma>') \<longrightarrow> x = v)"

lemma yields_intros:
  "yields v (retIO v)" "yields v (raiseIO e)"
  "(\<And>x. yields v (f x)) \<Longrightarrow> yields v (bindIO m f)"
  "(b \<Longrightarrow> yields v m') \<Longrightarrow> (\<not> b \<Longrightarrow> yields v n) \<Longrightarrow> yields v (if b then m' else n)"
  "yields v m' \<Longrightarrow> (\<And>y. yields v (g y)) \<Longrightarrow> yields v (case u of None \<Rightarrow> m' | Some y \<Rightarrow> g y)"
  by (auto simp: yields_def retIO_def raiseIO_def elim: bindIO_run split: option.splits)

lemma check_tx_yields: "yields None (check_tx E F B a sig)"
  unfolding check_tx_def judge_transaction_def by (intro yields_intros)

definition sniper_ok :: "sniper_args \<Rightarrow> PumpSniper \<Rightarrow> bool" where
  "sniper_ok a s \<longleftrightarrow> finite (sp_seen_signatures s) \<and> card (sp_seen_signatures s) \<le> MAX_SEEN \<and>
     length (sp_rest_calls s) \<le> sa_max_per_minute a * 3"

abbreviation snipes_nothing :: "sniper_args \<Rightarrow> ('w \<times> PumpSniper, 'a) io \<Rightarrow> bool" where
  "snipes_nothing a m \<equiv>
     grows (\<lambda>\<sigma>. sniper_ok a (snd \<sigma>)) (\<lambda>\<sigma>. sp_queue (snd \<sigma>)) (\<lambda>_. False) m"

lemma snipes_updates:
  "snipes_nothing a (update (see_signature sig))"
  "snipes_nothing a (update (note_signal t))"
  "snipes_nothing a (update (set_running b))"
  by (rule grows_update, simp add: see_signature_def note_signal_def set_running_def sniper_ok_def Let_def)+

lemma snipes_admit: "snipes_nothing a (admit E a)"
proof -
  have "snipes_nothing a (\<lambda>(w, s). case admit_call a time s of (ok, s') \<Rightarrow> (Inr ok, (w, s')))" for time
  proof -
    have "length (last_minute time ts) \<le> length ts" for ts by (simp add: last_minute_def)
    then have "length ts \<le> k \<Longrightarrow> length (last_minute time ts) \<le> k" for ts k using order_trans by blast
    then show ?thesis by (auto simp: grows_def admit_call_def sniper_ok_def Let_def)
  qed
  then show ?thesis unfolding admit_def by (intro grows)
qed

lemma snipes_in_scorer: "snipes_nothing a (in_scorer m)"
  by (auto simp: grows_def in_scorer_def sniper_ok_def split: prod.splits)

lemma snipes_judge: "snipes_nothing a (judge E F B a c mint)"
  unfolding judge_def
  by (cases "sa_scorer a"; cases c) (auto intro!: grows snipes_in_scorer snipes_updates)

lemma snipes_check_tx: "snipes_nothing a (check_tx E F B a sig)"
  unfolding check_tx_def judge_transaction_def
  by (intro grows snipes_updates snipes_admit snipes_judge)

lemma snipes_put: "snipes_nothing a (bindIO (check_tx E F B a sig) put_signal)"
proof (rule grows_bind_from [OF snipes_check_tx])
  fix x s s' assume "check_tx E F B a sig s = (Inr x, s')"
  then have "x = None" using check_tx_yields [of E F B a sig] unfolding yields_def by blast
  then show "snipes_nothing a (put_signal x)" unfolding put_signal_def by (simp add: grows_result)
qed

lemma snipes_ws: "snipes_nothing a (ws_turn E F B a b)"
  unfolding ws_turn_def sniper_connect_def sniper_message_def
  by (intro grows snipes_put)

lemma snipes_poll_record: "snipes_nothing a (poll_record E F B a record)"
  unfolding poll_record_def poll_instruction_def
  by (intro grows snipes_put snipes_updates)

lemma snipes_poll: "snipes_nothing a (poll_turn E F B a)"
proof -
  have "snipes_nothing a (poll_slot E F B a slot)" for slot
    unfolding poll_slot_def
    by (intro grows snipes_poll_record) (simp split: exn.split add: grows_result)
  then show ?thesis unfolding poll_turn_def by (intro grows)
qed

lemma snipes_run: "snipes_nothing a (sniper_run E F B a b ops)"
  by (induction E F B a b ops rule: sniper_run.induct)
    (auto intro!: grows snipes_ws snipes_poll snipes_updates)

text \<open>
  C35. The launch sniper never reports a launch.  Whatever the node sends, with or without a scorer,
  for any order of starts, stops and turns of its two threads, the signal queue stays empty and the
  run does not fail; it remembers at most five thousand signatures and has at most three times the
  permitted calls on the books of its limiter.  The check of a transaction returns no signal from
  any state: a launch is rejected, or the check raises.
\<close>

theorem sniper_never_signals:
  assumes "sniper_run E F B a b ops (w, new_sniper) = (r, (w', s'))"
  shows "sp_queue s' = [] \<and> r = Inr () \<and>
    finite (sp_seen_signatures s') \<and> card (sp_seen_signatures s') \<le> 5000 \<and>
    length (sp_rest_calls s') \<le> 3 * sa_max_per_minute a \<and>
    fst (check_tx E F B a sig \<sigma>) \<noteq> Inr (Some signal)"
proof -
  have "sniper_ok a (snd (w, new_sniper))" by (simp add: sniper_ok_def new_sniper_def)
  from growsE [OF snipes_run this assms] obtain new where
    "sniper_ok a (snd (w', s'))" "sp_queue (snd (w', s')) = sp_queue (snd (w, new_sniper)) @ new"
    "list_all (\<lambda>_. False) new" .
  then have "sp_queue s' = []" "sniper_ok a s'" by (cases new; simp add: new_sniper_def)+
  moreover have "r = Inr ()"
  proof -
    have caught: "\<exists>x. fst (catchIO m (\<lambda>_. bindIO (in_world (sleep E t)) (\<lambda>_. retIO c)) \<sigma>) = Inr x" for m t c \<sigma>
      by (rule returns_retry)
    have "\<exists>x. fst (ws_turn E F B a b \<sigma>) = Inr x" for b \<sigma>
      unfolding ws_turn_def using caught by (auto simp: bindIO_def state_def retIO_def split: prod.split)
    moreover have "\<exists>x. fst (poll_turn E F B a \<sigma>) = Inr x" for \<sigma>
      unfolding poll_turn_def
      by (auto simp: bindIO_def state_def retIO_def catchIO_def in_world_def sleep_def split: prod.split sum.split)
    ultimately have "fst (sniper_run E F B a b ops \<sigma>) = Inr ()" for \<sigma>
    proof (induction ops arbitrary: b \<sigma>)
      case (Cons op ops)
      note run = Cons.IH [OF Cons.prems]
      show ?case
      proof (cases op)
        case WsTurn
        then show ?thesis using returns_bind [OF Cons.prems(1) run] by simp
      next
        case PollTurn
        then show ?thesis
          unfolding PollTurn sniper_run.simps using Cons.prems(2)
          by (intro returns_bind [where m = "if sa_enable_block_poll a then poll_turn E F B a else retIO ()"] run)
            simp
      qed (cases \<sigma>; simp add: bindIO_def update_def run)+
    qed simp
    then show ?thesis using assms by (metis fst_conv)
  qed
  moreover have "fst (check_tx E F B a sig \<sigma>) \<noteq> Inr (Some signal)"
    using check_tx_yields [of E F B a sig] unfolding yields_def by (metis option.discI prod.collapse)
  ultimately show ?thesis by (simp add: sniper_ok_def MAX_SEEN_def mult.commute)
qed

text \<open>A launch with a new mint, as the node answers it.\<close>

definition demo_launch_feed :: "nat feed_env" where
  "demo_launch_feed = \<lparr> feed_post = (\<lambda>_ w. (Inr (JDict [(''result'', JDict
       [(''meta'', JDict [(''postTokenBalances'', JList [JDict [(''mint'', JStr ''M'')]])]),
        (''transaction'', JDict [(''message'', JDict [(''instructions'', JList [demo_create])])])])]), w)),
     feed_open = (\<lambda>_ _. retIO (JDict [(''result'', JInt 1)])),
     feed_recv = retIO (Some (JDict [(''method'', JStr ''logsNotification''), (''params'', JDict
       [(''result'', JDict [(''value'', JDict [(''signature'', JStr ''s'')])])])])) \<rparr>"

theorem sniper_never_signals_witness:
  "(\<exists>w' s'. sniper_run dead_env demo_launch_feed \<lparr>b58decode = Inr \<circ> map of_char, b58encode = id\<rparr>
      \<lparr>sa_rpc_url = ''u'', sa_enable_block_poll = True, sa_max_per_minute = 10, sa_scorer = None\<rparr>
      False [StartSniper, WsTurn, PollTurn, WsTurn] (0, new_sniper) = (Inr (), (w', s')) \<and> sp_queue s' = []) \<and>
   fst (check_tx dead_env demo_launch_feed \<lparr>b58decode = Inr \<circ> map of_char, b58encode = id\<rparr>
      \<lparr>sa_rpc_url = ''u'', sa_enable_block_poll = True, sa_max_per_minute = 10, sa_scorer = None\<rparr>
      (JStr ''s'') (0, new_sniper)) = Inl (NameError ''name 'd' is not defined'')"
proof
  let ?B = "\<lparr>b58decode = Inr \<circ> map of_char, b58encode = id\<rparr> :: base58"
  let ?a = "\<lparr>sa_rpc_url = ''u'', sa_enable_block_poll = True, sa_max_per_minute = 10, sa_scorer = None\<rparr> :: sniper_args"
  obtain r w' s' where run: "sniper_run dead_env demo_launch_feed ?B ?a False
      [StartSniper, WsTurn, PollTurn, WsTurn] (0, new_sniper) = (r, (w', s'))" by (metis surj_pair)
  from sniper_never_signals [OF run] run show "\<exists>w' s'. sniper_run dead_env demo_launch_feed ?B ?a
      False [StartSniper, WsTurn, PollTurn, WsTurn] (0, new_sniper) = (Inr (), (w', s')) \<and> sp_queue s' = []"
    by blast
  have data: "instruction_data ?B (JStr ''181ec828051c0777'') = Some CREATE_DISCRIMINATOR"
    by (simp add: instruction_data_def hex_value_def CREATE_DISCRIMINATOR_def is_space_def Let_def)
  have disc: "check_disc (\<lambda>_. []) ?B demo_create = Inr (True, None)"
    by (simp add: check_disc_def demo_create_def program_of_def data is_create_def
        parse_creator_from_instruction_def borsh_parse_string_def unpack_u32_def CREATE_DISCRIMINATOR_def)
  show "fst (check_tx dead_env demo_launch_feed ?B ?a (JStr ''s'') (0, new_sniper))
      = Inl (NameError ''name 'd' is not defined'')"
    by (simp add: check_tx_def judge_transaction_def demo_launch_feed_def new_sniper_def see_signature_def
        state_def update_def bindIO_def admit_def admit_call_def last_minute_def MAX_SEEN_def in_world_def
        now_def dead_env_def fetch_transaction_def catchIO_def find_create_def disc new_mint_def
        balance_mints_def WSOL_def judge_def Let_def)
qed

end
