(* ===== verification/StrategyLoop.thy ===== *)
theory StrategyLoop
  imports Strategy
begin

text \<open>
  The dispatcher of \<open>ops/strategy_loop.py\<close>: taking signals from the watchers' queues, exits and
  sells, the evaluation of a signal, and the turns of \<open>main\<close>.  An exception ends the loop, with
  the state as it was when it was raised.
\<close>

record StrategyState =
  sg_manager :: PositionManager
  sg_risk :: RiskManager
  sg_seen_mints :: "string set"
  sg_total_signals :: nat
  sg_trending_mints :: "string set"
  sg_sol_price :: pyfloat
  sg_iteration :: nat
  sg_last_heartbeat :: pyfloat
  sg_candidates_log :: "json list"
  sg_trades_log :: "json list"

record 'w strategy_args =
  sv_env :: "'w env"
  sv_solders :: solders
  sv_gmgn :: GmgnProvider
  sv_host :: "'w host"
  sv_present :: "string \<Rightarrow> bool"
  sv_keypair :: json
  sv_config :: json
  sv_next_momentum :: "'w \<Rightarrow> MomentumSignal option \<times> 'w"
  sv_next_copy :: "'w \<Rightarrow> CopyTradeSignal option \<times> 'w"
  sv_watch_trending :: "string set \<Rightarrow> 'w \<Rightarrow> unit \<times> 'w"

type_synonym ('w, 'a) strategy = "('w \<times> StrategyState, 'a) io"

text \<open>Operations of the position manager and of the risk manager inside the loop.\<close>

definition on_manager :: "('w \<times> PositionManager, 'a) io \<Rightarrow> ('w, 'a) strategy" where
  "on_manager m = (\<lambda>(w, s). case m (w, sg_manager s) of
     (r, (w', pm)) \<Rightarrow> (r, (w', s\<lparr>sg_manager := pm\<rparr>)))"

definition on_risk :: "('w \<times> RiskManager, 'a) io \<Rightarrow> ('w, 'a) strategy" where
  "on_risk m = (\<lambda>(w, s). case m (w, sg_risk s) of
     (r, (w', k)) \<Rightarrow> (r, (w', s\<lparr>sg_risk := k\<rparr>)))"

definition dry :: "'w strategy_args \<Rightarrow> bool res" where
  "dry a = bindR (dict_get (sv_config a) ''dry_run'' (JBool True)) (\<lambda>v. ret (truthy v))"

section \<open>Signals from the queues\<close>

definition entry_size :: "'w strategy_args \<Rightarrow> ('w, pyfloat option) strategy" where
  "entry_size a =
     bindIO (in_world (balance_sol (sv_env a) (sv_config a))) (\<lambda>b.
     liftR (bindR (config_num (sv_config a) ''wallet_reserve_sol'' (JFloat (flit (1 / 10)))) (\<lambda>reserve.
            bindR (config_num (sv_config a) ''entry_balance_pct'' (JFloat (flit (5 / 100)))) (\<lambda>pct.
            bindR (config_num (sv_config a) ''entry_min_sol'' (JFloat (flit (5 / 100)))) (\<lambda>minimum.
            ret (calculate_entry_size_sol b reserve pct minimum))))))"

text \<open>What the two loops over the queues have in common: one signal per mint, sized.\<close>

definition sized_signal ::
  "'w strategy_args \<Rightarrow> string \<Rightarrow> (string \<Rightarrow> pyfloat \<Rightarrow> TradeSignal) \<Rightarrow> ('w, TradeSignal option) strategy" where
  "sized_signal a mint mk =
     bindIO (state sg_seen_mints) (\<lambda>seen.
     if mint \<in> seen then retIO None
     else
       bindIO (update (\<lambda>s. s\<lparr>sg_seen_mints := insert mint (sg_seen_mints s)\<rparr>)) (\<lambda>_.
       bindIO (liftR (canonical_pump_pool (sv_solders a) mint)) (\<lambda>pool.
       bindIO (entry_size a) (\<lambda>size. case size of
         None \<Rightarrow> retIO None
       | Some x \<Rightarrow> retIO (Some (mk pool x))))))"

definition momentum_entry :: "'w strategy_args \<Rightarrow> MomentumSignal \<Rightarrow> ('w, TradeSignal option) strategy" where
  "momentum_entry a ms = sized_signal a (ms_mint ms) (\<lambda>pool x.
     \<lparr> ts_strategy = ''momentum'', ts_mint = ms_mint ms, ts_pump_pool = pool,
       ts_buy_sol = py_max x (flit (3 / 1000)), ts_source_id = ms_buyer ms,
       ts_confidence = (if Fin 500 \<le> ms_buy_usd ms then ''high'' else ''medium'') \<rparr>)"

definition copy_entry :: "'w strategy_args \<Rightarrow> CopyTradeSignal \<Rightarrow> ('w, TradeSignal option) strategy" where
  "copy_entry a cs = sized_signal a (cs_mint cs) (\<lambda>pool x.
     \<lparr> ts_strategy = ''copytrade'', ts_mint = cs_mint cs, ts_pump_pool = pool, ts_buy_sol = x,
       ts_source_id = cs_buyer cs, ts_confidence = ''high'' \<rparr>)"

text \<open>
  \<open>while not queue.empty()\<close>: a producer may keep the queue filled, so the code does not bound
  these turns; the fuel does.
\<close>

fun drain ::
  "nat \<Rightarrow> ('w \<Rightarrow> 'q option \<times> 'w) \<Rightarrow> ('q \<Rightarrow> ('w, TradeSignal option) strategy) \<Rightarrow> TradeSignal list
   \<Rightarrow> ('w, TradeSignal list) strategy" where
  "drain 0 next_item f acc = retIO acc"
| "drain (Suc n) next_item f acc =
     bindIO (in_world (read_host next_item)) (\<lambda>item. case item of
       None \<Rightarrow> retIO acc
     | Some q \<Rightarrow> bindIO (f q) (\<lambda>out.
         drain n next_item f (case out of None \<Rightarrow> acc | Some s \<Rightarrow> acc @ [s])))"

text \<open>Whether the copy-trade watcher was started: enabled, and with wallets to watch.\<close>

definition copy_on :: "'w strategy_args \<Rightarrow> bool res" where
  "copy_on a =
     bindR (strategy_cfg (sv_config a) ''copytrade'') (\<lambda>c.
     bindR (dict_get c ''watch_wallets'' (JList [])) (\<lambda>wallets.
     bindR (enabled (sv_config a) ''copytrade'') (\<lambda>on. ret (on \<and> truthy wallets))))"

definition gather_signals :: "nat \<Rightarrow> 'w strategy_args \<Rightarrow> ('w, TradeSignal list) strategy" where
  "gather_signals n a =
     bindIO (liftR (enabled (sv_config a) ''momentum'')) (\<lambda>momentum.
     bindIO (if momentum then drain n (sv_next_momentum a) (momentum_entry a) [] else retIO []) (\<lambda>found.
     bindIO (liftR (enabled (sv_config a) ''snipe'')) (\<lambda>_.
     bindIO (liftR (copy_on a)) (\<lambda>copying.
     if copying then drain n (sv_next_copy a) (copy_entry a) (top_signals found)
     else retIO (top_signals found)))))"

section \<open>Exits\<close>

text \<open>\<open>v[:20]\<close> is possible for text and lists only.\<close>

definition printable :: "json \<Rightarrow> unit res" where
  "printable v = (case v of JStr _ \<Rightarrow> ret () | JList _ \<Rightarrow> ret ()
     | _ \<Rightarrow> raise (TypeError ''object is not subscriptable''))"

definition sell_exited :: "'w strategy_args \<Rightarrow> nat \<Rightarrow> ('w, unit) strategy" where
  "sell_exited a i =
     bindIO (state (\<lambda>s. pm_positions (sg_manager s) ! i)) (\<lambda>p.
     bindIO (in_world (sell_token (sv_env a) (sv_present a) (sv_keypair a) (sv_config a)
                         (pos_mint p) (pos_pump_pool p))) (\<lambda>result.
     bindIO (liftR (dict_get result ''submitted'' JNull)) (\<lambda>submitted_flag.
     if truthy submitted_flag
     then
       bindIO (liftR (dict_get result ''signature'' JNull)) (\<lambda>sig.
       bindIO (on_manager (at_position i (update (\<lambda>p. p\<lparr>pos_exit_sig := sig\<rparr>)))) (\<lambda>_.
       liftR (bindR (dict_get result ''signature'' (JStr [])) printable)))
     else retIO ())))"

definition run_exits :: "'w strategy_args \<Rightarrow> ('w, unit) strategy" where
  "run_exits a =
     bindIO (on_manager (check_exits (sv_env a) (sv_present a) (sv_config a))) (\<lambda>out.
     for_each (sell_exited a) out)"

section \<open>Evaluating a signal\<close>

definition open_on :: "string \<Rightarrow> PositionManager \<Rightarrow> bool" where
  "open_on mint m \<longleftrightarrow> list_ex (\<lambda>p. pos_mint p = mint \<and> \<not> pos_closed p) (pm_positions m)"

definition log_candidate :: "'w strategy_args \<Rightarrow> TradeSignal \<Rightarrow> ('w, unit) strategy" where
  "log_candidate a s =
     bindIO (in_world (read_host (utc_now (sv_host a)))) (\<lambda>time.
     bindIO (in_world (disk (sv_host a) Append)) (\<lambda>_.
     update (\<lambda>st. st\<lparr>
       sg_candidates_log := sg_candidates_log st @ [JDict
         [(''time'', JStr (isoformat time)), (''strategy'', JStr (ts_strategy s)),
          (''mint'', JStr (ts_mint s)), (''buy_sol'', JFloat (ts_buy_sol s)),
          (''buy_usd'', JFloat (ts_buy_sol s * sg_sol_price st)),
          (''source_id'', JStr (ts_source_id s)), (''confidence'', JStr (ts_confidence s)),
          (''dry_run'', JBool True)]],
       sg_total_signals := sg_total_signals st + 1\<rparr>)))"

text \<open>The new position; an unknown price is the integer 0.\<close>

definition entry_position ::
  "json \<Rightarrow> TradeSignal \<Rightarrow> json \<Rightarrow> pyfloat option \<Rightarrow> string \<Rightarrow> int \<Rightarrow> pyfloat \<Rightarrow> Position res" where
  "entry_position cfg s sig price u slot time =
     (let pct = (\<lambda>key d. bindR (dict_get cfg key (JInt d)) py_float) in
      bindR (pct ''take_profit_pct'' 5) (\<lambda>tp.
      bindR (pct ''stop_loss_pct'' 5) (\<lambda>sl.
      bindR (pct ''hold_seconds'' 15) (\<lambda>hold.
      bindR (pct ''trailing_stop_pct'' 5) (\<lambda>trail.
      ret \<lparr> pos_id = take 8 u, pos_strategy = ts_strategy s, pos_mint = ts_mint s,
        pos_pump_pool = ts_pump_pool s, pos_buy_sig = sig, pos_entry_slot = slot,
        pos_entry_time = time, pos_buy_sol = ts_buy_sol s,
        pos_entry_price_sol = (case price of None \<Rightarrow> Fin 0 | Some p \<Rightarrow> p),
        pos_take_profit_pct = tp, pos_stop_loss_pct = sl, pos_hold_seconds = hold,
        pos_trailing_stop_pct = trail, pos_closed = False, pos_exit_sig = JNull, pos_exit_time = None,
        pos_exit_reason = None, pos_pnl_sol = None, pos_peak_price_sol = Fin 0,
        pos_last_price_check = Fin 0 \<rparr>)))))"

definition log_trade :: "'w strategy_args \<Rightarrow> TradeSignal \<Rightarrow> Position \<Rightarrow> ('w, unit) strategy" where
  "log_trade a s p =
     bindIO (in_world (read_host (utc_now (sv_host a)))) (\<lambda>time.
     bindIO (in_world (disk (sv_host a) Append)) (\<lambda>_.
     update (\<lambda>st. st\<lparr>sg_trades_log := sg_trades_log st @ [JDict
       [(''time'', JStr (isoformat time)), (''strategy'', JStr (ts_strategy s)),
        (''mint'', JStr (ts_mint s)), (''buy_sol'', JFloat (ts_buy_sol s)),
        (''buy_sig'', pos_buy_sig p), (''entry_price_sol'', JFloat (pos_entry_price_sol p))]]\<rparr>)))"

definition count_signal :: "StrategyState \<Rightarrow> StrategyState" where
  "count_signal st = st\<lparr>sg_total_signals := sg_total_signals st + 1\<rparr>"

text \<open>What follows a submitted buy.\<close>

definition open_bought :: "'w strategy_args \<Rightarrow> TradeSignal \<Rightarrow> json \<Rightarrow> ('w, unit) strategy" where
  "open_bought a s sig =
     bindIO (in_world (get_pool_price (sv_env a) (sv_present a) (sv_config a) (ts_pump_pool s))) (\<lambda>price.
     bindIO (liftR (strategy_cfg (sv_config a) (ts_strategy s))) (\<lambda>cfg.
     bindIO (in_world (uuid4 (sv_env a))) (\<lambda>u.
     bindIO (in_world (latest_slot (sv_env a) ''finalized'')) (\<lambda>slot.
     bindIO (in_world (now (sv_env a))) (\<lambda>time.
     bindIO (liftR (entry_position cfg s sig price u slot time)) (\<lambda>p.
     bindIO (on_manager (update (open_position p))) (\<lambda>_.
     bindIO (on_risk (risk_record_trade (ts_buy_sol s * flit (1 / 100)))) (\<lambda>_.
     log_trade a s p))))))))"

definition execute_signal :: "'w strategy_args \<Rightarrow> TradeSignal \<Rightarrow> ('w, unit) strategy" where
  "execute_signal a s =
     bindIO (liftR (dict_get (sv_config a) ''slippage_bps'' (JInt 100))) (\<lambda>slippage.
     bindIO (in_world (buy_token (sv_env a) (sv_solders a) (sv_present a) (sv_keypair a) (sv_config a)
                         (ts_mint s) (ts_buy_sol s) slippage)) (\<lambda>result.
     bindIO (liftR (dict_get result ''submitted'' JNull)) (\<lambda>submitted_flag.
     if \<not> truthy submitted_flag
     then bindIO (on_risk (risk_record_trade (ts_buy_sol s))) (\<lambda>_. update count_signal)
     else
       bindIO (liftR (dict_get result ''signature'' (JStr ''unknown''))) (\<lambda>sig.
       bindIO (liftR (printable sig)) (\<lambda>_.
       bindIO (update count_signal) (\<lambda>_.
       open_bought a s sig))))))"

definition evaluate_signal :: "'w strategy_args \<Rightarrow> TradeSignal \<Rightarrow> ('w, unit) strategy" where
  "evaluate_signal a s =
     bindIO (state sg_manager) (\<lambda>m.
     if open_on (ts_mint s) m then retIO ()
     else if \<not> can_open m then retIO ()
     else
       bindIO (on_risk (can_trade (sv_env a) (sv_config a) (ts_buy_sol s))) (\<lambda>allowed.
       if \<not> allowed then retIO ()
       else
         bindIO (liftR (dry a)) (\<lambda>dry_run.
         if dry_run then log_candidate a s else execute_signal a s)))"

section \<open>The turns\<close>

definition refresh_price :: "'w strategy_args \<Rightarrow> ('w, unit) strategy" where
  "refresh_price a =
     catchIO (bindIO (in_world (sol_price_usd (sv_env a) (sv_gmgn a))) (\<lambda>price.
         update (\<lambda>s. s\<lparr>sg_sol_price := price\<rparr>)))
       (\<lambda>_. retIO ())"

definition refresh_trending :: "'w strategy_args \<Rightarrow> ('w, unit) strategy" where
  "refresh_trending a =
     bindIO (state sg_iteration) (\<lambda>i.
     if i = 1 \<or> i mod 3000 = 0
     then catchIO
         (bindIO (in_world (trending_mints (sv_env a) (sv_gmgn a))) (\<lambda>mints.
          if mints = {} then retIO ()
          else
            bindIO (update (\<lambda>s. s\<lparr>sg_trending_mints := mints\<rparr>)) (\<lambda>_.
            bindIO (liftR (enabled (sv_config a) ''momentum'')) (\<lambda>momentum.
            if momentum then in_world (read_host (sv_watch_trending a mints)) else retIO ()))))
         (\<lambda>_. retIO ())
     else retIO ())"

definition forget_mints :: "StrategyState \<Rightarrow> StrategyState" where
  "forget_mints s = (if sg_iteration s mod 40 = 0 then s\<lparr>sg_seen_mints := {}\<rparr> else s)"

definition strategy_turn :: "nat \<Rightarrow> 'w strategy_args \<Rightarrow> ('w, unit) strategy" where
  "strategy_turn n a =
     bindIO (update (\<lambda>s. s\<lparr>sg_iteration := sg_iteration s + 1\<rparr>)) (\<lambda>_.
     bindIO (in_world (now (sv_env a))) (\<lambda>time.
     bindIO (refresh_price a) (\<lambda>_.
     bindIO (refresh_trending a) (\<lambda>_.
     bindIO (update forget_mints) (\<lambda>_.
     bindIO (gather_signals n a) (\<lambda>signals.
     bindIO (run_exits a) (\<lambda>_.
     bindIO (for_each (evaluate_signal a) signals) (\<lambda>_.
     bindIO (update (\<lambda>s. if Fin 60 \<le> time - sg_last_heartbeat s
                          then s\<lparr>sg_last_heartbeat := time\<rparr> else s)) (\<lambda>_.
     in_world (sleep (sv_env a) (flit (1 / 10))))))))))))"

text \<open>\<open>fuel\<close> bounds the turns, \<open>n\<close> the signals taken from a queue in one of them.\<close>

fun strategy_loop :: "nat \<Rightarrow> nat \<Rightarrow> 'w strategy_args \<Rightarrow> ('w, unit) strategy" where
  "strategy_loop 0 n a = retIO ()"
| "strategy_loop (Suc fuel) n a = bindIO (strategy_turn n a) (\<lambda>_. strategy_loop fuel n a)"

definition strategy_init :: "'w strategy_args \<Rightarrow> ('w, StrategyState) io" where
  "strategy_init a =
     bindIO (new_risk (sv_env a) (sv_config a)) (\<lambda>risk.
     bindIO (liftR (config_num (sv_config a) ''sol_price_usd'' (JInt 74))) (\<lambda>price.
     retIO \<lparr> sg_manager = new_manager (10 ^ 9), sg_risk = risk, sg_seen_mints = {}, sg_total_signals = 0,
       sg_trending_mints = {}, sg_sol_price = price, sg_iteration = 0, sg_last_heartbeat = Fin 0,
       sg_candidates_log = [], sg_trades_log = [] \<rparr>))"

definition strategy_main :: "nat \<Rightarrow> nat \<Rightarrow> 'w strategy_args \<Rightarrow> 'w \<Rightarrow> (unit res \<times> StrategyState option) \<times> 'w" where
  "strategy_main fuel n a w = (case strategy_init a w of
     (Inl e, w1) \<Rightarrow> ((Inl e, None), w1)
   | (Inr s, w1) \<Rightarrow> (case strategy_loop fuel n a (w1, s) of (r, (w2, s2)) \<Rightarrow> ((r, Some s2), w2)))"

end
