(* ===== verification/StrategyRuns.thy ===== *)
theory StrategyRuns
  imports StrategyLoop
begin

text \<open>
  What runs of the dispatcher do: a dry run starts no script; the position book stays in order
  whatever fails; a bought position whose slot query fails is lost; and the laws of sizing,
  ranking and the daily limit.
\<close>

section \<open>Dry runs\<close>

abbreviation traced_strategy ::
  "'w env \<Rightarrow> solders \<Rightarrow> GmgnProvider \<Rightarrow> 'w host \<Rightarrow> (string \<Rightarrow> bool) \<Rightarrow> json \<Rightarrow> json
   \<Rightarrow> ('w \<Rightarrow> MomentumSignal option \<times> 'w) \<Rightarrow> ('w \<Rightarrow> CopyTradeSignal option \<times> 'w)
   \<Rightarrow> (string set \<Rightarrow> 'w \<Rightarrow> unit \<times> 'w) \<Rightarrow> ('w \<times> script_log) strategy_args" where
  "traced_strategy E S g H present key config nm nc wt \<equiv> \<lparr> sv_env = traced E, sv_solders = S,
     sv_gmgn = g, sv_host = traced_host H, sv_present = present, sv_keypair = key, sv_config = config,
     sv_next_momentum = (\<lambda>(w, l). case nm w of (x, w') \<Rightarrow> (x, (w', l))),
     sv_next_copy = (\<lambda>(w, l). case nc w of (x, w') \<Rightarrow> (x, (w', l))),
     sv_watch_trending = (\<lambda>ms (w, l). case wt ms w of (x, w') \<Rightarrow> (x, (w', l))) \<rparr>"

text \<open>Without positions, nothing is started, and no position or trade comes about.\<close>

definition no_trades :: "json list \<Rightarrow> StrategyState \<Rightarrow> bool" where
  "no_trades ts s \<longleftrightarrow> pm_positions (sg_manager s) = [] \<and> sg_trades_log s = ts"

abbreviation idle :: "json list \<Rightarrow> (('w \<times> script_log) \<times> StrategyState, 'a) io \<Rightarrow> bool" where
  "idle ts m \<equiv> grows (\<lambda>\<sigma>. no_trades ts (snd \<sigma>)) (snd \<circ> fst) (\<lambda>_. False) m"

lemma idle_world: "emits snd (\<lambda>_. False) m \<Longrightarrow> idle ts (in_world m)"
  unfolding grows_def in_world_def by (auto split: prod.split) (metis snd_conv)

lemma idle_read: "idle ts (in_world (read_host (\<lambda>(w, l). case f w of (x, w') \<Rightarrow> (x, (w', l)))))"
  by (rule idle_world) (auto simp: emits_iff read_host_def split: prod.split)

lemma idle_state: "idle ts (state f)"
  by (simp add: grows_def state_def)

lemma idle_update: "(\<And>s. no_trades ts s \<Longrightarrow> no_trades ts (g s)) \<Longrightarrow> idle ts (update g)"
  by (simp add: grows_def update_def)

lemma idle_on_risk:
  assumes "\<And>k. emits (snd \<circ> fst) (\<lambda>_. False) m"
  shows "idle ts (on_risk m)"
proof (rule growsI)
  fix \<sigma> r \<sigma>' assume "no_trades ts (snd \<sigma>)" "on_risk m \<sigma> = (r, \<sigma>')"
  with assms show "no_trades ts (snd \<sigma>') \<and> (\<exists>new. (snd \<circ> fst) \<sigma>' = (snd \<circ> fst) \<sigma> @ new \<and> list_all (\<lambda>_. False) new)"
    unfolding on_risk_def emits_iff no_trades_def
    by (auto split: prod.splits) (metis fst_conv snd_conv)
qed

lemma idle_exits: "idle ts (run_exits (a :: ('w \<times> script_log) strategy_args))"
  if "sv_env a = traced E"
proof (rule growsI)
  fix \<sigma> r \<sigma>'
  assume none: "no_trades ts (snd \<sigma>)" and run: "run_exits a \<sigma> = (r, \<sigma>')"
  obtain w l s where \<sigma>: "\<sigma> = ((w, l), s)" by (metis surj_pair)
  obtain t w' where t: "clock E w = (t, w')" by fastforce
  have "active_indices (sg_manager s) = []"
    using none by (simp add: \<sigma> no_trades_def active_indices_def)
  then have "\<sigma>' = ((w', l), s)"
    using run
    by (simp add: \<sigma> that run_exits_def on_manager_def check_exits_def bindIO_def in_world_def now_def
        traced_def t state_def)
  with none show "no_trades ts (snd \<sigma>') \<and> (\<exists>new. (snd \<circ> fst) \<sigma>' = (snd \<circ> fst) \<sigma> @ new \<and> list_all (\<lambda>_. False) new)"
    by (simp add: \<sigma>)
qed

lemmas idle_rules = grows_result grows_bind grows_catch grows_if grows_option idle_world idle_read idle_state

lemma idle_drain:
  "(\<And>q. idle ts (f q)) \<Longrightarrow> idle ts (drain n (\<lambda>(w, l). case nx w of (x, w') \<Rightarrow> (x, (w', l))) f acc)"
  by (induction n arbitrary: acc) (auto intro!: idle_rules)

lemma emits_get_balance [emits]: "emits snd J (get_balance (traced E) config)"
  unfolding get_balance_def by (intro emits)

lemma emits_balance_sol [emits]: "emits snd J (balance_sol (traced E) config)"
  unfolding balance_sol_def by (intro emits)

lemma idle_turn:
  assumes "dry (traced_strategy E S g H present key config nm nc wt) = Inr True"
  shows "idle ts (strategy_turn n (traced_strategy E S g H present key config nm nc wt))"
proof -
  let ?a = "traced_strategy E S g H present key config nm nc wt"
  have size: "idle ts (sized_signal ?a mint mk)" for mint mk
    unfolding sized_signal_def entry_size_def strategy_args.simps
    by (intro idle_rules idle_update emits) (simp add: no_trades_def)
  have gather: "idle ts (gather_signals n ?a)"
    unfolding gather_signals_def momentum_entry_def copy_entry_def strategy_args.simps
    by (intro idle_rules idle_drain size)
  have candidate: "idle ts (log_candidate ?a s)" for s
    unfolding log_candidate_def strategy_args.simps
    by (intro idle_rules idle_update emits) (simp add: no_trades_def)
  have risk: "emits (snd \<circ> fst) (\<lambda>_. False) (can_trade (traced E) config x)" for x
    unfolding can_trade_def by (intro emits)
  have decide: "idle ts (bindIO (liftR (dry ?a)) (\<lambda>b. if b then log_candidate ?a s else execute_signal ?a s))" for s
    using candidate assms by (intro grows_bind_from grows_result) auto
  have evaluate: "idle ts (evaluate_signal ?a s)" for s
    unfolding evaluate_signal_def strategy_args.simps
    by (intro idle_rules idle_on_risk risk decide)
  have refresh: "idle ts (refresh_price ?a)" "idle ts (refresh_trending ?a)"
    unfolding refresh_price_def refresh_trending_def strategy_args.simps
    by (intro idle_rules idle_update emits; simp add: no_trades_def)+
  show ?thesis
    unfolding strategy_turn_def strategy_args.simps(1)
    by (intro idle_rules idle_update emits refresh gather idle_exits grows_for_each evaluate;
        simp add: no_trades_def forget_mints_def)
qed

text \<open>
  C27. A dry run trades nothing.  With \<open>dry_run\<close> on in the configuration, from a state without
  positions, any number of turns with any signals, any answers and any failures start no script at
  all, so neither a price is read nor a buy or sell submitted, open no position and log no trade.
\<close>

theorem strategy_dry_run_starts_nothing:
  assumes "dry (traced_strategy E S g H present key config nm nc wt) = Inr True"
    and "pm_positions (sg_manager s) = []"
    and "strategy_loop fuel n (traced_strategy E S g H present key config nm nc wt) ((w, l), s)
      = (r, ((w', l'), s'))"
  shows "l' = l \<and> pm_positions (sg_manager s') = [] \<and> sg_trades_log s' = sg_trades_log s"
proof -
  let ?a = "traced_strategy E S g H present key config nm nc wt"
  have keeps: "idle (sg_trades_log s) (strategy_loop fuel n ?a)"
  proof (induction fuel)
    case (Suc fuel)
    then show ?case unfolding strategy_loop.simps by (intro grows_bind idle_turn assms(1))
  qed (unfold strategy_loop.simps, rule grows_result)
  have "no_trades (sg_trades_log s) (snd ((w, l), s))" using assms(2) by (simp add: no_trades_def)
  then obtain new where new: "no_trades (sg_trades_log s) (snd ((w', l'), s'))"
      "(snd \<circ> fst) ((w', l'), s') = (snd \<circ> fst) ((w, l), s) @ new" "list_all (\<lambda>_. False) new"
    by (rule growsE [OF keeps _ assms(3)])
  then show ?thesis by (cases new) (simp_all add: no_trades_def)
qed

definition demo_strategy_state :: StrategyState where
  "demo_strategy_state = \<lparr> sg_manager = new_manager 3,
     sg_risk = \<lparr> rk_daily_loss_lamports = 0, rk_daily_trades = 0, rk_daily_reset_time = Fin 0,
       rk_initial_balance = 1000000000 \<rparr>,
     sg_seen_mints = {}, sg_total_signals = 0, sg_trending_mints = {}, sg_sol_price = Fin 74,
     sg_iteration = 0, sg_last_heartbeat = Fin 0, sg_candidates_log = [], sg_trades_log = [] \<rparr>"

abbreviation demo_strategy :: "json \<Rightarrow> (nat \<times> script_log) strategy_args" where
  "demo_strategy c \<equiv> traced_strategy dead_env demo_solders \<lparr>api_key = None, fallback_sol_price_usd = Fin 74\<rparr>
     demo_host (\<lambda>_. True) (JStr ''key'') c (Pair None) (Pair None) (\<lambda>_. Pair ())"

lemma strategy_config_empty:
  "\<exists>c. strategy_config JNull = Inr c \<and> dict_get c ''dry_run'' (JBool True) = Inr (JBool True)"
  by (simp add: strategy_config_def py_or_def config_defaults_def strategy_default_def)

theorem strategy_dry_run_starts_nothing_witness:
  "\<exists>c r w' s'. strategy_config JNull = Inr c \<and>
     strategy_loop 3 4 (demo_strategy c) ((0, []), demo_strategy_state) = (r, ((w', []), s'))"
proof -
  obtain c where c: "strategy_config JNull = Inr c" "dict_get c ''dry_run'' (JBool True) = Inr (JBool True)"
    using strategy_config_empty by blast
  obtain r w' l' s' where run:
    "strategy_loop 3 4 (demo_strategy c) ((0, []), demo_strategy_state) = (r, ((w', l'), s'))"
    by (metis surj_pair)
  have "dry (demo_strategy c) = Inr True" using c(2) by (simp add: dry_def)
  from strategy_dry_run_starts_nothing [OF this _ run] have "l' = []"
    by (simp add: demo_strategy_state_def new_manager_def)
  with c(1) run show ?thesis by blast
qed

section \<open>The position book\<close>

text \<open>
  At most one open position per mint, and a position is closed exactly when it has a reason and a
  time for its exit.
\<close>

definition consistent :: "Position \<Rightarrow> bool" where
  "consistent p \<longleftrightarrow> (pos_closed p \<longleftrightarrow> pos_exit_reason p \<noteq> None) \<and> (pos_closed p \<longleftrightarrow> pos_exit_time p \<noteq> None)"

definition book_sound :: "PositionManager \<Rightarrow> bool" where
  "book_sound m \<longleftrightarrow> list_all consistent (pm_positions m) \<and>
     (\<forall>i < length (pm_positions m). \<forall>j < length (pm_positions m).
        \<not> pos_closed (pm_positions m ! i) \<and> \<not> pos_closed (pm_positions m ! j) \<and>
        pos_mint (pm_positions m ! i) = pos_mint (pm_positions m ! j) \<longrightarrow> i = j)"

text \<open>How a position may change while the loop runs: it may close, and closes properly.\<close>

definition later :: "Position \<Rightarrow> Position \<Rightarrow> bool" where
  "later p p' \<longleftrightarrow> pos_mint p' = pos_mint p \<and> (pos_closed p \<longrightarrow> pos_closed p') \<and> (consistent p \<longrightarrow> consistent p')"

lemma later_refl [simp]: "later p p"
  by (simp add: later_def)

lemma later_updates:
  "later p (close_position reason time pnl p)" "later p (p\<lparr>pos_last_price_check := t\<rparr>)"
  "later p (p\<lparr>pos_exit_sig := sig\<rparr>)" "later p (raise_peak price p)"
  by (auto simp: later_def close_position_def consistent_def raise_peak_def)

lemma later_trans: "later p q \<Longrightarrow> later q r \<Longrightarrow> later p r"
  by (auto simp: later_def)

lemma later_on_price: "later p (snd (on_price time quote p))"
  using later_trans [OF later_updates(4) later_updates(1)]
  by (auto simp: on_price_def Let_def later_updates split: option.splits)

text \<open>An operation on one position that only lets it grow later, whether it raises or not.\<close>

abbreviation ages :: "Position \<Rightarrow> ('w \<times> Position, 'a) io \<Rightarrow> bool" where
  "ages p m \<equiv> grows (\<lambda>\<sigma>. later p (snd \<sigma>)) (\<lambda>\<sigma>. [] :: unit list) (\<lambda>_. True) m"

lemma ages_update: "(\<And>q. later q (g q)) \<Longrightarrow> ages p (update g)"
  by (auto simp: grows_def update_def intro: later_trans)

lemma ages_world: "ages p (in_world m)" "ages p (state f)"
  by (auto simp: grows_def in_world_def state_def split: prod.split)

lemma ages_check: "ages p (check_position E present config time)"
  unfolding check_position_def
  by (intro grows ages_world ages_update later_updates later_on_price)

lemma book_at_position:
  assumes "\<And>p. ages p m" "book_sound pm" "at_position i m (w, pm) = (r, (w', pm'))"
  shows "book_sound pm'"
proof -
  let ?ps = "pm_positions pm"
  obtain p where p: "m (w, ?ps ! i) = (r, (w', p))" "pm' = pm\<lparr>pm_positions := ?ps[i := p]\<rparr>"
    using assms(3) by (rule at_position_run)
  have "later (?ps ! i) p"
    using assms(1) [of "?ps ! i"] p(1) unfolding grows_def by (metis later_refl snd_conv)
  then have "i < length ?ps \<Longrightarrow> consistent (?ps ! i) \<Longrightarrow> consistent p"
    and open_before: "\<not> pos_closed p \<Longrightarrow> \<not> pos_closed (?ps ! i)" "pos_mint p = pos_mint (?ps ! i)"
    by (auto simp: later_def)
  moreover have all: "\<forall>q \<in> set ?ps. consistent q"
    using assms(2) by (simp add: book_sound_def list_all_iff)
  ultimately have "list_all consistent (?ps[i := p])"
    using set_update_subset_insert [of ?ps i p] by (cases "i < length ?ps") (auto simp: list_all_iff list_update_beyond)
  moreover have "j = k"
    if jk: "j < length ?ps" "k < length ?ps" "\<not> pos_closed (?ps[i := p] ! j)" "\<not> pos_closed (?ps[i := p] ! k)"
      "pos_mint (?ps[i := p] ! j) = pos_mint (?ps[i := p] ! k)" for j k
  proof -
    have "\<not> pos_closed (?ps ! x) \<and> pos_mint (?ps[i := p] ! x) = pos_mint (?ps ! x)"
      if "x < length ?ps" "\<not> pos_closed (?ps[i := p] ! x)" for x
      using that open_before by (cases "x = i") auto
    with jk assms(2) show ?thesis unfolding book_sound_def by metis
  qed
  ultimately show ?thesis by (simp add: p(2) book_sound_def)
qed

text \<open>Operations that keep a property of the position manager, whether they raise or not.\<close>

abbreviation manages :: "(PositionManager \<Rightarrow> bool) \<Rightarrow> ('w, 'a) strategy \<Rightarrow> bool" where
  "manages P m \<equiv> grows (\<lambda>\<sigma>. P (sg_manager (snd \<sigma>))) (\<lambda>\<sigma>. [] :: unit list) (\<lambda>_. True) m"

abbreviation keeps_book :: "('w \<times> PositionManager, 'a) io \<Rightarrow> bool" where
  "keeps_book m \<equiv> grows (\<lambda>\<sigma>. book_sound (snd \<sigma>)) (\<lambda>\<sigma>. [] :: unit list) (\<lambda>_. True) m"

lemma manages_world: "manages P (in_world m)" "manages P (state f)"
  by (auto simp: grows_def in_world_def state_def split: prod.split)

lemma manages_on_risk: "manages P (on_risk m)"
  by (auto simp: grows_def on_risk_def split: prod.split)

lemma manages_update: "(\<And>s. sg_manager (g s) = sg_manager s) \<Longrightarrow> manages P (update g)"
  by (auto simp: grows_def update_def)

lemma manages_book: "keeps_book m \<Longrightarrow> manages book_sound (on_manager m)"
  unfolding grows_def on_manager_def by (auto split: prod.split) (metis snd_conv)

lemma book_position: "(\<And>p. ages p m) \<Longrightarrow> keeps_book (at_position i m)"
  using book_at_position [of m] by (auto simp: grows_def) (metis prod.collapse)

lemma book_world: "keeps_book (in_world m)" "keeps_book (state f)"
  by (auto simp: grows_def in_world_def state_def split: prod.split)

lemma book_check_exits: "keeps_book (check_exits E present config)"
proof -
  have "keeps_book (collect_exits E present config time is)" for time "is"
    by (induction "is") (auto intro!: grows book_position ages_check)
  then show ?thesis unfolding check_exits_def by (intro grows book_world)
qed

lemmas manages_rules = grows_result grows_bind grows_catch grows_if grows_option grows_for_each
  manages_world manages_on_risk

lemma manages_drain: "(\<And>q. manages P (f q)) \<Longrightarrow> manages P (drain n nx f acc)"
  by (induction n arbitrary: acc) (auto intro!: manages_rules)

lemma manages_log: "manages P (log_candidate a s)" "manages P (log_trade a s p)"
  unfolding log_candidate_def log_trade_def by (intro manages_rules manages_update; simp)+

lemma manages_gather: "manages P (gather_signals n a)"
proof -
  have "manages P (sized_signal a mint mk)" for mint mk
    unfolding sized_signal_def entry_size_def by (intro manages_rules manages_update) simp
  then show ?thesis
    unfolding gather_signals_def momentum_entry_def copy_entry_def by (intro manages_rules manages_drain)
qed

lemma manages_exits: "manages book_sound (run_exits a)"
proof -
  have "manages book_sound (sell_exited a i)" for i
    unfolding sell_exited_def
    by (intro manages_rules manages_book book_position ages_update later_updates)
  then show ?thesis
    unfolding run_exits_def by (intro manages_rules manages_book book_check_exits)
qed

lemma manages_refresh: "manages P (refresh_price a)" "manages P (refresh_trending a)"
  unfolding refresh_price_def refresh_trending_def by (intro manages_rules manages_update; simp)+

lemma book_sound_distinct:
  assumes "book_sound m"
  shows "(\<forall>p \<in> set (pm_positions m). (pos_closed p \<longleftrightarrow> pos_exit_reason p \<noteq> None) \<and>
      (pos_closed p \<longleftrightarrow> pos_exit_time p \<noteq> None)) \<and> distinct (map pos_mint (active m))"
proof -
  have "distinct (map pos_mint (filter (\<lambda>p. \<not> pos_closed p) ps))"
    if "\<forall>i < length ps. \<forall>j < length ps. \<not> pos_closed (ps ! i) \<and> \<not> pos_closed (ps ! j) \<and>
        pos_mint (ps ! i) = pos_mint (ps ! j) \<longrightarrow> i = j" for ps
    using that
  proof (induction ps)
    case (Cons p ps)
    have tail: "i = j" if "i < length ps" "j < length ps" "\<not> pos_closed (ps ! i)" "\<not> pos_closed (ps ! j)"
        "pos_mint (ps ! i) = pos_mint (ps ! j)" for i j
      using Cons.prems [rule_format, of "Suc i" "Suc j"] that by simp
    have "pos_mint q \<noteq> pos_mint p" if "q \<in> set ps" "\<not> pos_closed q" "\<not> pos_closed p" for q
    proof -
      obtain i where "i < length ps" "q = ps ! i" using \<open>q \<in> set ps\<close> by (auto simp: in_set_conv_nth)
      with Cons.prems [rule_format, of "Suc i" 0] that show ?thesis by auto
    qed
    then have "\<not> pos_closed p \<Longrightarrow> pos_mint p \<notin> pos_mint ` set (filter (\<lambda>p. \<not> pos_closed p) ps)"
      by fastforce
    with Cons.IH tail show ?case by simp
  qed simp
  with assms show ?thesis by (auto simp: book_sound_def active_def list_all_iff consistent_def)
qed

subsection \<open>Opening a position\<close>

definition fresh_for :: "TradeSignal \<Rightarrow> Position \<Rightarrow> bool" where
  "fresh_for s p \<longleftrightarrow> pos_mint p = ts_mint s \<and> \<not> pos_closed p \<and> consistent p"

text \<open>The operation leaves the manager as it is, or adds one fresh position for the signal.\<close>

definition opens :: "PositionManager \<Rightarrow> TradeSignal \<Rightarrow> ('w, 'a) strategy \<Rightarrow> bool" where
  "opens M s m \<longleftrightarrow> (\<forall>\<sigma>. sg_manager (snd \<sigma>) = M \<longrightarrow>
     sg_manager (snd (snd (m \<sigma>))) = M \<or>
     (\<exists>p. fresh_for s p \<and> sg_manager (snd (snd (m \<sigma>))) = open_position p M))"

lemma opensD:
  "opens M s m \<Longrightarrow> m \<sigma> = (r, \<sigma>') \<Longrightarrow> M = sg_manager (snd \<sigma>) \<Longrightarrow>
    sg_manager (snd \<sigma>') = M \<or> (\<exists>p. fresh_for s p \<and> sg_manager (snd \<sigma>') = open_position p M)"
  by (metis opens_def snd_conv)

lemma bindIO_state: "bindIO (state f) g \<sigma> = g (f (snd \<sigma>)) \<sigma>"
  by (cases \<sigma>) (simp add: bindIO_def state_def)

lemma opens_keep: "manages (\<lambda>m. m = M) m \<Longrightarrow> opens M s m"
  by (simp add: opens_def grows_def)

lemma opens_if: "(b \<Longrightarrow> opens M s m) \<Longrightarrow> (\<not> b \<Longrightarrow> opens M s k) \<Longrightarrow> opens M s (if b then m else k)"
  by simp

lemma opens_bind_from:
  fixes m :: "('w, 'a) strategy"
  assumes "manages (\<lambda>m. m = M) m" "\<And>x \<sigma> \<sigma>'. m \<sigma> = (Inr x, \<sigma>') \<Longrightarrow> opens M s (f x)"
  shows "opens M s (bindIO m f)"
  unfolding opens_def
proof (intro allI impI)
  fix \<sigma> :: "'w \<times> StrategyState" assume \<sigma>: "sg_manager (snd \<sigma>) = M"
  obtain r \<sigma>' where run: "m \<sigma> = (r, \<sigma>')" by (metis surj_pair)
  have kept: "sg_manager (snd \<sigma>') = M" using assms(1) \<sigma> run unfolding grows_def by (metis snd_conv)
  show "sg_manager (snd (snd (bindIO m f \<sigma>))) = M \<or>
     (\<exists>p. fresh_for s p \<and> sg_manager (snd (snd (bindIO m f \<sigma>))) = open_position p M)"
  proof (cases r)
    case (Inl e)
    with run kept show ?thesis by (simp add: bindIO_def)
  next
    case (Inr x)
    with assms(2) [of \<sigma> x \<sigma>'] run have "opens M s (f x)" by simp
    from this [unfolded opens_def, rule_format, OF kept] show ?thesis
      using run Inr by (simp add: bindIO_def)
  qed
qed

lemma opens_bind: "manages (\<lambda>m. m = M) m \<Longrightarrow> (\<And>x. opens M s (f x)) \<Longrightarrow> opens M s (bindIO m f)"
  by (rule opens_bind_from)

lemma opens_position:
  assumes "fresh_for s p" "\<And>x. manages (\<lambda>m. m = open_position p M) (f x)"
  shows "opens M s (bindIO (on_manager (update (open_position p))) f)"
  using assms by (auto simp: opens_def bindIO_def on_manager_def update_def grows_def)

lemma opens_evaluate:
  "opens M s (bindIO (liftR (dry a)) (\<lambda>b. if b then log_candidate a s else execute_signal a s))"
proof -
  have bought: "opens M s (open_bought a s sig)" for sig
    unfolding open_bought_def
    by (intro opens_bind_from opens_position manages_rules manages_log)
      (auto simp: liftR_def entry_position_def bindR_eq_Inr fresh_for_def consistent_def Let_def)
  show ?thesis
    unfolding execute_signal_def
    by (intro opens_bind opens_if bought opens_keep manages_log manages_rules manages_update;
        simp add: count_signal_def)
qed

lemma book_open:
  assumes "book_sound m" "\<not> open_on (ts_mint s) m" "fresh_for s p"
  shows "book_sound (open_position p m)"
proof -
  let ?ps = "pm_positions m"
  have other: "\<not> pos_closed (?ps ! i) \<Longrightarrow> pos_mint (?ps ! i) \<noteq> pos_mint p" if "i < length ?ps" for i
    using assms(2,3) that by (auto simp: open_on_def list_ex_iff fresh_for_def)
  have "i = j" if "i < Suc (length ?ps)" "j < Suc (length ?ps)" "\<not> pos_closed ((?ps @ [p]) ! i)"
      "\<not> pos_closed ((?ps @ [p]) ! j)" "pos_mint ((?ps @ [p]) ! i) = pos_mint ((?ps @ [p]) ! j)" for i j
  proof (cases "i = length ?ps \<or> j = length ?ps")
    case True
    with that other [of i] other [of j] show ?thesis
      by (auto simp: nth_append less_Suc_eq split: if_splits)
  next
    case False
    with that assms(1) show ?thesis by (auto simp: nth_append less_Suc_eq book_sound_def)
  qed
  then show ?thesis
    using assms(1,3) by (simp add: book_sound_def open_position_def fresh_for_def)
qed

lemma manages_evaluate: "manages book_sound (evaluate_signal a s)"
proof (rule growsI)
  fix \<sigma> r \<sigma>'
  assume sound: "book_sound (sg_manager (snd \<sigma>))" and run: "evaluate_signal a s \<sigma> = (r, \<sigma>')"
  let ?M = "sg_manager (snd \<sigma>)"
  have "book_sound (sg_manager (snd \<sigma>'))"
  proof (cases "open_on (ts_mint s) ?M \<or> \<not> can_open ?M")
    case True
    with run sound show ?thesis
      by (auto simp: evaluate_signal_def bindIO_def state_def retIO_def split: prod.splits if_splits)
  next
    case False
    let ?rest = "bindIO (on_risk (can_trade (sv_env a) (sv_config a) (ts_buy_sol s))) (\<lambda>allowed.
       if \<not> allowed then retIO ()
       else bindIO (liftR (dry a)) (\<lambda>b. if b then log_candidate a s else execute_signal a s))"
    have "opens ?M s ?rest"
      by (intro opens_bind opens_if opens_evaluate opens_keep manages_rules)
    moreover have "?rest \<sigma> = (r, \<sigma>')"
      using run False by (simp add: evaluate_signal_def bindIO_state)
    ultimately have "sg_manager (snd \<sigma>') = ?M \<or> (\<exists>p. fresh_for s p \<and> sg_manager (snd \<sigma>') = open_position p ?M)"
      using opensD by blast
    with book_open [of ?M s] sound False show ?thesis by auto
  qed
  then show "book_sound (sg_manager (snd \<sigma>')) \<and> (\<exists>new. ([] :: unit list) = [] @ new \<and> list_all (\<lambda>_. True) new)"
    by simp
qed

text \<open>
  C10. Invariant of the position book.  From an empty book, after any number of turns with any
  signals, prices and failures, also when the loop has been ended by an exception: no two open
  positions are on the same mint, and a position is closed exactly when it has an exit reason and
  an exit time.
\<close>

theorem position_book_invariant:
  assumes "pm_positions (sg_manager s) = []" "strategy_loop fuel n a (w, s) = (r, (w', s'))"
  shows "(\<forall>p \<in> set (pm_positions (sg_manager s')).
       (pos_closed p \<longleftrightarrow> pos_exit_reason p \<noteq> None) \<and> (pos_closed p \<longleftrightarrow> pos_exit_time p \<noteq> None)) \<and>
    distinct (map pos_mint (active (sg_manager s')))"
proof -
  have turn: "manages book_sound (strategy_turn n a)"
    unfolding strategy_turn_def
    by (intro manages_rules manages_refresh manages_gather manages_exits manages_evaluate manages_update)
      (simp_all add: forget_mints_def)
  have "manages book_sound (strategy_loop fuel n a)"
  proof (induction fuel)
    case (Suc fuel)
    then show ?case unfolding strategy_loop.simps by (intro grows_bind turn)
  qed (unfold strategy_loop.simps, rule grows_result)
  moreover have "book_sound (sg_manager (snd (w, s)))" using assms(1) by (simp add: book_sound_def)
  ultimately have "book_sound (sg_manager (snd (w', s')))"
    using assms(2) unfolding grows_def by (metis snd_conv)
  then have "book_sound (sg_manager s')" by simp
  then show ?thesis by (rule book_sound_distinct)
qed

theorem position_book_invariant_witness:
  "\<forall>a :: nat strategy_args. \<exists>r w' s'. strategy_loop 2 1 a (0, demo_strategy_state) = (r, (w', s')) \<and>
     distinct (map pos_mint (active (sg_manager s')))"
proof
  fix a :: "nat strategy_args"
  obtain r w' s' where run: "strategy_loop 2 1 a (0, demo_strategy_state) = (r, (w', s'))"
    by (metis surj_pair)
  have "pm_positions (sg_manager demo_strategy_state) = []"
    by (simp add: demo_strategy_state_def new_manager_def)
  from position_book_invariant [OF this run] run
  show "\<exists>r w' s'. strategy_loop 2 1 a (0, demo_strategy_state) = (r, (w', s')) \<and>
     distinct (map pos_mint (active (sg_manager s')))" by blast
qed

section \<open>What a live run may start\<close>

text \<open>
  A price query, a sell, or a buy whose size at the configured SOL price is within the configured
  cap.
\<close>

definition within_cap :: "json \<Rightarrow> pyfloat \<Rightarrow> bool" where
  "within_cap config x \<longleftrightarrow> (\<exists>price cap. config_num config ''sol_price_usd'' (JInt 74) = Inr price \<and>
     bindR (dict_get config ''trade_cap_usd'' (JInt 25)) compared = Inr cap \<and> x * price \<le> cap)"

definition capped_start :: "json \<Rightarrow> string \<times> json \<Rightarrow> bool" where
  "capped_start config = (\<lambda>(name, input).
     name = price_script \<or>
     name = trade_script \<and> dict_item input ''action'' = Inr (JStr ''sell'') \<or>
     name = trade_script \<and> dict_item input ''action'' = Inr (JStr ''buy'') \<and>
       (\<exists>x. dict_item input ''buySol'' = Inr (JStr (fixed 9 x)) \<and> within_cap config x))"

lemma trade_allowed_cap: "trade_allowed config x k = Inr True \<Longrightarrow> within_cap config x"
  by (auto simp: trade_allowed_def within_cap_def config_num_def bindR_eq_Inr split: if_splits)

lemma emits_run_node:
  "J (script, payload) \<Longrightarrow> emits snd J (run_node (traced E) present script payload)"
  unfolding run_node_def by (intro emits emits_run_script)

lemma emits_price: "emits snd (capped_start config) (get_pool_price (traced E) present config pool)"
  unfolding get_pool_price_def by (intro emits emits_run_node) (simp add: capped_start_def)

lemma emits_sell: "emits snd (capped_start config) (sell_token (traced E) present key config mint pool)"
  unfolding sell_token_def by (intro emits emits_run_node) (simp add: capped_start_def)

lemma emits_buy:
  "within_cap config x \<Longrightarrow>
    emits snd (capped_start config) (buy_token (traced E) S present key config mint x slippage)"
  unfolding buy_token_def by (intro emits emits_run_node) (auto simp: capped_start_def)

lemma emits_part:
  assumes "emits (snd \<circ> fst) J m"
  shows "emits (snd \<circ> fst) J (on_manager m)"
  using assms unfolding emits_iff on_manager_def by (auto split: prod.split) (metis fst_conv snd_conv)

lemma emits_risk:
  assumes "emits (snd \<circ> fst) J m"
  shows "emits (snd \<circ> fst) J (on_risk m)"
  using assms unfolding emits_iff on_risk_def by (auto split: prod.split) (metis fst_conv snd_conv)

lemma emits_position:
  assumes "emits (snd \<circ> fst) J m"
  shows "emits (snd \<circ> fst) J (at_position i m)"
  using assms unfolding emits_iff at_position_def by (auto split: prod.split) (metis fst_conv snd_conv)

lemma emits_exits:
  "emits (snd \<circ> fst) (capped_start config) (check_exits (traced E) present config)"
proof -
  have "emits (snd \<circ> fst) (capped_start config) (check_position (traced E) present config time)" for time
    unfolding check_position_def by (intro emits emits_price)
  then have "emits (snd \<circ> fst) (capped_start config) (collect_exits (traced E) present config time is)" for time "is"
    by (induction "is") (auto intro!: emits emits_position)
  then show ?thesis unfolding check_exits_def by (intro emits)
qed

lemma emits_traced_read [emits]:
  "emits snd J (read_host (\<lambda>(w, l). case f w of (x, w') \<Rightarrow> (x, (w', l))))"
  by (auto simp: emits_iff read_host_def split: prod.split)

lemma emits_drain:
  "emits snd J (read_host nx) \<Longrightarrow> (\<And>q. emits (snd \<circ> fst) J (f q)) \<Longrightarrow> emits (snd \<circ> fst) J (drain n nx f acc)"
  by (induction n arbitrary: acc) (auto intro!: emits)

lemma emits_strategy_turn:
  "emits (snd \<circ> fst) (capped_start config)
     (strategy_turn n (traced_strategy E S g H present key config nm nc wt))"
proof -
  let ?a = "traced_strategy E S g H present key config nm nc wt"
  let ?e = "emits (snd \<circ> fst) (capped_start config)"
  have size: "?e (sized_signal ?a mint mk)" for mint mk
    unfolding sized_signal_def entry_size_def strategy_args.simps by (intro emits)
  have gather: "?e (gather_signals n ?a)"
    unfolding gather_signals_def momentum_entry_def copy_entry_def strategy_args.simps
    by (intro emits emits_drain size)
  have sell: "?e (sell_exited ?a i)" for i
    unfolding sell_exited_def strategy_args.simps
    by (intro emits emits_sell emits_part emits_position)
  have exits: "?e (run_exits ?a)"
    unfolding run_exits_def strategy_args.simps by (intro emits emits_part emits_exits sell)
  have logged: "?e (log_candidate ?a s)" "?e (log_trade ?a s p)" for s p
    unfolding log_candidate_def log_trade_def strategy_args.simps by (intro emits)+
  have paid: "emits (snd \<circ> fst) (capped_start config) (risk_record_trade x)" for x
    unfolding risk_record_trade_def by (intro emits)
  have "?e (open_bought ?a s sig)" for s sig
    unfolding open_bought_def strategy_args.simps
    by (intro emits emits_price emits_part emits_risk paid logged)
  then have execute: "within_cap config (ts_buy_sol s) \<Longrightarrow> ?e (execute_signal ?a s)" for s
    unfolding execute_signal_def strategy_args.simps by (intro emits emits_buy emits_risk paid)
  have allowed: "within_cap config x" if "on_risk (can_trade (traced E) config x) \<sigma> = (Inr True, \<sigma>')" for x \<sigma> \<sigma>'
    using that by (auto simp: on_risk_def can_trade_def state_def liftR_def trade_allowed_cap
        elim!: bindIO_run split: prod.splits)
  have can: "emits (snd \<circ> fst) (capped_start config) (can_trade (traced E) config x)" for x
    unfolding can_trade_def by (intro emits)
  have verdict: "?e (bindIO (on_risk (can_trade (traced E) config (ts_buy_sol s))) (\<lambda>ok.
      if \<not> ok then retIO () else bindIO (liftR (dry ?a)) (\<lambda>b.
        if b then log_candidate ?a s else execute_signal ?a s)))" for s
    by (intro emits_bind_from emits_risk can grows_if grows_result logged execute) (auto dest: allowed)
  have evaluate: "?e (evaluate_signal ?a s)" for s
    unfolding evaluate_signal_def strategy_args.simps by (intro emits verdict)
  have refresh: "?e (refresh_price ?a)" "?e (refresh_trending ?a)"
    unfolding refresh_price_def refresh_trending_def strategy_args.simps by (intro emits)+
  show ?thesis
    unfolding strategy_turn_def strategy_args.simps(1)
    by (intro emits refresh gather exits evaluate)
qed

text \<open>
  C11. The cap on entries.  Whatever a live run is told, every script it starts asks for a price,
  sells, or buys an amount of SOL whose value, at the SOL price the configuration states, is at
  most the configured cap per trade.
\<close>

theorem strategy_buys_within_cap:
  assumes "strategy_loop fuel n (traced_strategy E S g H present key config nm nc wt) ((w, l), s)
      = (r, ((w', l'), s'))"
  shows "\<exists>new. l' = l @ new \<and> list_all (capped_start config) new"
proof -
  have "emits (snd \<circ> fst) (capped_start config)
      (strategy_loop fuel n (traced_strategy E S g H present key config nm nc wt))"
  proof (induction fuel)
    case (Suc fuel)
    then show ?case unfolding strategy_loop.simps by (intro grows_bind emits_strategy_turn)
  qed (unfold strategy_loop.simps, rule grows_result)
  then show ?thesis
    using assms unfolding emits_iff by (metis comp_apply fst_conv snd_conv)
qed

theorem strategy_buys_within_cap_witness:
  "\<forall>c. \<exists>r w' l' s'. strategy_loop 3 4 (demo_strategy c) ((0, []), demo_strategy_state) = (r, ((w', l'), s')) \<and>
     list_all (capped_start c) l'"
proof
  fix c
  obtain r w' l' s' where run:
    "strategy_loop 3 4 (demo_strategy c) ((0, []), demo_strategy_state) = (r, ((w', l'), s'))"
    by (metis surj_pair)
  from strategy_buys_within_cap [OF run] run
  show "\<exists>r w' l' s'. strategy_loop 3 4 (demo_strategy c) ((0, []), demo_strategy_state) = (r, ((w', l'), s')) \<and>
     list_all (capped_start c) l'" by auto
qed

section \<open>A bought position that is lost\<close>

text \<open>The operation raises from any world, and leaves the state as it is.\<close>

definition fails :: "('w \<times> 's, 'a) io \<Rightarrow> 's \<Rightarrow> bool" where
  "fails m s \<longleftrightarrow> (\<forall>w. \<exists>e w'. m (w, s) = (Inl e, (w', s)))"

lemma fails_bind:
  "(\<And>x. fails (f x) s) \<Longrightarrow> fails (bindIO (in_world m) f) s"
  "(\<And>x. fails (f x) s) \<Longrightarrow> fails (bindIO (liftR v) f) s"
  unfolding fails_def bindIO_def in_world_def liftR_def by (auto split: prod.split sum.split)

lemma fails_now:
  assumes "fails m s"
  shows "fails (bindIO m f) s"
  unfolding fails_def
proof
  fix w
  obtain e w' where "m (w, s) = (Inl e, (w', s))" using assms unfolding fails_def by blast
  then show "\<exists>e w'. bindIO m f (w, s) = (Inl e, (w', s))" by (simp add: bindIO_def)
qed

text \<open>
  A submitted buy is forgotten when the slot query after it fails.  If the script reports the
  buy as submitted and the node then does not answer the slot query, the dispatcher raises and the
  position manager is as before: what was bought is in no position and no exit will ever sell it.
\<close>

theorem submitted_buy_forgotten:
  assumes "buy_token (sv_env a) (sv_solders a) (sv_present a) (sv_keypair a) (sv_config a)
      (ts_mint s) (ts_buy_sol s) slippage w = (Inr result, w1)"
    and "dict_get (sv_config a) ''slippage_bps'' (JInt 100) = Inr slippage"
    and "dict_get result ''submitted'' JNull = Inr (JBool True)"
    and "\<forall>w. \<exists>e w'. latest_slot (sv_env a) ''finalized'' w = (Inl e, w')"
    and "execute_signal a s (w, st) = (r, (w', st'))"
  shows "(\<exists>e. r = Inl e) \<and> sg_manager st' = sg_manager st \<and> sg_risk st' = sg_risk st \<and>
    sg_trades_log st' = sg_trades_log st"
proof -
  have slot: "fails (in_world (latest_slot (sv_env a) ''finalized'')) s'" for s' :: StrategyState
    using assms(4) unfolding fails_def in_world_def by (auto split: prod.split) (metis prod.inject)
  have "fails (open_bought a s sig) s'" for sig s'
    unfolding open_bought_def by (intro fails_bind fails_now slot)
  then obtain sig e w2 where bought: "printable sig = Inr () \<Longrightarrow>
      open_bought a s sig (w1, count_signal st) = (Inl e, (w2, count_signal st))"
    "dict_get result ''signature'' (JStr ''unknown'') = Inr sig"
    unfolding fails_def using assms(3) by (cases result) (auto, metis)
  have "in_world (buy_token (sv_env a) (sv_solders a) (sv_present a) (sv_keypair a) (sv_config a)
      (ts_mint s) (ts_buy_sol s) slippage) (w, st) = (Inr result, (w1, st))"
    using assms(1) by (simp add: in_world_def)
  then have "execute_signal a s (w, st) = bindIO (liftR (printable sig)) (\<lambda>_.
      bindIO (update count_signal) (\<lambda>_. open_bought a s sig)) (w1, st)"
    using assms(2,3) bought(2) by (simp add: execute_signal_def bindIO_def)
  then show ?thesis
    using assms(5) bought(1)
    by (cases "printable sig") (auto simp: bindIO_def update_def count_signal_def)
qed

definition demo_bought :: json where
  "demo_bought = JDict [(''submitted'', JBool True), (''signature'', JStr ''s'')]"

definition demo_live_strategy :: "nat strategy_args" where
  "demo_live_strategy = \<lparr> sv_env = dead_env\<lparr>run_script := (\<lambda>_ _ w. (Inr \<lparr>returncode = 0, stdout = [],
       stderr = [], stdout_json = Inr demo_bought\<rparr>, w))\<rparr>,
     sv_solders = demo_solders, sv_gmgn = \<lparr>api_key = None, fallback_sol_price_usd = Fin 74\<rparr>,
     sv_host = demo_host, sv_present = (\<lambda>_. True), sv_keypair = JStr ''key'',
     sv_config = JDict [(''rpc_url'', JStr ''u''), (''strategies'', JDict [])],
     sv_next_momentum = Pair None, sv_next_copy = Pair None, sv_watch_trending = (\<lambda>_. Pair ()) \<rparr>"

theorem submitted_buy_forgotten_witness:
  "\<exists>e w' st'. execute_signal demo_live_strategy (demo_signal ''high'' 1) (0, demo_strategy_state)
      = (Inl e, (w', st')) \<and> pm_positions (sg_manager st') = []"
proof -
  let ?a = demo_live_strategy and ?s = "demo_signal ''high'' 1"
  obtain r w' st' where run: "execute_signal ?a ?s (0, demo_strategy_state) = (r, (w', st'))"
    by (metis surj_pair)
  have "\<exists>result. buy_token (sv_env ?a) (sv_solders ?a) (sv_present ?a) (sv_keypair ?a) (sv_config ?a)
      (ts_mint ?s) (ts_buy_sol ?s) (JInt 100) 0 = (Inr result, 0) \<and>
      dict_get result ''submitted'' JNull = Inr (JBool True)"
    by (simp add: demo_live_strategy_def buy_token_def canonical_pump_pool_def demo_solders_def bindIO_def
        trade_limits_def run_node_def catchIO_def demo_bought_def demo_signal_def Let_def)
  then obtain result where bought: "buy_token (sv_env ?a) (sv_solders ?a) (sv_present ?a) (sv_keypair ?a)
      (sv_config ?a) (ts_mint ?s) (ts_buy_sol ?s) (JInt 100) 0 = (Inr result, 0)"
    "dict_get result ''submitted'' JNull = Inr (JBool True)" by blast
  have slippage: "dict_get (sv_config ?a) ''slippage_bps'' (JInt 100) = Inr (JInt 100)"
    by (simp add: demo_live_strategy_def)
  have "\<forall>w. \<exists>e w'. latest_slot (sv_env ?a) ''finalized'' w = (Inl e, w')"
    by (simp add: demo_live_strategy_def latest_slot_def rpc_call_def dead_env_def bindIO_def raiseIO_def)
  from submitted_buy_forgotten [OF bought(1) slippage bought(2) this run] run show ?thesis
    by (auto simp: demo_strategy_state_def new_manager_def)
qed

end
