(* ===== verification/Locking.thy ===== *)
theory Locking
  imports Coordination LiveLoop
begin

text \<open>
  The two file locks of the program under several processes.  \<open>AttemptLock\<close> of
  \<open>backrunner/coordination.py\<close> and \<open>try_acquire_lock\<close> of \<open>ops/live-loop.py\<close> are split
  into the system calls they make, each call one step of an inductive relation, so that calls of
  different processes interleave.  The interface \<open>exclusive_lock\<close> states what a lock is for;
  the attempt lock satisfies it, the lock of the live loop does not.
\<close>

section \<open>What an exclusive lock promises\<close>

locale exclusive_lock =
  fixes start :: "'s \<Rightarrow> bool"
    and step :: "'s \<Rightarrow> 's \<Rightarrow> bool"
    and holds :: "'s \<Rightarrow> nat \<Rightarrow> bool"
    and inv :: "'s \<Rightarrow> bool"
  assumes inv_start: "start s \<Longrightarrow> inv s"
    and inv_step: "inv s \<Longrightarrow> step s t \<Longrightarrow> inv t"
    and inv_exclusive: "inv s \<Longrightarrow> holds s p \<Longrightarrow> holds s q \<Longrightarrow> p = q"
begin

lemma inv_reach: "step\<^sup>*\<^sup>* s t \<Longrightarrow> inv s \<Longrightarrow> inv t"
  by (induction rule: rtranclp_induct) (auto intro: inv_step)

lemma inv_runs: "start s \<Longrightarrow> step\<^sup>*\<^sup>* s t \<Longrightarrow> inv t"
  by (blast intro: inv_reach inv_start)

lemma mutual_exclusion: "start s \<Longrightarrow> step\<^sup>*\<^sup>* s t \<Longrightarrow> holds t p \<Longrightarrow> holds t q \<Longrightarrow> p = q"
  by (blast intro: inv_exclusive inv_runs)

end

section \<open>The attempt lock, call by call\<close>

text \<open>
  Where a process is: outside; past \<open>O_EXCL\<close> with the payload unwritten; inside the body; past
  the ownership check of \<open>__exit__\<close>.  A process that crashes is outside and leaves the file.
\<close>

datatype phase = Outside | Opened attempt | Inside attempt | Checked attempt

type_synonym lock_conf = "files \<times> (nat \<Rightarrow> phase)"

inductive lock_step :: "string \<Rightarrow> string \<Rightarrow> lock_conf \<Rightarrow> lock_conf \<Rightarrow> bool" for path cid where
  Open_excl: "ph p = Outside \<Longrightarrow> fs path = None
    \<Longrightarrow> lock_step path cid (fs, ph) (fs(path \<mapsto> Corrupt), ph(p := Opened A))"
| Open_refused: "ph p = Outside \<Longrightarrow> fs path \<noteq> None \<Longrightarrow> lock_step path cid (fs, ph) (fs, ph)"
| Write_payload: "ph p = Opened A \<Longrightarrow> write_fault A = None
    \<Longrightarrow> lock_step path cid (fs, ph) (fs(path \<mapsto> JsonFile (lock_payload cid A)), ph(p := Inside A))"
| Write_failed: "ph p = Opened A \<Longrightarrow> write_fault A \<noteq> None \<Longrightarrow> unlink_fault A = None
    \<Longrightarrow> lock_step path cid (fs, ph) (fs(path := None), ph(p := Outside))"
| Cleanup_failed: "ph p = Opened A \<Longrightarrow> write_fault A \<noteq> None \<Longrightarrow> unlink_fault A \<noteq> None
    \<Longrightarrow> lock_step path cid (fs, ph) (fs, ph(p := Outside))"
| Check_owner: "ph p = Inside A \<Longrightarrow> fst (AttemptLock_exit path None (Some (token A)) fs) = Inr ()
    \<Longrightarrow> lock_step path cid (fs, ph) (fs, ph(p := Checked A))"
| Release_refused: "ph p = Inside A \<Longrightarrow> fst (AttemptLock_exit path None (Some (token A)) fs) = Inl e
    \<Longrightarrow> lock_step path cid (fs, ph) (fs, ph(p := Outside))"
| Remove: "ph p = Checked A \<Longrightarrow> unlink_fault A = None
    \<Longrightarrow> lock_step path cid (fs, ph) (fs(path := None), ph(p := Outside))"
| Remove_failed: "ph p = Checked A \<Longrightarrow> unlink_fault A \<noteq> None
    \<Longrightarrow> lock_step path cid (fs, ph) (fs, ph(p := Outside))"
| Crash: "lock_step path cid (fs, ph) (fs, ph(p := Outside))"

inductive_cases lock_stepE: "lock_step path cid (fs, ph) t"

definition lock_start :: "string \<Rightarrow> lock_conf \<Rightarrow> bool" where
  "lock_start path s \<longleftrightarrow> (\<forall>p. snd s p = Outside)"

text \<open>The file of a process that is past \<open>O_EXCL\<close>.\<close>

fun lock_content :: "string \<Rightarrow> phase \<Rightarrow> file_content option" where
  "lock_content cid Outside = None"
| "lock_content cid (Opened A) = Some Corrupt"
| "lock_content cid (Inside A) = Some (JsonFile (lock_payload cid A))"
| "lock_content cid (Checked A) = Some (JsonFile (lock_payload cid A))"

definition lock_inv :: "string \<Rightarrow> string \<Rightarrow> lock_conf \<Rightarrow> bool" where
  "lock_inv path cid s \<longleftrightarrow>
     (\<forall>p. snd s p \<noteq> Outside \<longrightarrow> fst s path = lock_content cid (snd s p)) \<and>
     (\<forall>p q. snd s p \<noteq> Outside \<longrightarrow> snd s q \<noteq> Outside \<longrightarrow> p = q)"

lemma lock_content_None [simp]: "lock_content cid w = None \<longleftrightarrow> w = Outside"
  by (cases w) auto

lemma lock_inv_alone:
  "lock_inv path cid (fs, ph) \<Longrightarrow> ph p \<noteq> Outside \<Longrightarrow> q \<noteq> p \<Longrightarrow> ph q = Outside"
  by (auto simp: lock_inv_def)

lemma lock_inv_file:
  "lock_inv path cid (fs, ph) \<Longrightarrow> ph p \<noteq> Outside \<Longrightarrow> fs path = lock_content cid (ph p)"
  by (auto simp: lock_inv_def)

lemma lock_inv_free: "lock_inv path cid (fs, ph) \<Longrightarrow> fs path = None \<Longrightarrow> ph q = Outside"
  by (metis lock_content_None lock_inv_file)

text \<open>Only the process past \<open>O_EXCL\<close> changes the file, and the invariant follows it.\<close>

lemma lock_inv_move:
  assumes "lock_inv path cid (fs, ph)" "\<And>q. q \<noteq> p \<Longrightarrow> ph q = Outside"
    "w \<noteq> Outside \<Longrightarrow> fs' path = lock_content cid w"
  shows "lock_inv path cid (fs', ph(p := w))"
  using assms by (auto simp: lock_inv_def)

lemma lock_inv_leave: "lock_inv path cid (fs, ph) \<Longrightarrow> lock_inv path cid (fs, ph(p := Outside))"
  by (auto simp: lock_inv_def)

lemma lock_inv_owner:
  assumes "lock_inv path cid (fs, ph)" "ph p = v" "v \<noteq> Outside"
    "w \<noteq> Outside \<Longrightarrow> fs' path = lock_content cid w"
  shows "lock_inv path cid (fs', ph(p := w))"
  using assms by (intro lock_inv_move [OF assms(1)]) (auto dest: lock_inv_alone)

lemma lock_inv_step:
  assumes "lock_inv path cid s" "lock_step path cid s t"
  shows "lock_inv path cid t"
  using assms(2,1)
proof cases
  case (Open_excl ph p fs A)
  then show ?thesis using assms(1) by (auto intro: lock_inv_move dest: lock_inv_free)
next
  case (Check_owner ph p A fs)
  then have "fs path = lock_content cid (Inside A)" using lock_inv_file [of path cid fs ph p] assms(1) by simp
  then show ?thesis using Check_owner assms(1) by (auto intro: lock_inv_owner [where v = "Inside A"])
qed (auto intro: lock_inv_owner lock_inv_leave)

interpretation attempt: exclusive_lock "lock_start path" "lock_step path cid"
    "\<lambda>s p. snd s p \<noteq> Outside" "lock_inv path cid" for path cid
proof
  fix s :: lock_conf and t p q
  show "lock_start path s \<Longrightarrow> lock_inv path cid s" by (simp add: lock_start_def lock_inv_def)
  show "lock_inv path cid s \<Longrightarrow> lock_step path cid s t \<Longrightarrow> lock_inv path cid t" by (rule lock_inv_step)
  show "lock_inv path cid s \<Longrightarrow> snd s p \<noteq> Outside \<Longrightarrow> snd s q \<noteq> Outside \<Longrightarrow> p = q"
    by (auto simp: lock_inv_def)
qed

text \<open>The sequential operations are runs of the relation.\<close>

lemma enter_is_run:
  assumes "AttemptLock_enter path cid A fs = (Inr tok, fs')" "ph p = Outside"
  shows "(lock_step path cid)\<^sup>*\<^sup>* (fs, ph) (fs', ph(p := Inside A))"
proof -
  have free: "fs path = None" and ok: "write_fault A = None"
    and fs': "fs' = fs(path \<mapsto> JsonFile (lock_payload cid A))"
    using assms(1) by (auto simp: AttemptLock_enter_def Let_def split: if_splits option.splits)
  have "lock_step path cid (fs, ph) (fs(path \<mapsto> Corrupt), ph(p := Opened A))"
    using assms(2) free by (rule Open_excl)
  moreover have "lock_step path cid (fs(path \<mapsto> Corrupt), ph(p := Opened A)) (fs', ph(p := Inside A))"
    using Write_payload [of "ph(p := Opened A)" p A path cid "fs(path \<mapsto> Corrupt)"] ok fs' by simp
  ultimately show ?thesis by (meson converse_rtranclp_into_rtranclp r_into_rtranclp)
qed

lemma exit_is_run:
  assumes "AttemptLock_exit path (unlink_fault A) (Some (token A)) fs = (Inr (), fs')" "ph p = Inside A"
  shows "(lock_step path cid)\<^sup>*\<^sup>* (fs, ph) (fs', ph(p := Outside))"
proof -
  have fs': "fs' = fs(path := None)" and ok: "unlink_fault A = None"
    using assms(1) by (auto simp: AttemptLock_exit_def split: sum.splits exn.splits if_splits option.splits)
  have "lock_step path cid (fs, ph) (fs, ph(p := Checked A))"
    using assms ok by (intro Check_owner) auto
  moreover have "lock_step path cid (fs, ph(p := Checked A)) (fs', ph(p := Outside))"
    using Remove [of "ph(p := Checked A)" p A path cid fs] fs' ok by simp
  ultimately show ?thesis by (meson converse_rtranclp_into_rtranclp r_into_rtranclp)
qed

lemma owner_reads_itself:
  assumes "lock_inv path cid (fs, ph)" "ph p = Inside A"
  shows "AttemptLock_exit path (unlink_fault A) (Some (token A)) fs =
    (case unlink_fault A of None \<Rightarrow> (Inr (), fs(path := None)) | Some e \<Rightarrow> (Inl e, fs))"
  using lock_inv_file [OF assms(1), of p] assms(2)
  by (simp add: AttemptLock_exit_def read_json_def lock_payload_def raise_def split: option.split)

text \<open>
  C15. Mutual exclusion of the attempt lock.  However the system calls of any number of processes
  interleave, and whichever of them crash or fail to write or to remove, at most one process is between a
  successful \<open>O_EXCL\<close> and the end of its release; the lock file is then the one it wrote; and
  if it is in the body, its release is not refused, and removes the file unless the removal fails.
\<close>

theorem attempt_lock_exclusive:
  assumes "lock_start path s" "(lock_step path cid)\<^sup>*\<^sup>* s (fs, ph)" "ph p \<noteq> Outside"
  shows "(\<forall>q. ph q \<noteq> Outside \<longrightarrow> q = p) \<and> fs path = lock_content cid (ph p) \<and>
    (\<forall>A. ph p = Inside A \<longrightarrow>
       AttemptLock_exit path (unlink_fault A) (Some (token A)) fs =
         (case unlink_fault A of None \<Rightarrow> (Inr (), fs(path := None)) | Some e \<Rightarrow> (Inl e, fs)))"
proof -
  have inv: "lock_inv path cid (fs, ph)" by (rule attempt.inv_runs [OF assms(1,2)])
  show ?thesis
    using attempt.mutual_exclusion [OF assms(1,2)] lock_inv_file [OF inv assms(3)]
      owner_reads_itself [OF inv] assms(3) by auto
qed

lemma locked_step:
  assumes "lock_step path cid (fs, ph) t" "fs path \<noteq> None" "\<forall>p. ph p = Outside"
  shows "t = (fs, ph)"
  using assms(1) by (cases rule: lock_stepE) (use assms(2,3) in \<open>auto simp: fun_upd_idem\<close>)

text \<open>
  The attempt lock fails closed.  When a process dies inside, the file stays, and from then on
  no interleaving of any processes changes anything: nobody ever gets in again until the file is
  removed by hand.
\<close>

theorem attempt_lock_fails_closed:
  assumes "(lock_step path cid)\<^sup>*\<^sup>* (fs, ph) t" "fs path \<noteq> None" "\<forall>p. ph p = Outside"
  shows "t = (fs, ph)"
  using assms(1)
proof (induction rule: rtranclp_induct)
  case (step t u)
  from locked_step [OF step.hyps(2) [unfolded step.IH]] assms(2,3) show ?case by blast
qed simp

section \<open>The lock of the live loop, call by call\<close>

text \<open>
  \<open>try_acquire_lock\<close> looks at the file and then touches it; \<open>release_lock\<close> unlinks
  whatever is there.  Time passes between the steps; the disk raises nowhere here, so that what goes
  wrong is the protocol.
\<close>

datatype live_phase = Looking | Found_free | Trading

record live_conf =
  lv_now :: pyfloat
  lv_lock :: "pyfloat option"
  lv_phase :: "nat \<Rightarrow> live_phase"

inductive live_lock_step :: "live_conf \<Rightarrow> live_conf \<Rightarrow> bool" where
  Look: "lv_phase s p = Looking \<Longrightarrow> fst (try_acquire_lock (lv_now s) (lv_lock s))
    \<Longrightarrow> live_lock_step s (s\<lparr>lv_phase := (lv_phase s)(p := Found_free)\<rparr>)"
| Touch: "lv_phase s p = Found_free
    \<Longrightarrow> live_lock_step s (s\<lparr>lv_lock := Some (lv_now s), lv_phase := (lv_phase s)(p := Trading)\<rparr>)"
| Release: "lv_phase s p = Trading
    \<Longrightarrow> live_lock_step s (s\<lparr>lv_lock := None, lv_phase := (lv_phase s)(p := Looking)\<rparr>)"
| Tick: "0 < d \<Longrightarrow> live_lock_step s (s\<lparr>lv_now := lv_now s + Fin d\<rparr>)"

definition live_start_conf :: live_conf where
  "live_start_conf = \<lparr> lv_now = Fin 0, lv_lock = None, lv_phase = (\<lambda>_. Looking) \<rparr>"

text \<open>
  C34. The lock of the live loop is not exclusive.  Two processes that look before either touches
  both trade; and after one of them has released, the file is gone while the other still trades,
  so a third process is let in at once.
\<close>

theorem live_lock_admits_three:
  "\<exists>s t. live_lock_step\<^sup>*\<^sup>* live_start_conf s \<and> lv_phase s 0 = Trading \<and> lv_phase s 1 = Trading \<and>
     live_lock_step\<^sup>*\<^sup>* s t \<and> lv_phase t 1 = Trading \<and> lv_phase t 2 = Trading"
proof -
  let ?ph = "\<lambda>a b c. (((\<lambda>_. Looking)(0 := a))(1 := b))(2 := c) :: nat \<Rightarrow> live_phase"
  let ?conf = "\<lambda>l a b c. \<lparr> lv_now = Fin 0, lv_lock = l, lv_phase = ?ph a b c \<rparr>"
  let ?s = "?conf (Some (Fin 0)) Trading Trading Looking"
  let ?t = "?conf (Some (Fin 0)) Looking Trading Trading"
  have start: "live_start_conf = ?conf None Looking Looking Looking"
    by (simp add: live_start_conf_def fun_eq_iff)
  have upd: "(?ph a b c)(0 := a') = ?ph a' b c" "(?ph a b c)(1 := b') = ?ph a b' c"
    "(?ph a b c)(2 := c') = ?ph a b c'" for a b c a' b' c'
    by (auto simp: fun_eq_iff)
  have look: "live_lock_step (?conf None Looking Looking Looking) (?conf None Found_free Looking Looking)"
    "live_lock_step (?conf None Found_free Looking Looking) (?conf None Found_free Found_free Looking)"
    "live_lock_step (?conf None Looking Trading Looking) (?conf None Looking Trading Found_free)"
    using Look [of "?conf None Looking Looking Looking" 0] Look [of "?conf None Found_free Looking Looking" 1]
      Look [of "?conf None Looking Trading Looking" 2] upd
    by (auto simp: try_acquire_lock_def)
  have touch: "live_lock_step (?conf None Found_free Found_free Looking)
        (?conf (Some (Fin 0)) Trading Found_free Looking)"
    "live_lock_step (?conf (Some (Fin 0)) Trading Found_free Looking) ?s"
    "live_lock_step (?conf None Looking Trading Found_free) ?t"
    using Touch [of "?conf None Found_free Found_free Looking" 0]
      Touch [of "?conf (Some (Fin 0)) Trading Found_free Looking" 1]
      Touch [of "?conf None Looking Trading Found_free" 2] upd
    by auto
  have release: "live_lock_step ?s (?conf None Looking Trading Looking)"
    using Release [of ?s 0] upd by auto
  have "live_lock_step\<^sup>*\<^sup>* live_start_conf ?s"
    unfolding start using look(1,2) touch(1,2) by (meson converse_rtranclp_into_rtranclp rtranclp.rtrancl_refl)
  moreover have "live_lock_step\<^sup>*\<^sup>* ?s ?t"
    using release look(3) touch(3) by (meson converse_rtranclp_into_rtranclp rtranclp.rtrancl_refl)
  moreover have "lv_phase ?s 0 = Trading \<and> lv_phase ?s 1 = Trading \<and> lv_phase ?t 1 = Trading \<and>
      lv_phase ?t 2 = Trading" by simp
  ultimately show ?thesis by blast
qed

theorem attempt_lock_exclusive_witness:
  "\<exists>fs ph. (lock_step ''l'' ''c'')\<^sup>*\<^sup>* (\<lambda>_. None, \<lambda>_. Outside) (fs, ph) \<and> ph 3 = Inside (demo_attempt ''k'') \<and>
     (\<forall>q. ph q \<noteq> Outside \<longrightarrow> q = 3)"
proof -
  let ?fs = "(\<lambda>_. None)(''l'' \<mapsto> JsonFile (lock_payload ''c'' (demo_attempt ''k'')))"
  let ?ph = "(\<lambda>_. Outside)(3 := Inside (demo_attempt ''k''))"
  have "AttemptLock_enter ''l'' ''c'' (demo_attempt ''k'') (\<lambda>_. None) = (Inr (Some ''k''), ?fs)"
    by (simp add: AttemptLock_enter_def demo_attempt_def)
  then have run: "(lock_step ''l'' ''c'')\<^sup>*\<^sup>* (\<lambda>_. None, \<lambda>_. Outside) (?fs, ?ph)"
    by (rule enter_is_run) simp
  have "?ph 3 \<noteq> Outside" by simp
  from attempt_lock_exclusive [OF _ run this] have "\<forall>q. ?ph q \<noteq> Outside \<longrightarrow> q = 3"
    by (simp add: lock_start_def)
  then show ?thesis by (intro exI [of _ ?fs] exI [of _ ?ph] conjI run) simp_all
qed

theorem attempt_lock_fails_closed_witness:
  "{t. (lock_step ''l'' ''c'')\<^sup>*\<^sup>* ((\<lambda>_. None)(''l'' \<mapsto> Corrupt), \<lambda>_. Outside) t}
     = {((\<lambda>_. None)(''l'' \<mapsto> Corrupt), \<lambda>_. Outside)}"
  using attempt_lock_fails_closed [of "''l''" "''c''" "(\<lambda>_. None)(''l'' \<mapsto> Corrupt)" "\<lambda>_. Outside"] by auto

end
