(* ===== verification/Replay.thy ===== *)
theory Replay
  imports Files
begin

text \<open>
  \<open>backrunner/replay.py\<close>: counting, over a recorded window of round trips, how many had a large
  enough buy before them in the same slot, and how many of those followed it closely.
\<close>

record ReplaySummary =
  total_round_trips :: nat
  same_slot_precursors :: nat
  tight_backrun_candidates :: nat
  profitable_tight_candidates :: nat
  observed_profit_sol :: pyfloat
  rp_signatures :: "string list"

definition load_replay :: "string \<Rightarrow> files \<Rightarrow> json list res" where
  "load_replay path fs = bindR (read_json fs path) (\<lambda>data. case data of
     JList rows \<Rightarrow> ret rows
   | _ \<Rightarrow> raise (TypeError ''replay fixture must contain a JSON array''))"

text \<open>The comprehension of the buys before a round trip that are large enough.\<close>

definition qualifying :: "pyfloat \<Rightarrow> json \<Rightarrow> json list res" where
  "qualifying minimum_precursor_usd row =
     bindR (bindR (dict_get row ''same_slot_large_buys_before'' (JList [])) py_iter) (\<lambda>precursors.
     concatR (\<lambda>event. bindR (bindR (dict_get event ''usd'' (JInt 0)) py_float) (\<lambda>usd.
       ret (flag (minimum_precursor_usd \<le> usd) event))) precursors)"

definition row_index :: "json \<Rightarrow> int res" where
  "row_index row = bindR (dict_item row ''transactionIndex'') py_int"

definition close_behind :: "int \<Rightarrow> json \<Rightarrow> json \<Rightarrow> bool res" where
  "close_behind maximum_transaction_gap row event =
     bindR (row_index row) (\<lambda>i. bindR (row_index event) (\<lambda>j. ret (i - j \<le> maximum_transaction_gap)))"

text \<open>One row: does it have a qualifying precursor, and is it a candidate?\<close>

definition classify :: "pyfloat \<Rightarrow> int \<Rightarrow> json \<Rightarrow> (bool \<times> bool) res" where
  "classify minimum_precursor_usd maximum_transaction_gap row =
     bindR (qualifying minimum_precursor_usd row) (\<lambda>events.
     bindR (anyR (close_behind maximum_transaction_gap row) events) (\<lambda>tight.
     ret (events \<noteq> [], tight)))"

definition row_pnl :: "json \<Rightarrow> pyfloat res" where
  "row_pnl row = bindR (dict_item row ''pnl_sol'') py_float"

definition replay_precursors ::
  "(json \<Rightarrow> string) \<Rightarrow> json list \<Rightarrow> pyfloat \<Rightarrow> int \<Rightarrow> ReplaySummary res" where
  "replay_precursors rp rows minimum_precursor_usd maximum_transaction_gap =
     bindR (mapR (classify minimum_precursor_usd maximum_transaction_gap) rows) (\<lambda>classes.
     let candidates = map fst (filter (snd \<circ> snd) (zip rows classes)) in
     bindR (mapR row_pnl candidates) (\<lambda>pnls.
     bindR (mapR (\<lambda>row. bindR (dict_item row ''signature'') (\<lambda>s. ret (py_str rp s))) candidates) (\<lambda>sigs.
     ret \<lparr> total_round_trips = length rows,
           same_slot_precursors = length (filter fst classes),
           tight_backrun_candidates = length candidates,
           profitable_tight_candidates = length (filter (\<lambda>p. Fin 0 < p) pnls),
           observed_profit_sol = py_sum pnls,
           rp_signatures = sigs \<rparr>)))"

section \<open>Properties\<close>

lemma classify_tight:
  "classify m g row = Inr (s, True) \<Longrightarrow> s"
  by (auto simp: classify_def)

lemma candidates_length:
  "length classes = length rows \<Longrightarrow>
   length (map fst (filter (snd \<circ> snd) (zip rows classes))) = length (filter snd classes)"
  by (induction rows classes rule: list_induct2') auto

lemma classes_tight_le:
  assumes "mapR (classify m g) rows = Inr classes"
  shows "length (filter snd classes) \<le> length (filter fst classes)"
proof (rule length_filter_le_filter)
  fix c assume "c \<in> set classes" "snd c"
  moreover have "list_all2 (\<lambda>c row. classify m g row = Inr c) classes rows"
    using assms by (simp add: mapR_Inr_iff list_all2_conv_all_nth)
  ultimately obtain row where "classify m g row = Inr c" by (blast dest: list_all2_in1)
  then show "fst c" using \<open>snd c\<close> classify_tight [of m g row "fst c"] by (cases c) auto
qed

text \<open>
  The counts of a replay are consistent: profitable candidates are candidates, every candidate
  has a qualifying buy before it in its slot, and there are no more of those than round trips; one
  signature is listed per candidate.
\<close>

theorem replay_counts:
  assumes "replay_precursors rp rows m g = Inr s"
  shows "profitable_tight_candidates s \<le> tight_backrun_candidates s \<and>
    tight_backrun_candidates s \<le> same_slot_precursors s \<and>
    same_slot_precursors s \<le> total_round_trips s \<and>
    total_round_trips s = length rows \<and>
    length (rp_signatures s) = tight_backrun_candidates s"
proof -
  obtain classes pnls where c: "mapR (classify m g) rows = Inr classes"
    "mapR row_pnl (map fst (filter (snd \<circ> snd) (zip rows classes))) = Inr pnls"
    and s: "total_round_trips s = length rows" "same_slot_precursors s = length (filter fst classes)"
    "tight_backrun_candidates s = length (map fst (filter (snd \<circ> snd) (zip rows classes)))"
    "profitable_tight_candidates s = length (filter (\<lambda>p. Fin 0 < p) pnls)"
    "length (rp_signatures s) = length (map fst (filter (snd \<circ> snd) (zip rows classes)))"
    using assms unfolding replay_precursors_def Let_def
    by (auto dest: mapR_length)
  have len: "length classes = length rows" using c(1) by (rule mapR_length)
  have "length (filter (\<lambda>p. Fin 0 < p) pnls) \<le> length pnls" by simp
  moreover have "length (filter fst classes) \<le> length rows"
    using length_filter_le [of fst classes] len by simp
  ultimately show ?thesis
    using s mapR_length [OF c(2)] classes_tight_le [OF c(1)] candidates_length [OF len] by simp
qed

text \<open>
  A wider gap only adds candidates.  If two replays of the same rows with the same threshold
  both complete, the one with the larger gap has at least as many candidates and the same number
  of rows with precursors.
\<close>

theorem replay_gap_monotone:
  assumes "g \<le> g'" "replay_precursors rp rows m g = Inr s" "replay_precursors rp rows m g' = Inr s'"
  shows "tight_backrun_candidates s \<le> tight_backrun_candidates s' \<and>
    same_slot_precursors s = same_slot_precursors s'"
proof -
  obtain cs where c: "mapR (classify m g) rows = Inr cs"
    "tight_backrun_candidates s = length (map fst (filter (snd \<circ> snd) (zip rows cs)))"
    "same_slot_precursors s = length (filter fst cs)"
    using assms(2) unfolding replay_precursors_def Let_def by auto
  obtain cs' where c': "mapR (classify m g') rows = Inr cs'"
    "tight_backrun_candidates s' = length (map fst (filter (snd \<circ> snd) (zip rows cs')))"
    "same_slot_precursors s' = length (filter fst cs')"
    using assms(3) unfolding replay_precursors_def Let_def by auto
  have tight: "t \<longrightarrow> t'" if "anyR (close_behind g row) es = Inr t" "anyR (close_behind g' row) es = Inr t'"
    for row es t t'
    using that assms(1)
    by (induction es) (fastforce simp: close_behind_def bindR_eq_Inr split: if_splits)+
  have one: "fst c = fst c' \<and> (snd c \<longrightarrow> snd c')"
    if "classify m g row = Inr c" "classify m g' row = Inr c'" for row c c'
    using that by (auto simp: classify_def dest: tight)
  have "length (filter snd cs) \<le> length (filter snd cs') \<and> map fst cs = map fst cs'"
    using c(1) c'(1)
  proof (induction rows arbitrary: cs cs')
    case (Cons row rows)
    then obtain d ds d' ds' where d: "classify m g row = Inr d" "mapR (classify m g) rows = Inr ds"
      "classify m g' row = Inr d'" "mapR (classify m g') rows = Inr ds'" "cs = d # ds" "cs' = d' # ds'"
      by auto
    with Cons.IH [OF d(2,4)] one [OF d(1,3)] show ?case by auto
  qed simp
  moreover have "length (filter fst cs) = length (filter fst cs')" if "map fst cs = map fst cs'"
    using arg_cong [OF that, of "\<lambda>xs. length (filter id xs)"] by (simp add: filter_map comp_def)
  ultimately show ?thesis
    using c(2,3) c'(2,3) candidates_length [OF mapR_length [OF c(1)]]
      candidates_length [OF mapR_length [OF c'(1)]] by simp
qed

definition demo_row :: json where
  "demo_row = JDict [(''same_slot_large_buys_before'', JList [JDict [(''usd'', JInt 500),
     (''transactionIndex'', JInt 4)]]), (''transactionIndex'', JInt 6), (''pnl_sol'', JInt 2),
     (''signature'', JStr ''S'')]"

lemma demo_replay:
  "replay_precursors (\<lambda>_. []) [demo_row] (Fin 300) 3 = Inr \<lparr> total_round_trips = 1,
     same_slot_precursors = 1, tight_backrun_candidates = 1, profitable_tight_candidates = 1,
     observed_profit_sol = Fin 2, rp_signatures = [''S''] \<rparr>"
  "replay_precursors (\<lambda>_. []) [demo_row] (Fin 300) 1 = Inr \<lparr> total_round_trips = 1,
     same_slot_precursors = 1, tight_backrun_candidates = 0, profitable_tight_candidates = 0,
     observed_profit_sol = Fin 0, rp_signatures = [] \<rparr>"
  by (simp_all add: replay_precursors_def demo_row_def classify_def qualifying_def close_behind_def
      row_index_def row_pnl_def float_of_int_def py_sum_def zero_pyfloat_def Let_def)

theorem replay_counts_witness:
  "\<exists>s. replay_precursors (\<lambda>_. []) [demo_row] (Fin 300) 3 = Inr s \<and>
     tight_backrun_candidates s \<le> same_slot_precursors s \<and> total_round_trips s = 1"
  using replay_counts [OF demo_replay(1)] demo_replay(1) by simp

theorem replay_gap_monotone_witness:
  "\<exists>s s'. replay_precursors (\<lambda>_. []) [demo_row] (Fin 300) 1 = Inr s \<and>
     replay_precursors (\<lambda>_. []) [demo_row] (Fin 300) 3 = Inr s' \<and>
     tight_backrun_candidates s \<le> tight_backrun_candidates s'"
  using replay_gap_monotone [OF _ demo_replay(2) demo_replay(1)] demo_replay by simp

end
