(* ===== verification/Observer.thy ===== *)
theory Observer
  imports Detector
begin

text \<open>
  \<open>backrunner/observer.py\<close>: one scan of the newest block that is available, going back at most
  32 slots past blocks the node reports as skipped or unavailable.
\<close>

record ObserveReport =
  ob_mode :: string
  ob_slot :: int
  ob_sol_price_usd :: pyfloat
  ob_trending_mints :: nat
  ob_large_buy_events :: "LargeBuyEvent list"
  ob_transactions_submitted :: int
  ob_live_execution_enabled :: bool

text \<open>The \<open>RuntimeError\<close>s the search tolerates, by their message.\<close>

definition tolerable_text :: "string \<Rightarrow> bool" where
  "tolerable_text msg = (let message = map to_lower msg in
     substr ''unavailable'' message \<or> substr ''not available'' message \<or> substr ''skipped'' message)"

fun tolerable :: "exn \<Rightarrow> bool" where
  "tolerable (RuntimeError msg) = tolerable_text msg"
| "tolerable (ActiveAttemptError msg) = tolerable_text msg"
| "tolerable (DuplicateCandidateError msg) = tolerable_text msg"
| "tolerable _ = False"

definition try_block :: "'w env \<Rightarrow> string \<Rightarrow> int \<Rightarrow> ('w, json option) io" where
  "try_block E commitment slot =
     catchIO (bindIO (block_accounts E commitment slot) (\<lambda>b. retIO (Some b)))
       (\<lambda>e. if tolerable e then retIO None else raiseIO e)"

fun scan_slots :: "'w env \<Rightarrow> string \<Rightarrow> int list \<Rightarrow> ('w, (int \<times> json) option) io" where
  "scan_slots E commitment [] = retIO None"
| "scan_slots E commitment (s # ss) =
     bindIO (try_block E commitment s) (\<lambda>b. case b of
       Some block \<Rightarrow> retIO (Some (s, block))
     | None \<Rightarrow> scan_slots E commitment ss)"

text \<open>\<open>range(latest_slot, latest_slot - 32, -1)\<close>.\<close>

definition candidate_slots :: "int \<Rightarrow> int list" where
  "candidate_slots latest = map (\<lambda>k. latest - int k) [0..<32]"

definition observe_once ::
  "'w env \<Rightarrow> string \<Rightarrow> GmgnProvider \<Rightarrow> pyfloat \<Rightarrow> ('w, ObserveReport) io" where
  "observe_once E commitment gmgn minimum_buy_usd =
     bindIO (trending_mints E gmgn) (\<lambda>mints.
     bindIO (sol_price_usd E gmgn) (\<lambda>sol_price.
     bindIO (latest_slot E commitment) (\<lambda>latest.
     bindIO (scan_slots E commitment (candidate_slots latest)) (\<lambda>found. case found of
       None \<Rightarrow> raiseIO (RuntimeError (''no available block in slots '' @ str_of_int (latest - 31)
                  @ ''..'' @ str_of_int latest))
     | Some (slot, block) \<Rightarrow>
         bindIO (liftR (detect_large_buys (rep E) block slot (set_order E mints) sol_price
                          minimum_buy_usd)) (\<lambda>events.
         retIO \<lparr> ob_mode = ''DRY_RUN_OBSERVE'', ob_slot = slot, ob_sol_price_usd = sol_price,
                 ob_trending_mints = card mints, ob_large_buy_events = events,
                 ob_transactions_submitted = 0, ob_live_execution_enabled = False \<rparr>)))))"

section \<open>Properties\<close>

lemma scan_slots_found:
  "scan_slots E c ss w = (Inr (Some (s, b)), w') \<Longrightarrow> s \<in> set ss"
proof (induction ss arbitrary: w)
  case (Cons x ss)
  from Cons.prems obtain b' w1 where b': "try_block E c x w = (Inr b', w1)"
    "(case b' of Some block \<Rightarrow> retIO (Some (x, block)) | None \<Rightarrow> scan_slots E c ss) w1 = (Inr (Some (s, b)), w')"
    by auto
  then show ?case using Cons.IH [of w1] by (cases b') auto
qed simp

lemma candidate_slots_set: "set (candidate_slots latest) = {latest - 31..latest}"
proof -
  have "x \<in> (\<lambda>k. latest - int k) ` {0..<32}" if "latest - 31 \<le> x" "x \<le> latest" for x
    using that by (intro image_eqI [of _ _ "nat (latest - x)"]) auto
  then show ?thesis by (auto simp: candidate_slots_def)
qed

text \<open>
  A completed observation looks at one recent block.  The slot it reports is one of the 32 up to
  the latest slot the node named, every event is of that slot, names a tracked mint and reaches the
  threshold at the reported price, and nothing is submitted.
\<close>

theorem observe_once_recent:
  assumes "observe_once E commitment gmgn minimum w = (Inr r, w')"
    and "\<forall>M. set (set_order E M) \<subseteq> M"
  shows "ob_transactions_submitted r = 0 \<and> \<not> ob_live_execution_enabled r \<and>
    (\<exists>mints latest w1 w2 w3.
       trending_mints E gmgn w = (Inr mints, w1) \<and>
       latest_slot E commitment w2 = (Inr latest, w3) \<and>
       latest - 31 \<le> ob_slot r \<and> ob_slot r \<le> latest \<and>
       (\<forall>e \<in> set (ob_large_buy_events r). lb_slot e = ob_slot r \<and> lb_mint e \<in> mints \<and>
          \<not> lb_buy_usd e < minimum \<and> lb_buy_usd e = lb_buy_sol e * ob_sol_price_usd r))"
proof -
  obtain mints w1 price w2 latest w3 found w4 where run:
    "trending_mints E gmgn w = (Inr mints, w1)" "sol_price_usd E gmgn w1 = (Inr price, w2)"
    "latest_slot E commitment w2 = (Inr latest, w3)"
    "scan_slots E commitment (candidate_slots latest) w3 = (Inr found, w4)"
    and rest: "(case found of None \<Rightarrow> raiseIO (RuntimeError (''no available block in slots ''
          @ str_of_int (latest - 31) @ ''..'' @ str_of_int latest))
      | Some (slot, block) \<Rightarrow>
         bindIO (liftR (detect_large_buys (rep E) block slot (set_order E mints) price minimum))
           (\<lambda>events. retIO \<lparr> ob_mode = ''DRY_RUN_OBSERVE'', ob_slot = slot, ob_sol_price_usd = price,
                 ob_trending_mints = card mints, ob_large_buy_events = events,
                 ob_transactions_submitted = 0, ob_live_execution_enabled = False \<rparr>)) w4 = (Inr r, w')"
    using assms(1) unfolding observe_once_def by blast
  obtain slot block where found: "found = Some (slot, block)"
    using rest by (cases found) auto
  obtain events where events: "detect_large_buys (rep E) block slot (set_order E mints) price minimum = Inr events"
    "ob_large_buy_events r = events" "ob_slot r = slot" "ob_sol_price_usd r = price"
    "ob_transactions_submitted r = 0" "\<not> ob_live_execution_enabled r"
    using rest unfolding found by (auto split: sum.splits)
  have "slot \<in> {latest - 31..latest}"
    using scan_slots_found [OF run(4) [unfolded found]] unfolding candidate_slots_set .
  then have slot: "latest - 31 \<le> slot" "slot \<le> latest" by simp_all
  have each: "lb_slot e = slot \<and> lb_mint e \<in> mints \<and> \<not> lb_buy_usd e < minimum \<and>
      lb_buy_usd e = lb_buy_sol e * price" if "e \<in> set events" for e
    using detect_events_in [OF events(1) that] assms(2) by auto
  then have all: "\<forall>e \<in> set events. lb_slot e = slot \<and> lb_mint e \<in> mints \<and>
      \<not> lb_buy_usd e < minimum \<and> lb_buy_usd e = lb_buy_sol e * price" by (intro ballI)
  show ?thesis
    unfolding events(2-4)
    by (intro conjI exI) (rule events(5,6) run(1,3) slot all)+
qed

definition demo_observe_env :: "nat env" where
  "demo_observe_env = dead_env
     \<lparr> http_get := (\<lambda>_ _ w. (Inr (JDict [(''code'', JInt 0), (''data'',
         JDict [(''rank'', JList [JDict [(''address'', JStr ''M'')]])])]), w)),
       rpc_post := (\<lambda>q w. (Inr (JDict [(''result'',
         if dict_item q ''method'' = Inr (JStr ''getSlot'') then JInt 9 else demo_block)]), w)),
       set_order := (\<lambda>M. if M = {''M''} then [''M''] else []) \<rparr>"

lemma demo_observe_mints:
  "trending_mints demo_observe_env \<lparr>api_key = None, fallback_sol_price_usd = Fin 100\<rparr> w = (Inr {''M''}, w)"
  by (simp add: trending_mints_def intervals_def trending_interval_def gmgn_get_def bindIO_def
      catchIO_def demo_observe_env_def parse_trending_mints_def)

lemma demo_observe_run:
  "\<exists>r. observe_once demo_observe_env ''finalized'' \<lparr>api_key = None, fallback_sol_price_usd = Fin 100\<rparr>
     (Fin 300) 0 = (Inr r, 0) \<and> ob_large_buy_events r = [demo_event]"
proof -
  have slots: "candidate_slots 9 = 9 # map (\<lambda>k. 9 - int k) [1..<32]"
    by (simp add: candidate_slots_def upt_rec)
  have block: "try_block demo_observe_env ''finalized'' 9 0 = (Inr (Some demo_block), 0)"
    by (simp add: try_block_def catchIO_def bindIO_def block_accounts_def rpc_call_def rpc_request_def
        demo_observe_env_def demo_block_def)
  have latest: "latest_slot demo_observe_env ''finalized'' 0 = (Inr 9, 0)"
    by (simp add: latest_slot_def bindIO_def rpc_call_def rpc_request_def demo_observe_env_def)
  have detect: "detect_large_buys (rep demo_observe_env) demo_block 9 (set_order demo_observe_env {''M''})
      (Fin 100) (Fin 300) = Inr [demo_event]"
    using demo_detect by (simp add: demo_observe_env_def dead_env_def)
  show ?thesis
    by (simp add: observe_once_def bindIO_def demo_observe_mints sol_price_usd_def latest slots block detect)
qed

theorem observe_once_recent_witness:
  "\<exists>r. observe_once demo_observe_env ''finalized'' \<lparr>api_key = None, fallback_sol_price_usd = Fin 100\<rparr>
     (Fin 300) 0 = (Inr r, 0) \<and> ob_transactions_submitted r = 0"
proof -
  obtain r where r: "observe_once demo_observe_env ''finalized''
      \<lparr>api_key = None, fallback_sol_price_usd = Fin 100\<rparr> (Fin 300) 0 = (Inr r, 0)"
    using demo_observe_run by blast
  have "\<forall>M. set (set_order demo_observe_env M) \<subseteq> M" by (auto simp: demo_observe_env_def)
  from observe_once_recent [OF r this] have "ob_transactions_submitted r = 0" by (rule conjunct1)
  with r show ?thesis by (intro exI [of _ r] conjI)
qed

end
