(* ===== verification/Cli.thy ===== *)
theory Cli
  imports Shadow Coordination Config Replay Observer Stream_Events Growing LiveLoop
begin

text \<open>
  \<open>backrunner/cli.py\<close>: the command line that composes the components.  \<open>argparse\<close> is
  represented by the parsed command; a run is an operation on the world and the files, and its
  result is the report the program prints.
\<close>

section \<open>Commands and reports\<close>

record direct_command =
  dc_token_mint :: string
  dc_pump_pool :: string
  dc_meteora_pool :: string
  dc_direction :: string
  dc_min_context_slot :: int
  dc_executor_program_id :: "string option"
  dc_lookup_table :: "string list"
  dc_trigger_signature :: "string option"
  dc_evidence_path :: string
  dc_attempt_lock_path :: string

datatype command =
    Replay_cmd
  | Observe_once_cmd
  | Observe_processed_once_cmd
  | Shadow_route_cmd string "int option"
  | Shadow_direct_cmd direct_command
  | Evidence_status_cmd string string

text \<open>The defaults of \<open>--evidence-path\<close> and \<open>--attempt-lock-path\<close>.\<close>

definition default_evidence_path :: string where
  "default_evidence_path = ''data/shadow-evidence.json''"

definition default_attempt_lock_path :: string where
  "default_attempt_lock_path = ''data/active-attempt.lock''"

record evidence_status =
  st_summary :: ShadowEvidenceSummary
  st_required_runtime_hours :: int
  st_required_candidates :: int
  st_positive_wallet_net :: bool
  st_active_attempt_lock :: bool
  st_promotion_ready :: bool
  st_transactions_submitted :: int
  st_live_execution_enabled :: bool

datatype report =
    Replay_report ReplaySummary
  | Observe_report ObserveReport
  | Processed_report "ProcessedReport option"
  | Shadow_report ShadowReport
  | Direct_report DirectReport "ShadowEvidenceSummary option"
  | Status_report evidence_status

record 'w cli_env =
  ce_env :: "'w env"
  ce_socket :: "'w socket_env"
  ce_host :: "'w host"
  ce_gmgn_api_key :: "string option"
  ce_jupiter_api_key :: "string option"

section \<open>The world and the files\<close>

definition on_files :: "(files, 'a) io \<Rightarrow> ('w \<times> files, 'a) io" where
  "on_files m = (\<lambda>(w, fs). case m fs of (r, fs') \<Rightarrow> (r, (w, fs')))"

definition read_files :: "(files \<Rightarrow> 'a res) \<Rightarrow> ('w \<times> files, 'a) io" where
  "read_files f = on_files (\<lambda>fs. (f fs, fs))"

text \<open>\<open>with AttemptLock(...)\<close> around a body that uses both.\<close>

definition with_attempt ::
  "string \<Rightarrow> string \<Rightarrow> attempt \<Rightarrow> ('w \<times> files, 'a) io \<Rightarrow> ('w \<times> files, 'a) io" where
  "with_attempt path cid A body = (\<lambda>(w, fs). case AttemptLock_enter path cid A fs of
     (Inl e, fs1) \<Rightarrow> (Inl e, (w, fs1))
   | (Inr tok, fs1) \<Rightarrow> (case body (w, fs1) of
       (r, (w2, fs2)) \<Rightarrow> (case AttemptLock_exit path (unlink_fault A) tok fs2 of
           (Inl e, fs3) \<Rightarrow> (Inl e, (w2, fs3))
         | (Inr _, fs3) \<Rightarrow> (r, (w2, fs3)))))"

definition attempt_op ::
  "'w cli_env \<Rightarrow> (attempt \<Rightarrow> datetime \<Rightarrow> (files, 'a) io) \<Rightarrow> ('w \<times> files, 'a) io" where
  "attempt_op C m =
     bindIO (in_world (read_host (utc_now (ce_host C)))) (\<lambda>time.
     bindIO (in_world (read_host (draw_attempt (ce_host C)))) (\<lambda>A. on_files (m A time)))"

definition cli_heartbeat :: "'w cli_env \<Rightarrow> string \<Rightarrow> ('w \<times> files, unit) io" where
  "cli_heartbeat C path =
     attempt_op C (\<lambda>A time. evidence_heartbeat (rep (ce_env C)) path A time None (Fin 120))"

section \<open>shadow-evidence-status\<close>

definition status_report :: "'w cli_env \<Rightarrow> string \<Rightarrow> string \<Rightarrow> files \<Rightarrow> evidence_status res" where
  "status_report C path lock_path fs =
     bindR (evidence_summary (rep (ce_env C)) path fs) (\<lambda>s.
     let active = fs lock_path \<noteq> None in
     ret \<lparr> st_summary = s, st_required_runtime_hours = 72, st_required_candidates = 100,
           st_positive_wallet_net = (0 < sum_wallet_net_lamports s),
           st_active_attempt_lock = active,
           st_promotion_ready = (ready s (Fin 72) 100 \<and> \<not> active),
           st_transactions_submitted = 0, st_live_execution_enabled = False \<rparr>)"

section \<open>shadow-direct\<close>

text \<open>\<open>tuple(dict.fromkeys(xs))\<close>: the first occurrences, in order.\<close>

definition from_keys :: "string list \<Rightarrow> string list" where
  "from_keys xs = rev (remdups (rev xs))"

definition cli_direct_args :: "Config \<Rightarrow> direct_command \<Rightarrow> string \<Rightarrow> DirectArgs" where
  "cli_direct_args c d program_id = \<lparr>
     token_mint = dc_token_mint d, pump_pool = dc_pump_pool d, meteora_pool = dc_meteora_pool d,
     direction = dc_direction d, da_input_lamports = c_shadow_input_lamports c,
     taker = c_shadow_taker c, executor_program_id = program_id, rpc_url = c_rpc_url c,
     min_context_slot = dc_min_context_slot d, slot_ttl = c_direct_opportunity_slot_ttl c,
     da_lookup_tables = from_keys (c_direct_lookup_table_addresses c @ dc_lookup_table d),
     da_slippage_bps = c_slippage_bps c, compute_unit_limit = c_direct_compute_unit_limit c,
     compute_unit_price_micro_lamports = c_direct_compute_unit_price_micro_lamports c,
     required_gross_profit = required_gross_profit_lamports c,
     tip_lamports = c_direct_tip_lamports c, tip_recipient = c_direct_tip_recipient c,
     maximum_transaction_fee = c_maximum_transaction_fee_lamports c \<rparr>"

definition direct_evidence :: "string \<Rightarrow> datetime \<Rightarrow> DirectReport \<Rightarrow> int \<Rightarrow> ShadowEvidenceRecord" where
  "direct_evidence sig time r wallet_net = \<lparr> ev_signature = sig, ev_observed_at = isoformat time,
     ev_simulation_slot = dr_context_slot r, ev_simulation_succeeded = dr_sim_succeeded r,
     ev_wallet_net_lamports = wallet_net, ev_rejection_reasons = dr_rejection_reasons r \<rparr>"

text \<open>The body inside the attempt lock: its steps up to the simulation, and those after it.\<close>

definition record_attempt ::
  "'w cli_env \<Rightarrow> string \<Rightarrow> string \<Rightarrow> DirectReport \<Rightarrow> ('w \<times> files, report) io" where
  "record_attempt C path sig r =
     (case dr_wallet_net_lamports r of
        None \<Rightarrow> raiseIO (RuntimeError ''exact wallet-net simulation evidence is unavailable'')
      | Some wallet_net \<Rightarrow>
          bindIO (attempt_op C (\<lambda>A time.
              evidence_record (rep (ce_env C)) path A (direct_evidence sig time r wallet_net))) (\<lambda>_.
          bindIO (cli_heartbeat C path) (\<lambda>_.
          bindIO (read_files (evidence_summary (rep (ce_env C)) path)) (\<lambda>s.
          retIO (Direct_report r (Some s))))))"

definition attempt_body ::
  "'w cli_env \<Rightarrow> string \<Rightarrow> string \<Rightarrow> DirectArgs \<Rightarrow> ('w \<times> files, report) io" where
  "attempt_body C path sig args =
     bindIO (read_files (evidence_contains (rep (ce_env C)) path sig)) (\<lambda>known.
     if known then raiseIO (DuplicateCandidateError (''candidate signature already recorded: '' @ sig))
     else
       bindIO (in_world (transaction (ce_env C) sig ''confirmed'')) (\<lambda>tx.
       if tx = None
       then raiseIO (RuntimeError ''trigger signature is not confirmed; refusing evidence'')
       else
         bindIO (cli_heartbeat C path) (\<lambda>_.
         bindIO (in_world (run_direct_shadow_route (ce_env C) args)) (record_attempt C path sig))))"

definition shadow_direct :: "'w cli_env \<Rightarrow> Config \<Rightarrow> direct_command \<Rightarrow> ('w \<times> files, report) io" where
  "shadow_direct C c d =
     (let program_id = (case dc_executor_program_id d of
          Some p \<Rightarrow> if p \<noteq> [] then p else c_executor_program_id c
        | None \<Rightarrow> c_executor_program_id c);
          args = cli_direct_args c d program_id
      in if program_id = []
         then raiseIO (ValueError ''shadow-direct requires a deployed executor program id'')
         else case dc_trigger_signature d of
           None \<Rightarrow> bindIO (in_world (run_direct_shadow_route (ce_env C) args))
                     (\<lambda>r. retIO (Direct_report r None))
         | Some sig \<Rightarrow>
             bindIO (in_world (read_host (draw_attempt (ce_host C)))) (\<lambda>A.
             with_attempt (dc_attempt_lock_path d) sig A
               (attempt_body C (dc_evidence_path d) sig args)))"

section \<open>The dispatch\<close>

definition cli_gmgn :: "'w cli_env \<Rightarrow> Config \<Rightarrow> GmgnProvider res" where
  "cli_gmgn C c = new_GmgnProvider (ce_gmgn_api_key C) (c_sol_price_usd c)"

text \<open>The fuel is that of \<open>observe_processed_once\<close>.\<close>

definition cli_main :: "nat \<Rightarrow> 'w cli_env \<Rightarrow> Config \<Rightarrow> command \<Rightarrow> ('w \<times> files, report) io" where
  "cli_main fuel C c cmd = (case cmd of
     Evidence_status_cmd path lock_path \<Rightarrow>
       bindIO (read_files (status_report C path lock_path)) (\<lambda>s. retIO (Status_report s))
   | Replay_cmd \<Rightarrow>
       bindIO (read_files (load_replay (c_replay_fixture c))) (\<lambda>rows.
       bindIO (liftR (replay_precursors (rep (ce_env C)) rows (c_minimum_buy_usd c)
                        (c_maximum_transaction_gap c))) (\<lambda>s.
       retIO (Replay_report (s\<lparr>observed_profit_sol := py_round (observed_profit_sol s) 9\<rparr>))))
   | Observe_once_cmd \<Rightarrow>
       bindIO (liftR (cli_gmgn C c)) (\<lambda>g.
       bindIO (in_world (observe_once (ce_env C) (c_commitment c) g (c_minimum_buy_usd c))) (\<lambda>r.
       retIO (Observe_report r)))
   | Observe_processed_once_cmd \<Rightarrow>
       bindIO (liftR (cli_gmgn C c)) (\<lambda>g.
       bindIO (in_world (observe_processed_once fuel (ce_env C) (ce_socket C) (c_rpc_url c) g
                           (c_minimum_buy_usd c) 12 (flit (1 / 10)))) (\<lambda>r.
       retIO (Processed_report r)))
   | Shadow_route_cmd mint slot \<Rightarrow>
       bindIO (in_world (run_shadow_route (ce_env C) \<lparr>jupiter_key = ce_jupiter_api_key C\<rparr> mint
           (c_shadow_input_lamports c) (c_shadow_taker c) (c_slippage_bps c) (c_max_accounts c)
           (c_failed_attempt_reserve_lamports c) (c_minimum_net_profit_lamports c)
           (c_jito_tip_lamports c) (c_safety_margin_lamports c) slot)) (\<lambda>r.
       retIO (Shadow_report r))
   | Shadow_direct_cmd d \<Rightarrow> shadow_direct C c d)"

section \<open>The lock around a run\<close>

definition spares_world :: "string \<Rightarrow> ('w \<times> files, 'a) io \<Rightarrow> bool" where
  "spares_world path body \<longleftrightarrow> (\<forall>\<sigma>. snd (snd (body \<sigma>)) path = snd \<sigma> path)"

text \<open>The attempt lock around an operation on world and files is the same guarded section.\<close>

interpretation world_section: guarded_section
  "with_attempt path cid A :: ('w \<times> files, 'a) io \<Rightarrow> ('w \<times> files, 'a) io" "\<lambda>\<sigma>. snd \<sigma> path = None"
  "\<lambda>\<sigma>. (fst \<sigma>, lock_file path cid A (snd \<sigma>))" "\<lambda>\<sigma>. (fst \<sigma>, (snd \<sigma>)(path := None))"
  "\<lambda>\<sigma>. (fst \<sigma>, (snd \<sigma>)(path \<mapsto> Corrupt))" "unlink_fault A \<noteq> None" "spares_world path"
  for path cid A
proof unfold_locales
  fix \<sigma> :: "'w \<times> files" and body :: "('w \<times> files, 'a) io"
  assume free: "snd \<sigma> path = None" and body: "spares_world path body"
  obtain w fs where \<sigma>: "\<sigma> = (w, fs)" by (cases \<sigma>)
  let ?fs1 = "lock_file path cid A fs"
  obtain r w2 fs2 where run: "body (w, ?fs1) = (r, (w2, fs2))" by (metis surj_pair)
  have "fs2 path = Some (JsonFile (lock_payload cid A))"
    using body [unfolded spares_world_def, rule_format, of "(w, ?fs1)"] run by (simp add: lock_file_def)
  then have exit: "AttemptLock_exit path (unlink_fault A) (Some (token A)) fs2 =
      (case unlink_fault A of None \<Rightarrow> (ret (), fs2(path := None)) | Some e \<Rightarrow> (raise e, fs2))"
    by (simp add: AttemptLock_exit_def read_json_def)
  show "(\<exists>e. with_attempt path cid A body \<sigma> = (Inl e, \<sigma>)) \<or>
      with_attempt path cid A body \<sigma> = (fst (body (fst \<sigma>, lock_file path cid A (snd \<sigma>))),
        (fst (snd (body (fst \<sigma>, lock_file path cid A (snd \<sigma>)))),
         (snd (snd (body (fst \<sigma>, lock_file path cid A (snd \<sigma>)))))(path := None))) \<or>
      (unlink_fault A \<noteq> None \<and> (\<exists>e. with_attempt path cid A body \<sigma> = (Inl e, (fst \<sigma>, (snd \<sigma>)(path \<mapsto> Corrupt))) \<or>
        with_attempt path cid A body \<sigma> = (Inl e, snd (body (fst \<sigma>, lock_file path cid A (snd \<sigma>))))))"
    using free exit run unfolding \<sigma>
    by (cases "write_fault A"; cases "unlink_fault A")
      (auto simp: with_attempt_def AttemptLock_enter_def lock_file_def Let_def fun_upd_idem_iff)
next
  fix \<sigma> :: "'w \<times> files" and body :: "('w \<times> files, 'a) io"
  assume "\<not> snd \<sigma> path = None"
  then show "\<exists>e. with_attempt path cid A body \<sigma> = (Inl e, \<sigma>)"
    by (cases \<sigma>) (auto simp: with_attempt_def AttemptLock_enter_def)
qed simp

section \<open>What the ledger's operations leave alone\<close>

definition ledger_paths :: "string \<Rightarrow> string set" where
  "ledger_paths path = {path, tmp_of path, write_lock_of path}"

lemma enter_frame: "p \<noteq> lock \<Longrightarrow> AttemptLock_enter lock cid A fs = (r, fs') \<Longrightarrow> fs' p = fs p"
  by (auto simp: AttemptLock_enter_def Let_def split: if_splits option.splits)

lemma exit_frame: "p \<noteq> lock \<Longrightarrow> AttemptLock_exit lock u tok fs = (r, fs') \<Longrightarrow> fs' p = fs p"
  by (auto simp: AttemptLock_exit_def split: if_splits option.splits sum.splits exn.splits)

lemma with_lock_frame:
  assumes p: "p \<noteq> lock" and body: "\<And>fs. snd (body fs) p = fs p"
  shows "snd (with_lock lock cid A body fs) p = fs p"
proof -
  obtain r1 fs1 where enter: "AttemptLock_enter lock cid A fs = (r1, fs1)" by fastforce
  obtain r2 fs2 where run: "body fs1 = (r2, fs2)" by fastforce
  obtain r3 fs3 where leave: "AttemptLock_exit lock (unlink_fault A) (projr r1) fs2 = (r3, fs3)" by fastforce
  have "fs1 p = fs p" "fs2 p = fs1 p" "fs3 p = fs2 p"
    using enter_frame [OF p enter] body [of fs1] run exit_frame [OF p leave] by simp_all
  then show ?thesis
    using enter run leave by (cases r1; cases r3) (simp_all add: with_lock_def)
qed

lemma replace_frame:
  "p \<noteq> path \<Longrightarrow> p \<noteq> tmp_of path \<Longrightarrow> run_steps (take k (replace_steps path j)) fs p = fs p"
proof -
  assume p: "p \<noteq> path" "p \<noteq> tmp_of path"
  consider "k = 0" | "k = 1" | "k = 2" | "3 \<le> k" by linarith
  then show ?thesis
    using p by cases (simp_all add: replace_steps_def open_tmp_def write_tmp_def replace_tmp_def numeral_2_eq_2)
qed

lemma update_frame:
  assumes "p \<noteq> path" "p \<noteq> tmp_of path"
  shows "snd (update_payload rp A path change fs) p = fs p"
proof -
  have save: "snd (save_payload A path j fs) p = fs p" for j
    using replace_frame [OF assms, of _ j fs] replace_frame [OF assms, of 3 j fs]
    by (auto simp: save_payload_def Let_def replace_steps_def split: option.splits)
  show ?thesis
    by (cases "bindR (load_payload rp path fs) change") (simp_all add: update_payload_def save)
qed

lemma ledger_frame:
  assumes "p \<notin> ledger_paths path"
  shows "snd (evidence_record rp path A r fs) p = fs p"
    and "snd (evidence_heartbeat rp path A time given gap fs) p = fs p"
  using assms
  by (auto simp: ledger_paths_def evidence_record_def evidence_heartbeat_def Let_def
      intro!: with_lock_frame update_frame)

abbreviation keeps_file :: "string \<Rightarrow> file_content option \<Rightarrow> ('w \<times> files, 'a) io \<Rightarrow> bool" where
  "keeps_file p v m \<equiv> grows (\<lambda>\<sigma>. snd \<sigma> p = v) (\<lambda>_. [] :: unit list) (\<lambda>_. True) m"

lemma keeps_file_world [grows]: "keeps_file p v (in_world m)" "keeps_file p v (read_files f)"
  by (auto simp: grows_def in_world_def read_files_def on_files_def split: prod.split)

lemma keeps_file_on_files:
  "(\<And>fs. snd (m fs) p = fs p) \<Longrightarrow> keeps_file p v (on_files m)"
  by (auto simp: grows_def on_files_def split: prod.split) (metis snd_conv)

lemma keeps_heartbeat: "p \<notin> ledger_paths path \<Longrightarrow> keeps_file p v (cli_heartbeat C path)"
  unfolding cli_heartbeat_def attempt_op_def
  by (intro grows keeps_file_on_files ledger_frame)

lemma keeps_body:
  assumes "p \<notin> ledger_paths path"
  shows "keeps_file p v (attempt_body C path sig args)"
  unfolding attempt_body_def record_attempt_def attempt_op_def
  by (intro grows keeps_heartbeat keeps_file_on_files ledger_frame assms)

lemma spares_body: "p \<notin> ledger_paths path \<Longrightarrow> spares_world p (attempt_body C path sig args)"
  unfolding spares_world_def
proof
  fix \<sigma>
  assume "p \<notin> ledger_paths path"
  from keeps_body [OF this, where v = "snd \<sigma> p"]
  show "snd (snd (attempt_body C path sig args \<sigma>)) p = snd \<sigma> p" unfolding grows_def by blast
qed

text \<open>
  The attempt lock of a recorded direct run is given back.  If no file is at the lock's path, and
  that path is not one of the ledger's own files, then there is none after the run either, whether
  it reports, refuses or raises at any point, as long as the disk removes the file when asked.
\<close>

theorem shadow_direct_frees_lock:
  assumes "shadow_direct C c d (w, fs) = (r, (w', fs'))" "fs (dc_attempt_lock_path d) = None"
    and "dc_attempt_lock_path d \<notin> ledger_paths (dc_evidence_path d)"
    and "\<And>w. unlink_fault (fst (draw_attempt (ce_host C) w)) = None"
  shows "fs' (dc_attempt_lock_path d) = None"
proof -
  let ?p = "dc_attempt_lock_path d"
  have sect: "keeps_file ?p None (with_attempt ?p sig A (attempt_body C (dc_evidence_path d) sig args))"
    if "unlink_fault A = None" for sig A args
    unfolding grows_def using that
    by (intro allI impI conjI exI [of _ "[]"] world_section.section_keeps_free spares_body assms(3)) auto
  have drawn: "unlink_fault A = None"
    if "in_world (read_host (draw_attempt (ce_host C))) \<sigma> = (Inr A, \<sigma>')" for A and \<sigma> \<sigma>' :: "'a \<times> files"
    using that assms(4) by (cases \<sigma>) (auto simp: in_world_def read_host_def split: prod.splits, metis fst_conv)
  have locked: "keeps_file ?p None (bindIO (in_world (read_host (draw_attempt (ce_host C)))) (\<lambda>A.
      with_attempt ?p sig A (attempt_body C (dc_evidence_path d) sig args)))" for sig args
    by (rule grows_bind_from [OF keeps_file_world(1)]) (rule sect [OF drawn])
  have "keeps_file ?p None (shadow_direct C c d)"
    unfolding shadow_direct_def by (intro grows locked)
  from growsE [OF this _ assms(1)] show ?thesis using assms(2) by auto
qed

section \<open>What a recorded run leaves in the ledger\<close>

lemma attempt_op_run:
  assumes "attempt_op C m (w, fs) = (Inr x, (w', fs'))"
  obtains A w1 where "m A (fst (utc_now (ce_host C) w1)) fs = (Inr x, fs')"
  using assms
  by (auto simp: attempt_op_def bindIO_def in_world_def read_host_def on_files_def split: prod.splits)
    (metis fst_conv)

text \<open>A heartbeat keeps the records.\<close>

lemma cli_heartbeat_records:
  assumes "cli_heartbeat C path (w, fs) = (Inr x, (w', fs'))"
    and "ledger_view (rep (ce_env C)) path fs = Inr (rs, t, l)"
    and "\<forall>w. valid_datetime (fst (utc_now (ce_host C) w))"
  shows "\<exists>t l. ledger_view (rep (ce_env C)) path fs' = Inr (rs, t, l)"
proof -
  from assms(1) obtain A w1 where
    "evidence_heartbeat (rep (ce_env C)) path A (fst (utc_now (ce_host C) w1)) None (Fin 120) fs = (Inr x, fs')"
    unfolding cli_heartbeat_def by (rule attempt_op_run)
  from ledger_op_returned(2) [OF assms(2) this] assms(3) show ?thesis
    by (auto simp: spec_heartbeat_def bindR_eq_Inr split: if_splits)
qed

lemma world_run:
  "in_world m (w, fs) = (r, (w', fs')) \<Longrightarrow> fs' = fs"
  "read_files g (w, fs) = (r', (w', fs')) \<Longrightarrow> w' = w \<and> fs' = fs \<and> g fs = r'"
  by (auto simp: in_world_def read_files_def on_files_def split: prod.splits)

lemma summary_of_view:
  assumes "evidence_summary rp path fs = Inr s" "ledger_view rp path fs = Inr (rs, t, l)"
  shows "sum_candidate_count s = int (length rs)"
    "sum_wallet_net_lamports s = sum_list (map ev_wallet_net_lamports rs)"
  using assms by (auto simp: evidence_summary_def ledger_view_def payload_view_def bindR_eq_Inr)

lemma record_attempt_run:
  assumes run: "record_attempt C path sig r (w, fs) = (Inr R, (w', fs'))"
    and view: "ledger_view (rep (ce_env C)) path fs = Inr (rs, t, l)"
    and clock: "\<forall>w. valid_datetime (fst (utc_now (ce_host C) w))"
  shows "sig \<notin> ev_signature ` set rs \<and> (\<exists>s net time t' l'.
    R = Direct_report r (Some s) \<and> dr_wallet_net_lamports r = Some net \<and>
    ledger_view (rep (ce_env C)) path fs' = Inr (rs @ [direct_evidence sig time r net], t', l') \<and>
    sum_candidate_count s = int (length rs) + 1 \<and>
    sum_wallet_net_lamports s = sum_list (map ev_wallet_net_lamports rs) + net)"
proof (cases "dr_wallet_net_lamports r")
  case None
  with run show ?thesis by (simp add: record_attempt_def raiseIO_def)
next
  case (Some net)
  let ?rp = "rep (ce_env C)"
  let ?put = "attempt_op C (\<lambda>A time. evidence_record ?rp path A (direct_evidence sig time r net))"
  obtain x w1 fs1 y w2 fs2 s where steps: "?put (w, fs) = (Inr x, (w1, fs1))"
      "cli_heartbeat C path (w1, fs1) = (Inr y, (w2, fs2))"
      "read_files (evidence_summary ?rp path) (w2, fs2) = (Inr s, (w', fs'))" "R = Direct_report r (Some s)"
    using run Some
    by (auto simp: record_attempt_def retIO_def elim!: bindIO_run split: prod.splits)
  from steps(1) obtain A w0 where
    "evidence_record ?rp path A (direct_evidence sig (fst (utc_now (ce_host C) w0)) r net) fs = (Inr x, fs1)"
    by (rule attempt_op_run)
  from ledger_op_returned(1) [OF view this] obtain time where
    new: "sig \<notin> ev_signature ` set rs" and
    view1: "ledger_view ?rp path fs1 = Inr (rs @ [direct_evidence sig time r net], t, l)"
    by (auto simp: spec_record_def direct_evidence_def split: if_splits)
  from cli_heartbeat_records [OF steps(2) view1 clock] obtain t' l' where
    view2: "ledger_view ?rp path fs2 = Inr (rs @ [direct_evidence sig time r net], t', l')" by blast
  from world_run(2) [OF steps(3)] have "fs' = fs2" "evidence_summary ?rp path fs2 = Inr s" by auto
  with new view2 summary_of_view [OF _ view2] Some steps(4) show ?thesis
    by (auto simp: direct_evidence_def)
qed

lemma attempt_body_run:
  assumes run: "attempt_body C path sig args (w, fs) = (Inr R, (w', fs'))"
    and view: "ledger_view (rep (ce_env C)) path fs = Inr (rs, t, l)"
    and clock: "\<forall>w. valid_datetime (fst (utc_now (ce_host C) w))"
  shows "sig \<notin> ev_signature ` set rs \<and> (\<exists>r s net time t' l'.
    R = Direct_report r (Some s) \<and> dr_wallet_net_lamports r = Some net \<and>
    ledger_view (rep (ce_env C)) path fs' = Inr (rs @ [direct_evidence sig time r net], t', l') \<and>
    sum_candidate_count s = int (length rs) + 1 \<and>
    sum_wallet_net_lamports s = sum_list (map ev_wallet_net_lamports rs) + net)"
proof -
  obtain x w1 tx w2 y w3 fs3 r w4 where steps:
      "in_world (transaction (ce_env C) sig ''confirmed'') (w1, fs) = (Inr tx, (w2, x))"
      "cli_heartbeat C path (w2, x) = (Inr y, (w3, fs3))"
      "in_world (run_direct_shadow_route (ce_env C) args) (w3, fs3) = (Inr r, w4)"
      "record_attempt C path sig r w4 = (Inr R, (w', fs'))"
    using run
    by (auto simp: attempt_body_def raiseIO_def elim!: bindIO_run dest!: world_run(2) split: if_splits)
  have "x = fs" using world_run(1) [OF steps(1)] .
  from cli_heartbeat_records [OF steps(2) _ clock] view this obtain t1 l1 where
    view3: "ledger_view (rep (ce_env C)) path fs3 = Inr (rs, t1, l1)" by blast
  obtain w5 where "w4 = (w5, fs3)" using world_run(1) [of _ w3 fs3] steps(3) by (cases w4) auto
  with record_attempt_run [OF _ view3 clock] steps(4) show ?thesis by blast
qed

text \<open>
  C12. What a recorded direct run that returns has done.  The attempt lock was free and is free
  again; the trigger signature was in no earlier record; the ledger has, after its earlier
  records, exactly one more, for this signature with the simulated wallet result of the report;
  and the printed summary counts it and its lamports.
\<close>

theorem shadow_direct_records:
  assumes "shadow_direct C c d (w, fs) = (Inr R, (w', fs'))" "dc_trigger_signature d = Some sig"
    and "ledger_view (rep (ce_env C)) (dc_evidence_path d) fs = Inr (rs, t, l)"
    and "dc_attempt_lock_path d \<notin> ledger_paths (dc_evidence_path d)"
    and "\<forall>w. valid_datetime (fst (utc_now (ce_host C) w))"
  shows "fs (dc_attempt_lock_path d) = None \<and> fs' (dc_attempt_lock_path d) = None \<and>
    sig \<notin> ev_signature ` set rs \<and> (\<exists>r s net time t' l'.
    R = Direct_report r (Some s) \<and> dr_wallet_net_lamports r = Some net \<and>
    ledger_view (rep (ce_env C)) (dc_evidence_path d) fs'
      = Inr (rs @ [direct_evidence sig time r net], t', l') \<and>
    sum_candidate_count s = int (length rs) + 1 \<and>
    sum_wallet_net_lamports s = sum_list (map ev_wallet_net_lamports rs) + net)"
proof -
  let ?p = "dc_attempt_lock_path d" and ?e = "dc_evidence_path d"
  obtain A w1 args where sect: "with_attempt ?p sig A (attempt_body C ?e sig args) (w1, fs) = (Inr R, (w', fs'))"
    using assms(1,2)
    by (auto simp: shadow_direct_def Let_def raiseIO_def elim!: bindIO_run dest!: world_run(1) split: if_splits)
  let ?held = "lock_file ?p sig A fs"
  obtain w2 fs2 where held: "fs ?p = None" "attempt_body C ?e sig args (w1, ?held) = (Inr R, (w2, fs2))"
      "fs' = fs2(?p := None)"
    using world_section.section_Inr [OF sect spares_body [OF assms(4)]] by (auto simp: prod_eq_iff)
  have p: "?p \<noteq> ?e" using assms(4) by (simp add: ledger_paths_def)
  then have "ledger_view (rep (ce_env C)) ?e ?held = ledger_view (rep (ce_env C)) ?e fs"
      "ledger_view (rep (ce_env C)) ?e fs' = ledger_view (rep (ce_env C)) ?e fs2"
    by (auto intro!: ledger_view_cong simp: lock_file_def held(3))
  with attempt_body_run [OF held(2) _ assms(5)] assms(3) held show ?thesis by simp
qed

section \<open>A run\<close>

definition demo_time :: datetime where
  "demo_time = fst (utc_now demo_host 0)"

definition demo_cli :: "nat cli_env" where
  "demo_cli = \<lparr> ce_env = demo_shadow_env, ce_socket = demo_socket, ce_host = demo_host,
     ce_gmgn_api_key = None, ce_jupiter_api_key = None \<rparr>"

definition demo_command :: direct_command where
  "demo_command = \<lparr> dc_token_mint = ''mint'', dc_pump_pool = ''pump'', dc_meteora_pool = ''met'',
     dc_direction = ''meteora_to_pump'', dc_min_context_slot = 997,
     dc_executor_program_id = Some ''executor'', dc_lookup_table = [''alt''],
     dc_trigger_signature = Some ''sig'', dc_evidence_path = ''e'', dc_attempt_lock_path = ''a'' \<rparr>"

lemma demo_time_valid [simp]: "valid_datetime demo_time" "aware demo_time"
    "seconds_between demo_time demo_time = Inr (Fin 0)"
  by (simp_all add: demo_time_def demo_host_def valid_datetime_def days_in_month_def aware_def
      seconds_between_def int_truediv_def)

lemma demo_clock [simp]: "fst (utc_now (ce_host demo_cli) w) = demo_time"
  by (simp add: demo_cli_def demo_time_def demo_host_def)

lemma demo_attempt_op:
  "attempt_op demo_cli m (w, fs) = on_files (m (demo_attempt ''k'') demo_time) (w, fs)"
  by (simp add: attempt_op_def bindIO_def in_world_def read_host_def demo_cli_def demo_host_def demo_time_def)

lemma section_forward:
  assumes "refines_spec rp change spec" "ledger_view rp path fs = Inr v" "spec v = Inr v'"
    and "fs (write_lock_of path) = None"
  shows "\<exists>fs'. with_lock (write_lock_of path) cid (demo_attempt tok)
      (update_payload rp (demo_attempt tok) path change) fs = (Inr (), fs') \<and>
    ledger_view rp path fs' = Inr v' \<and> fs' (write_lock_of path) = None"
  using update_refines [OF assms(1), of path "lock_file (write_lock_of path) cid (demo_attempt tok) fs" v
      "demo_attempt tok"] assms(2-4)
  by (simp add: with_lock_free spares_update demo_attempt_def)

lemma heartbeat_forward:
  assumes "ledger_view (\<lambda>_. []) path fs = Inr (rs, t, l)" "fs (write_lock_of path) = None"
    and "l = JNull \<or> l = JStr (isoformat demo_time)"
  shows "\<exists>fs' t'. evidence_heartbeat (\<lambda>_. []) path (demo_attempt tok) demo_time None (Fin 120) fs = (Inr (), fs') \<and>
    ledger_view (\<lambda>_. []) path fs' = Inr (rs, t', JStr (isoformat demo_time)) \<and> fs' (write_lock_of path) = None"
proof -
  have "\<exists>t'. spec_heartbeat (\<lambda>_. []) demo_time (Fin 120) (rs, t, l) = Inr (rs, t', JStr (isoformat demo_time))"
    using assms(3) by (auto simp: spec_heartbeat_def fromisoformat_isoformat zero_pyfloat_def)
  then obtain t' where t': "spec_heartbeat (\<lambda>_. []) demo_time (Fin 120) (rs, t, l)
      = Inr (rs, t', JStr (isoformat demo_time))" ..
  from section_forward [OF refines_heartbeat [OF demo_time_valid(1)] assms(1) this assms(2)] obtain fs'
    where "with_lock (write_lock_of path) ''shadow-evidence-heartbeat'' (demo_attempt tok)
        (update_payload (\<lambda>_. []) (demo_attempt tok) path (beat_payload (\<lambda>_. []) demo_time (Fin 120))) fs
      = (Inr (), fs')" "ledger_view (\<lambda>_. []) path fs' = Inr (rs, t', JStr (isoformat demo_time))"
      "fs' (write_lock_of path) = None" by blast
  then show ?thesis by (simp add: evidence_heartbeat_def zero_pyfloat_def)
qed

lemma summary_forward:
  assumes "ledger_view rp path fs = Inr (rs, t, l)" "started_at rs = Inr d"
  shows "\<exists>s. evidence_summary rp path fs = Inr s"
  using assms by (auto simp: evidence_summary_def ledger_view_def payload_view_def bindR_eq_Inr)

lemma demo_confirmed:
  "\<exists>tx w'. transaction demo_shadow_env sig ''confirmed'' w = (Inr (Some tx), w')"
  by (simp add: transaction_def transaction_json_def rpc_call_def demo_shadow_env_def demo_rpc_def bindIO_def Let_def
      rpc_request_def dead_env_def)

lemma demo_record_attempt:
  assumes "ledger_view (\<lambda>_. []) path fs = Inr (rs, t, l)" "fs (write_lock_of path) = None"
    and "l = JNull \<or> l = JStr (isoformat demo_time)" "sig \<noteq> []" "sig \<notin> ev_signature ` set rs"
    and "started_at (rs @ [direct_evidence sig demo_time r net]) = Inr d" "dr_wallet_net_lamports r = Some net"
    and "rep (ce_env demo_cli) = (\<lambda>_. [])"
  shows "\<exists>R fs'. record_attempt demo_cli path sig r (w, fs) = (Inr R, (w, fs'))"
proof -
  let ?new = "rs @ [direct_evidence sig demo_time r net]"
  have spec: "spec_record (direct_evidence sig demo_time r net) (rs, t, l) = Inr (?new, t, l)"
    using assms(5) by (auto simp: spec_record_def direct_evidence_def)
  obtain fs1 where fs1: "with_lock (write_lock_of path) ''shadow-evidence-write'' (demo_attempt ''k'')
        (update_payload (\<lambda>_. []) (demo_attempt ''k'') path
          (append_record (\<lambda>_. []) (direct_evidence sig demo_time r net))) fs = (Inr (), fs1)"
      "ledger_view (\<lambda>_. []) path fs1 = Inr (?new, t, l)" "fs1 (write_lock_of path) = None"
    using section_forward [OF refines_record assms(1) spec assms(2)] by blast
  obtain fs2 t2 where fs2: "evidence_heartbeat (\<lambda>_. []) path (demo_attempt ''k'') demo_time None (Fin 120) fs1
        = (Inr (), fs2)"
      "ledger_view (\<lambda>_. []) path fs2 = Inr (?new, t2, JStr (isoformat demo_time))"
    using heartbeat_forward [OF fs1(2,3) assms(3)] by blast
  obtain s where "evidence_summary (\<lambda>_. []) path fs2 = Inr s"
    using summary_forward [OF fs2(2) assms(6)] by blast
  with fs1(1) fs2(1) assms(4,7,8) show ?thesis
    by (simp add: record_attempt_def cli_heartbeat_def bindIO_def demo_attempt_op on_files_def
        evidence_record_def direct_evidence_def read_files_def)
qed

lemma demo_attempt_body:
  assumes "ledger_view (\<lambda>_. []) path fs = Inr ([], t, JNull)" "fs (write_lock_of path) = None" "sig \<noteq> []"
    and "0 \<le> min_context_slot args" "min_context_slot args \<le> 998" "1 \<le> slot_ttl args"
  shows "\<exists>R w' fs'. attempt_body demo_cli path sig args (w, fs) = (Inr R, (w', fs'))"
proof -
  have rp: "rep (ce_env demo_cli) = (\<lambda>_. [])" "ce_env demo_cli = demo_shadow_env"
    by (simp_all add: demo_cli_def demo_shadow_env_def dead_env_def)
  have rep: "rep demo_shadow_env = (\<lambda>_. [])" using rp by simp
  have known: "evidence_contains (\<lambda>_. []) path sig fs = Inr False"
    using assms(1) by (auto simp: evidence_contains_def ledger_view_def payload_view_def bindR_eq_Inr)
  obtain tx w1 where tx: "transaction demo_shadow_env sig ''confirmed'' w = (Inr (Some tx), w1)"
    using demo_confirmed by blast
  obtain fs1 t1 where beat: "evidence_heartbeat (\<lambda>_. []) path (demo_attempt ''k'') demo_time None (Fin 120) fs
        = (Inr (), fs1)" "ledger_view (\<lambda>_. []) path fs1 = Inr ([], t1, JStr (isoformat demo_time))"
      "fs1 (write_lock_of path) = None"
    using heartbeat_forward [OF assms(1,2)] by blast
  obtain r where r: "run_direct_shadow_route demo_shadow_env args w1 = (Inr r, w1 + 4)"
      "dr_wallet_net_lamports r = Some 1500000"
    using demo_shadow_run [OF assms(4-6)] by blast
  have "started_at ([] @ [direct_evidence sig demo_time r 1500000]) = Inr (Some (isoformat demo_time))"
    by (simp add: started_at_def direct_evidence_def fromisoformat_isoformat)
  from demo_record_attempt [OF beat(2,3) _ assms(3) _ this r(2) rp(1), of "w1 + 4"] obtain R fs2 where
    "record_attempt demo_cli path sig r (w1 + 4, fs1) = (Inr R, (w1 + 4, fs2))" by auto
  then show ?thesis
    by (simp add: attempt_body_def bindIO_def read_files_def on_files_def rp(2) rep known in_world_def tx
        cli_heartbeat_def demo_attempt_op beat(1) r(1))
qed

lemma demo_shadow_direct:
  assumes "1 \<le> c_direct_opportunity_slot_ttl c"
  shows "\<exists>R w' fs'. shadow_direct demo_cli c demo_command (w, \<lambda>_. None) = (Inr R, (w', fs'))"
proof -
  define args where "args = cli_direct_args c demo_command ''executor''"
  let ?fs = "lock_file ''a'' ''sig'' (demo_attempt ''k'') (\<lambda>_. None)"
  have view: "ledger_view (\<lambda>_. []) ''e'' ?fs = Inr ([], Fin 0, JNull)"
    by (rule ledger_view_absent) (simp add: lock_file_def)
  have "?fs (write_lock_of ''e'') = None"
    by (simp add: lock_file_def write_lock_of_def with_extra_suffix_def)
  from demo_attempt_body [OF view this, of "''sig''" args w] assms obtain R w' fs'
    where body: "attempt_body demo_cli ''e'' ''sig'' args (w, ?fs) = (Inr R, (w', fs'))"
    by (auto simp: args_def cli_direct_args_def demo_command_def)
  have "''a'' \<notin> ledger_paths ''e''"
    by (simp add: ledger_paths_def write_lock_of_def tmp_of_def with_extra_suffix_def)
  from spares_body [OF this, of demo_cli "''sig''" args, unfolded spares_world_def, rule_format, of "(w, ?fs)"] body
  have "fs' ''a'' = Some (JsonFile (lock_payload ''sig'' (demo_attempt ''k'')))"
    by (simp add: lock_file_def)
  with body have "with_attempt ''a'' ''sig'' (demo_attempt ''k'') (attempt_body demo_cli ''e'' ''sig'' args) (w, \<lambda>_. None)
      = (Inr R, (w', fs'(''a'' := None)))"
    by (simp add: with_attempt_def AttemptLock_enter_def AttemptLock_exit_def lock_file_def Let_def
        read_json_def lock_payload_def demo_attempt_def)
  moreover have "shadow_direct demo_cli c demo_command (w, \<lambda>_. None) =
      with_attempt ''a'' ''sig'' (demo_attempt ''k'') (attempt_body demo_cli ''e'' ''sig'' args) (w, \<lambda>_. None)"
  proof -
    have "draw_attempt (ce_host demo_cli) w = (demo_attempt ''k'', w)" by (simp add: demo_cli_def demo_host_def)
    moreover have "dc_trigger_signature demo_command = Some ''sig''" "dc_attempt_lock_path demo_command = ''a''"
        "dc_evidence_path demo_command = ''e''" "dc_executor_program_id demo_command = Some ''executor''"
      by (simp_all add: demo_command_def)
    ultimately show ?thesis
      by (simp add: shadow_direct_def args_def Let_def bindIO_def in_world_def read_host_def)
  qed
  ultimately show ?thesis by simp
qed

theorem shadow_direct_frees_lock_witness:
  "\<forall>c. \<exists>r w' fs'. shadow_direct demo_cli c demo_command (0, \<lambda>_. None) = (r, (w', fs')) \<and> fs' ''a'' = None"
proof
  fix c
  obtain r w' fs' where run: "shadow_direct demo_cli c demo_command (0, \<lambda>_. None) = (r, (w', fs'))"
    by (metis surj_pair)
  have "unlink_fault (fst (draw_attempt (ce_host demo_cli) w)) = None" for w
    by (simp add: demo_cli_def demo_host_def demo_attempt_def)
  from shadow_direct_frees_lock [OF run _ _ this] run
  show "\<exists>r w' fs'. shadow_direct demo_cli c demo_command (0, \<lambda>_. None) = (r, (w', fs')) \<and> fs' ''a'' = None"
    by (auto simp: demo_command_def ledger_paths_def write_lock_of_def tmp_of_def with_extra_suffix_def)
qed

theorem shadow_direct_records_witness:
  "\<exists>c R w' fs' rec t l. load_config (\<lambda>_. []) JNull = Inr c \<and>
     shadow_direct demo_cli c demo_command (0, \<lambda>_. None) = (Inr R, (w', fs')) \<and>
     ledger_view (\<lambda>_. []) ''e'' fs' = Inr ([rec], t, l) \<and> ev_signature rec = ''sig'' \<and> fs' ''a'' = None"
proof -
  obtain c where c: "load_config (\<lambda>_. []) JNull = Inr c" "c_direct_opportunity_slot_ttl c = 2"
    by (rule demo_dry_config)
  then obtain R w' fs' where run: "shadow_direct demo_cli c demo_command (0, \<lambda>_. None) = (Inr R, (w', fs'))"
    using demo_shadow_direct [of c 0] by auto
  have "rep (ce_env demo_cli) = (\<lambda>_. [])" by (simp add: demo_cli_def demo_shadow_env_def dead_env_def)
  with shadow_direct_records [OF run, of "''sig''" "[]" "Fin 0" JNull] have
    "\<exists>rec t l. ledger_view (\<lambda>_. []) ''e'' fs' = Inr ([rec], t, l) \<and> ev_signature rec = ''sig'' \<and> fs' ''a'' = None"
    by (force simp: demo_command_def ledger_view_absent ledger_paths_def write_lock_of_def tmp_of_def
        with_extra_suffix_def direct_evidence_def)
  with c(1) run show ?thesis by blast
qed

end
