(* ===== verification/LiveTrades.thy ===== *)
theory LiveTrades
  imports LiveLoop
begin

text \<open>
  What the live loop of \<open>LiveLoop\<close> does with money: when it starts the signing script, how
  often per candidate, and what becomes of its lock.
\<close>

section \<open>At most one trade per candidate\<close>

definition signed_count :: "script_log \<Rightarrow> nat" where
  "signed_count l = length (filter (\<lambda>e. fst e = sign_script) l)"

definition count_of :: "('w \<times> script_log) \<times> LiveState \<Rightarrow> nat" where
  "count_of \<sigma> = signed_count (snd (fst \<sigma>))"

text \<open>An operation that never starts the signer, and one that leaves a free lock free.\<close>

definition quiet :: "('w \<times> script_log, 'a) live \<Rightarrow> bool" where
  "quiet m = emits (snd \<circ> fst) (\<lambda>e. fst e \<noteq> sign_script) m"

abbreviation lock_safe :: "('w, 'a) live \<Rightarrow> bool" where
  "lock_safe m \<equiv> grows (\<lambda>\<sigma>. ls_lock (snd \<sigma>) = None) (\<lambda>_. [] :: unit list) (\<lambda>_. True) m"

definition calm :: "('w \<times> script_log, 'a) live \<Rightarrow> bool" where
  "calm m \<longleftrightarrow> quiet m \<and> lock_safe m"

text \<open>
  From a free lock, the lock is free again, or the signer was started once and the lock file could
  not be removed behind it.
\<close>

definition gives_back :: "'w host \<Rightarrow> ('w \<times> script_log) \<times> LiveState \<Rightarrow> ('w \<times> script_log) \<times> LiveState \<Rightarrow> bool" where
  "gives_back H \<sigma> \<sigma>' \<longleftrightarrow> (ls_lock (snd \<sigma>) = None \<longrightarrow>
     ls_lock (snd \<sigma>') = None \<or> (count_of \<sigma>' = Suc (count_of \<sigma>) \<and> disk_fails (disk H) Unlink))"

definition at_most_one :: "'w host \<Rightarrow> ('w \<times> script_log, 'a) live \<Rightarrow> bool" where
  "at_most_one H m \<longleftrightarrow> (\<forall>\<sigma> r \<sigma>'. m \<sigma> = (r, \<sigma>') \<longrightarrow>
     count_of \<sigma>' \<le> Suc (count_of \<sigma>) \<and> gives_back H \<sigma> \<sigma>')"

text \<open>One that, besides, has not started the signer when it returns false.\<close>

definition one_trade :: "'w host \<Rightarrow> ('w \<times> script_log, bool) live \<Rightarrow> bool" where
  "one_trade H m \<longleftrightarrow> at_most_one H m \<and>
     (\<forall>\<sigma> \<sigma>'. m \<sigma> = (Inr False, \<sigma>') \<longrightarrow> count_of \<sigma>' = count_of \<sigma>)"

lemma quiet_count: "quiet m \<Longrightarrow> m \<sigma> = (r, \<sigma>') \<Longrightarrow> count_of \<sigma>' = count_of \<sigma>"
proof -
  assume "quiet m" and m: "m \<sigma> = (r, \<sigma>')"
  then obtain new where "snd (fst (snd (m \<sigma>))) = snd (fst \<sigma>) @ new" "list_all (\<lambda>e. fst e \<noteq> sign_script) new"
    unfolding quiet_def emits_iff comp_def by blast
  with m show ?thesis by (simp add: count_of_def signed_count_def list_all_iff filter_empty_conv)
qed

lemma lock_safe_result:
  "lock_safe m \<Longrightarrow> m \<sigma> = (r, \<sigma>') \<Longrightarrow> ls_lock (snd \<sigma>) = None \<Longrightarrow> ls_lock (snd \<sigma>') = None"
  by (elim growsE) auto

lemma calmD:
  assumes "calm m" "m \<sigma> = (r, \<sigma>')"
  shows "count_of \<sigma>' = count_of \<sigma>" "ls_lock (snd \<sigma>) = None \<Longrightarrow> ls_lock (snd \<sigma>') = None"
  using assms quiet_count lock_safe_result unfolding calm_def by blast+

lemma at_most_oneD:
  assumes "at_most_one H m" "m \<sigma> = (r, \<sigma>')"
  shows "count_of \<sigma>' \<le> Suc (count_of \<sigma>)" "gives_back H \<sigma> \<sigma>'"
  using assms unfolding at_most_one_def by blast+

lemma one_tradeD: "one_trade H m \<Longrightarrow> m \<sigma> = (Inr False, \<sigma>') \<Longrightarrow> count_of \<sigma>' = count_of \<sigma>"
  unfolding one_trade_def by blast

lemma one_tradeI:
  assumes "\<And>\<sigma> r \<sigma>'. m \<sigma> = (r, \<sigma>') \<Longrightarrow> count_of \<sigma>' \<le> Suc (count_of \<sigma>) \<and> gives_back H \<sigma> \<sigma>' \<and>
    (r = Inr False \<longrightarrow> count_of \<sigma>' = count_of \<sigma>)"
  shows "one_trade H m"
  using assms unfolding one_trade_def at_most_one_def by simp

lemma one_trade_at_most: "one_trade H m \<Longrightarrow> at_most_one H m"
  unfolding one_trade_def by blast

lemma at_most_one_calm: "calm m \<Longrightarrow> at_most_one H m"
  by (simp add: at_most_one_def gives_back_def calmD)

lemma one_trade_calm: "calm m \<Longrightarrow> one_trade H m"
  by (simp add: one_trade_def at_most_one_calm calmD)

text \<open>Behind a part that has not started the signer and has left the lock free.\<close>

lemma gives_back_after:
  assumes "count_of \<sigma>' = count_of \<sigma>" "ls_lock (snd \<sigma>) = None \<Longrightarrow> ls_lock (snd \<sigma>') = None"
  shows "gives_back H \<sigma>' \<sigma>'' \<Longrightarrow> gives_back H \<sigma> \<sigma>''"
  using assms by (simp add: gives_back_def)

lemma at_most_one_after:
  assumes "calm m" "\<And>x. at_most_one H (f x)"
  shows "at_most_one H (bindIO m f)"
  unfolding at_most_one_def
proof (intro allI impI)
  fix \<sigma> r \<sigma>''
  assume "bindIO m f \<sigma> = (r, \<sigma>'')"
  then show "count_of \<sigma>'' \<le> Suc (count_of \<sigma>) \<and> gives_back H \<sigma> \<sigma>''"
  proof (cases rule: bindIO_run)
    case (raised e)
    then show ?thesis using at_most_oneD [OF at_most_one_calm [OF assms(1)] raised(1)] by blast
  next
    case (returned x \<sigma>')
    note calm = calmD [OF assms(1) returned(1)]
    from at_most_oneD [OF assms(2) returned(2)] calm show ?thesis
      by (auto intro: gives_back_after [OF calm])
  qed
qed

lemma one_trade_after:
  assumes "calm m" "\<And>x. one_trade H (f x)"
  shows "one_trade H (bindIO m f)"
  unfolding one_trade_def
proof (intro conjI allI impI)
  show "at_most_one H (bindIO m f)" by (intro at_most_one_after one_trade_at_most assms)
  fix \<sigma> \<sigma>''
  assume "bindIO m f \<sigma> = (Inr False, \<sigma>'')"
  then obtain x \<sigma>' where run: "m \<sigma> = (Inr x, \<sigma>')" "f x \<sigma>' = (Inr False, \<sigma>'')" by auto
  then show "count_of \<sigma>'' = count_of \<sigma>"
    using one_tradeD [OF assms(2) run(2)] calmD(1) [OF assms(1) run(1)] by simp
qed

text \<open>The search goes on only behind parts that returned false, so it starts the signer once at most.\<close>

lemma one_trade_until:
  assumes "\<And>x. one_trade H (f x)"
  shows "one_trade H (until_true f xs)"
proof (induction xs)
  case Nil
  then show ?case by (simp add: one_trade_def at_most_one_def gives_back_def)
next
  case (Cons x xs)
  have go_on: "count_of \<sigma>' = count_of \<sigma> \<and> (ls_lock (snd \<sigma>) = None \<longrightarrow> ls_lock (snd \<sigma>') = None)"
    if "f x \<sigma> = (Inr False, \<sigma>')" for \<sigma> \<sigma>'
    using one_tradeD [OF assms that] at_most_oneD(2) [OF one_trade_at_most [OF assms] that]
    by (simp add: gives_back_def)
  have "count_of \<sigma>'' \<le> Suc (count_of \<sigma>) \<and> gives_back H \<sigma> \<sigma>'' \<and> (r = Inr False \<longrightarrow> count_of \<sigma>'' = count_of \<sigma>)"
    if run: "until_true f (x # xs) \<sigma> = (r, \<sigma>'')" for \<sigma> r \<sigma>''
  proof -
    from run consider (stop) "f x \<sigma> = (r, \<sigma>'')" "r \<noteq> Inr False"
      | (go)  \<sigma>' where "f x \<sigma> = (Inr False, \<sigma>')" "until_true f xs \<sigma>' = (r, \<sigma>'')"
      unfolding until_true.simps by (cases rule: bindIO_run) (auto split: if_splits)
    then show ?thesis
    proof cases
      case stop
      then show ?thesis using at_most_oneD [OF one_trade_at_most [OF assms] stop(1)] by simp
    next
      case go
      have first: "count_of \<sigma>' = count_of \<sigma>" "ls_lock (snd \<sigma>) = None \<Longrightarrow> ls_lock (snd \<sigma>') = None"
        using go_on [OF go(1)] by auto
      show ?thesis
        using at_most_oneD [OF one_trade_at_most [OF Cons.IH] go(2)] one_tradeD [OF Cons.IH, of \<sigma>' \<sigma>'']
          go(2) first by (auto intro: gives_back_after [OF first])
    qed
  qed
  then show ?case by (rule one_tradeI)
qed

lemma sign_and_submit_log:
  assumes "in_world (sign_and_submit (traced E) url signer tx) \<sigma> = (r, \<sigma>')"
  shows "snd (fst \<sigma>') = snd (fst \<sigma>) @ [(sign_script, sign_payload url signer tx)]"
proof -
  obtain w l s where \<sigma>: "\<sigma> = ((w, l), s)" by (cases \<sigma>) auto
  obtain q w' where run: "run_script (traced E) sign_script (sign_payload url signer tx) (w, l)
      = (q, (w', l @ [(sign_script, sign_payload url signer tx)]))"
    by (cases "run_script E sign_script (sign_payload url signer tx) w") (simp add: traced_def)
  then have "snd (sign_and_submit (traced E) url signer tx (w, l))
      = (w', l @ [(sign_script, sign_payload url signer tx)])"
    by (cases q) (auto simp: sign_and_submit_def bindIO_Inl bindIO_Inr)
  with assms show ?thesis
    by (auto simp: \<sigma> in_world_def split: prod.splits)
qed

lemma silent_log:
  assumes "emits (snd \<circ> fst) (\<lambda>_. False) m" "m \<sigma> = (r, \<sigma>')"
  shows "snd (fst \<sigma>') = snd (fst \<sigma>)"
proof -
  obtain new where "snd (fst (snd (m \<sigma>))) = snd (fst \<sigma>) @ new" "list_all (\<lambda>_. False) new"
    using assms(1) unfolding emits_iff comp_def by blast
  with assms(2) show ?thesis by (cases new) auto
qed

text \<open>The body behind the lock starts the signer exactly once, whatever it then answers.\<close>

lemma silent_record_trade:
  "emits (snd \<circ> fst) (\<lambda>_. False) (record_trade (traced_args E W H S c g key) cand route report x)"
  unfolding record_trade_def append_jsonl_def traced_args_simps by (intro emits)

lemma execute_trade_log:
  assumes "execute_trade (traced_args E W H S c g key) signer cand route report \<sigma> = (r, \<sigma>')"
  shows "snd (fst \<sigma>') = snd (fst \<sigma>) @ [(sign_script, sign_payload (c_rpc_url c) signer
            (d_transaction_base64 (dr_transaction report)))]"
  using assms unfolding execute_trade_def
proof (cases rule: bindIO_run)
  case (raised e)
  then show ?thesis by (simp add: sign_and_submit_log)
next
  case (returned x \<sigma>1)
  have "snd (fst \<sigma>') = snd (fst \<sigma>1)" by (rule silent_log [OF silent_record_trade returned(2)])
  with returned(1) show ?thesis by (simp add: sign_and_submit_log)
qed

text \<open>Removing the lock does not touch the log; if it fails, the lock stays as it was.\<close>

lemma silent_release: "emits (snd \<circ> fst) (\<lambda>_. False) (release_lock (traced_args E W H S c g key))"
  unfolding release_lock_def traced_args_simps by (intro emits)

lemma traced_disk:
  "disk (traced_host H) op (w, l) = (r, (w', l')) \<longleftrightarrow> disk H op w = (r, w') \<and> l' = l"
  by (auto simp: traced_host_def with_log_def in_world_def split: prod.splits)

lemma release_lock_run:
  assumes "release_lock (traced_args E W H S c g key) \<sigma> = (r, \<sigma>')"
  shows "ls_lock (snd \<sigma>') = None \<or> disk_fails (disk H) Unlink"
proof -
  obtain w l s where \<sigma>: "\<sigma> = ((w, l), s)" by (cases \<sigma>) auto
  obtain q w1 where run: "disk H Unlink w = (q, w1)" by (cases "disk H Unlink w")
  then have "disk (traced_host H) Unlink (w, l) = (q, (w1, l))" by (simp add: traced_disk)
  with run assms show ?thesis
    by (cases q) (auto simp: \<sigma> release_lock_def catchIO_def bindIO_def in_world_def update_def disk_fails_def)
qed

text \<open>The body with the removal of the lock behind it.\<close>

lemma released_trade:
  assumes "finallyIO (execute_trade (traced_args E W H S c g key) signer cand route report)
     (release_lock (traced_args E W H S c g key)) \<sigma> = (r, \<sigma>')"
  shows "snd (fst \<sigma>') = snd (fst \<sigma>) @ [(sign_script, sign_payload (c_rpc_url c) signer
            (d_transaction_base64 (dr_transaction report)))]"
    and "ls_lock (snd \<sigma>') = None \<or> disk_fails (disk H) Unlink"
proof -
  obtain q \<sigma>1 q' where run: "execute_trade (traced_args E W H S c g key) signer cand route report \<sigma> = (q, \<sigma>1)"
      "release_lock (traced_args E W H S c g key) \<sigma>1 = (q', \<sigma>')"
    using assms by (rule finallyIO_run)
  show "snd (fst \<sigma>') = snd (fst \<sigma>) @ [(sign_script, sign_payload (c_rpc_url c) signer
            (d_transaction_base64 (dr_transaction report)))]"
    using execute_trade_log [OF run(1)] silent_log [OF silent_release run(2)] by simp
  show "ls_lock (snd \<sigma>') = None \<or> disk_fails (disk H) Unlink" by (rule release_lock_run [OF run(2)])
qed

lemma released_trade_count:
  "finallyIO (execute_trade (traced_args E W H S c g key) signer cand route report)
     (release_lock (traced_args E W H S c g key)) \<sigma> = (r, \<sigma>') \<Longrightarrow> count_of \<sigma>' = Suc (count_of \<sigma>)"
  by (drule released_trade(1)) (simp add: count_of_def signed_count_def)

text \<open>What leaves the lock alone.\<close>

lemma lock_safe_world [grows]: "lock_safe (in_world m)" "lock_safe (state f)"
  by (auto simp: grows_def in_world_def state_def split: prod.split)

lemma lock_safe_update: "(\<And>s. ls_lock s = None \<Longrightarrow> ls_lock (g s) = None) \<Longrightarrow> lock_safe (update g)"
  by (auto simp: grows_def update_def)

lemma lock_safe_append:
  "lock_safe (append_jsonl a (\<lambda>s. s\<lparr>ls_candidates_log := h s\<rparr>))"
  unfolding append_jsonl_def by (intro grows lock_safe_update) simp

lemma calm_retIO: "calm (retIO x)"
  unfolding calm_def quiet_def by (intro conjI emits grows)

lemma calm_world: "emits snd (\<lambda>e. fst e \<noteq> sign_script) m \<Longrightarrow> calm (in_world m)"
  unfolding calm_def quiet_def by (intro conjI grows emits_in_world)

lemma lock_held_keeps: "lock_held a lock \<sigma> = (r, \<sigma>') \<Longrightarrow> snd \<sigma>' = snd \<sigma>"
  by (cases \<sigma>) (auto simp: lock_held_def catchIO_def bindIO_def in_world_def raiseIO_def
      split: option.splits prod.splits sum.splits if_splits)

lemma acquire_lock_refused:
  assumes "acquire_lock a \<sigma> = (r, \<sigma>')" "r \<noteq> Inr True"
  shows "ls_lock (snd \<sigma>') = ls_lock (snd \<sigma>)"
proof -
  have kept: "in_world m \<tau> = (q, \<tau>') \<Longrightarrow> snd \<tau>' = snd \<tau>" for m :: "('w, 'c) io" and \<tau> q \<tau>'
    by (auto simp: in_world_def split: prod.splits)
  have read: "state f \<tau> = (q, \<tau>') \<Longrightarrow> \<tau>' = \<tau>" for f :: "LiveState \<Rightarrow> 'c" and \<tau> q \<tau>'
    by (auto simp: state_def split: prod.splits)
  from assms show ?thesis
    unfolding acquire_lock_def
    by (elim bindIO_run) (auto simp: update_def split: if_splits prod.splits elim!: bindIO_run
        dest!: kept read lock_held_keeps)
qed

lemma silent_acquire: "emits (snd \<circ> fst) (\<lambda>_. False) (acquire_lock (traced_args E W H S c g key))"
  unfolding acquire_lock_def lock_held_def traced_args_simps by (intro emits)

text \<open>The section that takes the lock starts the signer once and gives the lock back if it can.\<close>

lemma one_trade_section:
  "one_trade H (bindIO (acquire_lock (traced_args E W H S c g key)) (\<lambda>got. if \<not> got then retIO False
     else bindIO (finallyIO (execute_trade (traced_args E W H S c g key) signer cand route report)
                    (release_lock (traced_args E W H S c g key))) (\<lambda>_. retIO True)))"
    (is "one_trade H (bindIO ?acquire ?act)")
proof -
  have "count_of \<sigma>'' \<le> Suc (count_of \<sigma>) \<and> gives_back H \<sigma> \<sigma>'' \<and> (r = Inr False \<longrightarrow> count_of \<sigma>'' = count_of \<sigma>)"
    if run: "bindIO ?acquire ?act \<sigma> = (r, \<sigma>'')" for \<sigma> r \<sigma>''
  proof -
    have same: "count_of \<tau>' = count_of \<tau>" if "?acquire \<tau> = (q, \<tau>')" for \<tau> q \<tau>'
      using silent_log [OF silent_acquire that] by (simp add: count_of_def)
    from run consider (refused) "?acquire \<sigma> = (r, \<sigma>'')" "r \<noteq> Inr True"
      | (traded) \<sigma>' where "?acquire \<sigma> = (Inr True, \<sigma>')" "?act True \<sigma>' = (r, \<sigma>'')"
      by (cases rule: bindIO_run) (auto split: if_splits)
    then show ?thesis
    proof cases
      case refused
      then show ?thesis using same [OF refused(1)] acquire_lock_refused [OF refused] by (simp add: gives_back_def)
    next
      case traded
      from traded(2) obtain q where body: "finallyIO (execute_trade (traced_args E W H S c g key) signer cand
          route report) (release_lock (traced_args E W H S c g key)) \<sigma>' = (q, \<sigma>'')" and "r \<noteq> Inr False"
        by (auto elim!: bindIO_run)
      then show ?thesis
        using released_trade_count [OF body] released_trade(2) [OF body] same [OF traded(1)]
        by (simp add: gives_back_def)
    qed
  qed
  then show ?thesis by (rule one_tradeI)
qed

lemma one_trade_act: "one_trade H (act_on_report (traced_args E W H S c g key) cand route report)"
proof -
  have prefix: "calm (in_world (read_host (utc_now (traced_host H))))"
      "calm (append_jsonl (traced_args E W H S c g key) (\<lambda>s. s\<lparr>ls_candidates_log := h s\<rparr>))" for h
    by (intro calm_world emits)
      (unfold calm_def quiet_def, intro conjI lock_safe_append, unfold append_jsonl_def traced_args_simps, intro emits)
  show ?thesis
    unfolding act_on_report_def traced_args_simps
    by (intro one_trade_after prefix) (simp add: one_trade_calm [OF calm_retIO] one_trade_section)
qed

lemma one_trade_routes: "one_trade H (try_routes (traced_args E W H S c g key) cand routes)"
proof -
  let ?a = "traced_args E W H S c g key"
  have slot: "calm (in_world (latest_slot (traced E) com))" for com
    by (intro calm_world emits)
  have simulate: "calm (in_world (simulate_direction (traced E) args))" for args
    by (intro calm_world emits_simulate_direction) (simp add: sign_script_def)
  have sim: "one_trade H (case sim of None \<Rightarrow> retIO False
      | Some report \<Rightarrow> act_on_report ?a cand route report)" for sim route
    by (cases sim) (simp_all add: one_trade_act one_trade_calm [OF calm_retIO])
  have "one_trade H (try_direction ?a cand route dir)" for route dir
    unfolding try_direction_def traced_args_simps
    by (intro one_trade_after slot simulate sim)
  then show ?thesis unfolding try_routes_def by (intro one_trade_until)
qed

lemma candidate_at_most_one: "at_most_one H (process_candidate (traced_args E W H S c g key) cand)"
proof -
  let ?a = "traced_args E W H S c g key"
  have calm: "calm (state f)" "(\<And>s. ls_lock s = None \<Longrightarrow> ls_lock (h s) = None) \<Longrightarrow> calm (update h)"
      "calm (in_world (discover_direct_routes (traced E) S' m t))" for f h S' m t
    unfolding calm_def quiet_def by (intro conjI emits grows lock_safe_update; simp)+
  have routes: "at_most_one H (bindIO (try_routes ?a cand routes) (\<lambda>_. retIO ()))" for routes
    unfolding at_most_one_def
    by (intro allI impI, erule bindIO_run) (auto dest: at_most_oneD [OF one_trade_at_most [OF one_trade_routes]])
  have both: "at_most_one H n \<Longrightarrow> at_most_one H (if b then retIO () else n)" for b and n :: "('a \<times> script_log, unit) live"
    by (simp add: at_most_one_calm calm_retIO)
  show ?thesis
    unfolding process_candidate_def traced_args_simps
    by (rule at_most_one_after [OF calm(1)], rule both, rule at_most_one_after [OF calm(2)], simp,
        rule at_most_one_after [OF calm(3)], rule routes)
qed

text \<open>With a free lock and a disk that works, the lock is taken.\<close>

lemma acquire_lock_free:
  assumes "ls_lock (snd \<sigma>) = None" "\<And>op w. op \<noteq> Unlink \<Longrightarrow> fst (disk H op w) = Inr ()"
  shows "\<exists>\<sigma>'. acquire_lock (traced_args E W H S c g key) \<sigma> = (Inr True, \<sigma>')"
proof -
  have ok: "\<exists>\<tau>'. in_world (disk (traced_host H) op) \<tau> = (Inr (), \<tau>') \<and> snd \<tau>' = snd \<tau>"
    if op: "op \<noteq> Unlink" for op and \<tau> :: "('a \<times> script_log) \<times> LiveState"
  proof -
    obtain w l s where \<tau>: "\<tau> = ((w, l), s)" by (cases \<tau>) auto
    obtain w' where "disk H op w = (Inr (), w')" using assms(2) [OF op, of w] by (cases "disk H op w") auto
    then have "disk (traced_host H) op (w, l) = (Inr (), (w', l))" by (simp add: traced_disk)
    then show ?thesis by (simp add: \<tau> in_world_def)
  qed
  obtain \<sigma>1 where 1: "in_world (disk (traced_host H) Make_dir) \<sigma> = (Inr (), \<sigma>1)" "snd \<sigma>1 = snd \<sigma>"
    using ok [of Make_dir \<sigma>] by auto
  obtain \<sigma>2 where 2: "in_world (disk (traced_host H) Exists) \<sigma>1 = (Inr (), \<sigma>2)" "snd \<sigma>2 = snd \<sigma>"
    using ok [of Exists \<sigma>1] 1(2) by auto
  obtain \<sigma>3 where 3: "in_world (disk (traced_host H) Touch) \<sigma>2 = (Inr (), \<sigma>3)"
    using ok [of Touch \<sigma>2] by auto
  have "state ls_lock \<sigma>2 = (Inr None, \<sigma>2)" using 2(2) assms(1) by (cases \<sigma>2) (simp add: state_def)
  then show ?thesis
    by (simp add: acquire_lock_def bindIO_Inr 1(1) 2(1) 3 lock_held_def)
      (cases \<sigma>3; simp add: bindIO_def in_world_def update_def now_def split: prod.split)
qed

lemma act_on_report_signs:
  assumes live: "\<not> c_dry_run c" and ok: "dr_shadow_approved report" and free: "ls_lock s = None"
    and disk: "\<And>op w. op \<noteq> Unlink \<Longrightarrow> fst (disk H op w) = Inr ()"
    and run: "act_on_report (traced_args E W H S c g key) cand route report ((w, l), s) = (r, ((w', l'), s'))"
  shows "l' = l @ [(sign_script, sign_payload (c_rpc_url c) (fst key)
            (d_transaction_base64 (dr_transaction report)))]"
    and "r \<noteq> Inr False"
proof -
  let ?a = "traced_args E W H S c g key"
  let ?note = "\<lambda>time. append_jsonl ?a (\<lambda>s. s\<lparr>ls_candidates_log := ls_candidates_log s
      @ [candidate_record time cand route report]\<rparr>)"
  obtain w1 time where t: "in_world (read_host (utc_now (traced_host H))) ((w, l), s) = (Inr time, ((w1, l), s))"
    by (cases "utc_now H w") (simp add: in_world_def read_host_def traced_host_def)
  obtain w2 where "disk H Append w1 = (Inr (), w2)" using disk [of Append w1] by (cases "disk H Append w1") auto
  then have "disk (traced_host H) Append (w1, l) = (Inr (), (w2, l))" by (simp add: traced_disk)
  then obtain s2 where ap: "?note time ((w1, l), s) = (Inr (), ((w2, l), s2))" and s2: "ls_lock s2 = None"
    using free by (auto simp: append_jsonl_def bindIO_def in_world_def update_def)
  obtain \<sigma>3 where acq: "acquire_lock ?a ((w2, l), s2) = (Inr True, \<sigma>3)"
    using acquire_lock_free [of "((w2, l), s2)" H E W S c g key] s2 disk by auto
  let ?body = "finallyIO (execute_trade ?a (fst key) cand route report) (release_lock ?a)"
  have act: "act_on_report ?a cand route report ((w, l), s) = bindIO ?body (\<lambda>_. retIO True) \<sigma>3"
    unfolding act_on_report_def by (simp add: bindIO_Inr t ap acq live ok)
  obtain q \<sigma>4 where body: "?body \<sigma>3 = (q, \<sigma>4)" by (cases "?body \<sigma>3")
  from run [unfolded act] have res: "((w', l'), s') = \<sigma>4 \<and> r \<noteq> Inr False"
    by (cases rule: bindIO_run) (auto simp: body)
  then show "r \<noteq> Inr False" by (rule conjunct2)
  have "snd (fst \<sigma>3) = l" using silent_log [OF silent_acquire acq] by simp
  with released_trade(1) [OF body] show "l' = l @ [(sign_script, sign_payload (c_rpc_url c) (fst key)
            (d_transaction_base64 (dr_transaction report)))]"
    using res by auto
qed

section \<open>Properties\<close>

text \<open>
  C4. Whatever the services, the sockets and the scripts answer, and however often it reconnects, the
  live loop starts the signing script only in live mode, only with its own key and its own RPC
  node, and only on the transaction of a report that the direct shadow run itself returned as
  approved, under the loop's required gross profit and the configured fee cap.
\<close>

theorem live_loop_justified:
  "list_all (justified (traced E) c (fst key))
     (snd (fst (snd (live_loop fuel (traced_args E W H S c g key) False ((w, []), s)))))"
proof -
  obtain new where "(snd \<circ> fst) (snd (live_loop fuel (traced_args E W H S c g key) False ((w, []), s)))
      = (snd \<circ> fst) ((w, []), s) @ new" "list_all (justified (traced E) c (fst key)) new"
    using emits_live_loop [of E c key fuel W H S g False] unfolding emits_iff by blast
  then show ?thesis by simp
qed

text \<open>
  C7. One candidate leads to at most one started signer over all its routes and both directions,
  whatever exception ends the search.  If the trade lock was free before, it is free afterwards,
  with one exception: a trade was started and the disk refused to remove the lock file behind it,
  an error the code swallows.
\<close>

theorem process_candidate_one_trade:
  assumes "process_candidate (traced_args E W H S c g key) cand ((w, l), s) = (r, ((w', l'), s'))"
    and "ls_lock s = None"
  shows "signed_count l' \<le> Suc (signed_count l) \<and>
    (ls_lock s' = None \<or> (signed_count l' = Suc (signed_count l) \<and> disk_fails (disk H) Unlink))"
  using at_most_oneD [OF candidate_at_most_one assms(1)] assms(2)
  by (simp add: count_of_def gives_back_def)

text \<open>
  C6. An approved report is acted on: in live mode, with the lock free and a disk that works up to
  the removal of the lock, the signing script is started exactly once, with the payload built from
  the report's transaction, the step is reported as a trade or ends in an exception, and the lock is
  free again unless it was this trade's and the disk refuses to remove it.  A report that is not
  approved, or any report of a dry run, starts nothing and leaves the lock free.
\<close>

theorem act_on_report_signs_iff_approved:
  assumes "act_on_report (traced_args E W H S c g key) cand route report ((w, l), s)
      = (r, ((w', l'), s'))"
    and "ls_lock s = None" and "\<And>op w. op \<noteq> Unlink \<Longrightarrow> fst (disk H op w) = Inr ()"
  shows "l' = l @ (if dr_shadow_approved report \<and> \<not> c_dry_run c
            then [(sign_script, sign_payload (c_rpc_url c) (fst key)
                     (d_transaction_base64 (dr_transaction report)))] else []) \<and>
    (ls_lock s' = None \<or> (dr_shadow_approved report \<and> \<not> c_dry_run c \<and> disk_fails (disk H) Unlink)) \<and>
    (dr_shadow_approved report \<and> \<not> c_dry_run c \<longrightarrow> r \<noteq> Inr False)"
proof -
  have given_back: "gives_back H ((w, l), s) ((w', l'), s')"
    by (rule at_most_oneD(2) [OF one_trade_at_most [OF one_trade_act] assms(1)])
  show ?thesis
  proof (cases "dr_shadow_approved report \<and> \<not> c_dry_run c")
    case True
    then show ?thesis using act_on_report_signs [OF _ _ assms(2,3,1)] given_back assms(2)
      by (auto simp: gives_back_def)
  next
    case False
    have "emits (snd \<circ> fst) (\<lambda>_. False) (act_on_report (traced_args E W H S c g key) cand route report)"
      using False unfolding act_on_report_def append_jsonl_def traced_args_simps by (intro emits) auto
    from silent_log [OF this assms(1)] have "l' = l" by simp
    then show ?thesis using False given_back assms(2) by (auto simp: gives_back_def count_of_def)
  qed
qed

definition demo_state :: LiveState where
  "demo_state = \<lparr> ls_stream = new_stream, ls_files = (\<lambda>_. None), ls_mints = {''M''}, ls_sol_price = Fin 100,
     ls_last_heartbeat = Fin 0, ls_last_refresh = Fin 0, ls_seen_candidates = {},
     ls_venue_events = 0, ls_confirmed_events = 0, ls_candidate_count = 0,
     ls_trade_count = 0, ls_daily_loss_lamports = 0, ls_lock = None,
     ls_candidates_log = [], ls_trades_log = [] \<rparr>"

definition demo_report :: DirectReport where
  "demo_report = direct_report (demo_direct 1295052) 1000000000 demo_direct_compiled
     (demo_sim [Some 1001500000] [''Program LBUZKhR swap2 executing'']) 1000000000"

lemma demo_report_approved: "dr_shadow_approved demo_report"
  unfolding demo_report_def direct_approved_iff log_reasons_clean
  by (simp add: demo_direct_def demo_direct_compiled_def demo_sim_def venue_markers_def join_def
      direct_fits_packet_limit_def direct_fits_account_limit_def packet_limit_def
      account_limit_def succeeded_def)

lemma demo_report_tx: "d_transaction_base64 (dr_transaction demo_report) = ''AA==''"
  by (simp add: demo_report_def direct_report_def demo_direct_compiled_def Let_def split: prod.split)

abbreviation demo_args :: "Config \<Rightarrow> (nat \<times> script_log) live_args" where
  "demo_args c \<equiv> traced_args dead_env demo_socket demo_host demo_solders c
     \<lparr>api_key = None, fallback_sol_price_usd = Fin 100\<rparr> (JStr ''key'', ''wallet'')"

lemma demo_unlink: "\<not> disk_fails (disk demo_host) op"
  by (simp add: disk_fails_def demo_host_def)

theorem process_candidate_one_trade_witness:
  "\<forall>c. \<exists>r w' l' s'. process_candidate (demo_args c) demo_event ((0, []), demo_state) = (r, ((w', l'), s')) \<and>
     signed_count l' \<le> 1 \<and> ls_lock s' = None"
proof
  fix c
  obtain r w' l' s' where run:
    "process_candidate (demo_args c) demo_event ((0, []), demo_state) = (r, ((w', l'), s'))"
    by (metis surj_pair)
  have "ls_lock demo_state = None" by (simp add: demo_state_def)
  from process_candidate_one_trade [OF run this] run demo_unlink
  show "\<exists>r w' l' s'. process_candidate (demo_args c) demo_event ((0, []), demo_state) = (r, ((w', l'), s')) \<and>
     signed_count l' \<le> 1 \<and> ls_lock s' = None"
    by (simp add: signed_count_def)
qed

theorem act_on_report_signs_iff_approved_witness:
  "\<exists>c r w' s'. load_config (\<lambda>_. []) (JDict [(''dry_run'', JBool False)]) = Inr c \<and>
     act_on_report (demo_args c) demo_event demo_route demo_report ((0, []), demo_state)
      = (r, ((w', [(sign_script, sign_payload (c_rpc_url c) (JStr ''key'') ''AA=='')]), s')) \<and>
     ls_lock s' = None"
proof -
  obtain c where c: "load_config (\<lambda>_. []) (JDict [(''dry_run'', JBool False)]) = Inr c" "\<not> c_dry_run c"
    by (rule demo_live_config)
  obtain r w' l' s' where run:
    "act_on_report (demo_args c) demo_event demo_route demo_report ((0, []), demo_state) = (r, ((w', l'), s'))"
    by (metis surj_pair)
  have "ls_lock demo_state = None" "\<And>op w. op \<noteq> Unlink \<Longrightarrow> fst (disk demo_host op w) = Inr ()"
    by (simp_all add: demo_state_def demo_host_def)
  from act_on_report_signs_iff_approved [OF run this] c demo_report_approved
  have "l' = [(sign_script, sign_payload (c_rpc_url c) (JStr ''key'') ''AA=='')]" "ls_lock s' = None"
    by (simp_all add: demo_report_tx demo_unlink)
  with run c show ?thesis by blast
qed

end
