(* ===== verification/ShadowLoop.thy ===== *)
theory ShadowLoop
  imports LiveTrades
begin

text \<open>
  \<open>ops/shadow-loop.py\<close>: the persistent observer.  It follows the same stream as the live loop
  and records each candidate with its direct routes, and it must never start anything.  The
  loop's variables and files are a record beside the world; console output is not modelled.
\<close>

record ObserverState =
  os_stream :: log_stream
  os_files :: files
  os_mints :: "string set"
  os_sol_price :: pyfloat
  os_last_heartbeat :: pyfloat
  os_last_refresh :: pyfloat
  os_seen_candidates :: "string set"
  os_venue_events :: nat
  os_confirmed_events :: nat
  os_candidate_count :: nat
  os_candidates_log :: "json list"

record 'w observer_args =
  oa_env :: "'w env"
  oa_socket :: "'w socket_env"
  oa_host :: "'w host"
  oa_solders :: solders
  oa_config :: Config
  oa_gmgn :: GmgnProvider

type_synonym ('w, 'a) observer = "('w \<times> ObserverState, 'a) io"

section \<open>Candidates and events\<close>

text \<open>The fields of \<open>asdict(candidate)\<close>, and the record of a candidate.\<close>

definition event_fields :: "LargeBuyEvent \<Rightarrow> (string \<times> json) list" where
  "event_fields e =
     [(''slot'', JInt (lb_slot e)), (''transaction_index'', JInt (int (lb_transaction_index e))),
      (''block_time'', JInt (lb_block_time e)), (''signature'', JStr (lb_signature e)),
      (''buyer'', JStr (lb_buyer e)), (''mint'', JStr (lb_mint e)),
      (''buy_sol'', JFloat (lb_buy_sol e)), (''buy_usd'', JFloat (lb_buy_usd e)),
      (''token_received'', JFloat (lb_token_received e))]"

definition observer_record ::
  "datetime \<Rightarrow> pyfloat \<Rightarrow> LargeBuyEvent \<Rightarrow> DirectPoolRoute list \<Rightarrow> json" where
  "observer_record time threshold cand routes = JDict
     ([(''observed_at'', JStr (isoformat time)), (''mode'', JStr ''NO_SUBMIT_PROCESSED_CANDIDATE'')]
      @ event_fields cand
      @ [(''threshold_usd'', JFloat threshold), (''direct_routes'', JList (routes_as_dicts routes)),
         (''transactions_submitted'', JInt 0), (''live_execution_enabled'', JBool False)])"

definition append_candidate :: "'w observer_args \<Rightarrow> json \<Rightarrow> ('w, unit) observer" where
  "append_candidate a rcd = bindIO (in_world (disk (oa_host a) Append)) (\<lambda>_.
     update (\<lambda>s. s\<lparr>os_candidates_log := os_candidates_log s @ [rcd]\<rparr>))"

definition observe_candidate :: "'w observer_args \<Rightarrow> LargeBuyEvent \<Rightarrow> ('w, unit) observer" where
  "observe_candidate a cand =
     bindIO (state os_seen_candidates) (\<lambda>seen.
     if candidate_id cand \<in> seen then retIO ()
     else
       bindIO (update (\<lambda>s. s\<lparr>os_seen_candidates := insert (candidate_id cand) (os_seen_candidates s),
                             os_candidate_count := os_candidate_count s + 1\<rparr>)) (\<lambda>_.
       bindIO (in_world (discover_direct_routes (oa_env a) (oa_solders a) (lb_mint cand) (Fin 1000))) (\<lambda>routes.
       bindIO (in_world (read_host (utc_now (oa_host a)))) (\<lambda>time.
       append_candidate a (observer_record time (c_minimum_buy_usd (oa_config a)) cand routes)))))"

definition observe_event :: "'w observer_args \<Rightarrow> ProcessedLogEvent \<Rightarrow> ('w, unit) observer" where
  "observe_event a event =
     bindIO (update (\<lambda>s. s\<lparr>os_venue_events := os_venue_events s + 1\<rparr>)) (\<lambda>_.
     if \<not> pl_succeeded event then retIO ()
     else
       bindIO (in_world (fetch_confirmed 12 (oa_env a) (flit (1 / 10)) (pl_signature event))) (\<lambda>tx.
       case tx of
         None \<Rightarrow> retIO ()
       | Some t \<Rightarrow>
           bindIO (update (\<lambda>s. s\<lparr>os_confirmed_events := os_confirmed_events s + 1\<rparr>)) (\<lambda>_.
           bindIO (state os_mints) (\<lambda>mints.
           bindIO (state os_sol_price) (\<lambda>price.
           bindIO (liftR (bindR (normalize_transaction t) (\<lambda>block.
               detect_large_buys (rep (oa_env a)) block (pl_slot event) (set_order (oa_env a) mints)
                 price (c_minimum_buy_usd (oa_config a))))) (\<lambda>candidates.
           for_each (observe_candidate a) candidates))))))"

section \<open>The loop\<close>

definition observer_heartbeat :: "'w observer_args \<Rightarrow> pyfloat \<Rightarrow> ('w, unit) observer" where
  "observer_heartbeat a t =
     bindIO (state os_last_heartbeat) (\<lambda>last.
     if \<not> Fin 60 \<le> t - last then retIO ()
     else
       bindIO (in_world (read_host (utc_now (oa_host a)))) (\<lambda>time.
       bindIO (in_world (read_host (draw_attempt (oa_host a)))) (\<lambda>A.
       bindIO (state os_files) (\<lambda>fs.
       case evidence_heartbeat (rep (oa_env a)) evidence_path A time None (Fin 120) fs of (r, fs') \<Rightarrow>
         bindIO (update (\<lambda>s. s\<lparr>os_files := fs'\<rparr>)) (\<lambda>_.
         bindIO (liftR r) (\<lambda>_. update (\<lambda>s. s\<lparr>os_last_heartbeat := t\<rparr>)))))))"

definition observer_refresh :: "'w observer_args \<Rightarrow> pyfloat \<Rightarrow> ('w, unit) observer" where
  "observer_refresh a t =
     bindIO (state os_last_refresh) (\<lambda>last.
     if \<not> Fin 120 \<le> t - last then retIO ()
     else
       bindIO (in_world (trending_mints (oa_env a) (oa_gmgn a))) (\<lambda>refreshed.
       bindIO (update (\<lambda>s. if refreshed \<noteq> {} then s\<lparr>os_mints := refreshed\<rparr> else s)) (\<lambda>_.
       bindIO (in_world (sol_price_usd (oa_env a) (oa_gmgn a))) (\<lambda>price.
       update (\<lambda>s. s\<lparr>os_sol_price := price, os_last_refresh := t\<rparr>)))))"

definition observer_step :: "'w observer_args \<Rightarrow> ('w, unit) observer" where
  "observer_step a =
     bindIO (in_world (read_host (monotonic (oa_host a)))) (\<lambda>t.
     bindIO (observer_heartbeat a t) (\<lambda>_.
     bindIO (observer_refresh a t) (\<lambda>_.
     bindIO (state os_stream) (\<lambda>st.
     bindIO (in_world (poll_event (oa_env a) (oa_socket a) st)) (\<lambda>(event, st').
     bindIO (update (\<lambda>s. s\<lparr>os_stream := st'\<rparr>)) (\<lambda>_.
     case event of None \<Rightarrow> retIO () | Some e \<Rightarrow> observe_event a e))))))"

definition observer_connect :: "'w observer_args \<Rightarrow> ('w, unit) observer" where
  "observer_connect a =
     bindIO (in_world (stream_enter (oa_socket a) (c_rpc_url (oa_config a)) new_stream)) (\<lambda>st.
     update (\<lambda>s. s\<lparr>os_stream := st\<rparr>))"

fun observer_loop :: "nat \<Rightarrow> 'w observer_args \<Rightarrow> bool \<Rightarrow> ('w, unit) observer" where
  "observer_loop 0 a is_open = retIO ()"
| "observer_loop (Suc fuel) a is_open =
     bindIO (catchIO
         (bindIO (if is_open then retIO () else observer_connect a) (\<lambda>_.
          bindIO (observer_step a) (\<lambda>_. retIO True)))
         (\<lambda>e. if reconnects e
              then bindIO (in_world (sleep (oa_env a) (Fin 5))) (\<lambda>_. retIO False)
              else raiseIO e))
       (observer_loop fuel a)"

definition observer_init :: "'w observer_args \<Rightarrow> ('w, unit) observer" where
  "observer_init a =
     bindIO (in_world (trending_mints (oa_env a) (oa_gmgn a))) (\<lambda>mints.
     bindIO (in_world (sol_price_usd (oa_env a) (oa_gmgn a))) (\<lambda>price.
     bindIO (in_world (read_host (monotonic (oa_host a)))) (\<lambda>t.
     update (\<lambda>s. \<lparr> os_stream = new_stream, os_files = os_files s, os_mints = mints,
        os_sol_price = price, os_last_heartbeat = Fin 0, os_last_refresh = t,
        os_seen_candidates = {}, os_venue_events = 0, os_confirmed_events = 0,
        os_candidate_count = 0, os_candidates_log = os_candidates_log s \<rparr>))))"

text \<open>\<open>main\<close>; the state only brings the files.\<close>

definition observer_main :: "nat \<Rightarrow> 'w observer_args \<Rightarrow> ('w, unit) observer" where
  "observer_main fuel a =
     (if \<not> c_dry_run (oa_config a)
      then raiseIO (RuntimeError ''persistent observer refuses non-dry-run configuration'')
      else bindIO (observer_init a) (\<lambda>_. observer_loop fuel a False))"

section \<open>Properties\<close>

abbreviation traced_observer ::
  "'w env \<Rightarrow> 'w socket_env \<Rightarrow> 'w host \<Rightarrow> solders \<Rightarrow> Config \<Rightarrow> GmgnProvider \<Rightarrow> ('w \<times> script_log) observer_args" where
  "traced_observer E W H S c g \<equiv> \<lparr> oa_env = traced E, oa_socket = traced_socket W,
     oa_host = traced_host H, oa_solders = S, oa_config = c, oa_gmgn = g \<rparr>"

lemma emits_observe_event:
  "emits (snd \<circ> fst) J (observe_event (traced_observer E W H S c g) e)"
proof -
  have "emits (snd \<circ> fst) J (observe_candidate (traced_observer E W H S c g) cand)" for cand
    unfolding observe_candidate_def append_candidate_def observer_args.simps by (intro emits)
  then show ?thesis unfolding observe_event_def observer_args.simps by (intro emits)
qed

lemma emits_observer_step:
  "emits (snd \<circ> fst) J (observer_step (traced_observer E W H S c g))"
  unfolding observer_step_def observer_heartbeat_def observer_refresh_def observer_args.simps
  by (intro emits emits_observe_event)

text \<open>
  C28. The persistent observer starts nothing.  A configuration with \<open>dry_run\<close> off is refused
  before anything else happens; otherwise no run, whatever it is told and however often it
  reconnects, starts any script at all, so it neither composes nor signs nor submits.
\<close>

theorem observer_starts_nothing:
  "observer_main fuel (traced_observer E W H S c g) ((w, l), s) = (r, ((w', l'), s')) \<Longrightarrow>
     l' = l \<and> (\<not> c_dry_run c \<longrightarrow> (\<exists>m. r = Inl (RuntimeError m)) \<and> w' = w \<and> s' = s)"
proof -
  let ?a = "traced_observer E W H S c g"
  assume run: "observer_main fuel ?a ((w, l), s) = (r, ((w', l'), s'))"
  have loop: "emits (snd \<circ> fst) (\<lambda>_. False) (observer_loop fuel ?a b)" for b
  proof (induction fuel arbitrary: b)
    case (Suc fuel)
    show ?case
      unfolding observer_loop.simps observer_connect_def observer_args.simps
      by (intro emits emits_observer_step Suc.IH)
  qed (unfold observer_loop.simps, intro emits)
  have "emits (snd \<circ> fst) (\<lambda>_. False) (observer_main fuel ?a)"
    unfolding observer_main_def observer_init_def observer_args.simps by (intro emits loop)
  from silent_log [OF this run] have "l' = l" by simp
  moreover have "(\<exists>m. r = Inl (RuntimeError m)) \<and> w' = w \<and> s' = s" if "\<not> c_dry_run c"
    using run that by (auto simp: observer_main_def)
  ultimately show ?thesis by blast
qed

text \<open>What the candidate log gets appended.\<close>

abbreviation records :: "Config \<Rightarrow> ('w \<times> ObserverState, 'a) io \<Rightarrow> bool" where
  "records c m \<equiv> grows (\<lambda>_. True) (\<lambda>\<sigma>. os_candidates_log (snd \<sigma>))
     (\<lambda>r. \<exists>time cand routes. r = observer_record time (c_minimum_buy_usd c) cand routes \<and>
        \<not> lb_buy_usd cand < c_minimum_buy_usd c) m"

lemma records_world [grows]: "records c (in_world m)" "records c (state f)"
  by (rule grows_world [where I = "\<lambda>_. True" and get = os_candidates_log])+

lemma records_update: "(\<And>s. os_candidates_log (g s) = os_candidates_log s) \<Longrightarrow> records c (update g)"
  by (rule grows_update [where I = "\<lambda>_. True" and get = os_candidates_log]) auto

lemma records_append:
  assumes "\<not> lb_buy_usd cand < c_minimum_buy_usd c"
  shows "records c (append_candidate a (observer_record time (c_minimum_buy_usd c) cand routes))"
proof -
  let ?r = "observer_record time (c_minimum_buy_usd c) cand routes"
  have "records c (update (\<lambda>s. s\<lparr>os_candidates_log := os_candidates_log s @ [?r]\<rparr>))"
    by (rule grows_update [where I = "\<lambda>_. True" and get = os_candidates_log]) (use assms in auto)
  then show ?thesis unfolding append_candidate_def by (intro grows)
qed

lemma records_candidate:
  assumes "\<not> lb_buy_usd cand < c_minimum_buy_usd (oa_config a)"
  shows "records (oa_config a) (observe_candidate a cand)"
  unfolding observe_candidate_def by (intro grows records_update records_append assms) simp

lemma records_event: "records (oa_config a) (observe_event a e)"
proof -
  let ?detect = "\<lambda>t mints price. bindR (normalize_transaction t) (\<lambda>block.
     detect_large_buys (rep (oa_env a)) block (pl_slot e) (set_order (oa_env a) mints) price
       (c_minimum_buy_usd (oa_config a)))"
  have found: "records (oa_config a) (bindIO (liftR (?detect t mints price)) (\<lambda>candidates.
      for_each (observe_candidate a) candidates))" for t mints price
  proof (rule grows_bind_from [OF grows_result(3)])
    fix candidates and \<sigma> \<sigma>' :: "'b \<times> ObserverState"
    assume "liftR (?detect t mints price) \<sigma> = (Inr candidates, \<sigma>')"
    then obtain block where "detect_large_buys (rep (oa_env a)) block (pl_slot e) (set_order (oa_env a) mints)
        price (c_minimum_buy_usd (oa_config a)) = Inr candidates"
      by auto
    from detect_events_basic [OF this]
    show "records (oa_config a) (for_each (observe_candidate a) candidates)"
      by (intro grows_for_each_in records_candidate) simp
  qed
  show ?thesis unfolding observe_event_def by (intro grows records_update found) simp_all
qed

text \<open>
  Every record the observer appends is of a detected buy that reaches the configured threshold,
  and says that nothing was submitted; what was in the log before stays.
\<close>

theorem observer_records_sound:
  "observer_loop fuel a is_open (w, s) = (r, (w', s')) \<Longrightarrow>
     \<exists>new. os_candidates_log s' = os_candidates_log s @ new \<and>
       list_all (\<lambda>j. \<exists>time cand routes.
          j = observer_record time (c_minimum_buy_usd (oa_config a)) cand routes \<and>
          \<not> lb_buy_usd cand < c_minimum_buy_usd (oa_config a) \<and>
          dict_item j ''transactions_submitted'' = Inr (JInt 0)) new"
proof -
  assume run: "observer_loop fuel a is_open (w, s) = (r, (w', s'))"
  have step: "records (oa_config a) (observer_step a)"
    unfolding observer_step_def observer_heartbeat_def observer_refresh_def
    by (intro grows records_update records_event) simp_all
  have "records (oa_config a) (observer_loop fuel a is_open)"
  proof (induction fuel arbitrary: is_open)
    case (Suc fuel)
    show ?case
      unfolding observer_loop.simps observer_connect_def by (intro grows records_update step Suc.IH) simp
  qed (unfold observer_loop.simps, intro grows)
  from growsE [OF this TrueI run] obtain new where new: "os_candidates_log s' = os_candidates_log s @ new"
    "list_all (\<lambda>j. \<exists>time cand routes. j = observer_record time (c_minimum_buy_usd (oa_config a)) cand routes \<and>
        \<not> lb_buy_usd cand < c_minimum_buy_usd (oa_config a)) new"
    by auto
  have zero: "dict_item (observer_record time x cand routes) ''transactions_submitted'' = Inr (JInt 0)"
    for time x cand routes
    by (simp add: observer_record_def event_fields_def)
  from new(2) have "list_all (\<lambda>j. \<exists>time cand routes.
      j = observer_record time (c_minimum_buy_usd (oa_config a)) cand routes \<and>
      \<not> lb_buy_usd cand < c_minimum_buy_usd (oa_config a) \<and>
      dict_item j ''transactions_submitted'' = Inr (JInt 0)) new"
    by (rule list.pred_mono_strong) (metis zero)
  with new(1) show ?thesis by blast
qed

definition demo_observer_state :: ObserverState where
  "demo_observer_state = \<lparr> os_stream = open_stream {}, os_files = (\<lambda>_. None), os_mints = {''M''},
     os_sol_price = Fin 100, os_last_heartbeat = Fin 0, os_last_refresh = Fin 0,
     os_seen_candidates = {}, os_venue_events = 0, os_confirmed_events = 0, os_candidate_count = 0,
     os_candidates_log = [] \<rparr>"

theorem observer_starts_nothing_witness:
  "\<forall>c. \<exists>r w' s'. observer_main 9 (traced_observer dead_env demo_socket demo_host demo_solders c
      \<lparr>api_key = None, fallback_sol_price_usd = Fin 100\<rparr>) ((0 :: nat, []), demo_observer_state) = (r, ((w', []), s'))"
proof
  fix c
  obtain r w' l' s' where run: "observer_main 9 (traced_observer dead_env demo_socket demo_host demo_solders c
      \<lparr>api_key = None, fallback_sol_price_usd = Fin 100\<rparr>) ((0 :: nat, []), demo_observer_state) = (r, ((w', l'), s'))"
    by (metis surj_pair)
  from observer_starts_nothing [OF run] have "l' = []" by (rule conjunct1)
  with run show "\<exists>r w' s'. observer_main 9 (traced_observer dead_env demo_socket demo_host demo_solders c
      \<lparr>api_key = None, fallback_sol_price_usd = Fin 100\<rparr>) ((0 :: nat, []), demo_observer_state) = (r, ((w', []), s'))"
    by (intro exI) (simp only:)
qed

theorem observer_records_sound_witness:
  "\<forall>a :: nat observer_args. \<exists>r w' s'. observer_loop 2 a True (0, demo_observer_state) = (r, (w', s')) \<and>
     list_all (\<lambda>j. dict_item j ''transactions_submitted'' = Inr (JInt 0)) (os_candidates_log s')"
proof
  fix a :: "nat observer_args"
  obtain r w' s' where run: "observer_loop 2 a True (0, demo_observer_state) = (r, (w', s'))"
    by (metis surj_pair)
  from observer_records_sound [OF run]
  have "list_all (\<lambda>j. dict_item j ''transactions_submitted'' = Inr (JInt 0)) (os_candidates_log s')"
    by (auto simp: demo_observer_state_def list_all_iff)
  with run show "\<exists>r w' s'. observer_loop 2 a True (0, demo_observer_state) = (r, (w', s')) \<and>
     list_all (\<lambda>j. dict_item j ''transactions_submitted'' = Inr (JInt 0)) (os_candidates_log s')"
    by (intro exI conjI) (simp_all only:)
qed

end
