(* ===== verification/Tips.thy ===== *)
theory Tips
  imports Growing Environment
begin

text \<open>
  \<open>backrunner/tip_stream.py\<close>: the latest Jito tip percentiles, kept by a background loop, and
  the tip computed from them.  The module's globals are a record; the socket and the REST service
  are parameters.
\<close>

section \<open>The latest percentiles\<close>

record tip_state =
  tp_latest :: json
  tp_last_update :: pyfloat
  tp_backoff :: pyfloat

text \<open>Opening the stream, receiving (\<open>None\<close> when it ends), and the REST answer with its status.\<close>

record 'w tip_env =
  tip_open :: "('w, unit) io"
  tip_recv :: "('w, json res option) io"
  tip_get :: "('w, int \<times> json) io"

definition new_tips :: tip_state where
  "new_tips = \<lparr> tp_latest = JNull, tp_last_update = Fin 0, tp_backoff = Fin 2 \<rparr>"

definition tip_update :: "'w env \<Rightarrow> json \<Rightarrow> ('w \<times> tip_state, unit) io" where
  "tip_update E data =
     bindIO (in_world (now E)) (\<lambda>t. update (\<lambda>s. s\<lparr>tp_latest := data, tp_last_update := t\<rparr>))"

definition fetch_rest_fallback :: "'w env \<Rightarrow> 'w tip_env \<Rightarrow> ('w \<times> tip_state, unit) io" where
  "fetch_rest_fallback E T =
     catchIO
       (bindIO (in_world (tip_get T)) (\<lambda>(status, arr).
        if status \<noteq> 200 then retIO ()
        else case arr of
          JList xs \<Rightarrow> if xs \<noteq> [] then tip_update E (last xs) else retIO ()
        | _ \<Rightarrow> retIO ()))
       (\<lambda>_. retIO ())"

text \<open>The entry of a message, and what is done with it; a message that cannot be read is skipped.\<close>

definition tip_entry :: "json \<Rightarrow> json res" where
  "tip_entry msg = (case msg of
     JList xs \<Rightarrow> if xs = [] then raise (IndexError ''list index'') else ret (last xs)
   | _ \<Rightarrow> ret msg)"

definition tip_message :: "'w env \<Rightarrow> json res \<Rightarrow> ('w \<times> tip_state, unit) io" where
  "tip_message E raw =
     catchIO
       (bindIO (liftR (bindR raw tip_entry)) (\<lambda>entry.
        bindIO (liftR (py_in ''landed_tips_50th_percentile'' entry)) (\<lambda>known.
        if known then tip_update E entry else retIO ())))
       (\<lambda>_. retIO ())"

text \<open>
  \<open>_tip_stream_loop\<close>; the fuel bounds the number of turns, which the code does not, and the
  flag says whether the stream is open.
\<close>

definition tip_turn :: "'w env \<Rightarrow> 'w tip_env \<Rightarrow> bool \<Rightarrow> ('w \<times> tip_state, bool) io" where
  "tip_turn E T is_open =
     (if is_open
      then bindIO (in_world (tip_recv T)) (\<lambda>raw. case raw of
             None \<Rightarrow> retIO False
           | Some m \<Rightarrow> bindIO (tip_message E m) (\<lambda>_. retIO True))
      else bindIO (in_world (tip_open T)) (\<lambda>_.
           bindIO (fetch_rest_fallback E T) (\<lambda>_.
           bindIO (update (\<lambda>s. s\<lparr>tp_backoff := Fin 2\<rparr>)) (\<lambda>_. retIO True))))"

definition tip_retry :: "'w env \<Rightarrow> 'w tip_env \<Rightarrow> ('w \<times> tip_state, bool) io" where
  "tip_retry E T =
     bindIO (fetch_rest_fallback E T) (\<lambda>_.
     bindIO (state tp_backoff) (\<lambda>pause.
     bindIO (in_world (sleep E pause)) (\<lambda>_.
     bindIO (update (\<lambda>s. s\<lparr>tp_backoff := py_min (tp_backoff s * flit (3 / 2)) (Fin 30)\<rparr>))
       (\<lambda>_. retIO False))))"

fun tip_stream_loop :: "nat \<Rightarrow> 'w env \<Rightarrow> 'w tip_env \<Rightarrow> bool \<Rightarrow> ('w \<times> tip_state, unit) io" where
  "tip_stream_loop 0 E T is_open = retIO ()"
| "tip_stream_loop (Suc fuel) E T is_open =
     bindIO (catchIO (tip_turn E T is_open) (\<lambda>_. tip_retry E T)) (tip_stream_loop fuel E T)"

definition tip_stream_age_ms :: "'w env \<Rightarrow> ('w \<times> tip_state, pyfloat) io" where
  "tip_stream_age_ms E =
     bindIO (state tp_latest) (\<lambda>latest.
     if \<not> truthy latest then retIO PInf
     else bindIO (in_world (now E)) (\<lambda>t.
          bindIO (state tp_last_update) (\<lambda>last. retIO ((t - last) * Fin 1000))))"

section \<open>The dynamic tip\<close>

definition MIN_TIP_LAMPORTS :: int where
  "MIN_TIP_LAMPORTS = 10000"

definition MAX_TIP_LAMPORTS :: int where
  "MAX_TIP_LAMPORTS = 50000000"

definition tip_sol :: "json \<Rightarrow> string \<Rightarrow> json res" where
  "tip_sol latest urgency =
     (let sol = JFloat (flit (1 / 100000)) in
      if \<not> truthy latest then ret sol
      else if urgency = ''low'' then
        bindR (dict_get latest ''ema_landed_tips_50th_percentile'' JNull) (\<lambda>ema.
        if truthy ema then ret ema else dict_get latest ''landed_tips_50th_percentile'' sol)
      else if urgency = ''normal'' then dict_get latest ''landed_tips_75th_percentile'' sol
      else if urgency = ''high'' then dict_get latest ''landed_tips_95th_percentile'' sol
      else dict_get latest ''landed_tips_99th_percentile'' sol)"

definition tip_mult :: "string \<Rightarrow> pyfloat res" where
  "tip_mult urgency =
     (if urgency = ''low'' then ret (flit (11 / 10))
      else if urgency = ''normal'' then ret (flit (13 / 10))
      else if urgency = ''high'' then ret (flit (16 / 10))
      else if urgency = ''extreme'' then ret (Fin 2)
      else raise (KeyError urgency))"

text \<open>\<open>v * x\<close> for a float \<open>x\<close>.\<close>

fun mul_float :: "json \<Rightarrow> pyfloat \<Rightarrow> pyfloat res" where
  "mul_float (JFloat y) x = ret (y * x)"
| "mul_float (JInt n) x = bindR (float_of_int n) (\<lambda>y. ret (y * x))"
| "mul_float (JBool b) x = ret ((if b then 1 else 0) * x)"
| "mul_float _ x = raise (TypeError ''unsupported operand'')"

definition clamp_tip :: "int \<Rightarrow> int" where
  "clamp_tip lamports = max MIN_TIP_LAMPORTS (min MAX_TIP_LAMPORTS lamports)"

definition get_dynamic_tip_lamports :: "json \<Rightarrow> string \<Rightarrow> int res" where
  "get_dynamic_tip_lamports latest urgency =
     bindR (tip_sol latest urgency) (\<lambda>sol.
     bindR (tip_mult urgency) (\<lambda>mult.
     bindR (mul_float sol (Fin 1000000000)) (\<lambda>lamports.
     bindR (int_of_float (lamports * mult)) (\<lambda>n. ret (clamp_tip n)))))"

section \<open>Properties\<close>

lemma clamp_tip_bounds: "MIN_TIP_LAMPORTS \<le> clamp_tip n" "clamp_tip n \<le> MAX_TIP_LAMPORTS"
  by (simp_all add: clamp_tip_def MIN_TIP_LAMPORTS_def MAX_TIP_LAMPORTS_def)

lemma clamp_tip_mono: "m \<le> n \<Longrightarrow> clamp_tip m \<le> clamp_tip n"
  by (auto simp: clamp_tip_def)

lemma rnd_between:
  assumes "1 \<le> r" "r \<le> 2"
  shows "\<exists>q. rnd r = Fin q \<and> 1 \<le> q"
proof -
  have "Fin 1 \<le> rnd r" "rnd r \<le> Fin 2"
    using rnd_ge_double [OF assms(1)] rnd_le_double [OF assms(2)] by simp_all
  then show ?thesis by (cases "rnd r") auto
qed

lemma tip_mult_positive:
  assumes "tip_mult urgency = Inr m"
  obtains q where "m = Fin q" "0 < q"
proof -
  consider "m = rnd (11 / 10)" | "m = rnd (13 / 10)" | "m = rnd (16 / 10)" | "m = Fin 2"
    using assms by (auto simp: tip_mult_def flit_def split: if_splits)
  then have "\<exists>q. m = Fin q \<and> 1 \<le> q"
    by cases (simp_all only: rnd_between, simp)
  then show thesis using that by force
qed

text \<open>
  The dynamic tip is bounded and monotone.  Whatever the stream delivered, a tip that is computed
  lies between 10000 and 50000000 lamports, and for one urgency a higher percentile never gives
  a lower tip.
\<close>

theorem dynamic_tip_bounded_monotone:
  assumes "get_dynamic_tip_lamports d urgency = Inr m" "get_dynamic_tip_lamports d' urgency = Inr n"
    and "tip_sol d urgency = Inr (JFloat x)" "tip_sol d' urgency = Inr (JFloat y)" "x \<le> y"
  shows "10000 \<le> m \<and> m \<le> n \<and> n \<le> 50000000"
proof -
  obtain mult where mult: "tip_mult urgency = Inr mult"
    using assms(1) by (auto simp: get_dynamic_tip_lamports_def)
  obtain q where q: "mult = Fin q" "0 < q" by (rule tip_mult_positive [OF mult])
  obtain m' n' where mn: "int_of_float (x * Fin 1000000000 * mult) = Inr m'" "m = clamp_tip m'"
    "int_of_float (y * Fin 1000000000 * mult) = Inr n'" "n = clamp_tip n'"
    using assms(1-4) mult by (auto simp: get_dynamic_tip_lamports_def)
  have "x * Fin 1000000000 * mult \<le> y * Fin 1000000000 * mult"
    unfolding q(1) using q(2) assms(5) by (intro fmul_mono_nonneg) simp_all
  then have "m' \<le> n'" using int_of_float_mono mn(1,3) by blast
  then show ?thesis
    using clamp_tip_mono [of m' n'] clamp_tip_bounds [of m'] clamp_tip_bounds [of n'] mn(2,4)
    by (simp add: MIN_TIP_LAMPORTS_def MAX_TIP_LAMPORTS_def)
qed

text \<open>The background loop: no exception ends it, and its pauses stay in range.\<close>

lemma fallback_returns: "fst (fetch_rest_fallback E T \<sigma>) = Inr ()"
  by (auto simp: fetch_rest_fallback_def catchIO_def split: prod.split sum.split)

lemma retry_returns: "fst (tip_retry E T \<sigma>) = Inr False"
proof -
  obtain \<sigma>' where "fetch_rest_fallback E T \<sigma> = (Inr (), \<sigma>')"
    using fallback_returns [of E T \<sigma>] by (metis prod.collapse)
  then show ?thesis
    by (auto simp: tip_retry_def bindIO_Inr state_def update_def in_world_def sleep_def bindIO_def
        split: prod.split)
qed

abbreviation pauses :: "('w \<times> tip_state, 'a) io \<Rightarrow> bool" where
  "pauses m \<equiv> grows (\<lambda>\<sigma>. Fin 2 \<le> tp_backoff (snd \<sigma>) \<and> tp_backoff (snd \<sigma>) \<le> Fin 30)
     (\<lambda>_. [] :: unit list) (\<lambda>_. True) m"

lemma pauses_world [grows]: "pauses (in_world m)" "pauses (state f)"
  by (auto simp: grows_def in_world_def state_def split: prod.split)

lemma pauses_update:
  "(\<And>s. Fin 2 \<le> tp_backoff s \<and> tp_backoff s \<le> Fin 30 \<Longrightarrow> Fin 2 \<le> tp_backoff (g s) \<and> tp_backoff (g s) \<le> Fin 30)
    \<Longrightarrow> pauses (update g)"
  by (auto simp: grows_def update_def)

lemma pauses_tip_update: "pauses (tip_update E data)"
  unfolding tip_update_def by (intro grows pauses_update) simp

lemma pauses_json: "(\<And>xs. pauses (f xs)) \<Longrightarrow> pauses m \<Longrightarrow> pauses (case j of JList xs \<Rightarrow> f xs | _ \<Rightarrow> m)"
  by (cases j) simp_all

lemma pauses_fallback: "pauses (fetch_rest_fallback E T)"
  unfolding fetch_rest_fallback_def by (intro grows pauses_json pauses_tip_update)

lemma longer_pause:
  assumes "Fin 2 \<le> b" "b \<le> Fin 30"
  shows "Fin 2 \<le> py_min (b * flit (3 / 2)) (Fin 30) \<and> py_min (b * flit (3 / 2)) (Fin 30) \<le> Fin 30"
proof -
  have half: "flit (3 / 2) = Fin (3 / 2)" using rnd_dyadic [of 3 1] by (simp add: flit_def)
  have "Fin 2 * Fin (3 / 2) \<le> b * Fin (3 / 2)" using assms(1) by (intro fmul_mono_nonneg) auto
  then have "Fin 3 \<le> b * Fin (3 / 2)" by simp
  moreover from this have "b * Fin (3 / 2) \<noteq> NaN" by auto
  moreover have "Fin 2 \<le> Fin (3 :: rat)" by simp
  ultimately show ?thesis
    unfolding half using fle_trans [of "Fin 2" "Fin 3" "b * Fin (3 / 2)"]
    by (auto intro!: py_min_greatest py_min_le2)
qed

text \<open>
  The background loop survives.  Whatever the socket and the REST service do, no exception ends
  the loop, and the pause before the next connection stays between 2 and 30 seconds.
\<close>

theorem tip_loop_survives:
  "\<exists>w' s'. tip_stream_loop fuel E T is_open (w, new_tips) = (Inr (), (w', s')) \<and>
     Fin 2 \<le> tp_backoff s' \<and> tp_backoff s' \<le> Fin 30"
proof -
  have turn: "pauses (tip_turn E T is_open)" for is_open
    unfolding tip_turn_def tip_message_def
    by (intro grows pauses_tip_update pauses_fallback pauses_update) simp
  have retry: "pauses (tip_retry E T)"
    unfolding tip_retry_def by (intro grows pauses_fallback pauses_update) (auto intro: longer_pause [THEN conjunct1] longer_pause [THEN conjunct2])
  have keeps: "pauses (tip_stream_loop fuel E T is_open)"
  proof (induction fuel arbitrary: is_open)
    case (Suc fuel)
    show ?case unfolding tip_stream_loop.simps by (intro grows turn retry Suc.IH)
  qed (unfold tip_stream_loop.simps, intro grows)
  have ends: "fst (tip_stream_loop fuel E T is_open \<sigma>) = Inr ()" for \<sigma>
  proof (induction fuel arbitrary: is_open \<sigma>)
    case (Suc fuel)
    have "\<exists>b \<sigma>'. catchIO (tip_turn E T is_open) (\<lambda>_. tip_retry E T) \<sigma> = (Inr b, \<sigma>')"
      using retry_returns [of E T] by (auto simp: catchIO_def split: prod.split sum.split) (metis prod.collapse)
    with Suc.IH show ?case by (auto simp: bindIO_Inr)
  qed simp
  obtain w' s' where run: "tip_stream_loop fuel E T is_open (w, new_tips) = (Inr (), (w', s'))"
    using ends [of "(w, new_tips)"] by (metis prod.collapse)
  have "Fin 2 \<le> tp_backoff (snd (w, new_tips)) \<and> tp_backoff (snd (w, new_tips)) \<le> Fin 30"
    by (simp add: new_tips_def)
  from growsE [OF keeps this run] run show ?thesis by auto
qed

theorem dynamic_tip_bounded_monotone_witness:
  "get_dynamic_tip_lamports (JDict [(''landed_tips_99th_percentile'', JFloat (Fin 0))]) ''extreme'' = Inr 10000 \<and>
   get_dynamic_tip_lamports (JDict [(''landed_tips_99th_percentile'', JFloat (Fin 1))]) ''extreme'' = Inr 50000000 \<and>
   (10000 :: int) \<le> 50000000"
proof -
  have tips: "get_dynamic_tip_lamports (JDict [(''landed_tips_99th_percentile'', JFloat (Fin 0))]) ''extreme'' = Inr 10000"
    "get_dynamic_tip_lamports (JDict [(''landed_tips_99th_percentile'', JFloat (Fin 1))]) ''extreme'' = Inr 50000000"
    by (simp_all add: get_dynamic_tip_lamports_def tip_sol_def tip_mult_def clamp_tip_def
        MIN_TIP_LAMPORTS_def MAX_TIP_LAMPORTS_def)
  show ?thesis
    using dynamic_tip_bounded_monotone [OF tips, of "Fin 0" "Fin 1"] tips by (simp add: tip_sol_def)
qed

end
