(* ===== verification/Risk.thy ===== *)
theory Risk
  imports PyFloat
begin

text \<open>
  \<open>backrunner/risk.py\<close>: the equity sizing and live-readiness gates.  Money is Python's
  \<open>float\<close>, so every comparison is the IEEE one (false on \<open>NaN\<close>) and every product,
  quotient and \<open>round\<close> is rounded as Python rounds it.
\<close>

record RiskPolicy =
  pilot_risk_pct :: pyfloat
  validated_risk_pct :: pyfloat
  trade_cap_usd :: pyfloat
  wallet_reserve_usd :: pyfloat
  daily_loss_pct :: pyfloat
  maximum_drawdown_pct :: pyfloat
  minimum_live_attempts_for_scale :: int
  minimum_shadow_hours :: pyfloat
  minimum_shadow_candidates :: int

definition default_policy :: RiskPolicy where
  "default_policy = \<lparr> pilot_risk_pct = Fin 5, validated_risk_pct = Fin 10, trade_cap_usd = Fin 25,
     wallet_reserve_usd = Fin 10, daily_loss_pct = Fin 3, maximum_drawdown_pct = Fin 5,
     minimum_live_attempts_for_scale = 20, minimum_shadow_hours = Fin 72,
     minimum_shadow_candidates = 100 \<rparr>"

record RiskSnapshot =
  equity_usd :: pyfloat
  high_water_equity_usd :: pyfloat
  day_start_equity_usd :: pyfloat
  daily_wallet_pnl_usd :: pyfloat
  live_settled_attempts :: int
  live_wallet_pnl_usd :: pyfloat
  active_transactions :: int
  residual_inventory :: bool
  direct_executor_proven :: bool
  profit_guard_proven :: bool
  shadow_runtime_hours :: pyfloat
  shadow_candidates :: int
  shadow_net_profit_usd :: pyfloat

record RiskDecision =
  allowed :: bool
  stage :: string
  maximum_trade_usd :: pyfloat
  reasons :: "string list"

definition locked :: "string list \<Rightarrow> RiskDecision" where
  "locked rs = \<lparr> allowed = False, stage = ''locked'', maximum_trade_usd = Fin 0, reasons = rs \<rparr>"

text \<open>The first group of gates: is the executor proven, is the shadow evidence sufficient.\<close>

definition readiness_reasons :: "RiskSnapshot \<Rightarrow> RiskPolicy \<Rightarrow> string list" where
  "readiness_reasons s p =
     flag (\<not> direct_executor_proven s) ''direct_executor_unproven'' @
     flag (\<not> profit_guard_proven s) ''profit_guard_unproven'' @
     flag (shadow_runtime_hours s < minimum_shadow_hours p) ''insufficient_shadow_runtime'' @
     flag (shadow_candidates s < minimum_shadow_candidates p) ''insufficient_shadow_candidates'' @
     flag (shadow_net_profit_usd s \<le> Fin 0) ''shadow_net_not_positive''"

definition daily_loss_limit :: "RiskSnapshot \<Rightarrow> RiskPolicy \<Rightarrow> pyfloat" where
  "daily_loss_limit s p = fdiv (day_start_equity_usd s * daily_loss_pct p) (Fin 100)"

definition drawdown_floor :: "RiskSnapshot \<Rightarrow> RiskPolicy \<Rightarrow> pyfloat" where
  "drawdown_floor s p =
     high_water_equity_usd s * (Fin 1 - fdiv (maximum_drawdown_pct p) (Fin 100))"

text \<open>The second group: the kill switches on exposure, daily loss and drawdown.\<close>

definition kill_switch_reasons :: "RiskSnapshot \<Rightarrow> RiskPolicy \<Rightarrow> string list" where
  "kill_switch_reasons s p =
     flag (0 < active_transactions s) ''active_transaction_exists'' @
     flag (residual_inventory s) ''residual_inventory'' @
     flag (daily_wallet_pnl_usd s \<le> - daily_loss_limit s p) ''daily_loss_limit'' @
     flag (equity_usd s \<le> drawdown_floor s p) ''maximum_drawdown''"

definition trade_usd :: "RiskSnapshot \<Rightarrow> RiskPolicy \<Rightarrow> pyfloat \<Rightarrow> pyfloat" where
  "trade_usd s p risk_pct =
     py_min (py_min (fdiv (equity_usd s * risk_pct) (Fin 100)) (trade_cap_usd p))
       (py_max (Fin 0) (equity_usd s - wallet_reserve_usd p))"

definition sized :: "RiskSnapshot \<Rightarrow> RiskPolicy \<Rightarrow> string \<Rightarrow> pyfloat \<Rightarrow> RiskDecision" where
  "sized s p st risk_pct = \<lparr> allowed = True, stage = st,
     maximum_trade_usd = py_round (trade_usd s p risk_pct) 2, reasons = [] \<rparr>"

definition assess_risk :: "RiskSnapshot \<Rightarrow> RiskPolicy \<Rightarrow> RiskDecision" where
  "assess_risk s p =
     (let rs = readiness_reasons s p in
      if rs \<noteq> [] then locked rs
      else
        let rs = kill_switch_reasons s p in
        if rs \<noteq> [] then locked rs
        else if minimum_live_attempts_for_scale p \<le> live_settled_attempts s then
          if live_wallet_pnl_usd s \<le> Fin 0 then locked [''pilot_not_wallet_net_positive'']
          else sized s p ''validated'' (validated_risk_pct p)
        else sized s p ''pilot'' (pilot_risk_pct p))"

section \<open>Lemmas\<close>

lemma locked_simps [simp]:
  "allowed (locked rs) = False" "stage (locked rs) = ''locked''"
  "maximum_trade_usd (locked rs) = Fin 0" "reasons (locked rs) = rs"
  by (simp_all add: locked_def)

lemma sized_simps [simp]:
  "allowed (sized s p st pct) = True" "stage (sized s p st pct) = st"
  "maximum_trade_usd (sized s p st pct) = py_round (trade_usd s p pct) 2"
  "reasons (sized s p st pct) = []"
  by (simp_all add: sized_def)

lemma readiness_clean:
  "readiness_reasons s p = [] \<longleftrightarrow>
     direct_executor_proven s \<and> profit_guard_proven s \<and>
     \<not> shadow_runtime_hours s < minimum_shadow_hours p \<and>
     minimum_shadow_candidates p \<le> shadow_candidates s \<and>
     \<not> shadow_net_profit_usd s \<le> Fin 0"
  by (auto simp: readiness_reasons_def)

lemma kill_switch_clean:
  "kill_switch_reasons s p = [] \<longleftrightarrow>
     active_transactions s \<le> 0 \<and> \<not> residual_inventory s \<and>
     \<not> daily_wallet_pnl_usd s \<le> - daily_loss_limit s p \<and>
     \<not> equity_usd s \<le> drawdown_floor s p"
  by (auto simp: kill_switch_reasons_def)

text \<open>The percentage that applies at the snapshot's stage.\<close>

definition stage_pct :: "RiskSnapshot \<Rightarrow> RiskPolicy \<Rightarrow> pyfloat" where
  "stage_pct s p = (if minimum_live_attempts_for_scale p \<le> live_settled_attempts s
     then validated_risk_pct p else pilot_risk_pct p)"

lemma assess_risk_allowed:
  "allowed (assess_risk s p) \<longleftrightarrow>
     readiness_reasons s p = [] \<and> kill_switch_reasons s p = [] \<and>
     (minimum_live_attempts_for_scale p \<le> live_settled_attempts s
        \<longrightarrow> \<not> live_wallet_pnl_usd s \<le> Fin 0)"
  by (auto simp: assess_risk_def Let_def)

lemma assess_risk_size:
  "allowed (assess_risk s p) \<Longrightarrow>
     maximum_trade_usd (assess_risk s p) = py_round (trade_usd s p (stage_pct s p)) 2"
  by (auto simp: assess_risk_def stage_pct_def Let_def split: if_splits)

lemma assess_risk_cases:
  "(\<exists>rs. rs \<noteq> [] \<and> assess_risk s p = locked rs) \<or>
   (\<exists>st. assess_risk s p = sized s p st (stage_pct s p) \<and> st \<in> {''pilot'', ''validated''})"
  by (auto simp: assess_risk_def stage_pct_def Let_def)

lemma trade_usd_upper:
  assumes "fdiv (equity_usd s * pct) (Fin 100) \<noteq> NaN"
  shows "trade_usd s p pct \<le> fdiv (equity_usd s * pct) (Fin 100)"
    and "trade_cap_usd p \<noteq> NaN \<Longrightarrow> trade_usd s p pct \<le> trade_cap_usd p"
    and "trade_usd s p pct \<le> py_max (Fin 0) (equity_usd s - wallet_reserve_usd p)"
proof -
  let ?a = "fdiv (equity_usd s * pct) (Fin 100)"
  let ?m = "py_min ?a (trade_cap_usd p)"
  have m: "?m \<noteq> NaN" using assms by (rule py_min_not_NaN)
  have top: "trade_usd s p pct \<le> ?m" unfolding trade_usd_def by (rule py_min_le1 [OF m])
  show "trade_usd s p pct \<le> ?a" using top py_min_le1 [OF assms] by (rule fle_trans)
  show "trade_usd s p pct \<le> trade_cap_usd p" if "trade_cap_usd p \<noteq> NaN"
    using top py_min_le2 [OF assms that] by (rule fle_trans)
  show "trade_usd s p pct \<le> py_max (Fin 0) (equity_usd s - wallet_reserve_usd p)"
    unfolding trade_usd_def by (rule py_min_le2 [OF m]) (simp add: py_max_not_NaN)
qed

lemma trade_usd_nonneg:
  assumes "Fin 0 \<le> equity_usd s * pct" "Fin 0 \<le> trade_cap_usd p"
  shows "Fin 0 \<le> trade_usd s p pct"
  unfolding trade_usd_def
  using assms by (intro py_min_greatest fdiv_nonneg py_max_ge1) auto

section \<open>Properties\<close>

text \<open>
  C8. The gate is decided exactly by its conditions: trading is allowed when the executor and
  the profit guard are proven, the shadow evidence is not below its thresholds, nothing is in
  flight or left over, neither the daily loss nor the drawdown limit is reached, and (once enough
  live attempts have settled) the live result is not at or below zero.  Otherwise the decision is
  locked, with a maximum trade of zero and at least one reason.
\<close>

theorem assess_risk_gate:
  "(allowed (assess_risk s p) \<longleftrightarrow>
     direct_executor_proven s \<and> profit_guard_proven s \<and>
     \<not> shadow_runtime_hours s < minimum_shadow_hours p \<and>
     minimum_shadow_candidates p \<le> shadow_candidates s \<and>
     \<not> shadow_net_profit_usd s \<le> Fin 0 \<and>
     active_transactions s \<le> 0 \<and> \<not> residual_inventory s \<and>
     \<not> daily_wallet_pnl_usd s \<le> - fdiv (day_start_equity_usd s * daily_loss_pct p) (Fin 100) \<and>
     \<not> equity_usd s \<le> high_water_equity_usd s
            * (Fin 1 - fdiv (maximum_drawdown_pct p) (Fin 100)) \<and>
     (if live_settled_attempts s < minimum_live_attempts_for_scale p then True
      else \<not> live_wallet_pnl_usd s \<le> Fin 0)) \<and>
   (if allowed (assess_risk s p)
    then stage (assess_risk s p) \<in> {''pilot'', ''validated''} \<and> reasons (assess_risk s p) = []
    else stage (assess_risk s p) = ''locked'' \<and>
         maximum_trade_usd (assess_risk s p) = Fin 0 \<and> reasons (assess_risk s p) \<noteq> [])"
proof -
  have "if allowed (assess_risk s p)
     then stage (assess_risk s p) \<in> {''pilot'', ''validated''} \<and> reasons (assess_risk s p) = []
     else stage (assess_risk s p) = ''locked'' \<and>
          maximum_trade_usd (assess_risk s p) = Fin 0 \<and> reasons (assess_risk s p) \<noteq> []"
    using assess_risk_cases [of s p] by auto
  then show ?thesis
    unfolding assess_risk_allowed readiness_clean kill_switch_clean daily_loss_limit_def
      drawdown_floor_def by auto
qed

text \<open>
  C23. The size of an allowed trade is never negative and never above any of its three limits,
  each rounded to cents: the stage's percentage of equity, the trade cap, and what the wallet
  holds above its reserve (zero when it holds less).  The percentage of equity and the cap must
  be nonnegative numbers.
\<close>

theorem assess_risk_trade_bounds:
  assumes "allowed (assess_risk s p)"
    and "Fin 0 \<le> equity_usd s * stage_pct s p" "Fin 0 \<le> trade_cap_usd p"
  shows "Fin 0 \<le> maximum_trade_usd (assess_risk s p) \<and>
    maximum_trade_usd (assess_risk s p)
      \<le> py_round (fdiv (equity_usd s * stage_pct s p) (Fin 100)) 2 \<and>
    maximum_trade_usd (assess_risk s p) \<le> py_round (trade_cap_usd p) 2 \<and>
    maximum_trade_usd (assess_risk s p)
      \<le> py_round (py_max (Fin 0) (equity_usd s - wallet_reserve_usd p)) 2"
proof -
  have n: "fdiv (equity_usd s * stage_pct s p) (Fin 100) \<noteq> NaN" "trade_cap_usd p \<noteq> NaN"
    using fdiv_nonneg [OF _ assms(2), of 100] assms(3) by auto
  note up = trade_usd_upper [where s = s and p = p, OF n(1)]
  show ?thesis
    unfolding assess_risk_size [OF assms(1)]
    using py_round_nonneg [OF trade_usd_nonneg [OF assms(2,3)]]
      up(1) up(2) [OF n(2)] up(3) by (auto intro: py_round_mono)
qed

definition ready_snapshot :: RiskSnapshot where
  "ready_snapshot = \<lparr> equity_usd = Fin 100, high_water_equity_usd = Fin 100,
     day_start_equity_usd = Fin 100, daily_wallet_pnl_usd = Fin 0, live_settled_attempts = 20,
     live_wallet_pnl_usd = Fin 1, active_transactions = 0, residual_inventory = False,
     direct_executor_proven = True, profit_guard_proven = True, shadow_runtime_hours = Fin 72,
     shadow_candidates = 100, shadow_net_profit_usd = Fin 1 \<rparr>"

text \<open>The defaults need only one rounding that is not exact: five per cent of one.\<close>

lemma five_percent_below_one: "Fin 100 * (Fin 1 - fdiv (Fin 5) (Fin 100)) < Fin 100"
proof -
  have "rnd (1 / 32) \<le> rnd (5 / 100)" by (rule rnd_mono) simp
  moreover have e: "rnd (1 / 32) = Fin (1 / 32)"
    using rnd_dyadic [of 1 5] by simp
  ultimately have lo: "Fin (1 / 32) \<le> fdiv (Fin 5) (Fin 100)" by simp
  have "rnd (5 / 100) \<le> rnd 1" by (rule rnd_mono) simp
  then have hi: "fdiv (Fin 5) (Fin 100) \<le> Fin 1" by simp
  obtain q where q: "fdiv (Fin 5) (Fin 100) = Fin q" "1 / 32 \<le> q" "q \<le> 1"
    using lo hi by (cases "fdiv (Fin 5) (Fin 100)") auto
  have "rnd (1 - q) \<le> rnd (31 / 32)" by (rule rnd_mono) (use q in simp)
  moreover have e2: "rnd (31 / 32) = Fin (31 / 32)"
    using rnd_dyadic [of 31 5] by simp
  moreover have "Fin 0 \<le> rnd (1 - q)" by (rule rnd_nonneg) (use q in simp)
  ultimately obtain r where r: "rnd (1 - q) = Fin r" "0 \<le> r" "r \<le> 31 / 32"
    by (cases "rnd (1 - q)") auto
  have "rnd (100 * r) \<le> rnd 97" by (rule rnd_mono) (use r in simp)
  then have "rnd (100 * r) \<le> Fin 97" by simp
  then have "rnd (100 * r) < Fin 100" by (rule fle_flt_trans) simp
  then show ?thesis using q r by simp
qed

lemma ready_snapshot_allowed: "allowed (assess_risk ready_snapshot default_policy)"
  using five_percent_below_one
  by (simp add: assess_risk_allowed readiness_clean kill_switch_clean ready_snapshot_def
      default_policy_def daily_loss_limit_def drawdown_floor_def flt_not_NaN not_fle)

theorem assess_risk_trade_bounds_witness:
  "allowed (assess_risk ready_snapshot default_policy) \<and>
   maximum_trade_usd (assess_risk ready_snapshot default_policy) \<le> py_round (Fin 25) 2"
  using ready_snapshot_allowed
    assess_risk_trade_bounds [OF ready_snapshot_allowed]
  by (simp add: ready_snapshot_def default_policy_def stage_pct_def)

text \<open>
  With the default policy and a finite nonnegative equity, no decision (allowed or locked)
  permits a trade above twenty-five dollars, and the sizes are never \<open>NaN\<close>.
\<close>

theorem assess_risk_default_cap:
  assumes "equity_usd s = Fin e" "0 \<le> e"
  shows "Fin 0 \<le> maximum_trade_usd (assess_risk s default_policy) \<and>
    maximum_trade_usd (assess_risk s default_policy) \<le> Fin 25"
proof (cases "allowed (assess_risk s default_policy)")
  case True
  have pct: "stage_pct s default_policy \<in> {Fin 5, Fin 10}"
    by (auto simp: stage_pct_def default_policy_def)
  let ?t = "trade_usd s default_policy (stage_pct s default_policy)"
  have part: "Fin 0 \<le> equity_usd s * stage_pct s default_policy"
    using pct assms by (auto intro!: rnd_nonneg)
  have cap: "trade_cap_usd default_policy = Fin 25" by (simp add: default_policy_def)
  have n: "fdiv (equity_usd s * stage_pct s default_policy) (Fin 100) \<noteq> NaN"
    using fdiv_nonneg [OF _ part, of 100] by auto
  have "?t \<le> Fin 25"
    using trade_usd_upper(2) [where s = s and p = default_policy, OF n] cap by simp
  then have "py_round ?t 2 \<le> py_round (Fin 25) 2" by (rule py_round_mono)
  also have "py_round (Fin 25) 2 = Fin 25" using py_round_Fin_of_int [of 25 2] by simp
  finally have "py_round ?t 2 \<le> Fin 25" .
  moreover have "Fin 0 \<le> py_round ?t 2"
    using part cap by (intro py_round_nonneg trade_usd_nonneg) auto
  ultimately show ?thesis using assess_risk_size [OF True] by simp
next
  case False
  then show ?thesis using assess_risk_cases [of s default_policy] by auto
qed

theorem assess_risk_default_cap_witness:
  "equity_usd ready_snapshot = Fin 100 \<and>
   maximum_trade_usd (assess_risk ready_snapshot default_policy) \<le> Fin 25"
proof -
  have e: "equity_usd ready_snapshot = Fin 100" by (simp add: ready_snapshot_def)
  from assess_risk_default_cap [OF e] e show ?thesis by simp
qed

text \<open>
  The gates are not closed against \<open>NaN\<close>: a snapshot whose shadow runtime, shadow
  profit, daily result and high-water mark are all \<open>NaN\<close> (which JSON can carry) passes every
  gate a proven executor with enough candidates passes, because each gate asks whether a
  comparison with the limit succeeds.  The missing evidence is not a reason to refuse.
\<close>

theorem assess_risk_NaN_passes:
  assumes "direct_executor_proven s" "profit_guard_proven s"
    and "minimum_shadow_candidates p \<le> shadow_candidates s"
    and "active_transactions s \<le> 0" "\<not> residual_inventory s"
    and "live_settled_attempts s < minimum_live_attempts_for_scale p"
  shows "allowed (assess_risk (s\<lparr>shadow_runtime_hours := NaN, shadow_net_profit_usd := NaN,
           daily_wallet_pnl_usd := NaN, high_water_equity_usd := NaN\<rparr>) p)"
  using assms
  by (simp add: assess_risk_allowed readiness_clean kill_switch_clean drawdown_floor_def)

theorem assess_risk_NaN_passes_witness:
  "allowed (assess_risk (ready_snapshot\<lparr>live_settled_attempts := 0, shadow_runtime_hours := NaN,
     shadow_net_profit_usd := NaN, daily_wallet_pnl_usd := NaN, high_water_equity_usd := NaN\<rparr>)
     default_policy)"
proof -
  have "allowed (assess_risk ((ready_snapshot\<lparr>live_settled_attempts := 0\<rparr>)\<lparr>shadow_runtime_hours := NaN,
     shadow_net_profit_usd := NaN, daily_wallet_pnl_usd := NaN, high_water_equity_usd := NaN\<rparr>)
     default_policy)"
    by (rule assess_risk_NaN_passes) (simp_all add: ready_snapshot_def default_policy_def)
  then show ?thesis by simp
qed

end
