(* ===== verification/State.thy ===== *)
theory State
  imports Files
begin

text \<open>
  \<open>backrunner/state.py\<close>: the durable accounting state of the live runtime.  The dataclass
  does not check its fields, so each holds whatever JSON value the file had; what is checked is
  that exactly the twelve fields are there.  \<open>mkdir\<close> is not modelled, directories exist.
\<close>

record RuntimeState =
  st_high_water_equity_usd :: json
  st_day_start_equity_usd :: json
  st_daily_wallet_pnl_usd :: json
  st_live_settled_attempts :: json
  st_live_wallet_pnl_usd :: json
  st_active_transactions :: json
  st_residual_inventory :: json
  st_direct_executor_proven :: json
  st_profit_guard_proven :: json
  st_shadow_started_at :: json
  st_shadow_candidates :: json
  st_shadow_net_profit_usd :: json

definition runtime_fields :: "string list" where
  "runtime_fields =
     [''high_water_equity_usd'',
      ''day_start_equity_usd'',
      ''daily_wallet_pnl_usd'',
      ''live_settled_attempts'',
      ''live_wallet_pnl_usd'',
      ''active_transactions'',
      ''residual_inventory'',
      ''direct_executor_proven'',
      ''profit_guard_proven'',
      ''shadow_started_at'',
      ''shadow_candidates'',
      ''shadow_net_profit_usd'']"

definition required_field :: "(string \<times> json) list \<Rightarrow> string \<Rightarrow> json res" where
  "required_field m k = (case map_of m k of
     None \<Rightarrow> raise (TypeError ''missing required argument'') | Some v \<Rightarrow> ret v)"

text \<open>\<open>cls(**payload)\<close>: an unexpected keyword and a missing one are \<open>TypeError\<close>s.\<close>

definition new_RuntimeState :: "(string \<times> json) list \<Rightarrow> RuntimeState res" where
  "new_RuntimeState m =
     bindR (guardR (list_all (\<lambda>kv. fst kv \<in> set runtime_fields) m)
              (TypeError ''unexpected keyword argument'')) (\<lambda>_.
     bindR (mapR (required_field m) runtime_fields) (\<lambda>vs.
     ret \<lparr> st_high_water_equity_usd = vs ! 0,
           st_day_start_equity_usd = vs ! 1,
           st_daily_wallet_pnl_usd = vs ! 2,
           st_live_settled_attempts = vs ! 3,
           st_live_wallet_pnl_usd = vs ! 4,
           st_active_transactions = vs ! 5,
           st_residual_inventory = vs ! 6,
           st_direct_executor_proven = vs ! 7,
           st_profit_guard_proven = vs ! 8,
           st_shadow_started_at = vs ! 9,
           st_shadow_candidates = vs ! 10,
           st_shadow_net_profit_usd = vs ! 11 \<rparr>))"

definition RuntimeState_from_dict :: "(string \<times> json) list \<Rightarrow> RuntimeState res" where
  "RuntimeState_from_dict m = (case new_RuntimeState m of
     Inl (TypeError _) \<Rightarrow> raise (RuntimeError ''runtime state schema is invalid'')
   | Inl (ValueError _) \<Rightarrow> raise (RuntimeError ''runtime state schema is invalid'')
   | r \<Rightarrow> r)"

definition RuntimeState_asdict :: "RuntimeState \<Rightarrow> json" where
  "RuntimeState_asdict s = JDict
     (zip runtime_fields
     [st_high_water_equity_usd s,
      st_day_start_equity_usd s,
      st_daily_wallet_pnl_usd s,
      st_live_settled_attempts s,
      st_live_wallet_pnl_usd s,
      st_active_transactions s,
      st_residual_inventory s,
      st_direct_executor_proven s,
      st_profit_guard_proven s,
      st_shadow_started_at s,
      st_shadow_candidates s,
      st_shadow_net_profit_usd s])"

definition load_runtime_state :: "string \<Rightarrow> files \<Rightarrow> RuntimeState res" where
  "load_runtime_state path fs = (case read_json fs path of
     Inl (OSError _) \<Rightarrow> raise (RuntimeError ''runtime state is unreadable'')
   | Inl (JSONDecodeError _) \<Rightarrow> raise (RuntimeError ''runtime state is unreadable'')
   | Inl e \<Rightarrow> raise e
   | Inr (JDict m) \<Rightarrow> RuntimeState_from_dict m
   | Inr _ \<Rightarrow> raise (TypeError ''runtime state root must be an object''))"

text \<open>The steps of a save, each followed by a point where the process may die.\<close>

definition save_runtime_steps :: "string \<Rightarrow> RuntimeState \<Rightarrow> (files \<Rightarrow> files) list" where
  "save_runtime_steps path s = replace_steps path (RuntimeState_asdict s)"

definition save_runtime_state :: "string \<Rightarrow> RuntimeState \<Rightarrow> files \<Rightarrow> files" where
  "save_runtime_state path s fs = run_steps (save_runtime_steps path s) fs"

section \<open>Lemmas\<close>

lemma distinct_runtime_fields: "distinct runtime_fields"
  by code_simp

lemma from_dict_asdict:
  assumes "RuntimeState_asdict s = JDict m"
  shows "RuntimeState_from_dict m = Inr s"
proof -
  obtain vs where vs: "vs = [st_high_water_equity_usd s, st_day_start_equity_usd s, st_daily_wallet_pnl_usd s, st_live_settled_attempts s, st_live_wallet_pnl_usd s, st_active_transactions s, st_residual_inventory s, st_direct_executor_proven s, st_profit_guard_proven s, st_shadow_started_at s, st_shadow_candidates s, st_shadow_net_profit_usd s]" by simp
  have m: "m = zip runtime_fields vs" using assms by (simp add: RuntimeState_asdict_def vs)
  have len: "length runtime_fields = length vs" by (simp add: vs runtime_fields_def)
  have look: "map (map_of m) runtime_fields = map Some vs"
    unfolding m by (rule map_map_of_zip [OF distinct_runtime_fields len])
  have known: "list_all (\<lambda>kv. fst kv \<in> set runtime_fields) m"
    unfolding m by (auto simp: list_all_iff dest: set_zip_leftD)
  have "mapR (required_field m) ks = Inr ws" if "map (map_of m) ks = map Some ws" for ks ws
    using that by (induction ks arbitrary: ws) (auto simp: required_field_def Cons_eq_map_conv)
  from this [OF look] have "new_RuntimeState m = Inr s"
    unfolding new_RuntimeState_def using known by (simp only: guardR_True bindR_Inr) (simp add: vs)
  then show ?thesis by (simp add: RuntimeState_from_dict_def)
qed

lemma load_runtime_read:
  "read_json fs path = read_json fs' path \<Longrightarrow> load_runtime_state path fs = load_runtime_state path fs'"
  by (simp add: load_runtime_state_def)

lemma load_after_save:
  "load_runtime_state path (run_steps (save_runtime_steps path s) fs) = Inr s"
proof -
  obtain m where m: "RuntimeState_asdict s = JDict m" by (simp add: RuntimeState_asdict_def)
  show ?thesis
    unfolding save_runtime_steps_def load_runtime_state_def
    using from_dict_asdict [OF m]
    by (simp add: replace_complete read_json_def m)
qed

lemma load_after_crash:
  "k < length (save_runtime_steps path s) \<Longrightarrow>
   load_runtime_state path (run_steps (take k (save_runtime_steps path s)) fs) = load_runtime_state path fs"
  unfolding save_runtime_steps_def
  by (intro load_runtime_read) (simp add: read_json_def replace_partial)

interpretation runtime: atomic_store "load_runtime_state path" "save_runtime_steps path" "\<lambda>_. True"
  for path
  by unfold_locales (simp_all add: load_after_save load_after_crash)

lemma new_RuntimeState_error: "new_RuntimeState m = Inl e \<Longrightarrow> \<exists>msg. e = TypeError msg"
  by (auto simp: new_RuntimeState_def bindR_eq_Inl required_field_def dest!: mapR_error
      split: option.splits)

lemma from_dict_Inr_iff:
  "(\<exists>s. RuntimeState_from_dict m = Inr s) \<longleftrightarrow> fst ` set m = set runtime_fields"
proof -
  have ok: "(\<exists>vs. mapR (required_field m) ks = Inr vs) \<longleftrightarrow> set ks \<subseteq> fst ` set m" for ks
  proof (induction ks)
    case (Cons k ks)
    show ?case
    proof (cases "map_of m k")
      case None
      then have "k \<notin> fst ` set m" by (simp add: map_of_eq_None_iff)
      with None show ?thesis by (simp add: required_field_def)
    next
      case (Some v)
      then have "k \<in> fst ` set m" by (force dest: map_of_SomeD)
      with Some Cons show ?thesis by (simp add: required_field_def bindR_eq_Inr)
    qed
  qed simp
  have "(\<exists>s. RuntimeState_from_dict m = Inr s) \<longleftrightarrow> (\<exists>s. new_RuntimeState m = Inr s)"
    by (auto simp: RuntimeState_from_dict_def split: sum.splits exn.splits)
  also have "\<dots> \<longleftrightarrow> list_all (\<lambda>kv. fst kv \<in> set runtime_fields) m
      \<and> (\<exists>vs. mapR (required_field m) runtime_fields = Inr vs)"
    by (auto simp: new_RuntimeState_def bindR_eq_Inr)
  also have "\<dots> \<longleftrightarrow> fst ` set m = set runtime_fields"
    unfolding ok by (auto simp: list_all_iff)
  finally show ?thesis .
qed

section \<open>Properties\<close>

text \<open>
  C21. Durability of the runtime state.  After any non-empty series of completed saves, a save
  that is cut short after any number of its steps leaves the file so that the next start loads
  either the state of the last completed save or the new one: never a truncated file, never a
  mixture, never an error.
\<close>

theorem runtime_state_crash_safe:
  assumes "vs \<noteq> []"
  shows "load_runtime_state path
      (run_steps (take k (save_runtime_steps path v)) (fold (save_runtime_state path) vs fs))
    \<in> {Inr (last vs), Inr v}"
proof -
  have "fold (save_runtime_state path) vs fs = runtime.save_all path vs fs" for vs fs
    by (induction vs arbitrary: fs) (simp_all add: save_runtime_state_def)
  then show ?thesis using runtime.history_crash [of vs v path k fs] assms by simp
qed

definition demo_state :: "json \<Rightarrow> RuntimeState" where
  "demo_state pnl = \<lparr> st_high_water_equity_usd = JInt 100, st_day_start_equity_usd = JInt 100,
     st_daily_wallet_pnl_usd = pnl, st_live_settled_attempts = JInt 7,
     st_live_wallet_pnl_usd = JInt 2, st_active_transactions = JInt 0,
     st_residual_inventory = JBool False, st_direct_executor_proven = JBool False,
     st_profit_guard_proven = JBool False, st_shadow_started_at = JStr ''2026-07-29'',
     st_shadow_candidates = JInt 12, st_shadow_net_profit_usd = JInt (- 1) \<rparr>"

theorem runtime_state_crash_safe_witness:
  "load_runtime_state ''s'' (run_steps (take 1 (save_runtime_steps ''s'' (demo_state (JInt 5))))
      (fold (save_runtime_state ''s'') [demo_state (JInt 3)] (\<lambda>_. None)))
    \<in> {Inr (demo_state (JInt 3)), Inr (demo_state (JInt 5))}"
  using runtime_state_crash_safe [of "[demo_state (JInt 3)]" "''s''" 1 "demo_state (JInt 5)" "\<lambda>_. None"]
  by simp

text \<open>
  What a loaded state file must look like.  A load succeeds exactly when the file exists,
  holds a JSON object, and the object's keys are the twelve field names, no more and no fewer;
  and a file that is missing, is not JSON or lacks a field is a \<open>RuntimeError\<close>, so the
  runtime never starts from a default.
\<close>

theorem load_runtime_state_fails_closed:
  "((\<exists>s. load_runtime_state path fs = Inr s) \<longleftrightarrow>
      (\<exists>m. fs path = Some (JsonFile (JDict m)) \<and> fst ` set m = set runtime_fields)) \<and>
   (\<forall>e. load_runtime_state path fs = Inl e \<longrightarrow>
      (\<exists>msg. e = RuntimeError msg) \<or>
      (\<exists>j. fs path = Some (JsonFile j) \<and> \<not> is_dict j \<and> (\<exists>msg. e = TypeError msg)))"
proof -
  have err: "\<exists>msg. e = RuntimeError msg" if from_dict: "RuntimeState_from_dict m = Inl e" for m e
    using new_RuntimeState_error [of m] from_dict
    by (auto simp: RuntimeState_from_dict_def split: sum.splits)
  show ?thesis
    unfolding from_dict_Inr_iff [symmetric]
    by (auto simp: load_runtime_state_def read_json_def dest: err split: option.splits
        file_content.splits json.splits)
qed

theorem load_runtime_state_fails_closed_witness:
  "(\<exists>e. load_runtime_state ''s'' [''s'' \<mapsto> Corrupt] = Inl e \<and> (\<exists>msg. e = RuntimeError msg)) \<and>
   \<not> (\<exists>s. load_runtime_state ''s'' [''s'' \<mapsto> JsonFile (JDict [])] = Inr s)"
proof
  show "\<exists>e. load_runtime_state ''s'' [''s'' \<mapsto> Corrupt] = Inl e \<and> (\<exists>msg. e = RuntimeError msg)"
    by (simp add: load_runtime_state_def read_json_def)
  show "\<not> (\<exists>s. load_runtime_state ''s'' [''s'' \<mapsto> JsonFile (JDict [])] = Inr s)"
    using load_runtime_state_fails_closed [of "''s''" "[''s'' \<mapsto> JsonFile (JDict [])]"]
    by (simp add: runtime_fields_def)
qed

end
