(* ===== verification/Spec2Isabelle.thy ===== *)
theory Spec2Isabelle
  imports Detection Deploy Extensions RouteTools ScorerCache Jito Sniper Scorer Borsh StrategyRuns StrategyLoop Strategy Copytrader Positions Locking Cli ShadowLoop Momentum Tips Shadow Risk Files Datetime State Coordination Config Detector Replay Observer Stream_Events Pools Tracing LiveTrades
begin

text \<open>
  A verification library of the Python code of atomic-trench, a trading system for Solana: it watches
  large token buys, looks for two-leg routes against them, simulates these with the node, decides
  whether they pay, and in live mode signs and submits.  Around that core stand a ledger of simulated
  evidence, risk gates, a strategy dispatcher with positions and exits, and watchers of other
  wallets, hot flows and token launches.

  The parts and how they interact.

  \<^item> The economics of a round trip (\<open>engine.py\<close>, theory Engine), the swap builder and its
    payloads (\<open>jupiter.py\<close>, Jupiter), the composition of one transaction by a Node script
    (\<open>composer.py\<close>, Composer), and the assessment of the simulated transaction
    (\<open>shadow.py\<close>, Shadow).  \<open>run_direct_shadow_route\<close> is what every loop calls.
  \<^item> The clients of the outside: GMGN and the RPC node (\<open>providers.py\<close>, Providers), pools
    (\<open>pools.py\<close>, Pools), large buys of a block (\<open>detector.py\<close>, Detector), the processed-log
    stream (\<open>stream.py\<close>, Stream_Events), the tip floor (\<open>tip_stream.py\<close>, Tips).
  \<^item> What lasts: the runtime state (\<open>state.py\<close>, State), the attempt lock and the evidence
    ledger (\<open>coordination.py\<close>, Coordination; both locks under interleaving in Locking), the
    configuration (\<open>config.py\<close>, Config), the risk gates (\<open>risk.py\<close>, Risk).
  \<^item> The programs: the command line (\<open>cli.py\<close>, Cli), replay and one-block observation
    (\<open>replay.py\<close>, Replay; \<open>observer.py\<close>, Observer), the no-submit campaign
    (\<open>ops/shadow-loop.py\<close>, ShadowLoop), the signing loop (\<open>ops/live-loop.py\<close>, LiveLoop with
    its safety theorems in LiveTrades), and the strategy dispatcher (\<open>ops/strategy_loop.py\<close>:
    positions and exits in Positions, configuration, sizing and risk manager in Strategy, the loop in
    StrategyLoop, its runs in StrategyRuns, the detectors it no longer calls in Detection).
  \<^item> The watchers: hot flows (\<open>momentum.py\<close>, Momentum), other wallets (\<open>copytrader.py\<close>,
    Copytrader), launches (\<open>snipers.py\<close>, Borsh for its byte formats and Sniper for its loops) and
    the scorer of creators (\<open>scorer.py\<close>, Scorer; its cache file in ScorerCache).
  \<^item> The tools: the deployment of the executor (\<open>scripts/deploy-executor.py\<close>, Deploy), the check of
    mint extensions (\<open>scripts/check-t22-extensions.py\<close>, Extensions), the scripts that list and cache
    routes and build a lookup table (RouteTools), and the bundle sender (\<open>jito_sender.py\<close>, Jito).

  How the code is represented.  A Python function that computes is a function into \<open>'a res\<close>,
  an exception or a value (Prelude); one that acts is an \<open>('s, 'a) io\<close>, from a state to a
  result and the next state, so that an exception keeps what happened before it.  The outside is a
  record of functions on a world of any type (\<open>env\<close> in Environment, \<open>socket_env\<close>,
  \<open>feed_env\<close>, \<open>host\<close>): a node, service, script, socket, clock or disk may answer anything,
  and every theorem holds for all of them unless it says otherwise.  JSON values are \<open>json\<close>
  with Python's accessors and their exceptions (PyValue); floats are IEEE binary64 values rounded
  from exact rationals, with infinities and NaN and only the two zeros identified (PyFloat);
  integers are unbounded as in Python, bytes are 8-bit words (Borsh); files are a map from paths to
  parsed content, where a half-written file is \<open>Corrupt\<close> (Files); dates are in Datetime.

  The groups of lemmas.  PyFloat proves rounding monotone, idempotent and exact on integers up to
  \<open>2 ^ 53\<close>, on which the bounds of Risk, Strategy, Scorer and Tips rest.  Growing has one predicate,
  an operation keeps an invariant and appends only certain entries to a list, with a rule for every
  way of putting operations together; Tracing applies it to the log of the scripts started, which is
  how the theorems on signing are proved.  The locale \<open>atomic_store\<close> (Files) derives crash
  safety of a store from the steps of its save and is interpreted on the runtime state and the
  ledger; \<open>guarded_section\<close> (Coordination) derives what a body under a lock leaves behind and is
  interpreted on the attempt lock as the ledger and as the command line use it;
  \<open>exclusive_lock\<close> (Locking) derives mutual exclusion in every reachable state and is
  interpreted on the interleaved system calls of the attempt lock, while the lock of the live loop is
  shown not to exclude.  The locale \<open>reconnecting\<close> (Reconnecting) proves once what the
  momentum watcher and the wallet mirror share, a run that connects again after every exception.

  Loops.  Loops over lists are structural recursions.  The endless loops of the programs take a
  number of turns as fuel, which the code does not bound; their theorems hold for every fuel, so they
  are statements about every prefix of a run.  Bounded retries (\<open>fetch_confirmed\<close>, the gap
  search) take the code's own bounds.  That a poll loop returns is proved as such
  (\<open>next_event_returns_first\<close>), and so is that the retries of the deployment end with a confirmed
  signature or an exception (\<open>send_and_confirm_confirmed\<close>).  The walk over account extensions
  terminates by its measure, the bytes left.

  Idealisations.  Strings are ASCII.  A dict is the list of its entries; the order in which Python
  iterates a set is a parameter.  Two JSON keys are equal when they are the same value, while Python
  also takes 1 and 1.0 for one key.  Threads of one process switch between turns of their loops, not
  within them; the processes that share a lock file interleave at every system call.  A file
  operation either happens or raises, and a crash may stop a save between any two of its steps.  Which
  requests to the disk raise is a parameter where the code has a handler for it: \<open>disk\<close>
  (Environment) for the lock of the live loop and the scorer's cache, the faults of an \<open>attempt\<close>
  (Coordination) for the attempt lock and the ledger.

  Not modelled: console output, where it cannot raise, and command-line parsing; the campaign report
  \<open>ops/report.py\<close>, which only prints and stops at line 33 with an attribute error; lines that
  cannot be reached because the line before them always raises (\<open>copytrader.py\<close> from 201,
  \<open>snipers.py\<close> from 267, \<open>jito_sender.py\<close> from 78); the Node scripts and the executor
  program, which are not Python and appear as parameters; the loader of the chain that a deployment
  addresses, so that Deploy says what the instructions hold and not what the loader makes of them.
\<close>

end
